(* ===== verification/Prelude.thy ===== *)
theory Prelude
  imports Main "HOL-Library.Word" "HOL-Library.State_Monad"
begin

unbundle bit_operations_syntax

text \<open>
  Shared vocabulary of the development: machine integers, the errno values of
  the driver, the state monad with C-style error returns (a non-zero int is an
  early return), bounded retry, and the frame predicate \<open>keeps\<close> with its rules.
\<close>

section \<open>Machine integers\<close>

type_synonym u8 = "8 word"
type_synonym u16 = "16 word"
type_synonym u32 = "32 word"
type_synonym u64 = "64 word"

text \<open>\<open>ISSET\<close> of compat/openbsd.h as a condition; \<open>SET\<close> and \<open>CLR\<close> as functions.\<close>

definition isset :: "'a::len word \<Rightarrow> 'a word \<Rightarrow> bool" where
  "isset t f \<longleftrightarrow> t AND f \<noteq> 0"

lemma isset_or: "isset x (a OR b) \<longleftrightarrow> isset x a \<or> isset x b"
  by (simp add: isset_def bit.conj_disj_distrib or_eq_0_iff)

definition setf :: "'a::len word \<Rightarrow> 'a word \<Rightarrow> 'a word" where
  "setf t f = t OR f"

definition clrf :: "'a::len word \<Rightarrow> 'a word \<Rightarrow> 'a word" where
  "clrf t f = t AND NOT f"

lemma isset_setf: "isset (setf x a) b \<longleftrightarrow> isset x b \<or> a AND b \<noteq> 0"
  by (simp add: isset_def setf_def bit.conj_disj_distrib2 or_eq_0_iff)

lemma isset_clrf_other: "a AND b = 0 \<Longrightarrow> isset (clrf x a) b = isset x b"
proof -
  assume z: "a AND b = 0"
  have "(x AND NOT a) AND b = x AND b"
  proof (rule bit_word_eqI)
    fix n assume "n < LENGTH('a)"
    have "\<not> (bit a n \<and> bit b n)" using z by (metis bit_and_iff bit_0_eq bot_apply bot_bool_def)
    then show "bit ((x AND NOT a) AND b) n = bit (x AND b) n"
      using \<open>n < LENGTH('a)\<close> by (auto simp: bit_simps)
  qed
  then show ?thesis by (simp add: isset_def clrf_def)
qed

lemma isset_clrf_same: "\<not> isset (clrf x a) a"
  by (simp add: isset_def clrf_def and.assoc)

lemma unat_ucast_up:
  "LENGTH('a) \<le> LENGTH('b) \<Longrightarrow> unat (ucast (x :: 'a::len word) :: 'b::len word) = unat x"
  by (simp add: unsigned_ucast_eq take_bit_nat_eq_self_iff)
     (meson unsigned_less less_le_trans one_le_numeral power_increasing)

lemma ucast_ucast_up:
  "LENGTH('a) \<le> LENGTH('b) \<Longrightarrow> ucast (ucast (x :: 'a::len word) :: 'b::len word) = x"
  by (rule bit_word_eqI) (auto simp: bit_simps)

section \<open>Error values\<close>

text \<open>
  The errno values the driver returns; \<open>E1\<close> is the literal \<open>1\<close> of the many
  \<open>return 1\<close> statements, \<open>EKern\<close> a status of the kernel passed through unchanged.
  A C function returning int is modelled by \<open>errno + unit\<close>, 0 being \<open>Inr ()\<close>.
  On Darwin \<open>EWOULDBLOCK\<close> is the same number as \<open>EAGAIN\<close>.
\<close>

datatype errno = E1 | EIO | ENOMEM | ENODEV | EINVAL | ENOTTY | EAGAIN | ENOTSUP | ETIMEDOUT
  | EKern int

abbreviation EWOULDBLOCK :: errno where
  "EWOULDBLOCK \<equiv> EAGAIN"

type_synonym 'a res = "errno + 'a"

abbreviation OK :: "unit res" where
  "OK \<equiv> Inr ()"

section \<open>The state monad with error returns\<close>

abbreviation ret :: "'a \<Rightarrow> ('s, 'a) state" where
  "ret \<equiv> State_Monad.return"

abbreviation fetch :: "('s \<Rightarrow> 'a) \<Rightarrow> ('s, 'a) state" where
  "fetch f \<equiv> State_Monad.bind State_Monad.get (\<lambda>s. State_Monad.return (f s))"

definition modify :: "('s \<Rightarrow> 's) \<Rightarrow> ('s, unit) state" where
  "modify f = State (\<lambda>s. ((), f s))"

lemma run_state_modify [simp]: "run_state (modify f) s = ((), f s)"
  by (simp add: modify_def)

text \<open>\<open>chk m k\<close>: the pattern \<open>{ int err = m; if (err) return err; }\<close> followed by \<open>k\<close>.\<close>

definition chk :: "('s, 'a res) state \<Rightarrow> ('a \<Rightarrow> ('s, 'b res) state) \<Rightarrow> ('s, 'b res) state" where
  "chk m k = do { r \<leftarrow> m; (case r of Inl e \<Rightarrow> ret (Inl e) | Inr x \<Rightarrow> k x) }"

fun steps :: "('s, unit res) state list \<Rightarrow> ('s, unit res) state" where
  "steps [] = ret OK"
| "steps (m # ms) = chk m (\<lambda>_. steps ms)"

lemma run_state_chk [simp]:
  "run_state (chk m k) s =
     (case run_state m s of (Inl e, s') \<Rightarrow> (Inl e, s') | (Inr x, s') \<Rightarrow> run_state (k x) s')"
  by (auto simp: chk_def split: prod.splits sum.splits)

lemma chk_return [simp]: "chk (ret (Inr x)) k = k x"
  by (rule state_ext) simp

text \<open>Run a list of calls whose results are ignored, \<open>(void)f(...)\<close> one after another.\<close>

fun run_all :: "('s, 'a) state list \<Rightarrow> ('s, unit) state" where
  "run_all [] = ret ()"
| "run_all (m # ms) = do { _ \<leftarrow> m; run_all ms }"

lemma steps_append:
  "steps (ms @ ns) = chk (steps ms) (\<lambda>_. steps ns)"
  by (induction ms) (auto intro!: state_ext split: prod.splits sum.splits)

lemma run_all_append: "run_all (ms @ ns) = do { _ \<leftarrow> run_all ms; run_all ns }"
  by (induction ms) (auto intro!: state_ext split: prod.splits)

section \<open>Computations that may not return\<close>

text \<open>
  A computation whose loop has no bound has the result None when its fuel was not enough, and
  then nothing that follows it is run.
\<close>

definition obind ::
    "('s, 'a option) state \<Rightarrow> ('a \<Rightarrow> ('s, 'b option) state) \<Rightarrow> ('s, 'b option) state" where
  "obind m k = do { r \<leftarrow> m; (case r of None \<Rightarrow> ret None | Some x \<Rightarrow> k x) }"

definition osome :: "('s, 'a) state \<Rightarrow> ('s, 'a option) state" where
  "osome m = do { x \<leftarrow> m; ret (Some x) }"

section \<open>Frame conditions\<close>

text \<open>
  \<open>keeps f m\<close>: the part \<open>f\<close> of the state is the same before and after \<open>m\<close>. The
  rules of the collection \<open>keeps\<close> follow the structure of a program.
\<close>

named_theorems keeps "rules for the frame predicate"

definition keeps :: "('s \<Rightarrow> 'b) \<Rightarrow> ('s, 'a) state \<Rightarrow> bool" where
  "keeps f m \<longleftrightarrow> (\<forall>s. f (snd (run_state m s)) = f s)"

lemma keepsD: "keeps f m \<Longrightarrow> f (snd (run_state m s)) = f s"
  by (simp add: keeps_def)

lemma keepsI: "(\<And>s. f (snd (run_state m s)) = f s) \<Longrightarrow> keeps f m"
  by (simp add: keeps_def)

lemma keeps_run: "keeps f m \<Longrightarrow> run_state m s = (r, s') \<Longrightarrow> f s' = f s"
  by (metis keeps_def snd_conv)

lemma keeps_return [keeps]: "keeps f (ret x)"
  by (simp add: keeps_def)

lemma keeps_get [keeps]: "keeps f State_Monad.get"
  by (simp add: keeps_def)

lemma keeps_modify [keeps]: "(\<And>s. f (g s) = f s) \<Longrightarrow> keeps f (modify g)"
  by (simp add: keeps_def)

lemma keeps_bind [keeps]: "keeps f m \<Longrightarrow> (\<And>x. keeps f (k x)) \<Longrightarrow> keeps f (State_Monad.bind m k)"
  by (simp add: keeps_def case_prod_beta)

lemma keeps_chk [keeps]: "keeps f m \<Longrightarrow> (\<And>x. keeps f (k x)) \<Longrightarrow> keeps f (chk m k)"
  by (auto simp: chk_def split: sum.split intro!: keeps_bind keeps_return)

lemma keeps_steps [keeps]: "(\<And>m. m \<in> set ms \<Longrightarrow> keeps f m) \<Longrightarrow> keeps f (steps ms)"
  by (induction ms) (auto intro!: keeps_chk keeps_return)

lemma keeps_run_all [keeps]: "(\<And>m. m \<in> set ms \<Longrightarrow> keeps f m) \<Longrightarrow> keeps f (run_all ms)"
  by (induction ms) (auto intro!: keeps_bind keeps_return)

lemma keeps_if [keeps]: "keeps f m \<Longrightarrow> keeps f n \<Longrightarrow> keeps f (if b then m else n)"
  by simp

lemma keeps_sum [keeps]:
  "(\<And>e. keeps f (m e)) \<Longrightarrow> (\<And>x. keeps f (n x)) \<Longrightarrow> keeps f (case r of Inl e \<Rightarrow> m e | Inr x \<Rightarrow> n x)"
  by (cases r) auto

lemma keeps_option [keeps]:
  "keeps f m \<Longrightarrow> (\<And>x. keeps f (n x)) \<Longrightarrow> keeps f (case r of None \<Rightarrow> m | Some x \<Rightarrow> n x)"
  by (cases r) auto

lemma keeps_prod [keeps]: "(\<And>a b. keeps f (m a b)) \<Longrightarrow> keeps f (case p of (a, b) \<Rightarrow> m a b)"
  by (cases p) auto

lemma keeps_let [keeps]: "keeps f (m x) \<Longrightarrow> keeps f (let y = x in m y)"
  by simp

lemma steps_keeps_list:
  "list_all (keeps f) ms \<Longrightarrow> keeps f (steps ms)"
  by (auto simp: list_all_iff intro: keeps_steps)

lemma run_all_keeps_list:
  "list_all (keeps f) ms \<Longrightarrow> keeps f (run_all ms)"
  by (auto simp: list_all_iff intro: keeps_run_all)

lemma keeps_obind [keeps]: "keeps f m \<Longrightarrow> (\<And>x. keeps f (k x)) \<Longrightarrow> keeps f (obind m k)"
  unfolding obind_def by (intro keeps)

lemma keeps_osome [keeps]: "keeps f m \<Longrightarrow> keeps f (osome m)"
  unfolding osome_def by (intro keeps)

section \<open>Invariants of programs\<close>

text \<open>\<open>preserves I m\<close>: the predicate \<open>I\<close> holds after \<open>m\<close> when it held before.\<close>

named_theorems preserves "rules for invariants"

definition preserves :: "('s \<Rightarrow> bool) \<Rightarrow> ('s, 'a) state \<Rightarrow> bool" where
  "preserves I m \<longleftrightarrow> (\<forall>s. I s \<longrightarrow> I (snd (run_state m s)))"

lemma preservesI: "(\<And>s. I s \<Longrightarrow> I (snd (run_state m s))) \<Longrightarrow> preserves I m"
  by (simp add: preserves_def)

lemma preserves_run: "preserves I m \<Longrightarrow> run_state m s = (r, s') \<Longrightarrow> I s \<Longrightarrow> I s'"
  by (metis preserves_def snd_conv)

lemma keeps_preserves: "keeps f m \<Longrightarrow> preserves (\<lambda>s. Q (f s)) m"
  by (simp add: preserves_def keeps_def)

lemma keeps_pred: "keeps I m \<Longrightarrow> preserves I m"
  by (simp add: preserves_def keeps_def)

lemma preserves_return [preserves]: "preserves I (ret x)"
  by (simp add: preserves_def)

lemma preserves_get [preserves]: "preserves I State_Monad.get"
  by (simp add: preserves_def)

lemma preserves_modify [preserves]: "(\<And>s. I s \<Longrightarrow> I (g s)) \<Longrightarrow> preserves I (modify g)"
  by (simp add: preserves_def)

lemma preserves_bind [preserves]:
  "preserves I m \<Longrightarrow> (\<And>x. preserves I (k x)) \<Longrightarrow> preserves I (State_Monad.bind m k)"
  by (simp add: preserves_def case_prod_beta)

lemma preserves_if [preserves]: "preserves I m \<Longrightarrow> preserves I n \<Longrightarrow> preserves I (if b then m else n)"
  by simp

lemma preserves_sum [preserves]:
  "(\<And>e. preserves I (m e)) \<Longrightarrow> (\<And>x. preserves I (n x))
    \<Longrightarrow> preserves I (case r of Inl e \<Rightarrow> m e | Inr x \<Rightarrow> n x)"
  by (cases r) auto

lemma preserves_option [preserves]:
  "preserves I m \<Longrightarrow> (\<And>x. preserves I (n x)) \<Longrightarrow> preserves I (case r of None \<Rightarrow> m | Some x \<Rightarrow> n x)"
  by (cases r) auto

lemma preserves_prod [preserves]: "(\<And>a b. preserves I (m a b)) \<Longrightarrow> preserves I (case p of (a, b) \<Rightarrow> m a b)"
  by (cases p) auto

lemma preserves_let [preserves]: "preserves I (m x) \<Longrightarrow> preserves I (let y = x in m y)"
  by simp

lemma preserves_chk [preserves]:
  "preserves I m \<Longrightarrow> (\<And>x. preserves I (k x)) \<Longrightarrow> preserves I (chk m k)"
  by (auto simp: chk_def intro!: preserves)

lemma preserves_run_all [preserves]: "(\<And>m. m \<in> set ms \<Longrightarrow> preserves I m) \<Longrightarrow> preserves I (run_all ms)"
  by (induction ms) (auto intro!: preserves)

lemma preserves_obind [preserves]:
  "preserves I m \<Longrightarrow> (\<And>x. preserves I (k x)) \<Longrightarrow> preserves I (obind m k)"
  unfolding obind_def by (intro preserves)

lemma preserves_osome [preserves]: "preserves I m \<Longrightarrow> preserves I (osome m)"
  unfolding osome_def by (intro preserves)

section \<open>Pre- and postconditions\<close>

text \<open>
  \<open>valid A m B\<close>: started in a state with \<open>A\<close>, the program \<open>m\<close> ends with a result and a
  state that satisfy \<open>B\<close>.
\<close>

definition valid :: "('s \<Rightarrow> bool) \<Rightarrow> ('s, 'a) state \<Rightarrow> ('a \<Rightarrow> 's \<Rightarrow> bool) \<Rightarrow> bool" where
  "valid A m B \<longleftrightarrow> (\<forall>s. A s \<longrightarrow> B (fst (run_state m s)) (snd (run_state m s)))"

lemma validI: "(\<And>s r s'. A s \<Longrightarrow> run_state m s = (r, s') \<Longrightarrow> B r s') \<Longrightarrow> valid A m B"
  by (simp add: valid_def)

lemma validD: "valid A m B \<Longrightarrow> run_state m s = (r, s') \<Longrightarrow> A s \<Longrightarrow> B r s'"
  unfolding valid_def by (metis fst_conv snd_conv)

lemma valid_bind: "valid A m B \<Longrightarrow> (\<And>x. valid (B x) (k x) C) \<Longrightarrow> valid A (State_Monad.bind m k) C"
  by (simp add: valid_def case_prod_beta)

lemma valid_return: "(\<And>s. A s \<Longrightarrow> B x s) \<Longrightarrow> valid A (ret x) B"
  by (simp add: valid_def)

lemma valid_modify: "(\<And>s. A s \<Longrightarrow> B () (g s)) \<Longrightarrow> valid A (modify g) B"
  by (simp add: valid_def)

lemma valid_fetch: "(\<And>s. A s \<Longrightarrow> B (f s) s) \<Longrightarrow> valid A (fetch f) B"
  by (simp add: valid_def)

lemma valid_look: "valid A (fetch f) (\<lambda>_. A)"
  by (rule valid_fetch)

lemma valid_if: "(b \<Longrightarrow> valid A m B) \<Longrightarrow> (\<not> b \<Longrightarrow> valid A n B) \<Longrightarrow> valid A (if b then m else n) B"
  by simp

lemma valid_pre: "valid A' m B \<Longrightarrow> (\<And>s. A s \<Longrightarrow> A' s) \<Longrightarrow> valid A m B"
  by (simp add: valid_def)

lemma valid_post: "valid A m B' \<Longrightarrow> (\<And>r s. B' r s \<Longrightarrow> B r s) \<Longrightarrow> valid A m B"
  by (simp add: valid_def)

lemma preserves_valid: "preserves I m \<Longrightarrow> valid I m (\<lambda>_. I)"
  by (simp add: preserves_def valid_def)

lemma valid_preserves: "valid I m (\<lambda>_. I) \<Longrightarrow> preserves I m"
  by (simp add: preserves_def valid_def)

lemma keeps_valid: "keeps f m \<Longrightarrow> valid (\<lambda>s. Q (f s)) m (\<lambda>_ s. Q (f s))"
  by (simp add: keeps_def valid_def)

lemma preserves_steps [preserves]: "(\<And>m. m \<in> set ms \<Longrightarrow> preserves I m) \<Longrightarrow> preserves I (steps ms)"
  by (induction ms) (auto intro!: preserves)

end
