(* ===== verification/Kernel.thy ===== *)
theory Kernel
  imports Prelude
begin

text \<open>
  The kernel and the hardware as the driver sees them. Everything that is not in
  the repository (PCI registers, IOKit objects, kernel memory, thread scheduling)
  is a field of the record \<open>platform\<close>, a parameter \<open>P\<close> of the model over an
  arbitrary state \<open>'h\<close>. The record \<open>kernel\<close> is the part of the driver's state kept
  by compat/openbsd: the depth of the one recursive lock behind splbio and splhigh,
  the boot arguments, and the schedule of what happens at each sleep.
\<close>

section \<open>The outside world\<close>

record 'h platform =
  io_read4 :: "'h \<Rightarrow> u64 \<Rightarrow> u32 \<Rightarrow> u32 \<times> 'h"            \<comment> \<open>IOMemoryDescriptor::readBytes, 4 bytes\<close>
  io_write4 :: "'h \<Rightarrow> u64 \<Rightarrow> u32 \<Rightarrow> u32 \<Rightarrow> 'h"            \<comment> \<open>IOMemoryDescriptor::writeBytes, 4 bytes\<close>
  io_delay :: "'h \<Rightarrow> nat \<Rightarrow> 'h"                          \<comment> \<open>IODelay / IOSleep, microseconds\<close>
  io_idle :: "'h \<Rightarrow> 'h"                                \<comment> \<open>the device works while the thread sleeps\<close>
  km_read :: "'h \<Rightarrow> u64 \<Rightarrow> nat \<Rightarrow> u8 list"              \<comment> \<open>bytes of kernel memory\<close>
  km_write :: "'h \<Rightarrow> u64 \<Rightarrow> u8 list \<Rightarrow> 'h"
  km_alloc :: "'h \<Rightarrow> nat \<Rightarrow> u64 \<times> 'h"                    \<comment> \<open>zeroed memory, address 0 on failure\<close>
  km_free :: "'h \<Rightarrow> u64 \<Rightarrow> nat \<Rightarrow> 'h"
  md_alloc :: "'h \<Rightarrow> bool \<Rightarrow> u64 \<Rightarrow> u64 \<times> 'h"            \<comment> \<open>inTaskWithPhysicalMask: contiguous?, size\<close>
  md_prepare :: "'h \<Rightarrow> u64 \<Rightarrow> int \<times> 'h"
  md_complete :: "'h \<Rightarrow> u64 \<Rightarrow> 'h"
  md_release :: "'h \<Rightarrow> u64 \<Rightarrow> 'h"
  md_segment :: "'h \<Rightarrow> u64 \<Rightarrow> u64 \<Rightarrow> u64 \<times> u64"          \<comment> \<open>getPhysicalSegment: address, length\<close>
  md_length :: "'h \<Rightarrow> u64 \<Rightarrow> u64"
  md_map :: "'h \<Rightarrow> u64 \<Rightarrow> u64 \<times> 'h"                      \<comment> \<open>map(): an IOMemoryMap, 0 on failure\<close>
  mm_address :: "'h \<Rightarrow> u64 \<Rightarrow> u64"
  mm_release :: "'h \<Rightarrow> u64 \<Rightarrow> 'h"
  dc_create :: "'h \<Rightarrow> u64 \<Rightarrow> u64 \<times> 'h"                   \<comment> \<open>IODMACommand::withSpecification\<close>
  dc_release :: "'h \<Rightarrow> u64 \<Rightarrow> 'h"
  dc_set :: "'h \<Rightarrow> u64 \<Rightarrow> u64 \<Rightarrow> int \<times> 'h"              \<comment> \<open>setMemoryDescriptor\<close>
  dc_clear :: "'h \<Rightarrow> u64 \<Rightarrow> 'h"
  dc_gen :: "'h \<Rightarrow> u64 \<Rightarrow> u64 \<Rightarrow> (int \<times> u64 \<times> u32 \<times> u32) \<times> 'h"
      \<comment> \<open>genIOVMSegments for one segment: status, new offset, address, length\<close>
  MAXPHYS :: int                                     \<comment> \<open>constants of the system headers\<close>
  PAGE_SIZE :: int

text \<open>
  A platform with nothing attached: registers read as 0, every allocation fails.
  The applications of theorems to concrete inputs start from it.
\<close>

definition bare_platform :: "'h platform" where
  "bare_platform = \<lparr>
     io_read4 = (\<lambda>h _ _. (0, h)), io_write4 = (\<lambda>h _ _ _. h), io_delay = (\<lambda>h _. h), io_idle = (\<lambda>h. h),
     km_read = (\<lambda>_ _ n. replicate n 0), km_write = (\<lambda>h _ _. h), km_alloc = (\<lambda>h _. (0, h)),
     km_free = (\<lambda>h _ _. h), md_alloc = (\<lambda>h _ _. (0, h)), md_prepare = (\<lambda>h _. (0, h)),
     md_complete = (\<lambda>h _. h), md_release = (\<lambda>h _. h), md_segment = (\<lambda>_ _ _. (0, 0)),
     md_length = (\<lambda>_ _. 0), md_map = (\<lambda>h _. (0, h)), mm_address = (\<lambda>_ _. 0),
     mm_release = (\<lambda>h _. h), dc_create = (\<lambda>h _. (0, h)), dc_release = (\<lambda>h _. h),
     dc_set = (\<lambda>h _ _. (0, h)), dc_clear = (\<lambda>h _. h), dc_gen = (\<lambda>h _ off. ((- 1, off, 0, 0), h)),
     MAXPHYS = 65536, PAGE_SIZE = 4096\<rparr>"

text \<open>What ends a sleep: its deadline, or an interrupt that was handled meanwhile.\<close>

datatype sleep_event = WakeTimeout | WakeIntr

record 'h kernel =
  hw :: 'h
  spl_depth :: int                 \<comment> \<open>acquisitions minus releases of the global lock\<close>
  sched :: "sleep_event list"
  slept :: "u64 list"              \<comment> \<open>the timeouts asked for, latest first\<close>
  mimic_linux :: bool
  no_adma :: bool
  timeout_shift :: int
  sleep_wake_delay_ms :: nat

section \<open>compat/openbsd\<close>

text \<open>bus\_space.cpp: a null handle reads as 0 and ignores writes.\<close>

definition bus_space_read_4 :: "'h platform \<Rightarrow> u64 \<Rightarrow> u32 \<Rightarrow> (('h, 'z) kernel_scheme, u32) state" where
  "bus_space_read_4 P ioh off =
     (if ioh = 0 then ret 0
      else State (\<lambda>s. case io_read4 P (hw s) ioh off of (v, h) \<Rightarrow> (v, s\<lparr>hw := h\<rparr>)))"

definition bus_space_write_4 ::
    "'h platform \<Rightarrow> u64 \<Rightarrow> u32 \<Rightarrow> u32 \<Rightarrow> (('h, 'z) kernel_scheme, unit) state" where
  "bus_space_write_4 P ioh off v =
     (if ioh = 0 then ret () else modify (\<lambda>s. s\<lparr>hw := io_write4 P (hw s) ioh off v\<rparr>))"

text \<open>spl.cpp: splbio and splhigh lock the global recursive lock, splx unlocks it.\<close>

definition splbio :: "(('h, 'z) kernel_scheme, unit) state" where
  "splbio = modify (\<lambda>s. s\<lparr>spl_depth := spl_depth s + 1\<rparr>)"

definition splhigh :: "(('h, 'z) kernel_scheme, unit) state" where
  "splhigh = modify (\<lambda>s. s\<lparr>spl_depth := spl_depth s + 1\<rparr>)"

definition splx :: "(('h, 'z) kernel_scheme, unit) state" where
  "splx = modify (\<lambda>s. s\<lparr>spl_depth := spl_depth s - 1\<rparr>)"

definition delay :: "'h platform \<Rightarrow> nat \<Rightarrow> (('h, 'z) kernel_scheme, unit) state" where
  "delay P usecs = modify (\<lambda>s. s\<lparr>hw := io_delay P (hw s) usecs\<rparr>)"

definition IOSleep :: "'h platform \<Rightarrow> nat \<Rightarrow> (('h, 'z) kernel_scheme, unit) state" where
  "IOSleep P ms = delay P (1000 * ms)"

text \<open>
  tsleep.cpp. Without the lock the call returns EAGAIN after a short pause. With
  it, the lock is released while the thread sleeps: the device works, and the
  interrupt work \<open>isr\<close> runs if the next event of the schedule is an interrupt. An
  exhausted schedule means that nothing more happens before the deadline.
\<close>

definition tsleep_nsec ::
    "'h platform \<Rightarrow> (('h, 'z) kernel_scheme, 'a) state \<Rightarrow> u64
       \<Rightarrow> (('h, 'z) kernel_scheme, unit res) state" where
  "tsleep_nsec P isr nsecs = do {
     d \<leftarrow> fetch spl_depth;
     if d \<le> 0 then do { IOSleep P 1; ret (Inl EAGAIN) }
     else do {
       es \<leftarrow> fetch sched;
       modify (\<lambda>s. s\<lparr>slept := nsecs # slept s, sched := tl es, hw := io_idle P (hw s)\<rparr>);
       case es of
         [] \<Rightarrow> ret (Inl EWOULDBLOCK)
       | WakeTimeout # _ \<Rightarrow> ret (Inl EWOULDBLOCK)
       | WakeIntr # _ \<Rightarrow> do {
           modify (\<lambda>s. s\<lparr>spl_depth := 0\<rparr>);
           _ \<leftarrow> isr;
           modify (\<lambda>s. s\<lparr>spl_depth := d\<rparr>);
           ret OK } } }"

section \<open>util.h\<close>

text \<open>
  \<open>UTL_RUN_WITH_RETRY\<close>: a do-while loop with a post-decremented counter, so
  \<open>retries\<close> = 3 makes at most four attempts; the last error is returned.
\<close>

fun run_with_retry :: "('s, unit res option) state \<Rightarrow> nat \<Rightarrow> ('s, unit res option) state" where
  "run_with_retry f n = obind f (\<lambda>r.
     case r of
       Inr _ \<Rightarrow> ret (Some OK)
     | Inl e \<Rightarrow> if n = 0 then ret (Some (Inl e)) else run_with_retry f (n - 1))"

declare run_with_retry.simps [simp del]

section \<open>Frame rules\<close>

lemma keeps_bus_read [keeps]:
  "(\<And>s h. f (s\<lparr>hw := h\<rparr>) = f s) \<Longrightarrow> keeps f (bus_space_read_4 P ioh off)"
  by (auto simp: keeps_def bus_space_read_4_def split: prod.splits)

lemma keeps_bus_write [keeps]:
  "(\<And>s h. f (s\<lparr>hw := h\<rparr>) = f s) \<Longrightarrow> keeps f (bus_space_write_4 P ioh off v)"
  by (auto simp: keeps_def bus_space_write_4_def)

lemma keeps_delay [keeps]: "(\<And>s h. f (s\<lparr>hw := h\<rparr>) = f s) \<Longrightarrow> keeps f (delay P n)"
  by (auto simp: keeps_def delay_def)

lemma keeps_IOSleep [keeps]: "(\<And>s h. f (s\<lparr>hw := h\<rparr>) = f s) \<Longrightarrow> keeps f (IOSleep P n)"
  by (simp add: IOSleep_def keeps_delay)

lemma keeps_spl [keeps]:
  "(\<And>s d. f (s\<lparr>spl_depth := d\<rparr>) = f s) \<Longrightarrow> keeps f splbio"
  "(\<And>s d. f (s\<lparr>spl_depth := d\<rparr>) = f s) \<Longrightarrow> keeps f splhigh"
  "(\<And>s d. f (s\<lparr>spl_depth := d\<rparr>) = f s) \<Longrightarrow> keeps f splx"
  by (auto simp: keeps_def splbio_def splhigh_def splx_def)

lemma run_spl [simp]:
  "run_state splbio s = ((), s\<lparr>spl_depth := spl_depth s + 1\<rparr>)"
  "run_state splhigh s = ((), s\<lparr>spl_depth := spl_depth s + 1\<rparr>)"
  "run_state splx s = ((), s\<lparr>spl_depth := spl_depth s - 1\<rparr>)"
  by (simp_all add: splbio_def splhigh_def splx_def)

lemma keeps_retry [keeps]: "keeps f m \<Longrightarrow> keeps f (run_with_retry m n)"
proof (induction n)
  case 0
  then show ?case by (subst run_with_retry.simps) (auto intro!: keeps)
next
  case (Suc n)
  then show ?case by (subst run_with_retry.simps) (auto intro!: keeps)
qed

lemma preserves_retry [preserves]: "preserves I m \<Longrightarrow> preserves I (run_with_retry m n)"
proof (induction n)
  case 0
  then show ?case by (subst run_with_retry.simps) (auto intro!: preserves)
next
  case (Suc n)
  then show ?case by (subst run_with_retry.simps) (auto intro!: preserves)
qed

end
