(* ===== verification/StaticDict.thy ===== *)
theory StaticDict
  imports Prelude
begin

text \<open>
  The fixed-size dictionary of util_dict.h, which dma.cpp uses to find the
  segments of a mapped virtual address. A key of 0 marks a free slot and a key of
  -1 a slot that is reserved but not yet filled. The template's LOCK/UNLOCK pairs
  make \<open>getFreeSlot\<close> and \<open>findKey\<close> atomic; \<open>addToList\<close> is two steps, the
  reservation and the fill. The locale \<open>bounded_map\<close> is the contract the DMA layer
  relies on, and it is interpreted on these functions.
\<close>

section \<open>The dictionary\<close>

record 'v static_dict =
  d_keys :: "u64 list"
  d_vals :: "'v list"

text \<open>The scan of the key array, from index \<open>i\<close> on.\<close>

fun scan_keys :: "u64 list \<Rightarrow> u64 \<Rightarrow> nat \<Rightarrow> nat option" where
  "scan_keys [] k i = None"
| "scan_keys (x # xs) k i = (if x = k then Some i else scan_keys xs k (Suc i))"

definition findKey :: "u64 \<Rightarrow> 'v static_dict \<Rightarrow> nat option" where
  "findKey key d = scan_keys (d_keys d) key 0"

definition getFreeSlot :: "'v static_dict \<Rightarrow> nat option \<times> 'v static_dict" where
  "getFreeSlot d =
     (case scan_keys (d_keys d) 0 0 of
        None \<Rightarrow> (None, d)
      | Some i \<Rightarrow> (Some i, d\<lparr>d_keys := (d_keys d)[i := - 1]\<rparr>))"

text \<open>The two stores that follow a reservation in \<open>addToList\<close>.\<close>

definition fillSlot :: "nat \<Rightarrow> u64 \<Rightarrow> 'v \<Rightarrow> 'v static_dict \<Rightarrow> 'v static_dict" where
  "fillSlot i key v d = d\<lparr>d_keys := (d_keys d)[i := key], d_vals := (d_vals d)[i := v]\<rparr>"

text \<open>Results: True for 0 (done), False for -1.\<close>

definition addToList :: "u64 \<Rightarrow> 'v \<Rightarrow> 'v static_dict \<Rightarrow> bool \<times> 'v static_dict" where
  "addToList key v d =
     (case getFreeSlot d of
        (None, d') \<Rightarrow> (False, d')
      | (Some i, d') \<Rightarrow> (True, fillSlot i key v d'))"

definition removeFromList :: "u64 \<Rightarrow> 'v::zero static_dict \<Rightarrow> bool \<times> 'v static_dict" where
  "removeFromList key d =
     (case findKey key d of
        None \<Rightarrow> (False, d)
      | Some i \<Rightarrow> (True, d\<lparr>d_keys := (d_keys d)[i := 0], d_vals := (d_vals d)[i := 0]\<rparr>))"

definition getValueFromList :: "u64 \<Rightarrow> 'v static_dict \<Rightarrow> 'v option" where
  "getValueFromList key d =
     (case findKey key d of
        None \<Rightarrow> None
      | Some i \<Rightarrow> (if i < length (d_vals d) then Some (d_vals d ! i) else None))"

text \<open>\<open>UTL_STATIC_DICT_INIT\<close>: all keys and values zero, for the array size \<open>n\<close>.\<close>

definition dict_init :: "nat \<Rightarrow> 'v::zero static_dict" where
  "dict_init n = \<lparr>d_keys = replicate n 0, d_vals = replicate n 0\<rparr>"

section \<open>Invariant and abstraction\<close>

text \<open>A key a caller may store: a real address, neither null nor the reservation mark.\<close>

definition dict_key :: "u64 \<Rightarrow> bool" where
  "dict_key k \<longleftrightarrow> k \<noteq> 0 \<and> k \<noteq> - 1"

definition dict_inv :: "'v static_dict \<Rightarrow> bool" where
  "dict_inv d \<longleftrightarrow> length (d_vals d) = length (d_keys d) \<and> distinct (filter dict_key (d_keys d))"

definition dict_map :: "'v static_dict \<Rightarrow> u64 \<Rightarrow> 'v option" where
  "dict_map d k = (if dict_key k then getValueFromList k d else None)"

definition dict_has_room :: "'v static_dict \<Rightarrow> bool" where
  "dict_has_room d \<longleftrightarrow> 0 \<in> set (d_keys d)"

section \<open>Facts about the scan\<close>

lemma scan_keys_Some:
  "scan_keys xs k i = Some j \<Longrightarrow>
     i \<le> j \<and> j < i + length xs \<and> xs ! (j - i) = k \<and> (\<forall>l < j - i. xs ! l \<noteq> k)"
proof (induction xs k i rule: scan_keys.induct)
  case (1 k i)
  then show ?case by simp
next
  case (2 x xs k i)
  show ?case
  proof (cases "x = k")
    case True
    with 2 show ?thesis by auto
  next
    case False
    with 2 have ih: "Suc i \<le> j" "j < Suc i + length xs" "xs ! (j - Suc i) = k"
      "\<forall>l < j - Suc i. xs ! l \<noteq> k" by auto
    then have "j - i = Suc (j - Suc i)" by simp
    with False ih show ?thesis
      by (auto simp: less_Suc_eq_0_disj)
  qed
qed

lemma scan_keys_None: "scan_keys xs k i = None \<longleftrightarrow> k \<notin> set xs"
  by (induction xs k i rule: scan_keys.induct) auto

lemma findKey_Some:
  "findKey k d = Some j \<Longrightarrow> j < length (d_keys d) \<and> d_keys d ! j = k"
  unfolding findKey_def by (drule scan_keys_Some) simp

lemma findKey_None: "findKey k d = None \<longleftrightarrow> k \<notin> set (d_keys d)"
  by (simp add: findKey_def scan_keys_None)

lemma nth_key_unique:
  assumes "distinct (filter P xs)" and "P (xs ! i)" and "xs ! i = xs ! j"
    and "i < length xs" and "j < length xs"
  shows "i = j"
  using assms
proof (induction xs arbitrary: i j)
  case Nil
  then show ?case by simp
next
  case (Cons x xs)
  have not_later: False if "P x" "l < length xs" "xs ! l = x" for l
  proof -
    from that have "x \<in> set (filter P xs)" using nth_mem [of l xs] by auto
    with Cons.prems(1) \<open>P x\<close> show False by simp
  qed
  from Cons.prems(1) have "distinct (filter P xs)" by (simp split: if_splits)
  note tail = Cons.IH [OF this]
  show ?case
  proof (cases i)
    case 0
    then show ?thesis using Cons.prems not_later by (cases j) auto
  next
    case (Suc a)
    then show ?thesis using Cons.prems not_later tail by (cases j) auto
  qed
qed

lemma findKey_eq:
  assumes "dict_inv d" and "dict_key k" and "i < length (d_keys d)" and "d_keys d ! i = k"
  shows "findKey k d = Some i"
proof (cases "findKey k d")
  case None
  with assms(3,4) show ?thesis by (metis findKey_None nth_mem)
next
  case (Some j)
  with findKey_Some [OF this] assms nth_key_unique [of dict_key "d_keys d" i j]
  show ?thesis by (simp add: dict_inv_def)
qed

lemma getValue_eq:
  "dict_inv d \<Longrightarrow> dict_key k \<Longrightarrow> i < length (d_keys d) \<Longrightarrow> d_keys d ! i = k \<Longrightarrow>
     getValueFromList k d = Some (d_vals d ! i)"
  by (simp add: getValueFromList_def findKey_eq dict_inv_def)

lemma getValue_none: "k \<notin> set (d_keys d) \<Longrightarrow> getValueFromList k d = None"
  by (simp add: getValueFromList_def findKey_None [THEN iffD2])

lemma distinct_filter_update:
  assumes "distinct (filter P xs)" and "i < length xs" and "\<not> P (xs ! i)"
    and "P y \<Longrightarrow> y \<notin> set xs"
  shows "distinct (filter P (xs[i := y]))"
  using assms
proof (induction xs arbitrary: i)
  case Nil
  then show ?case by simp
next
  case (Cons x xs)
  show ?case
  proof (cases i)
    case 0
    with Cons.prems show ?thesis by auto
  next
    case (Suc j)
    with Cons.prems have ih: "distinct (filter P (xs[j := y]))"
      by (intro Cons.IH) (auto split: if_splits)
    have "P x \<Longrightarrow> x \<notin> set (filter P (xs[j := y]))"
      using Cons.prems Suc set_update_subset_insert [of xs j y] by auto
    with ih Suc show ?thesis by simp
  qed
qed

lemma in_set_updated:
  "x \<in> set xs \<Longrightarrow> x \<notin> set (xs[i := y]) \<Longrightarrow> i < length xs \<Longrightarrow> x = xs ! i"
  by (metis in_set_conv_nth length_list_update nth_list_update_neq)

section \<open>The operations\<close>

lemma getFreeSlot_Some:
  "getFreeSlot d = (Some i, d') \<Longrightarrow>
     i < length (d_keys d) \<and> d_keys d ! i = 0 \<and> d' = d\<lparr>d_keys := (d_keys d)[i := - 1]\<rparr>"
  by (auto simp: getFreeSlot_def split: option.splits dest!: scan_keys_Some)

lemma getFreeSlot_None: "getFreeSlot d = (None, d') \<longleftrightarrow> d' = d \<and> \<not> dict_has_room d"
  using scan_keys_None [of "d_keys d" 0 0]
  by (auto simp: getFreeSlot_def dict_has_room_def split: option.splits)

lemma addToList_True:
  assumes "addToList k v d = (True, d')"
  obtains i where "i < length (d_keys d)" and "d_keys d ! i = 0"
    and "d' = d\<lparr>d_keys := (d_keys d)[i := k], d_vals := (d_vals d)[i := v]\<rparr>"
  using assms
  by (auto simp: addToList_def fillSlot_def split: prod.splits option.splits dest!: getFreeSlot_Some)

lemma addToList_False: "addToList k v d = (False, d') \<longleftrightarrow> d' = d \<and> \<not> dict_has_room d"
  using scan_keys_None [of "d_keys d" 0 0]
  by (auto simp: addToList_def getFreeSlot_def dict_has_room_def split: option.splits)

lemma addToList_inv:
  assumes "dict_inv d" and "k \<notin> set (d_keys d)" and "addToList k v d = (True, d')"
  shows "dict_inv d'"
proof -
  from assms(3) obtain i where i: "i < length (d_keys d)" "d_keys d ! i = 0"
    and d': "d' = d\<lparr>d_keys := (d_keys d)[i := k], d_vals := (d_vals d)[i := v]\<rparr>"
    by (rule addToList_True)
  have "distinct (filter dict_key ((d_keys d)[i := k]))"
    by (rule distinct_filter_update) (use assms i in \<open>auto simp: dict_inv_def dict_key_def\<close>)
  with assms(1) d' show ?thesis by (simp add: dict_inv_def)
qed

lemma dict_map_not_key: "k \<notin> set (d_keys d) \<Longrightarrow> dict_map d k = None"
  by (simp add: dict_map_def getValue_none)

lemma dict_map_key:
  "dict_inv d \<Longrightarrow> dict_key k \<Longrightarrow> k \<in> set (d_keys d) \<Longrightarrow> dict_map d k \<noteq> None"
  by (auto simp: dict_map_def in_set_conv_nth getValue_eq)

lemma addToList_map:
  assumes inv: "dict_inv d" and key: "dict_key k" and new: "k \<notin> set (d_keys d)"
    and add: "addToList k v d = (True, d')"
  shows "dict_map d' = (dict_map d)(k \<mapsto> v)"
proof
  fix k'
  from add obtain i where i: "i < length (d_keys d)" "d_keys d ! i = 0"
    and d': "d' = d\<lparr>d_keys := (d_keys d)[i := k], d_vals := (d_vals d)[i := v]\<rparr>"
    by (rule addToList_True)
  have inv': "dict_inv d'" by (rule addToList_inv [OF inv new add])
  have len: "length (d_vals d) = length (d_keys d)" using inv by (simp add: dict_inv_def)
  show "dict_map d' k' = ((dict_map d)(k \<mapsto> v)) k'"
  proof (cases "dict_key k' \<and> k' \<in> set (d_keys d')")
    case True
    then obtain j where j: "j < length (d_keys d')" "d_keys d' ! j = k'"
      by (auto simp: in_set_conv_nth)
    then have "dict_map d' k' = Some (d_vals d' ! j)"
      using True getValue_eq [OF inv'] by (simp add: dict_map_def)
    moreover have "dict_map d k' = Some (d_vals d ! j)" if "j \<noteq> i"
      using that j True d' getValue_eq [OF inv, of k' j] by (simp add: dict_map_def)
    ultimately show ?thesis
      using j d' i len new by (cases "j = i") auto
  next
    case False
    have "k \<in> set (d_keys d')" using d' i by (simp add: set_update_memI)
    with False key have "k' \<noteq> k" by auto
    moreover have "dict_map d' k' = None" using False by (auto simp: dict_map_def getValue_none)
    moreover have "dict_map d k' = None"
    proof (cases "dict_key k'")
      case True
      with False have "k' \<notin> set ((d_keys d)[i := k])" using d' by simp
      moreover have "k' \<noteq> d_keys d ! i" using True i by (auto simp: dict_key_def)
      ultimately have "k' \<notin> set (d_keys d)"
        using i by (auto dest: in_set_updated)
      then show ?thesis by (rule dict_map_not_key)
    qed (simp add: dict_map_def)
    ultimately show ?thesis by simp
  qed
qed

lemma removeFromList_True:
  assumes "removeFromList k d = (True, d')"
  obtains i where "findKey k d = Some i" and "i < length (d_keys d)" and "d_keys d ! i = k"
    and "d' = d\<lparr>d_keys := (d_keys d)[i := 0], d_vals := (d_vals d)[i := 0]\<rparr>"
  using assms findKey_Some by (auto simp: removeFromList_def split: option.splits)

lemma distinct_filter_clear:
  "distinct (filter P xs) \<Longrightarrow> \<not> P y \<Longrightarrow> distinct (filter P (xs[i := y]))"
proof (induction xs arbitrary: i)
  case (Cons x xs)
  have "set (filter P (xs[j := y])) \<subseteq> set (filter P xs)" for j
    using Cons.prems(2) set_update_subset_insert [of xs j y] by auto
  with Cons show ?case by (cases i) (auto split: if_splits)
qed simp

lemma removeFromList_inv: "dict_inv d \<Longrightarrow> removeFromList k d = (b, d') \<Longrightarrow> dict_inv d'"
  by (auto simp: removeFromList_def dict_inv_def dict_key_def
           split: option.splits intro!: distinct_filter_clear)

lemma removeFromList_map:
  assumes inv: "dict_inv d" and key: "dict_key k" and rem: "removeFromList k d = (b, d')"
  shows "b = (k \<in> set (d_keys d)) \<and> dict_map d' = (dict_map d)(k := None)"
proof (cases b)
  case False
  with rem have "k \<notin> set (d_keys d)" "d' = d"
    by (auto simp: removeFromList_def findKey_None split: option.splits)
  then show ?thesis using False by (auto simp: dict_map_not_key)
next
  case True
  with rem obtain i where i: "findKey k d = Some i" "i < length (d_keys d)" "d_keys d ! i = k"
    and d': "d' = d\<lparr>d_keys := (d_keys d)[i := 0], d_vals := (d_vals d)[i := 0]\<rparr>"
    by (auto elim: removeFromList_True)
  have inv': "dict_inv d'" by (rule removeFromList_inv [OF inv rem])
  have "dict_map d' k' = ((dict_map d)(k := None)) k'" for k'
  proof (cases "dict_key k' \<and> k' \<in> set (d_keys d')")
    case True
    then obtain j where j: "j < length (d_keys d)" "d_keys d' ! j = k'"
      using d' by (auto simp: in_set_conv_nth)
    have ji: "j \<noteq> i" using j True d' i by (auto simp: dict_key_def)
    have kj: "d_keys d ! j = k'" using j(2) ji d' by simp
    have "k' \<noteq> k"
      using ji i(2,3) kj j(1) inv key nth_key_unique [of dict_key "d_keys d" i j]
      by (auto simp: dict_inv_def)
    moreover have "dict_map d' k' = Some (d_vals d' ! j)"
      using True j d' getValue_eq [OF inv'] by (simp add: dict_map_def)
    moreover have "dict_map d k' = Some (d_vals d ! j)"
      using True j(1) kj getValue_eq [OF inv] by (simp add: dict_map_def)
    ultimately show ?thesis using ji d' by simp
  next
    case False
    have "k' = k \<or> k' \<notin> set (d_keys d)" if k': "dict_key k'"
    proof -
      from False k' d' have "k' \<notin> set ((d_keys d)[i := 0])" by simp
      then show ?thesis using in_set_updated [of k' "d_keys d" i 0] i(2,3) by blast
    qed
    moreover have "dict_map d' k' = None" using False by (auto simp: dict_map_def getValue_none)
    ultimately show ?thesis by (cases "dict_key k'") (auto simp: dict_map_def getValue_none)
  qed
  then show ?thesis using True i nth_mem [of i "d_keys d"] by auto
qed

section \<open>The contract and its clients\<close>

text \<open>
  What a client of the dictionary relies on: insertion, removal and lookup act on
  the abstract map \<open>absm\<close>, and insertion fails exactly when there is no room.
\<close>

locale bounded_map =
  fixes add :: "'k \<Rightarrow> 'v \<Rightarrow> 'd \<Rightarrow> bool \<times> 'd"
    and remove :: "'k \<Rightarrow> 'd \<Rightarrow> bool \<times> 'd"
    and get :: "'k \<Rightarrow> 'd \<Rightarrow> 'v option"
    and absm :: "'d \<Rightarrow> 'k \<Rightarrow> 'v option"
    and invar :: "'d \<Rightarrow> bool"
    and valid :: "'k \<Rightarrow> bool"
    and room :: "'d \<Rightarrow> bool"
  assumes add_room: "fst (add k v d) = room d"
    and add_full: "\<not> room d \<Longrightarrow> snd (add k v d) = d"
    and add_map: "invar d \<Longrightarrow> valid k \<Longrightarrow> absm d k = None \<Longrightarrow> room d \<Longrightarrow>
          absm (snd (add k v d)) = (absm d)(k \<mapsto> v)"
    and add_invar: "invar d \<Longrightarrow> valid k \<Longrightarrow> absm d k = None \<Longrightarrow> invar (snd (add k v d))"
    and remove_map: "invar d \<Longrightarrow> valid k \<Longrightarrow> absm (snd (remove k d)) = (absm d)(k := None)"
    and remove_found: "invar d \<Longrightarrow> valid k \<Longrightarrow> fst (remove k d) = (absm d k \<noteq> None)"
    and remove_invar: "invar d \<Longrightarrow> invar (snd (remove k d))"
    and get_map: "invar d \<Longrightarrow> valid k \<Longrightarrow> get k d = absm d k"
begin

lemma get_after_add:
  assumes "invar d" and "valid k" and "valid k'" and "absm d k = None" and "room d"
  shows "get k' (snd (add k v d)) = (if k' = k then Some v else get k' d)"
  using assms by (simp add: get_map add_invar add_map)

lemma get_after_remove:
  assumes "invar d" and "valid k" and "valid k'"
  shows "get k' (snd (remove k d)) = (if k' = k then None else get k' d)"
  using assms by (simp add: get_map remove_invar remove_map)

lemma remove_after_add:
  assumes "invar d" and "valid k" and "absm d k = None" and "room d"
  shows "absm (snd (remove k (snd (add k v d)))) = absm d
       \<and> fst (remove k (snd (add k v d)))"
  using assms by (auto simp: remove_map remove_found add_map add_invar fun_eq_iff)

lemma add_ok_iff_room: "fst (add k v d) \<longleftrightarrow> room d"
  by (rule add_room)

end

lemma dict_map_None_iff:
  "dict_inv d \<Longrightarrow> dict_key k \<Longrightarrow> dict_map d k = None \<longleftrightarrow> k \<notin> set (d_keys d)"
  using dict_map_key dict_map_not_key by blast

lemma addToList_fst: "fst (addToList k v d) = dict_has_room d"
  using scan_keys_None [of "d_keys d" 0 0]
  by (auto simp: addToList_def getFreeSlot_def dict_has_room_def split: option.splits)

lemma addToList_full: "\<not> dict_has_room d \<Longrightarrow> addToList k v d = (False, d)"
  by (simp add: addToList_False)

lemma addToList_room: "dict_has_room d \<Longrightarrow> addToList k v d = (True, snd (addToList k v d))"
  by (simp add: addToList_fst prod_eq_iff)

interpretation va_segs:
  bounded_map addToList removeFromList getValueFromList dict_map dict_inv dict_key dict_has_room
proof unfold_locales
  fix k :: u64 and v :: "'v::zero" and d :: "'v static_dict"
  show "fst (addToList k v d) = dict_has_room d"
    by (rule addToList_fst)
  show "\<not> dict_has_room d \<Longrightarrow> snd (addToList k v d) = d"
    by (simp add: addToList_full)
  show "dict_map (snd (addToList k v d)) = (dict_map d)(k \<mapsto> v)"
    if "dict_inv d" "dict_key k" "dict_map d k = None" "dict_has_room d"
    using that(3) dict_map_None_iff [OF that(1,2)]
    by (intro addToList_map [OF that(1,2) _ addToList_room [OF that(4)]]) simp
  show "dict_inv (snd (addToList k v d))" if "dict_inv d" "dict_key k" "dict_map d k = None"
  proof (cases "dict_has_room d")
    case True
    show ?thesis
      using that(3) dict_map_None_iff [OF that(1,2)]
      by (intro addToList_inv [OF that(1) _ addToList_room [OF True]]) simp
  next
    case False
    with that show ?thesis by (simp add: addToList_full)
  qed
  show "dict_inv d \<Longrightarrow> dict_key k \<Longrightarrow>
      dict_map (snd (removeFromList k d)) = (dict_map d)(k := None)"
    using removeFromList_map [of d k "fst (removeFromList k d)" "snd (removeFromList k d)"] by simp
  show "dict_inv d \<Longrightarrow> dict_key k \<Longrightarrow> fst (removeFromList k d) = (dict_map d k \<noteq> None)"
    using removeFromList_map [of d k "fst (removeFromList k d)" "snd (removeFromList k d)"]
      dict_map_None_iff [of d k] by simp
  show "dict_inv d \<Longrightarrow> dict_inv (snd (removeFromList k d))"
    by (rule removeFromList_inv [of d k "fst (removeFromList k d)"]) simp_all
  show "dict_inv d \<Longrightarrow> dict_key k \<Longrightarrow> getValueFromList k d = dict_map d k"
    by (simp add: dict_map_def)
qed

lemma dict_init_inv: "dict_inv (dict_init n)"
  by (simp add: dict_inv_def dict_init_def dict_key_def)

lemma dict_init_empty: "dict_map (dict_init n) k = None"
  by (simp add: dict_map_not_key dict_map_def getValueFromList_def findKey_None [THEN iffD2]
      dict_init_def dict_key_def)

section \<open>Properties\<close>



text \<open>
  C27: two adders that interleave between reservation and fill never get the same slot:
  a slot handed out by \<open>getFreeSlot\<close> is not handed out again before it is freed, and
  both keys are found afterwards with their own values.
\<close>

theorem getFreeSlot_reserves:
  assumes inv: "dict_inv d" and k: "dict_key k1" "dict_key k2" "k1 \<noteq> k2"
    and new: "getValueFromList k1 d = None" "getValueFromList k2 d = None"
    and r1: "getFreeSlot d = (Some i, d1)" and r2: "getFreeSlot d1 = (Some j, d2)"
  shows "i \<noteq> j
    \<and> getValueFromList k1 (fillSlot j k2 v2 (fillSlot i k1 v1 d2)) = Some v1
    \<and> getValueFromList k2 (fillSlot j k2 v2 (fillSlot i k1 v1 d2)) = Some v2"
proof -
  from getFreeSlot_Some [OF r1] have i: "i < length (d_keys d)" "d_keys d ! i = 0"
    and d1: "d1 = d\<lparr>d_keys := (d_keys d)[i := - 1]\<rparr>" by auto
  from getFreeSlot_Some [OF r2] have j: "j < length (d_keys d)" "d_keys d1 ! j = 0"
    and d2: "d2 = d1\<lparr>d_keys := (d_keys d1)[j := - 1]\<rparr>" by (auto simp: d1)
  have ij: "i \<noteq> j" using i j d1 by auto
  let ?f = "fillSlot j k2 v2 (fillSlot i k1 v1 d2)"
  have keys: "d_keys ?f = (d_keys d)[i := k1, j := k2]"
    using ij by (simp add: fillSlot_def d1 d2 list_update_swap)
  have fresh: "k1 \<notin> set (d_keys d)" "k2 \<notin> set (d_keys d)"
    using inv k new by (auto simp: dict_map_None_iff [symmetric] dict_map_def)
  have "distinct (filter dict_key ((d_keys d)[i := k1]))"
    by (rule distinct_filter_update) (use inv i fresh in \<open>auto simp: dict_inv_def dict_key_def\<close>)
  then have "distinct (filter dict_key ((d_keys d)[i := k1, j := k2]))"
    by (rule distinct_filter_update)
       (use i j ij d1 fresh k set_update_subset_insert [of "d_keys d" i k1]
         in \<open>auto simp: dict_key_def\<close>)
  with inv keys have finv: "dict_inv ?f" by (simp add: dict_inv_def fillSlot_def d1 d2)
  have len: "length (d_vals d) = length (d_keys d)" using inv by (simp add: dict_inv_def)
  have "getValueFromList k1 ?f = Some (d_vals ?f ! i)"
    by (rule getValue_eq [OF finv k(1)]) (use keys i ij in auto)
  moreover have "getValueFromList k2 ?f = Some (d_vals ?f ! j)"
    by (rule getValue_eq [OF finv k(2)]) (use keys j ij in auto)
  ultimately show ?thesis using ij i j len by (simp add: fillSlot_def d1 d2)
qed

theorem getFreeSlot_reserves_witness:
  "getValueFromList 4096 (fillSlot 1 8192 (6::nat) (fillSlot 0 4096 5
     (snd (getFreeSlot (snd (getFreeSlot (dict_init 10)))))) ) = Some 5"
proof -
  let ?d = "dict_init 10 :: nat static_dict"
  have r1: "getFreeSlot ?d = (Some 0, ?d\<lparr>d_keys := (d_keys ?d)[0 := - 1]\<rparr>)"
    by (simp add: getFreeSlot_def dict_init_def numeral_eq_Suc)
  have r2: "getFreeSlot (?d\<lparr>d_keys := (d_keys ?d)[0 := - 1]\<rparr>)
      = (Some 1, ?d\<lparr>d_keys := (d_keys ?d)[0 := - 1, 1 := - 1]\<rparr>)"
    by (simp add: getFreeSlot_def dict_init_def numeral_eq_Suc)
  have keys: "dict_key 4096" "dict_key 8192" by (simp_all add: dict_key_def)
  have none: "getValueFromList 4096 ?d = None" "getValueFromList 8192 ?d = None"
    by (simp_all add: getValueFromList_def findKey_None [THEN iffD2] dict_init_def)
  show ?thesis
    using getFreeSlot_reserves [OF dict_init_inv keys _ none r1 r2, of 6 5] by (simp add: r1 r2)
qed

end
