(* ===== verification/Dma.thy ===== *)
theory Dma
  imports Kernel StaticDict
begin

text \<open>
  The bus\_dma layer of compat/openbsd/dma.cpp over IOKit memory descriptors.
  Segment arrays and DMA maps are reached through pointers in the code (the
  dictionary stores a pointer to the caller's array, a map pointer is handed from
  layer to layer), so both live in a store indexed by address. A store past the end
  of a segment array sets the flag \<open>seg_oob\<close>.
\<close>

section \<open>State\<close>

record dma_segment =
  ds_addr :: u64
  ds_len :: u64
  ds_memDesc :: u64       \<comment> \<open>an IOMemoryDescriptor, 0 for null\<close>
  ds_memMap :: u64

definition zero_segment :: dma_segment where
  "zero_segment = \<lparr>ds_addr = 0, ds_len = 0, ds_memDesc = 0, ds_memMap = 0\<rparr>"

record dmamap =
  dmm_size :: u64
  dmm_flags :: u32
  dmm_segcnt :: nat       \<comment> \<open>number of segments this map can hold\<close>
  dmm_maxsegsz :: u64
  dmm_boundary :: u64
  dmm_command :: u64      \<comment> \<open>the IODMACommand, 0 for null\<close>
  dm_mapsize :: u64
  dm_nsegs :: nat
  dm_segs :: "dma_segment list"

record 'h dma = "'h kernel" +
  va_list :: "u64 static_dict"                   \<comment> \<open>VA\_SEGS: address to segment array\<close>
  seg_arrays :: "u64 \<Rightarrow> dma_segment list"
  seg_oob :: bool
  dmamaps :: "u64 \<Rightarrow> dmamap option"

section \<open>Segment arrays\<close>

definition seg_at :: "('h, 'z) dma_scheme \<Rightarrow> u64 \<Rightarrow> nat \<Rightarrow> dma_segment" where
  "seg_at s p i = (if i < length (seg_arrays s p) then seg_arrays s p ! i else zero_segment)"

definition put_seg ::
    "u64 \<Rightarrow> nat \<Rightarrow> (dma_segment \<Rightarrow> dma_segment) \<Rightarrow> (('h, 'z) dma_scheme, unit) state" where
  "put_seg p i f = modify (\<lambda>s.
     if i < length (seg_arrays s p)
     then s\<lparr>seg_arrays := (seg_arrays s)(p := (seg_arrays s p)[i := f (seg_arrays s p ! i)])\<rparr>
     else s\<lparr>seg_oob := True\<rparr>)"

text \<open>Calls into the platform that only change the hardware state.\<close>

definition call_hw :: "('h \<Rightarrow> 'a \<times> 'h) \<Rightarrow> (('h, 'z) kernel_scheme, 'a) state" where
  "call_hw f = State (\<lambda>s. case f (hw s) of (r, h) \<Rightarrow> (r, s\<lparr>hw := h\<rparr>))"

definition exec_hw :: "('h \<Rightarrow> 'h) \<Rightarrow> (('h, 'z) kernel_scheme, unit) state" where
  "exec_hw f = modify (\<lambda>s. s\<lparr>hw := f (hw s)\<rparr>)"

section \<open>Memory\<close>

text \<open>
  The loop of \<open>bus_dmamem_alloc\<close> that asks for further physical segments. The count
  check comes after the store, so the loop runs at most \<open>nsegs\<close> times; the first
  argument is fuel, and \<open>Suc nsegs\<close> is enough.
\<close>

fun alloc_loop ::
    "nat \<Rightarrow> 'h platform \<Rightarrow> u64 \<Rightarrow> u64 \<Rightarrow> u64 \<Rightarrow> nat \<Rightarrow> u64 \<Rightarrow> u64 \<Rightarrow> nat
       \<Rightarrow> (('h, 'z) dma_scheme, nat res) state" where
  "alloc_loop 0 P md sz segs nsegs off totalLen segIdx = ret (Inl (EKern (-1)))"
| "alloc_loop (Suc n) P md sz segs nsegs off totalLen segIdx =
     (if totalLen < sz then do {
        seg \<leftarrow> fetch (\<lambda>s. md_segment P (hw s) md off);
        (case seg of (physAddr, len) \<Rightarrow>
          if physAddr = 0 \<or> len = 0
          then do { exec_hw (\<lambda>h. md_release P h md); ret (Inl ENOMEM) }
          else if totalLen + len > sz
          then do { exec_hw (\<lambda>h. md_release P h md); ret (Inl ENOMEM) }
          else do {
            put_seg segs segIdx (\<lambda>g. g\<lparr>ds_addr := physAddr, ds_len := len\<rparr>);
            if totalLen + len < sz \<and> Suc segIdx > nsegs
            then do { exec_hw (\<lambda>h. md_release P h md); ret (Inl ENOMEM) }
            else alloc_loop n P md sz segs nsegs (off + len) (totalLen + len) (Suc segIdx) })
      } else ret (Inr segIdx))"

text \<open>
  \<open>bus_dmamem_alloc\<close>: the result is \<open>*rsegs\<close>. The tag is never null, and alignment,
  boundary and flags are not used by the code.
\<close>

definition bus_dmamem_alloc ::
    "'h platform \<Rightarrow> u64 \<Rightarrow> u64 \<Rightarrow> nat \<Rightarrow> (('h, 'z) dma_scheme, nat res) state" where
  "bus_dmamem_alloc P sz segs nsegs =
     (if segs = 0 then ret (Inl EINVAL) else do {
        md \<leftarrow> call_hw (\<lambda>h. md_alloc P h (nsegs = 1) sz);
        if md = 0 then ret (Inl ENOMEM) else do {
          r \<leftarrow> call_hw (\<lambda>h. md_prepare P h md);
          if r \<noteq> 0 then do { exec_hw (\<lambda>h. md_release P h md); ret (Inl ENOMEM) }
          else do {
            seg \<leftarrow> fetch (\<lambda>s. md_segment P (hw s) md 0);
            (case seg of (physAddr, len) \<Rightarrow>
              if (nsegs = 1 \<and> len \<noteq> sz) \<or> physAddr = 0
              then do { exec_hw (\<lambda>h. md_release P h md); ret (Inl ENOTSUP) }
              else do {
                put_seg segs 0 (\<lambda>g. g\<lparr>ds_addr := physAddr, ds_len := len\<rparr>);
                chk (alloc_loop (Suc nsegs) P md sz segs nsegs len len 1) (\<lambda>rsegs. do {
                  put_seg segs 0 (\<lambda>g. g\<lparr>ds_memDesc := md, ds_memMap := 0\<rparr>);
                  ret (Inr rsegs) }) }) } } })"

definition bus_dmamem_free ::
    "'h platform \<Rightarrow> u64 \<Rightarrow> (('h, 'z) dma_scheme, unit) state" where
  "bus_dmamem_free P segs =
     (if segs = 0 then ret () else do {
        md \<leftarrow> fetch (\<lambda>s. ds_memDesc (seg_at s segs 0));
        if md = 0 then ret () else do {
          exec_hw (\<lambda>h. md_release P (md_complete P h md) md);
          put_seg segs 0 (\<lambda>g. g\<lparr>ds_memDesc := 0\<rparr>) } })"

text \<open>\<open>bus_dmamem_map\<close>: the result is \<open>*kvap\<close>; \<open>segs\<close> and \<open>kvap\<close> are never null here.\<close>

definition bus_dmamem_map ::
    "'h platform \<Rightarrow> u64 \<Rightarrow> (('h, 'z) dma_scheme, u64 res) state" where
  "bus_dmamem_map P segs =
     (if segs = 0 then ret (Inl EINVAL) else do {
        seg \<leftarrow> fetch (\<lambda>s. seg_at s segs 0);
        if ds_memDesc seg = 0 then ret (Inl EINVAL)
        else if ds_memMap seg \<noteq> 0 then ret (Inl ENOTSUP)
        else do {
          mm \<leftarrow> call_hw (\<lambda>h. md_map P h (ds_memDesc seg));
          put_seg segs 0 (\<lambda>g. g\<lparr>ds_memMap := mm\<rparr>);
          if mm = 0 then ret (Inl ENOMEM) else do {
            virtAddr \<leftarrow> fetch (\<lambda>s. mm_address P (hw s) mm);
            added \<leftarrow> State (\<lambda>s. case addToList virtAddr segs (va_list s) of
                                  (b, d) \<Rightarrow> (b, s\<lparr>va_list := d\<rparr>));
            ret (if added then Inr virtAddr else Inl ENOTSUP) } } })"

definition bus_dmamem_unmap ::
    "'h platform \<Rightarrow> u64 \<Rightarrow> (('h, 'z) dma_scheme, unit) state" where
  "bus_dmamem_unmap P kva = do {
     r \<leftarrow> fetch (\<lambda>s. getValueFromList kva (va_list s));
     (case r of
        None \<Rightarrow> ret ()
      | Some segs \<Rightarrow> do {
          mm \<leftarrow> fetch (\<lambda>s. ds_memMap (seg_at s segs 0));
          if mm = 0 then ret () else do {
            exec_hw (\<lambda>h. mm_release P h mm);
            put_seg segs 0 (\<lambda>g. g\<lparr>ds_memMap := 0\<rparr>);
            modify (\<lambda>s. s\<lparr>va_list := snd (removeFromList kva (va_list s))\<rparr>) } }) }"

section \<open>Maps\<close>

definition dmamap_bytes :: "nat \<Rightarrow> nat" where
  "dmamap_bytes nsegments = 96 + 32 * (nsegments - 1)"

text \<open>\<open>bus_dmamap_create\<close>: the result is \<open>*dmamp\<close>.\<close>

definition bus_dmamap_create ::
    "'h platform \<Rightarrow> u64 \<Rightarrow> nat \<Rightarrow> u64 \<Rightarrow> u64 \<Rightarrow> u32 \<Rightarrow> (('h, 'z) dma_scheme, u64 res) state" where
  "bus_dmamap_create P sz nsegments maxsegsz boundary flags = do {
     p \<leftarrow> call_hw (\<lambda>h. km_alloc P h (dmamap_bytes nsegments));
     if p = 0 then ret (Inl ENOMEM) else do {
       c \<leftarrow> call_hw (\<lambda>h. dc_create P h maxsegsz);
       modify (\<lambda>s. s\<lparr>dmamaps := (dmamaps s)(p \<mapsto>
         \<lparr>dmm_size = sz, dmm_flags = flags, dmm_segcnt = nsegments, dmm_maxsegsz = maxsegsz,
          dmm_boundary = boundary, dmm_command = c, dm_mapsize = 0, dm_nsegs = 0,
          dm_segs = replicate nsegments zero_segment\<rparr>)\<rparr>);
       ret (Inr p) } }"

definition bus_dmamap_destroy ::
    "'h platform \<Rightarrow> u64 \<Rightarrow> (('h, 'z) dma_scheme, unit) state" where
  "bus_dmamap_destroy P p = do {
     m \<leftarrow> fetch (\<lambda>s. dmamaps s p);
     (case m of
        None \<Rightarrow> ret ()
      | Some dm \<Rightarrow> do {
          exec_hw (\<lambda>h. km_free P (if dmm_command dm = 0 then h else dc_release P h (dmm_command dm))
                       p (dmamap_bytes (dmm_segcnt dm)));
          modify (\<lambda>s. s\<lparr>dmamaps := (dmamaps s)(p := None)\<rparr>) }) }"

text \<open>The two stores into \<open>dm_segs\<close> of the load loop.\<close>

definition put_map_seg :: "u64 \<Rightarrow> nat \<Rightarrow> u64 \<Rightarrow> u64 \<Rightarrow> (('h, 'z) dma_scheme, unit) state" where
  "put_map_seg p i addr len = modify (\<lambda>s.
     case dmamaps s p of
       None \<Rightarrow> s
     | Some dm \<Rightarrow>
         if i < length (dm_segs dm)
         then s\<lparr>dmamaps := (dmamaps s)(p \<mapsto>
                dm\<lparr>dm_segs := (dm_segs dm)[i := (dm_segs dm ! i)\<lparr>ds_addr := addr, ds_len := len\<rparr>]\<rparr>)\<rparr>
         else s\<lparr>seg_oob := True\<rparr>)"

text \<open>
  The loop of \<open>bus_dmamap_load\<close>: the first argument is \<open>_dm_segcnt - segCnt\<close>. It
  returns the offset reached and the number of segments. The segment length is a 32
  bit field, so the subtraction of the overshoot is taken at that width.
\<close>

fun load_loop ::
    "nat \<Rightarrow> 'h platform \<Rightarrow> u64 \<Rightarrow> u64 \<Rightarrow> u64 \<Rightarrow> u64 \<Rightarrow> nat
       \<Rightarrow> (('h, 'z) dma_scheme, (u64 \<times> nat) res) state" where
  "load_loop 0 P p c buflen offset segCnt = ret (Inr (offset, segCnt))"
| "load_loop (Suc n) P p c buflen offset segCnt =
     (if offset < buflen then do {
        g \<leftarrow> call_hw (\<lambda>h. dc_gen P h c offset);
        (case g of (err, offset', addr, len) \<Rightarrow>
          if err \<noteq> 0 then ret (Inl (EKern err))
          else if offset' > buflen then do {
            put_map_seg p segCnt (ucast addr) (ucast (len - ucast (offset' - buflen)));
            load_loop n P p c buflen buflen (Suc segCnt) }
          else do {
            put_map_seg p segCnt (ucast addr) (ucast len);
            load_loop n P p c buflen offset' (Suc segCnt) })
      } else ret (Inr (offset, segCnt)))"

text \<open>The stores into the map that end a successful load.\<close>

definition finish_load ::
    "u64 \<Rightarrow> u64 \<Rightarrow> nat \<Rightarrow> u64 \<Rightarrow> u64 \<Rightarrow> (('h, 'z) dma_scheme, unit) state" where
  "finish_load p buflen segCnt md mm = modify (\<lambda>s.
     case dmamaps s p of
       None \<Rightarrow> s
     | Some dm \<Rightarrow> s\<lparr>dmamaps := (dmamaps s)(p \<mapsto> dm\<lparr>dm_mapsize := buflen, dm_nsegs := segCnt,
           dm_segs := (case dm_segs dm of
              [] \<Rightarrow> []
            | g # r \<Rightarrow> g\<lparr>ds_memDesc := md, ds_memMap := mm\<rparr> # r)\<rparr>)\<rparr>)"

definition bus_dmamap_load ::
    "'h platform \<Rightarrow> u64 \<Rightarrow> u64 \<Rightarrow> u64 \<Rightarrow> (('h, 'z) dma_scheme, unit res) state" where
  "bus_dmamap_load P p buf buflen = do {
     m \<leftarrow> fetch (\<lambda>s. dmamaps s p);
     (case m of
        None \<Rightarrow> ret (Inl EINVAL)
      | Some dm \<Rightarrow>
         if dmm_command dm = 0 \<or> buf = 0 then ret (Inl EINVAL) else do {
           r \<leftarrow> fetch (\<lambda>s. getValueFromList buf (va_list s));
           (case r of
              None \<Rightarrow> ret (Inl ENOTSUP)
            | Some segs \<Rightarrow> do {
                md \<leftarrow> fetch (\<lambda>s. ds_memDesc (seg_at s segs 0));
                mm \<leftarrow> fetch (\<lambda>s. ds_memMap (seg_at s segs 0));
                mdLength \<leftarrow> fetch (\<lambda>s. md_length P (hw s) md);
                if segs = 0 \<or> md = 0 \<or> mm = 0 then ret (Inl EINVAL)
                else if mdLength < buflen then ret (Inl ENOTSUP)
                else do {
                  e \<leftarrow> call_hw (\<lambda>h. dc_set P h (dmm_command dm) md);
                  if e \<noteq> 0 then ret (Inl (EKern e))
                  else chk (load_loop (dmm_segcnt dm) P p (dmm_command dm) buflen 0 0) (\<lambda>(offset, segCnt).
                    if offset \<noteq> buflen then ret (Inl ENOTSUP) else do {
                      finish_load p buflen segCnt md mm;
                      ret OK }) } }) }) }"

definition bus_dmamap_unload ::
    "'h platform \<Rightarrow> u64 \<Rightarrow> (('h, 'z) dma_scheme, unit) state" where
  "bus_dmamap_unload P p = do {
     m \<leftarrow> fetch (\<lambda>s. dmamaps s p);
     (case m of
        None \<Rightarrow> ret ()
      | Some dm \<Rightarrow>
         if dmm_command dm = 0 then ret () else do {
           exec_hw (\<lambda>h. dc_clear P h (dmm_command dm));
           modify (\<lambda>s. s\<lparr>dmamaps := (dmamaps s)(p \<mapsto> dm\<lparr>dm_mapsize := 0, dm_nsegs := 0\<rparr>)\<rparr>) }) }"

text \<open>\<open>bus_dmamap_sync\<close> is a memory barrier, a no-op on the supported machines.\<close>

definition bus_dmamap_sync :: "(('h, 'z) dma_scheme, unit) state" where
  "bus_dmamap_sync = ret ()"

section \<open>Loading a map\<close>

text \<open>
  What the code relies on of \<open>genIOVMSegments\<close>: on success it describes the bytes
  from the given offset on and advances the offset by the length of the segment.
\<close>

definition gen_advances :: "'h platform \<Rightarrow> bool" where
  "gen_advances P \<longleftrightarrow> (\<forall>h c off off' a len h'. dc_gen P h c off = ((0, off', a, len), h') \<longrightarrow>
     unat off + unat len < 2 ^ 64 \<and> off' = off + ucast len)"

definition seg_bytes :: "dma_segment list \<Rightarrow> nat" where
  "seg_bytes gs = (\<Sum>g\<leftarrow>gs. unat (ds_len g))"

lemma seg_bytes_take_Suc:
  "i < length gs \<Longrightarrow> seg_bytes (take (Suc i) gs) = seg_bytes (take i gs) + unat (ds_len (gs ! i))"
  by (simp add: seg_bytes_def take_Suc_conv_app_nth)

lemma gen_step_over:
  assumes "gen_advances P" "dc_gen P h c off = ((0, off', a, len), h')" "off < buflen"
    and "off' > buflen"
  shows "unat off + unat (ucast (len - ucast (off' - buflen)) :: u64) = unat buflen"
proof -
  from assms(1,2) have law: "unat off + unat len < 2 ^ 64" "off' = off + ucast len"
    unfolding gen_advances_def by blast+
  have ul: "unat (ucast len :: u64) = unat len" by (simp add: unat_ucast_up)
  have off': "unat off' = unat off + unat len"
    using law ul by (simp add: unat_word_ariths(1))
  have d: "unat (off' - buflen) = unat off + unat len - unat buflen"
    using assms(4) off' by (simp add: unat_sub less_imp_le)
  have lt: "unat off + unat len - unat buflen < unat len"
    using assms(3,4) off' by (simp add: word_less_nat_alt)
  have ud: "unat (ucast (off' - buflen) :: u32) = unat off + unat len - unat buflen"
    using d lt unsigned_less [of len, where 'a = nat]
    by (simp add: unsigned_ucast_eq take_bit_nat_eq_self)
  have "unat (len - ucast (off' - buflen)) = unat buflen - unat off"
    using ud lt assms(3,4) off' by (subst unat_sub) (auto simp: word_le_nat_alt word_less_nat_alt)
  then show ?thesis using assms(3) by (simp add: unat_ucast_up word_less_nat_alt)
qed

lemma gen_step_in:
  assumes "gen_advances P" "dc_gen P h c off = ((0, off', a, len), h')"
  shows "unat off' = unat off + unat (ucast len :: u64)"
proof -
  from assms have "unat off + unat len < 2 ^ 64" "off' = off + ucast len"
    unfolding gen_advances_def by blast+
  moreover have "unat (ucast len :: u64) = unat len" by (simp add: unat_ucast_up)
  ultimately show ?thesis by (simp add: unat_word_ariths(1))
qed

lemma run_call_hw: "run_state (call_hw f) s = (fst (f (hw s)), s\<lparr>hw := snd (f (hw s))\<rparr>)"
  by (simp add: call_hw_def case_prod_beta)

lemma run_put_map_seg:
  "dmamaps s p = Some dm \<Longrightarrow> i < length (dm_segs dm) \<Longrightarrow>
   run_state (put_map_seg p i a l) s = ((), s\<lparr>dmamaps := (dmamaps s)(p \<mapsto>
      dm\<lparr>dm_segs := (dm_segs dm)[i := (dm_segs dm ! i)\<lparr>ds_addr := a, ds_len := l\<rparr>]\<rparr>)\<rparr>)"
  by (simp add: put_map_seg_def)

text \<open>The invariant of the load loop: the segments filled so far describe \<open>offset\<close> bytes.\<close>

lemma load_loop_covers:
  assumes "gen_advances P" and "dmamaps s p = Some dm"
    and "length (dm_segs dm) = segCnt + n" and "seg_bytes (take segCnt (dm_segs dm)) = unat offset"
    and "run_state (load_loop n P p c buflen offset segCnt) s = (Inr (offset', segCnt'), s')"
  shows "\<exists>gs. dmamaps s' p = Some (dm\<lparr>dm_segs := gs\<rparr>) \<and> length gs = segCnt + n
    \<and> segCnt' \<le> segCnt + n \<and> seg_bytes (take segCnt' gs) = unat offset' \<and> seg_oob s' = seg_oob s"
  using assms
proof (induction n arbitrary: s dm offset segCnt)
  case 0
  then show ?case by (intro exI [of _ "dm_segs dm"]) auto
next
  case (Suc n)
  show ?case
  proof (cases "offset < buflen")
    case False
    with Suc.prems show ?thesis by (intro exI [of _ "dm_segs dm"]) auto
  next
    case True
    obtain e o' a l h' where g: "dc_gen P (hw s) c offset = ((e, o', a, l), h')"
      by (metis surj_pair)
    have e0: "e = 0" using Suc.prems(5) True g by (auto simp: run_call_hw split: if_splits)
    define over where "over \<longleftrightarrow> o' > buflen"
    define l' :: u64 where "l' = (if over then ucast (l - ucast (o' - buflen)) else ucast l)"
    define off2 where "off2 = (if over then buflen else o')"
    define dm2 where "dm2 = dm\<lparr>dm_segs := (dm_segs dm)
        [segCnt := (dm_segs dm ! segCnt)\<lparr>ds_addr := ucast a, ds_len := l'\<rparr>]\<rparr>"
    define s2 where "s2 = s\<lparr>hw := h', dmamaps := (dmamaps s)(p \<mapsto> dm2)\<rparr>"
    have len: "segCnt < length (dm_segs dm)" using Suc.prems(3) by simp
    have run: "run_state (load_loop n P p c buflen off2 (Suc segCnt)) s2 = (Inr (offset', segCnt'), s')"
      using Suc.prems(2,5) True g e0 len
      by (simp add: run_call_hw run_put_map_seg s2_def dm2_def l'_def off2_def over_def split: if_splits)
    have sum: "unat offset + unat l' = unat off2"
    proof (cases over)
      case True
      then have ov: "buflen < o'" by (simp add: over_def)
      show ?thesis
        using gen_step_over [OF Suc.prems(1) _ \<open>offset < buflen\<close> ov] g e0 True
        by (simp add: l'_def off2_def)
    next
      case False
      then show ?thesis
        using gen_step_in [OF Suc.prems(1)] g e0 by (simp add: l'_def off2_def)
    qed
    have bytes: "seg_bytes (take (Suc segCnt) (dm_segs dm2)) = unat off2"
      using Suc.prems(4) len sum
      by (simp add: dm2_def seg_bytes_take_Suc)
    show ?thesis
      using Suc.IH [OF Suc.prems(1) _ _ bytes run] Suc.prems(3)
      by (auto simp: s2_def dm2_def)
  qed
qed

lemma bus_dmamap_load_OK:
  assumes "dmamaps s p = Some dm" and "run_state (bus_dmamap_load P p buf buflen) s = (OK, s')"
  shows "\<exists>h segCnt s2 md mm.
    run_state (load_loop (dmm_segcnt dm) P p (dmm_command dm) buflen 0 0) (s\<lparr>hw := h\<rparr>)
      = (Inr (buflen, segCnt), s2)
    \<and> s' = snd (run_state (finish_load p buflen segCnt md mm) s2)"
  using assms
  apply (auto simp: bus_dmamap_load_def run_call_hw
              split: if_splits option.splits prod.splits sum.splits)
  by (metis snd_conv)


text \<open>A concrete state and platform: 4 KiB segments, one buffer of 8 KiB mapped at 4096.\<close>

definition page_platform :: "unit platform" where
  "page_platform = bare_platform\<lparr>md_length := (\<lambda>_ _. 8192),
     dc_gen := (\<lambda>h c off. if off < 65536 then ((0, off + 4096, ucast off + 65536, 4096), h)
                          else ((- 1, off, 0, 0), h))\<rparr>"

definition dma_boot :: "unit dma" where
  "dma_boot = \<lparr>hw = (), spl_depth = 0, sched = [], slept = [], mimic_linux = False, no_adma = False,
     timeout_shift = 0, sleep_wake_delay_ms = 0,
     va_list = dict_init 10, seg_arrays = (\<lambda>_. []), seg_oob = False, dmamaps = Map.empty\<rparr>"

definition dma_loaded :: "unit dma" where
  "dma_loaded = dma_boot\<lparr>
     va_list := snd (addToList 4096 64 (dict_init 10)),
     seg_arrays := (\<lambda>_. [zero_segment\<lparr>ds_memDesc := 7, ds_memMap := 8\<rparr>]),
     dmamaps := [16 \<mapsto> \<lparr>dmm_size = 8192, dmm_flags = 0, dmm_segcnt = 3, dmm_maxsegsz = 4096,
        dmm_boundary = 0, dmm_command = 9, dm_mapsize = 0, dm_nsegs = 0,
        dm_segs = replicate 3 zero_segment\<rparr>]\<rparr>"

lemma page_platform_advances: "gen_advances page_platform"
  by (auto simp: gen_advances_def page_platform_def bare_platform_def word_less_nat_alt
      split: if_splits)


section \<open>Allocation\<close>

lemma run_put_seg:
  "i < length (seg_arrays s p) \<Longrightarrow> run_state (put_seg p i f) s =
     ((), s\<lparr>seg_arrays := (seg_arrays s)(p := (seg_arrays s p)[i := f (seg_arrays s p ! i)])\<rparr>)"
  by (simp add: put_seg_def)

text \<open>
  The function \<open>bus_dmamem_alloc\<close> asked for one segment either fails or returns one segment that
  is as long as the request, with a physical address and its memory descriptor, and
  writes nothing outside the caller's array.
\<close>

theorem bus_dmamem_alloc_single:
  assumes "seg_arrays s segs \<noteq> []" and "run_state (bus_dmamem_alloc P sz segs 1) s = (Inr rsegs, s')"
  shows "rsegs = 1 \<and> ds_addr (seg_at s' segs 0) \<noteq> 0 \<and> ds_len (seg_at s' segs 0) = sz
    \<and> ds_memDesc (seg_at s' segs 0) \<noteq> 0 \<and> ds_memMap (seg_at s' segs 0) = 0
    \<and> length (seg_arrays s' segs) = length (seg_arrays s segs) \<and> seg_oob s' = seg_oob s"
  using assms
  by (auto simp: bus_dmamem_alloc_def run_call_hw run_put_seg seg_at_def exec_hw_def
      split: if_splits prod.splits)

text \<open>
  With room for two segments and memory in three pieces, the third store is past the end
  of the array and the call succeeds with three segments: the count is checked late.
\<close>

definition split_platform :: "unit platform" where
  "split_platform = bare_platform\<lparr>md_alloc := (\<lambda>h _ _. (5, h)),
     md_segment := (\<lambda>_ _ off. (off + 65536, 4096))\<rparr>"

lemma bus_dmamem_alloc_overruns:
  "case run_state (bus_dmamem_alloc split_platform 12288 64 2)
      (dma_boot\<lparr>seg_arrays := (\<lambda>_. replicate 2 zero_segment)\<rparr>) of
    (r, s) \<Rightarrow> r = Inr 3 \<and> seg_oob s"
  by code_simp

theorem bus_dmamem_alloc_single_witness:
  "ds_len (seg_at (snd (run_state (bus_dmamem_alloc (split_platform) 4096 64 1)
      (dma_boot\<lparr>seg_arrays := (\<lambda>_. replicate 1 zero_segment)\<rparr>))) 64 0) = 4096"
proof -
  let ?s = "dma_boot\<lparr>seg_arrays := (\<lambda>_. replicate 1 zero_segment)\<rparr>"
  let ?r = "run_state (bus_dmamem_alloc split_platform 4096 64 1) ?s"
  have "fst ?r = Inr 1" by code_simp
  then have "?r = (Inr 1, snd ?r)" by (metis prod.collapse)
  from bus_dmamem_alloc_single [OF _ this] show ?thesis by simp
qed

section \<open>Mapping\<close>

lemma bus_dmamem_map_Inr:
  assumes "run_state (bus_dmamem_map P segs) s = (Inr va, s')" and "seg_arrays s segs \<noteq> []"
  shows "va_list s' = snd (addToList va segs (va_list s)) \<and> dict_has_room (va_list s)
    \<and> segs \<noteq> 0 \<and> ds_memMap (seg_at s' segs 0) \<noteq> 0 \<and> seg_arrays s' segs \<noteq> []"
  using assms
  by (auto simp: bus_dmamem_map_def run_call_hw run_put_seg seg_at_def
      split: if_splits prod.splits) (metis addToList_fst fst_conv)

lemma bus_dmamem_unmap_run:
  assumes "getValueFromList va (va_list s) = Some segs" and "ds_memMap (seg_at s segs 0) \<noteq> 0"
    and "seg_arrays s segs \<noteq> []" and "run_state (bus_dmamem_unmap P va) s = (u, s')"
  shows "va_list s' = snd (removeFromList va (va_list s)) \<and> ds_memMap (seg_at s' segs 0) = 0"
  using assms by (auto simp: bus_dmamem_unmap_def run_put_seg exec_hw_def seg_at_def)

text \<open>
  A mapped buffer is found again by its kernel address, which is what
  \<open>bus_dmamap_load\<close> depends on, and unmapping it forgets exactly that address and clears
  the memory map of the segment.
\<close>

theorem bus_dmamem_map_unmap:
  assumes inv: "dict_inv (va_list s)" and arr: "seg_arrays s segs \<noteq> []"
    and map: "run_state (bus_dmamem_map P segs) s = (Inr va, s1)"
    and va: "dict_key va" "getValueFromList va (va_list s) = None"
    and unmap: "run_state (bus_dmamem_unmap P va) s1 = (u, s2)"
  shows "getValueFromList va (va_list s1) = Some segs
    \<and> (\<forall>va'. dict_key va' \<longrightarrow> va' \<noteq> va \<longrightarrow>
         getValueFromList va' (va_list s1) = getValueFromList va' (va_list s))
    \<and> dict_map (va_list s2) = dict_map (va_list s) \<and> ds_memMap (seg_at s2 segs 0) = 0"
proof -
  note m = bus_dmamem_map_Inr [OF map arr]
  have none: "dict_map (va_list s) va = None" using va by (simp add: dict_map_def)
  have get: "getValueFromList k (va_list s1) = (if k = va then Some segs else getValueFromList k (va_list s))"
    if "dict_key k" for k
    using m va_segs.get_after_add [OF inv va(1) that none, of segs] by simp
  have "getValueFromList va (va_list s1) = Some segs" using get va(1) by simp
  note u = bus_dmamem_unmap_run [OF this _ _ unmap]
  have "dict_map (va_list s2) = dict_map (va_list s)"
    using u m va_segs.remove_after_add [OF inv va(1) none, of segs] by simp
  then show ?thesis using get va(1) u m by simp
qed

definition map_platform :: "unit platform" where
  "map_platform = bare_platform\<lparr>md_map := (\<lambda>h _. (8, h)), mm_address := (\<lambda>_ _. 4096)\<rparr>"

theorem bus_dmamem_map_unmap_witness:
  "dict_map (va_list (snd (run_state (bus_dmamem_unmap map_platform 4096)
     (snd (run_state (bus_dmamem_map map_platform 64)
       (dma_boot\<lparr>seg_arrays := (\<lambda>_. [zero_segment\<lparr>ds_memDesc := 7\<rparr>])\<rparr>))))))
   = dict_map (dict_init 10 :: u64 static_dict)"
proof -
  let ?s = "dma_boot\<lparr>seg_arrays := (\<lambda>_. [zero_segment\<lparr>ds_memDesc := 7\<rparr>])\<rparr>"
  let ?r = "run_state (bus_dmamem_map map_platform 64) ?s"
  have "fst ?r = Inr 4096" by code_simp
  then have r: "?r = (Inr 4096, snd ?r)" by (metis prod.collapse)
  have va: "va_list ?s = dict_init 10" by (simp add: dma_boot_def)
  have inv: "dict_inv (va_list ?s)" by (simp add: va dict_init_inv)
  have none: "getValueFromList 4096 (va_list ?s) = None"
    by (simp add: va getValueFromList_def findKey_None [THEN iffD2] dict_init_def)
  have key: "dict_key (4096 :: u64)" by (simp add: dict_key_def)
  show ?thesis
    using bus_dmamem_map_unmap [OF inv _ r key none surjective_pairing] va by simp
qed

text \<open>When the dictionary is full the call fails but the memory map stays with the segment.\<close>

lemma bus_dmamem_map_full_leaks:
  "case run_state (bus_dmamem_map map_platform 64)
      (dma_boot\<lparr>va_list := dict_init 0, seg_arrays := (\<lambda>_. [zero_segment\<lparr>ds_memDesc := 7\<rparr>])\<rparr>) of
    (r, s) \<Rightarrow> r = Inl ENOTSUP \<and> ds_memMap (seg_at s 64 0) = 8"
  by code_simp

end
