(* ===== verification/TaskQueue.thy ===== *)
theory TaskQueue
  imports Dma
begin

text \<open>
  The work queue of the slot (sdmmc.c): tasks, \<open>sdmmc_add_task\<close>, \<open>sdmmc_del_task\<close>,
  \<open>sdmmc_needs_discover\<close>, the contract the rest of the driver relies on, and the loop of
  the task thread as a step relation in which the other threads interleave.
\<close>

section \<open>State\<close>

text \<open>A task is known by who owns it: the two of the softc, and one per disk request.\<close>

datatype task = DiscoverTask | IntrTask | DiskTask nat

record 'h tasks = "'h dma" +
  tskq :: "task list"                \<comment> \<open>sc\_tskq\<close>
  onqueue :: "task \<Rightarrow> bool"          \<comment> \<open>task->onqueue\<close>
  task_sc :: "task \<Rightarrow> bool"          \<comment> \<open>task->sc is not null\<close>
  tskq_wakeups :: nat                \<comment> \<open>calls of wakeup(\&sc->sc\_tskq)\<close>

section \<open>Operations\<close>

definition sdmmc_init_task :: "task \<Rightarrow> (('h, 'z) tasks_scheme, unit) state" where
  "sdmmc_init_task t = modify (\<lambda>s. s\<lparr>onqueue := (onqueue s)(t := False),
                                     task_sc := (task_sc s)(t := False)\<rparr>)"

definition sdmmc_task_pending :: "task \<Rightarrow> ('h, 'z) tasks_scheme \<Rightarrow> bool" where
  "sdmmc_task_pending t s = onqueue s t"

definition sdmmc_add_task :: "task \<Rightarrow> (('h, 'z) tasks_scheme, unit) state" where
  "sdmmc_add_task t = do {
     splbio;
     modify (\<lambda>s. s\<lparr>tskq := tskq s @ [t]\<rparr>);
     modify (\<lambda>s. s\<lparr>onqueue := (onqueue s)(t := True)\<rparr>);
     modify (\<lambda>s. s\<lparr>task_sc := (task_sc s)(t := True)\<rparr>);
     modify (\<lambda>s. s\<lparr>tskq_wakeups := Suc (tskq_wakeups s)\<rparr>);
     splx }"

definition sdmmc_del_task :: "task \<Rightarrow> (('h, 'z) tasks_scheme, unit) state" where
  "sdmmc_del_task t = do {
     b \<leftarrow> fetch (\<lambda>s. task_sc s t);
     if \<not> b then ret () else do {
       splbio;
       modify (\<lambda>s. s\<lparr>task_sc := (task_sc s)(t := False)\<rparr>);
       modify (\<lambda>s. s\<lparr>onqueue := (onqueue s)(t := False)\<rparr>);
       modify (\<lambda>s. s\<lparr>tskq := remove1 t (tskq s)\<rparr>);
       splx } }"

definition sdmmc_needs_discover :: "(('h, 'z) tasks_scheme, unit) state" where
  "sdmmc_needs_discover = do {
     p \<leftarrow> fetch (sdmmc_task_pending DiscoverTask);
     if \<not> p then sdmmc_add_task DiscoverTask else ret () }"

text \<open>One round of the inner loop of the task thread: take the first task off the queue.\<close>

definition take_task :: "(('h, 'z) tasks_scheme, task option) state" where
  "take_task = do {
     q \<leftarrow> fetch tskq;
     (case q of
        [] \<Rightarrow> ret None
      | t # _ \<Rightarrow> do { sdmmc_del_task t; ret (Some t) }) }"

section \<open>Invariant\<close>

definition tskq_inv :: "('h, 'z) tasks_scheme \<Rightarrow> bool" where
  "tskq_inv s \<longleftrightarrow> distinct (tskq s) \<and> (\<forall>t. onqueue s t = (t \<in> set (tskq s)))
     \<and> (\<forall>t. task_sc s t = (t \<in> set (tskq s)))"

definition exec :: "('s, 'a) state \<Rightarrow> 's \<Rightarrow> 's" where
  "exec m s = snd (run_state m s)"

lemma exec_add:
  "exec (sdmmc_add_task t) s = s\<lparr>tskq := tskq s @ [t], onqueue := (onqueue s)(t := True),
     task_sc := (task_sc s)(t := True), tskq_wakeups := Suc (tskq_wakeups s)\<rparr>"
  by (simp add: exec_def sdmmc_add_task_def)

lemma exec_del:
  "exec (sdmmc_del_task t) s = (if task_sc s t then s\<lparr>tskq := remove1 t (tskq s),
     onqueue := (onqueue s)(t := False), task_sc := (task_sc s)(t := False)\<rparr> else s)"
  by (simp add: exec_def sdmmc_del_task_def)

lemma exec_needs_discover:
  "exec sdmmc_needs_discover s = (if onqueue s DiscoverTask then s else exec (sdmmc_add_task DiscoverTask) s)"
  by (simp add: exec_def sdmmc_needs_discover_def sdmmc_task_pending_def)

lemma tskq_inv_add: "tskq_inv s \<Longrightarrow> \<not> onqueue s t \<Longrightarrow> tskq_inv (exec (sdmmc_add_task t) s)"
  by (auto simp: tskq_inv_def exec_add)

lemma tskq_inv_del: "tskq_inv s \<Longrightarrow> tskq_inv (exec (sdmmc_del_task t) s)"
  by (auto simp: tskq_inv_def exec_del)

lemma tskq_inv_needs_discover: "tskq_inv s \<Longrightarrow> tskq_inv (exec sdmmc_needs_discover s)"
  by (simp add: exec_needs_discover tskq_inv_add)

section \<open>The contract of the queue\<close>

locale work_queue =
  fixes add :: "'t \<Rightarrow> 's \<Rightarrow> 's"
    and del :: "'t \<Rightarrow> 's \<Rightarrow> 's"
    and pending :: "'t \<Rightarrow> 's \<Rightarrow> bool"
    and queue :: "'s \<Rightarrow> 't list"
    and inv :: "'s \<Rightarrow> bool"
  assumes pending_iff: "inv s \<Longrightarrow> pending t s \<longleftrightarrow> t \<in> set (queue s)"
    and add_queue: "queue (add t s) = queue s @ [t]"
    and add_inv: "inv s \<Longrightarrow> \<not> pending t s \<Longrightarrow> inv (add t s)"
    and del_queue: "inv s \<Longrightarrow> queue (del t s) = remove1 t (queue s)"
    and del_inv: "inv s \<Longrightarrow> inv (del t s)"
    and queue_distinct: "inv s \<Longrightarrow> distinct (queue s)"
begin

lemma add_del: "inv s \<Longrightarrow> \<not> pending t s \<Longrightarrow> queue (del t (add t s)) = queue s"
  by (simp add: del_queue add_inv add_queue pending_iff remove1_append)

lemma del_not_pending: "inv s \<Longrightarrow> \<not> pending t (del t s)"
  by (simp add: pending_iff del_inv del_queue queue_distinct)

lemma fold_add_queue: "queue (fold add ts s) = queue s @ ts"
  by (induction ts arbitrary: s) (simp_all add: add_queue)

lemma fold_add_inv:
  "inv s \<Longrightarrow> distinct ts \<Longrightarrow> set ts \<inter> set (queue s) = {} \<Longrightarrow> inv (fold add ts s)"
  by (induction ts arbitrary: s) (auto simp: add_queue add_inv pending_iff)

lemma fold_del_queue:
  "inv s \<Longrightarrow> queue s = ts @ rest \<Longrightarrow> queue (fold del ts s) = rest \<and> inv (fold del ts s)"
  by (induction ts arbitrary: s) (auto simp: del_queue del_inv)

lemma fifo:
  assumes "inv s" and "queue s = []" and "distinct ts"
  shows "queue (fold add ts s) = ts \<and> queue (fold del ts (fold add ts s)) = []"
  using assms fold_add_inv [of s ts] fold_del_queue [of "fold add ts s" ts "[]"]
  by (simp add: fold_add_queue)

end

interpretation tq: work_queue "\<lambda>t. exec (sdmmc_add_task t)" "\<lambda>t. exec (sdmmc_del_task t)"
  sdmmc_task_pending tskq tskq_inv
  by unfold_locales
     (auto simp: sdmmc_task_pending_def tskq_inv_def exec_add exec_del remove1_idem)

section \<open>The task thread\<close>

text \<open>
  The program counter of \<open>sdmmc_task_thread\<close>: at the head of the outer loop and in the
  \<open>for\<close> statement it holds the lock; it holds a task between the splx and its removal and
  while its function runs, without the lock; it sleeps in \<open>tsleep_nsec\<close>, which gives up
  the lock and takes it again; it has left the loop.
\<close>

datatype tt_pc = WhileHead | ForHead | Popped task | RunTask task | Asleep | LeftLoop

record tt_state =
  tt_pc :: tt_pc
  tt_q :: "unit tasks"
  tt_dying :: int
  tt_added :: "task list"      \<comment> \<open>history: every task added, in order\<close>
  tt_ran :: "task list"        \<comment> \<open>history: every task started, in order\<close>

text \<open>
  The thread holds the lock at \<open>WhileHead\<close> and \<open>ForHead\<close>. \<open>wakeup\<close> moves a sleeper back to
  the head of the loop and is lost otherwise; the sc\_dying store of \<open>sdmmc_detach\<close> takes
  no lock.
\<close>

definition tt_locked :: "tt_pc \<Rightarrow> bool" where
  "tt_locked pc \<longleftrightarrow> pc = WhileHead \<or> pc = ForHead"

definition tt_wakeup :: "tt_pc \<Rightarrow> tt_pc" where
  "tt_wakeup pc = (if pc = Asleep then WhileHead else pc)"

inductive tt_step :: "tt_state \<Rightarrow> tt_state \<Rightarrow> bool" where
  leave: "tt_pc s = WhileHead \<Longrightarrow> tt_dying s \<noteq> 0 \<Longrightarrow> tt_step s (s\<lparr>tt_pc := LeftLoop\<rparr>)"
| enter: "tt_pc s = WhileHead \<Longrightarrow> tt_dying s = 0 \<Longrightarrow> tt_step s (s\<lparr>tt_pc := ForHead\<rparr>)"
| first: "tt_pc s = ForHead \<Longrightarrow> tskq (tt_q s) = t # ts \<Longrightarrow> tt_step s (s\<lparr>tt_pc := Popped t\<rparr>)"
| sleep: "tt_pc s = ForHead \<Longrightarrow> tskq (tt_q s) = [] \<Longrightarrow> tt_step s (s\<lparr>tt_pc := Asleep\<rparr>)"
| remove: "tt_pc s = Popped t \<Longrightarrow>
    tt_step s (s\<lparr>tt_pc := RunTask t, tt_q := exec (sdmmc_del_task t) (tt_q s), tt_ran := tt_ran s @ [t]\<rparr>)"
| finish: "tt_pc s = RunTask t \<Longrightarrow> tt_step s (s\<lparr>tt_pc := ForHead\<rparr>)"
| add: "\<not> tt_locked (tt_pc s) \<Longrightarrow> \<not> sdmmc_task_pending t (tt_q s) \<Longrightarrow>
    tt_step s (s\<lparr>tt_pc := tt_wakeup (tt_pc s), tt_q := exec (sdmmc_add_task t) (tt_q s),
                 tt_added := tt_added s @ [t]\<rparr>)"
| dying: "tt_step s (s\<lparr>tt_dying := d\<rparr>)"
| wakeup: "tt_step s (s\<lparr>tt_pc := tt_wakeup (tt_pc s)\<rparr>)"

definition tt_init :: "unit tasks \<Rightarrow> tt_state" where
  "tt_init q = \<lparr>tt_pc = WhileHead, tt_q = q, tt_dying = 0, tt_added = tskq q, tt_ran = []\<rparr>"

definition tt_reach :: "unit tasks \<Rightarrow> tt_state \<Rightarrow> bool" where
  "tt_reach q s \<longleftrightarrow> tt_step\<^sup>*\<^sup>* (tt_init q) s"

text \<open>
  The invariant: nothing is queued while the thread sleeps, the popped task is the first
  of the queue, and the tasks started plus those queued are the tasks added, in order.
\<close>

definition tt_inv :: "tt_state \<Rightarrow> bool" where
  "tt_inv s \<longleftrightarrow> tskq_inv (tt_q s)
     \<and> (tt_pc s = Asleep \<longrightarrow> tskq (tt_q s) = [])
     \<and> (\<forall>t. tt_pc s = Popped t \<longrightarrow> (\<exists>ts. tskq (tt_q s) = t # ts))
     \<and> tt_added s = tt_ran s @ tskq (tt_q s)"

lemma tt_step_inv: "tt_step s s' \<Longrightarrow> tt_inv s \<Longrightarrow> tt_inv s'"
proof (induction rule: tt_step.induct)
  case (remove s t)
  then obtain ts where "tskq (tt_q s) = t # ts" by (auto simp: tt_inv_def)
  with remove show ?case
    by (simp add: tt_inv_def tskq_inv_del tq.del_queue)
next
  case (add s t)
  then have "tskq_inv (exec (sdmmc_add_task t) (tt_q s))"
    by (simp add: tt_inv_def tskq_inv_add sdmmc_task_pending_def)
  with add show ?case
    by (auto simp: tt_inv_def tt_wakeup_def tq.add_queue)
qed (auto simp: tt_inv_def tt_wakeup_def)

lemma tt_reach_inv:
  assumes "tskq_inv q" and "tt_reach q s"
  shows "tt_inv s"
  using assms(2) unfolding tt_reach_def
proof (induction rule: rtranclp_induct)
  case base
  show ?case using assms(1) by (simp add: tt_init_def tt_inv_def)
next
  case (step y z)
  then show ?case by (blast intro: tt_step_inv)
qed

section \<open>Properties\<close>


text \<open>\<open>n\<close> rounds of the inner loop of the thread.\<close>

definition drain :: "nat \<Rightarrow> (('h, 'z) tasks_scheme, task option list) state" where
  "drain n = fold (\<lambda>_ m. do { ts \<leftarrow> m; t \<leftarrow> take_task; ret (ts @ [t]) }) [0..<n] (ret [])"

lemma drain_Suc: "drain (Suc n) = do { ts \<leftarrow> drain n; t \<leftarrow> take_task; ret (ts @ [t]) }"
  by (simp add: drain_def)

lemma take_task_run:
  "tskq_inv s \<Longrightarrow> tskq s = t # ts \<Longrightarrow>
   run_state take_task s = (Some t, exec (sdmmc_del_task t) s)"
  by (simp add: take_task_def exec_def case_prod_beta)

lemma drain_queue:
  assumes "tskq_inv s" and "n \<le> length (tskq s)"
  shows "fst (run_state (drain n) s) = map Some (take n (tskq s))
    \<and> tskq (snd (run_state (drain n) s)) = drop n (tskq s) \<and> tskq_inv (snd (run_state (drain n) s))"
  using assms(2)
proof (induction n)
  case 0
  then show ?case using assms by (simp add: drain_def)
next
  case (Suc n)
  obtain r s1 where r: "run_state (drain n) s = (r, s1)" by (cases "run_state (drain n) s") auto
  with Suc have IH: "r = map Some (take n (tskq s))" "tskq s1 = drop n (tskq s)" "tskq_inv s1"
    by simp_all
  have n: "n < length (tskq s)" using Suc by simp
  then have q: "tskq s1 = tskq s ! n # drop (Suc n) (tskq s)"
    using IH(2) by (simp add: Cons_nth_drop_Suc)
  then show ?case
    using r IH n take_task_run [OF IH(3) q] tq.del_queue [OF IH(3)] tskq_inv_del [OF IH(3)]
    by (simp add: drain_Suc take_Suc_conv_app_nth)
qed

text \<open>
  The queue is first-in first-out and a task is on it at most once: queueing tasks on
  an empty queue and taking them with the loop of the thread gives them back in order.
\<close>

theorem task_queue_fifo:
  assumes "tskq_inv s" and "tskq s = []" and "distinct ts"
  shows "fst (run_state (drain (length ts)) (fold (\<lambda>t. exec (sdmmc_add_task t)) ts s)) = map Some ts
    \<and> tskq (exec (drain (length ts)) (fold (\<lambda>t. exec (sdmmc_add_task t)) ts s)) = []"
proof -
  let ?s = "fold (\<lambda>t. exec (sdmmc_add_task t)) ts s"
  have "tskq ?s = ts" and "tskq_inv ?s"
    using tq.fifo [OF assms] tq.fold_add_inv [OF assms(1,3)] assms(2) by simp_all
  then show ?thesis using drain_queue [of ?s "length ts"] by (simp add: exec_def)
qed

definition tasks_boot :: "unit tasks" where
  "tasks_boot = dma.extend dma_boot (tasks.fields [] (\<lambda>_. False) (\<lambda>_. False) 0)"

lemma tasks_boot_inv: "tskq_inv tasks_boot" "tskq tasks_boot = []"
  by (simp_all add: tasks_boot_def tskq_inv_def dma.defs tasks.defs dma_boot_def)

theorem task_queue_fifo_witness:
  "fst (run_state (drain 2)
     (fold (\<lambda>t. exec (sdmmc_add_task t)) [DiskTask 1, DiscoverTask] tasks_boot))
   = [Some (DiskTask 1), Some DiscoverTask]"
  using task_queue_fifo [OF tasks_boot_inv, of "[DiskTask 1, DiscoverTask]"] by (simp add: numeral_2_eq_2)


text \<open>
  The store to \<open>sc_dying\<close> takes no lock, so its wakeup can fall between the test of the
  loop and the sleep; \<open>sdmmc_detach\<close> repeats it, and the next one ends the sleep.
\<close>

lemma detach_wakeup_can_be_lost:
  "\<exists>s. tt_reach tasks_boot s \<and> tt_pc s = Asleep \<and> tt_dying s = 1"
proof -
  let ?s0 = "tt_init tasks_boot"
  let ?s1 = "?s0\<lparr>tt_pc := ForHead\<rparr>"
  let ?s2 = "?s1\<lparr>tt_dying := 1\<rparr>"
  have 1: "tt_step ?s0 ?s1" by (rule tt_step.enter) (simp_all add: tt_init_def)
  have 2: "tt_step ?s1 ?s2" by (rule tt_step.dying)
  have 3: "tt_step ?s2 (?s2\<lparr>tt_pc := Asleep\<rparr>)"
    by (rule tt_step.sleep) (simp_all add: tt_init_def tasks_boot_inv)
  have "tt_reach tasks_boot (?s2\<lparr>tt_pc := Asleep\<rparr>)"
    unfolding tt_reach_def using 1 2 3 by (meson rtranclp.rtrancl_refl rtranclp.rtrancl_into_rtrancl)
  then show ?thesis by (intro exI [of _ "?s2\<lparr>tt_pc := Asleep\<rparr>"]) simp
qed

lemma dying_sleeper_leaves:
  assumes "tt_pc s = Asleep" and "tt_dying s \<noteq> 0"
  shows "tt_step\<^sup>*\<^sup>* s (s\<lparr>tt_pc := LeftLoop\<rparr>)"
proof -
  have 1: "tt_step s (s\<lparr>tt_pc := WhileHead\<rparr>)"
    using tt_step.wakeup [of s] assms(1) by (simp add: tt_wakeup_def)
  have 2: "tt_step (s\<lparr>tt_pc := WhileHead\<rparr>) (s\<lparr>tt_pc := LeftLoop\<rparr>)"
    using tt_step.leave [of "s\<lparr>tt_pc := WhileHead\<rparr>"] assms(2) by simp
  show ?thesis using 1 2 by (meson rtranclp.rtrancl_refl rtranclp.rtrancl_into_rtrancl)
qed

end
