(* ===== verification/RtsxReg.thy ===== *)
theory RtsxReg
  imports Prelude
begin

text \<open>
  The registers and bit masks of 3rdParty/openbsd/rtsxreg.h that the model uses, with
  the names of the header. The host registers below 0x20 are 32 bits wide (\<open>u32\<close>, the
  type of offsets and contents); the internal registers reached through
  \<open>RTSX_HAIMR\<close> have 16 bit addresses and 8 bit contents.
\<close>


abbreviation (input) RTSX_HCBAR :: u32 where
  "RTSX_HCBAR \<equiv> 0x0"

abbreviation (input) RTSX_HCBCTLR :: u32 where
  "RTSX_HCBCTLR \<equiv> 0x4"

abbreviation (input) RTSX_START_CMD :: u32 where
  "RTSX_START_CMD \<equiv> 0x80000000"

abbreviation (input) RTSX_HW_AUTO_RSP :: u32 where
  "RTSX_HW_AUTO_RSP \<equiv> 0x40000000"

abbreviation (input) RTSX_STOP_CMD :: u32 where
  "RTSX_STOP_CMD \<equiv> 0x10000000"

abbreviation (input) RTSX_HDBAR :: u32 where
  "RTSX_HDBAR \<equiv> 0x8"

abbreviation (input) RTSX_HDBCTLR :: u32 where
  "RTSX_HDBCTLR \<equiv> 0xC"

abbreviation (input) RTSX_TRIG_DMA :: u32 where
  "RTSX_TRIG_DMA \<equiv> 0x80000000"

abbreviation (input) RTSX_DMA_READ :: u32 where
  "RTSX_DMA_READ \<equiv> 0x20000000"

abbreviation (input) RTSX_STOP_DMA :: u32 where
  "RTSX_STOP_DMA \<equiv> 0x10000000"

abbreviation (input) RTSX_ADMA_MODE :: u32 where
  "RTSX_ADMA_MODE \<equiv> 0x8000000"

abbreviation (input) RTSX_BIPR :: u32 where
  "RTSX_BIPR \<equiv> 0x14"

abbreviation (input) RTSX_CMD_DONE_INT :: u32 where
  "RTSX_CMD_DONE_INT \<equiv> 0x80000000"

abbreviation (input) RTSX_DATA_DONE_INT :: u32 where
  "RTSX_DATA_DONE_INT \<equiv> 0x40000000"

abbreviation (input) RTSX_TRANS_OK_INT :: u32 where
  "RTSX_TRANS_OK_INT \<equiv> 0x20000000"

abbreviation (input) RTSX_TRANS_FAIL_INT :: u32 where
  "RTSX_TRANS_FAIL_INT \<equiv> 0x10000000"

abbreviation (input) RTSX_XD_INT :: u32 where
  "RTSX_XD_INT \<equiv> 0x8000000"

abbreviation (input) RTSX_MS_INT :: u32 where
  "RTSX_MS_INT \<equiv> 0x4000000"

abbreviation (input) RTSX_SD_INT :: u32 where
  "RTSX_SD_INT \<equiv> 0x2000000"

abbreviation (input) RTSX_SD_WRITE_PROTECT :: u32 where
  "RTSX_SD_WRITE_PROTECT \<equiv> 0x80000"

abbreviation (input) RTSX_XD_EXIST :: u32 where
  "RTSX_XD_EXIST \<equiv> 0x40000"

abbreviation (input) RTSX_MS_EXIST :: u32 where
  "RTSX_MS_EXIST \<equiv> 0x20000"

abbreviation (input) RTSX_SD_EXIST :: u32 where
  "RTSX_SD_EXIST \<equiv> 0x10000"

abbreviation (input) RTSX_CARD_EXIST :: u32 where
  "RTSX_CARD_EXIST \<equiv> 0x70000"

abbreviation (input) RTSX_CARD_INT :: u32 where
  "RTSX_CARD_INT \<equiv> 0xE000000"

abbreviation (input) RTSX_HAIMR :: u32 where
  "RTSX_HAIMR \<equiv> 0x10"

abbreviation (input) RTSX_HAIMR_WRITE :: u32 where
  "RTSX_HAIMR_WRITE \<equiv> 0x40000000"

abbreviation (input) RTSX_HAIMR_BUSY :: u32 where
  "RTSX_HAIMR_BUSY \<equiv> 0x80000000"

abbreviation (input) RTSX_BIER :: u32 where
  "RTSX_BIER \<equiv> 0x18"

abbreviation (input) RTSX_CMD_DONE_INT_EN :: u32 where
  "RTSX_CMD_DONE_INT_EN \<equiv> 0x80000000"

abbreviation (input) RTSX_DATA_DONE_INT_EN :: u32 where
  "RTSX_DATA_DONE_INT_EN \<equiv> 0x40000000"

abbreviation (input) RTSX_TRANS_OK_INT_EN :: u32 where
  "RTSX_TRANS_OK_INT_EN \<equiv> 0x20000000"

abbreviation (input) RTSX_TRANS_FAIL_INT_EN :: u32 where
  "RTSX_TRANS_FAIL_INT_EN \<equiv> 0x10000000"

abbreviation (input) RTSX_XD_INT_EN :: u32 where
  "RTSX_XD_INT_EN \<equiv> 0x8000000"

abbreviation (input) RTSX_MS_INT_EN :: u32 where
  "RTSX_MS_INT_EN \<equiv> 0x4000000"

abbreviation (input) RTSX_SD_INT_EN :: u32 where
  "RTSX_SD_INT_EN \<equiv> 0x2000000"

abbreviation (input) RTSX_GPIO0_INT_EN :: u32 where
  "RTSX_GPIO0_INT_EN \<equiv> 0x1000000"

abbreviation (input) RTSX_MS_OC_INT_EN :: u32 where
  "RTSX_MS_OC_INT_EN \<equiv> 0x800000"

abbreviation (input) RTSX_SD_OC_INT_EN :: u32 where
  "RTSX_SD_OC_INT_EN \<equiv> 0x400000"

abbreviation (input) RTSX_FPDCTL :: u16 where
  "RTSX_FPDCTL \<equiv> 0xFC00"

abbreviation (input) RTSX_SSC_POWER_DOWN :: u8 where
  "RTSX_SSC_POWER_DOWN \<equiv> 0x1"

abbreviation (input) RTSX_SD_OC_POWER_DOWN :: u8 where
  "RTSX_SD_OC_POWER_DOWN \<equiv> 0x2"

abbreviation (input) RTSX_MS_OC_POWER_DOWN :: u8 where
  "RTSX_MS_OC_POWER_DOWN \<equiv> 0x4"

abbreviation (input) RTSX_ALL_POWER_DOWN :: u8 where
  "RTSX_ALL_POWER_DOWN \<equiv> 0x7"

abbreviation (input) RTSX_OC_POWER_DOWN :: u8 where
  "RTSX_OC_POWER_DOWN \<equiv> 0x6"

abbreviation (input) RTSX_CARD_PWR_CTL :: u16 where
  "RTSX_CARD_PWR_CTL \<equiv> 0xFD50"

abbreviation (input) RTSX_SD_PWR_ON :: u8 where
  "RTSX_SD_PWR_ON \<equiv> 0x0"

abbreviation (input) RTSX_SD_PARTIAL_PWR_ON :: u8 where
  "RTSX_SD_PARTIAL_PWR_ON \<equiv> 0x1"

abbreviation (input) RTSX_SD_PWR_OFF :: u8 where
  "RTSX_SD_PWR_OFF \<equiv> 0x3"

abbreviation (input) RTSX_SD_PWR_MASK :: u8 where
  "RTSX_SD_PWR_MASK \<equiv> 0x3"

abbreviation (input) RTSX_PMOS_STRG_MASK :: u8 where
  "RTSX_PMOS_STRG_MASK \<equiv> 0x10"

abbreviation (input) RTSX_PMOS_STRG_400mA :: u8 where
  "RTSX_PMOS_STRG_400mA \<equiv> 0x0"

abbreviation (input) RTSX_PMOS_STRG_800mA :: u8 where
  "RTSX_PMOS_STRG_800mA \<equiv> 0x10"

abbreviation (input) RTSX_MS_PWR_OFF :: u8 where
  "RTSX_MS_PWR_OFF \<equiv> 0xC"

abbreviation (input) RTSX_MS_PWR_ON :: u8 where
  "RTSX_MS_PWR_ON \<equiv> 0x0"

abbreviation (input) RTSX_MS_PARTIAL_PWR_ON :: u8 where
  "RTSX_MS_PARTIAL_PWR_ON \<equiv> 0x4"

abbreviation (input) RTSX_CARD_SHARE_MODE :: u16 where
  "RTSX_CARD_SHARE_MODE \<equiv> 0xFD52"

abbreviation (input) RTSX_CARD_SHARE_48_XD :: u8 where
  "RTSX_CARD_SHARE_48_XD \<equiv> 0x2"

abbreviation (input) RTSX_CARD_SHARE_48_SD :: u8 where
  "RTSX_CARD_SHARE_48_SD \<equiv> 0x4"

abbreviation (input) RTSX_CARD_SHARE_48_MS :: u8 where
  "RTSX_CARD_SHARE_48_MS \<equiv> 0x8"

abbreviation (input) RTSX_CARD_DRIVE_SEL :: u16 where
  "RTSX_CARD_DRIVE_SEL \<equiv> 0xFE53"

abbreviation (input) RTSX_CARD_CLK_EN :: u16 where
  "RTSX_CARD_CLK_EN \<equiv> 0xFD69"

abbreviation (input) RTSX_XD_CLK_EN :: u8 where
  "RTSX_XD_CLK_EN \<equiv> 0x2"

abbreviation (input) RTSX_SD_CLK_EN :: u8 where
  "RTSX_SD_CLK_EN \<equiv> 0x4"

abbreviation (input) RTSX_MS_CLK_EN :: u8 where
  "RTSX_MS_CLK_EN \<equiv> 0x8"

abbreviation (input) RTSX_SPI_CLK_EN :: u8 where
  "RTSX_SPI_CLK_EN \<equiv> 0x10"

abbreviation (input) RTSX_CARD_CLK_EN_ALL :: u8 where
  "RTSX_CARD_CLK_EN_ALL \<equiv> 0x1E"

abbreviation (input) RTSX_SDIO_CTRL :: u16 where
  "RTSX_SDIO_CTRL \<equiv> 0xFD6B"

abbreviation (input) RTSX_SDIO_BUS_CTRL :: u8 where
  "RTSX_SDIO_BUS_CTRL \<equiv> 0x1"

abbreviation (input) RTSX_SDIO_CD_CTRL :: u8 where
  "RTSX_SDIO_CD_CTRL \<equiv> 0x2"

abbreviation (input) RTSX_CLK_CTL :: u16 where
  "RTSX_CLK_CTL \<equiv> 0xFC02"

abbreviation (input) RTSX_CLK_LOW_FREQ :: u8 where
  "RTSX_CLK_LOW_FREQ \<equiv> 0x1"

abbreviation (input) RTSX_CLK_DIV :: u16 where
  "RTSX_CLK_DIV \<equiv> 0xFC03"

abbreviation (input) RTSX_CLK_DIV_1 :: u8 where
  "RTSX_CLK_DIV_1 \<equiv> 0x1"

abbreviation (input) RTSX_CLK_DIV_2 :: u8 where
  "RTSX_CLK_DIV_2 \<equiv> 0x2"

abbreviation (input) RTSX_CLK_DIV_4 :: u8 where
  "RTSX_CLK_DIV_4 \<equiv> 0x3"

abbreviation (input) RTSX_CLK_DIV_8 :: u8 where
  "RTSX_CLK_DIV_8 \<equiv> 0x4"

abbreviation (input) RTSX_CLK_SEL :: u16 where
  "RTSX_CLK_SEL \<equiv> 0xFC04"

abbreviation (input) RTSX_SSC_80 :: u8 where
  "RTSX_SSC_80 \<equiv> 0x0"

abbreviation (input) RTSX_SSC_100 :: u8 where
  "RTSX_SSC_100 \<equiv> 0x1"

abbreviation (input) RTSX_SSC_120 :: u8 where
  "RTSX_SSC_120 \<equiv> 0x2"

abbreviation (input) RTSX_SSC_150 :: u8 where
  "RTSX_SSC_150 \<equiv> 0x3"

abbreviation (input) RTSX_SSC_200 :: u8 where
  "RTSX_SSC_200 \<equiv> 0x4"

abbreviation (input) RTSX_SSC_DIV_N_0 :: u16 where
  "RTSX_SSC_DIV_N_0 \<equiv> 0xFC0F"

abbreviation (input) RTSX_SSC_CTL1 :: u16 where
  "RTSX_SSC_CTL1 \<equiv> 0xFC11"

abbreviation (input) RTSX_RSTB :: u8 where
  "RTSX_RSTB \<equiv> 0x80"

abbreviation (input) RTSX_SSC_8X_EN :: u8 where
  "RTSX_SSC_8X_EN \<equiv> 0x40"

abbreviation (input) RTSX_SSC_FIX_FRAC :: u8 where
  "RTSX_SSC_FIX_FRAC \<equiv> 0x20"

abbreviation (input) RTSX_SSC_SEL_1M :: u8 where
  "RTSX_SSC_SEL_1M \<equiv> 0x0"

abbreviation (input) RTSX_SSC_SEL_2M :: u8 where
  "RTSX_SSC_SEL_2M \<equiv> 0x8"

abbreviation (input) RTSX_SSC_SEL_4M :: u8 where
  "RTSX_SSC_SEL_4M \<equiv> 0x10"

abbreviation (input) RTSX_SSC_SEL_8M :: u8 where
  "RTSX_SSC_SEL_8M \<equiv> 0x18"

abbreviation (input) RTSX_SSC_CTL2 :: u16 where
  "RTSX_SSC_CTL2 \<equiv> 0xFC12"

abbreviation (input) RTSX_SSC_DEPTH_MASK :: u8 where
  "RTSX_SSC_DEPTH_MASK \<equiv> 0x7"

abbreviation (input) RTSX_RCCTL :: u16 where
  "RTSX_RCCTL \<equiv> 0xFC14"

abbreviation (input) RTSX_RCCTL_F_400K :: u8 where
  "RTSX_RCCTL_F_400K \<equiv> 0x0"

abbreviation (input) RTSX_RCCTL_F_2M :: u8 where
  "RTSX_RCCTL_F_2M \<equiv> 0x1"

abbreviation (input) RTSX_OLT_LED_CTL :: u16 where
  "RTSX_OLT_LED_CTL \<equiv> 0xFC1E"

abbreviation (input) RTSX_OLT_LED_PERIOD :: u8 where
  "RTSX_OLT_LED_PERIOD \<equiv> 0x2"

abbreviation (input) RTSX_OLT_LED_AUTOBLINK :: u8 where
  "RTSX_OLT_LED_AUTOBLINK \<equiv> 0x8"

abbreviation (input) RTSX_GPIO_CTL :: u16 where
  "RTSX_GPIO_CTL \<equiv> 0xFC1F"

abbreviation (input) RTSX_GPIO_LED_ON :: u8 where
  "RTSX_GPIO_LED_ON \<equiv> 0x2"

abbreviation (input) RTSX_READ_REG_CMD :: u8 where
  "RTSX_READ_REG_CMD \<equiv> 0x0"

abbreviation (input) RTSX_WRITE_REG_CMD :: u8 where
  "RTSX_WRITE_REG_CMD \<equiv> 0x1"

abbreviation (input) RTSX_CHECK_REG_CMD :: u8 where
  "RTSX_CHECK_REG_CMD \<equiv> 0x2"

abbreviation (input) RTSX_OCPCTL :: u16 where
  "RTSX_OCPCTL \<equiv> 0xFC15"

abbreviation (input) RTSX_OCPSTAT :: u16 where
  "RTSX_OCPSTAT \<equiv> 0xFC16"

abbreviation (input) RTSX_OCPGLITCH :: u16 where
  "RTSX_OCPGLITCH \<equiv> 0xFC17"

abbreviation (input) RTSX_OCPPARA1 :: u16 where
  "RTSX_OCPPARA1 \<equiv> 0xFC18"

abbreviation (input) RTSX_OCPPARA2 :: u16 where
  "RTSX_OCPPARA2 \<equiv> 0xFC19"

abbreviation (input) RTSX_FPGA_PULL_CTL :: u16 where
  "RTSX_FPGA_PULL_CTL \<equiv> 0xFC1D"

abbreviation (input) RTSX_FPGA_MS_PULL_CTL_BIT :: u8 where
  "RTSX_FPGA_MS_PULL_CTL_BIT \<equiv> 0x10"

abbreviation (input) RTSX_FPGA_SD_PULL_CTL_BIT :: u8 where
  "RTSX_FPGA_SD_PULL_CTL_BIT \<equiv> 0x8"

abbreviation (input) RTSX_CARD_CLK_SOURCE :: u16 where
  "RTSX_CARD_CLK_SOURCE \<equiv> 0xFC2E"

abbreviation (input) RTSX_CRC_FIX_CLK :: u8 where
  "RTSX_CRC_FIX_CLK \<equiv> 0x0"

abbreviation (input) RTSX_CRC_VAR_CLK0 :: u8 where
  "RTSX_CRC_VAR_CLK0 \<equiv> 0x1"

abbreviation (input) RTSX_CRC_VAR_CLK1 :: u8 where
  "RTSX_CRC_VAR_CLK1 \<equiv> 0x2"

abbreviation (input) RTSX_SD30_FIX_CLK :: u8 where
  "RTSX_SD30_FIX_CLK \<equiv> 0x0"

abbreviation (input) RTSX_SD30_VAR_CLK0 :: u8 where
  "RTSX_SD30_VAR_CLK0 \<equiv> 0x4"

abbreviation (input) RTSX_SD30_VAR_CLK1 :: u8 where
  "RTSX_SD30_VAR_CLK1 \<equiv> 0x8"

abbreviation (input) RTSX_SAMPLE_FIX_CLK :: u8 where
  "RTSX_SAMPLE_FIX_CLK \<equiv> 0x0"

abbreviation (input) RTSX_SAMPLE_VAR_CLK0 :: u8 where
  "RTSX_SAMPLE_VAR_CLK0 \<equiv> 0x10"

abbreviation (input) RTSX_SAMPLE_VAR_CLK1 :: u8 where
  "RTSX_SAMPLE_VAR_CLK1 \<equiv> 0x20"

abbreviation (input) RTSX_CARD_PULL_CTL1 :: u16 where
  "RTSX_CARD_PULL_CTL1 \<equiv> 0xFD60"

abbreviation (input) RTSX_CARD_PULL_CTL2 :: u16 where
  "RTSX_CARD_PULL_CTL2 \<equiv> 0xFD61"

abbreviation (input) RTSX_CARD_PULL_CTL3 :: u16 where
  "RTSX_CARD_PULL_CTL3 \<equiv> 0xFD62"

abbreviation (input) RTSX_PULL_CTL_DISABLE12 :: u8 where
  "RTSX_PULL_CTL_DISABLE12 \<equiv> 0x55"

abbreviation (input) RTSX_PULL_CTL_DISABLE3 :: u8 where
  "RTSX_PULL_CTL_DISABLE3 \<equiv> 0xD5"

abbreviation (input) RTSX_PULL_CTL_DISABLE3_TYPE_C :: u8 where
  "RTSX_PULL_CTL_DISABLE3_TYPE_C \<equiv> 0xE5"

abbreviation (input) RTSX_PULL_CTL_ENABLE12 :: u8 where
  "RTSX_PULL_CTL_ENABLE12 \<equiv> 0xAA"

abbreviation (input) RTSX_PULL_CTL_ENABLE3 :: u8 where
  "RTSX_PULL_CTL_ENABLE3 \<equiv> 0xE9"

abbreviation (input) RTSX_PULL_CTL_ENABLE3_TYPE_C :: u8 where
  "RTSX_PULL_CTL_ENABLE3_TYPE_C \<equiv> 0xD9"

abbreviation (input) RTSX_SD_CFG1 :: u16 where
  "RTSX_SD_CFG1 \<equiv> 0xFDA0"

abbreviation (input) RTSX_CLK_DIVIDE_0 :: u8 where
  "RTSX_CLK_DIVIDE_0 \<equiv> 0x0"

abbreviation (input) RTSX_CLK_DIVIDE_128 :: u8 where
  "RTSX_CLK_DIVIDE_128 \<equiv> 0x80"

abbreviation (input) RTSX_CLK_DIVIDE_256 :: u8 where
  "RTSX_CLK_DIVIDE_256 \<equiv> 0xC0"

abbreviation (input) RTSX_CLK_DIVIDE_MASK :: u8 where
  "RTSX_CLK_DIVIDE_MASK \<equiv> 0xC0"

abbreviation (input) RTSX_SD20_MODE :: u8 where
  "RTSX_SD20_MODE \<equiv> 0x0"

abbreviation (input) RTSX_SDDDR_MODE :: u8 where
  "RTSX_SDDDR_MODE \<equiv> 0x4"

abbreviation (input) RTSX_SD30_MODE :: u8 where
  "RTSX_SD30_MODE \<equiv> 0x8"

abbreviation (input) RTSX_SD_MODE_MASK :: u8 where
  "RTSX_SD_MODE_MASK \<equiv> 0xC"

abbreviation (input) RTSX_BUS_WIDTH_1 :: u8 where
  "RTSX_BUS_WIDTH_1 \<equiv> 0x0"

abbreviation (input) RTSX_BUS_WIDTH_4 :: u8 where
  "RTSX_BUS_WIDTH_4 \<equiv> 0x1"

abbreviation (input) RTSX_BUS_WIDTH_8 :: u8 where
  "RTSX_BUS_WIDTH_8 \<equiv> 0x2"

abbreviation (input) RTSX_BUS_WIDTH_MASK :: u8 where
  "RTSX_BUS_WIDTH_MASK \<equiv> 0x3"

abbreviation (input) RTSX_SD_CFG2 :: u16 where
  "RTSX_SD_CFG2 \<equiv> 0xFDA1"

abbreviation (input) RTSX_SD_CALCULATE_CRC7 :: u8 where
  "RTSX_SD_CALCULATE_CRC7 \<equiv> 0x0"

abbreviation (input) RTSX_SD_NO_CALCULATE_CRC7 :: u8 where
  "RTSX_SD_NO_CALCULATE_CRC7 \<equiv> 0x80"

abbreviation (input) RTSX_SD_CHECK_CRC16 :: u8 where
  "RTSX_SD_CHECK_CRC16 \<equiv> 0x0"

abbreviation (input) RTSX_SD_NO_CHECK_CRC16 :: u8 where
  "RTSX_SD_NO_CHECK_CRC16 \<equiv> 0x40"

abbreviation (input) RTSX_SD_NO_CHECK_WAIT_CRC_TO :: u8 where
  "RTSX_SD_NO_CHECK_WAIT_CRC_TO \<equiv> 0x20"

abbreviation (input) RTSX_SD_WAIT_BUSY_END :: u8 where
  "RTSX_SD_WAIT_BUSY_END \<equiv> 0x8"

abbreviation (input) RTSX_SD_NO_WAIT_BUSY_END :: u8 where
  "RTSX_SD_NO_WAIT_BUSY_END \<equiv> 0x0"

abbreviation (input) RTSX_SD_CHECK_CRC7 :: u8 where
  "RTSX_SD_CHECK_CRC7 \<equiv> 0x0"

abbreviation (input) RTSX_SD_NO_CHECK_CRC7 :: u8 where
  "RTSX_SD_NO_CHECK_CRC7 \<equiv> 0x4"

abbreviation (input) RTSX_SD_RSP_LEN_0 :: u8 where
  "RTSX_SD_RSP_LEN_0 \<equiv> 0x0"

abbreviation (input) RTSX_SD_RSP_LEN_6 :: u8 where
  "RTSX_SD_RSP_LEN_6 \<equiv> 0x1"

abbreviation (input) RTSX_SD_RSP_LEN_17 :: u8 where
  "RTSX_SD_RSP_LEN_17 \<equiv> 0x2"

abbreviation (input) RTSX_SD_RSP_TYPE_R0 :: u8 where
  "RTSX_SD_RSP_TYPE_R0 \<equiv> 0x4"

abbreviation (input) RTSX_SD_RSP_TYPE_R1 :: u8 where
  "RTSX_SD_RSP_TYPE_R1 \<equiv> 0x1"

abbreviation (input) RTSX_SD_RSP_TYPE_R1B :: u8 where
  "RTSX_SD_RSP_TYPE_R1B \<equiv> 0x9"

abbreviation (input) RTSX_SD_RSP_TYPE_R2 :: u8 where
  "RTSX_SD_RSP_TYPE_R2 \<equiv> 0x2"

abbreviation (input) RTSX_SD_RSP_TYPE_R3 :: u8 where
  "RTSX_SD_RSP_TYPE_R3 \<equiv> 0x5"

abbreviation (input) RTSX_SD_RSP_TYPE_R4 :: u8 where
  "RTSX_SD_RSP_TYPE_R4 \<equiv> 0x5"

abbreviation (input) RTSX_SD_RSP_TYPE_R5 :: u8 where
  "RTSX_SD_RSP_TYPE_R5 \<equiv> 0x1"

abbreviation (input) RTSX_SD_RSP_TYPE_R6 :: u8 where
  "RTSX_SD_RSP_TYPE_R6 \<equiv> 0x1"

abbreviation (input) RTSX_SD_RSP_TYPE_R7 :: u8 where
  "RTSX_SD_RSP_TYPE_R7 \<equiv> 0x1"

abbreviation (input) RTSX_SD_STAT1 :: u16 where
  "RTSX_SD_STAT1 \<equiv> 0xFDA3"

abbreviation (input) RTSX_SD_CRC7_ERR :: u8 where
  "RTSX_SD_CRC7_ERR \<equiv> 0x80"

abbreviation (input) RTSX_SD_CRC16_ERR :: u8 where
  "RTSX_SD_CRC16_ERR \<equiv> 0x40"

abbreviation (input) RTSX_SD_CRC_WRITE_ERR :: u8 where
  "RTSX_SD_CRC_WRITE_ERR \<equiv> 0x20"

abbreviation (input) RTSX_SD_CRC_WRITE_ERR_MASK :: u8 where
  "RTSX_SD_CRC_WRITE_ERR_MASK \<equiv> 0x1C"

abbreviation (input) RTSX_GET_CRC_TIME_OUT :: u8 where
  "RTSX_GET_CRC_TIME_OUT \<equiv> 0x2"

abbreviation (input) RTSX_SD_TUNING_COMPARE_ERR :: u8 where
  "RTSX_SD_TUNING_COMPARE_ERR \<equiv> 0x1"

abbreviation (input) RTSX_SD_STAT2 :: u16 where
  "RTSX_SD_STAT2 \<equiv> 0xFDA4"

abbreviation (input) RTSX_SD_RSP_80CLK_TIMEOUT :: u8 where
  "RTSX_SD_RSP_80CLK_TIMEOUT \<equiv> 0x1"

abbreviation (input) RTSX_SD_CRC_ERR :: u8 where
  "RTSX_SD_CRC_ERR \<equiv> 0xE0"

abbreviation (input) RTSX_SD_BUS_STAT :: u16 where
  "RTSX_SD_BUS_STAT \<equiv> 0xFDA5"

abbreviation (input) RTSX_SD_CLK_TOGGLE_EN :: u8 where
  "RTSX_SD_CLK_TOGGLE_EN \<equiv> 0x80"

abbreviation (input) RTSX_SD_CLK_FORCE_STOP :: u8 where
  "RTSX_SD_CLK_FORCE_STOP \<equiv> 0x40"

abbreviation (input) RTSX_SD_DAT3_STATUS :: u8 where
  "RTSX_SD_DAT3_STATUS \<equiv> 0x10"

abbreviation (input) RTSX_SD_DAT2_STATUS :: u8 where
  "RTSX_SD_DAT2_STATUS \<equiv> 0x8"

abbreviation (input) RTSX_SD_DAT1_STATUS :: u8 where
  "RTSX_SD_DAT1_STATUS \<equiv> 0x4"

abbreviation (input) RTSX_SD_DAT0_STATUS :: u8 where
  "RTSX_SD_DAT0_STATUS \<equiv> 0x2"

abbreviation (input) RTSX_SD_CMD_STATUS :: u8 where
  "RTSX_SD_CMD_STATUS \<equiv> 0x1"

abbreviation (input) RTSX_SD_PAD_CTL :: u16 where
  "RTSX_SD_PAD_CTL \<equiv> 0xFDA6"

abbreviation (input) RTSX_SD_IO_USING_1V8 :: u8 where
  "RTSX_SD_IO_USING_1V8 \<equiv> 0x80"

abbreviation (input) RTSX_SD_SAMPLE_POINT_CTL :: u16 where
  "RTSX_SD_SAMPLE_POINT_CTL \<equiv> 0xFDA7"

abbreviation (input) RTSX_DDR_FIX_RX_DAT :: u8 where
  "RTSX_DDR_FIX_RX_DAT \<equiv> 0x0"

abbreviation (input) RTSX_DDR_VAR_RX_DAT :: u8 where
  "RTSX_DDR_VAR_RX_DAT \<equiv> 0x80"

abbreviation (input) RTSX_DDR_FIX_RX_DAT_EDGE :: u8 where
  "RTSX_DDR_FIX_RX_DAT_EDGE \<equiv> 0x0"

abbreviation (input) RTSX_DDR_FIX_RX_DAT_14_DELAY :: u8 where
  "RTSX_DDR_FIX_RX_DAT_14_DELAY \<equiv> 0x40"

abbreviation (input) RTSX_DDR_FIX_RX_CMD :: u8 where
  "RTSX_DDR_FIX_RX_CMD \<equiv> 0x0"

abbreviation (input) RTSX_DDR_VAR_RX_CMD :: u8 where
  "RTSX_DDR_VAR_RX_CMD \<equiv> 0x20"

abbreviation (input) RTSX_DDR_FIX_RX_CMD_POS_EDGE :: u8 where
  "RTSX_DDR_FIX_RX_CMD_POS_EDGE \<equiv> 0x0"

abbreviation (input) RTSX_DDR_FIX_RX_CMD_14_DELAY :: u8 where
  "RTSX_DDR_FIX_RX_CMD_14_DELAY \<equiv> 0x10"

abbreviation (input) RTSX_SD20_RX_POS_EDGE :: u8 where
  "RTSX_SD20_RX_POS_EDGE \<equiv> 0x0"

abbreviation (input) RTSX_SD20_RX_14_DELAY :: u8 where
  "RTSX_SD20_RX_14_DELAY \<equiv> 0x8"

abbreviation (input) RTSX_SD20_RX_SEL_MASK :: u8 where
  "RTSX_SD20_RX_SEL_MASK \<equiv> 0x8"

abbreviation (input) RTSX_SD_PUSH_POINT_CTL :: u16 where
  "RTSX_SD_PUSH_POINT_CTL \<equiv> 0xFDA8"

abbreviation (input) RTSX_SD20_TX_NEG_EDGE :: u8 where
  "RTSX_SD20_TX_NEG_EDGE \<equiv> 0x0"

abbreviation (input) RTSX_SD_CMD0 :: u16 where
  "RTSX_SD_CMD0 \<equiv> 0xFDA9"

abbreviation (input) RTSX_SD_CMD1 :: u16 where
  "RTSX_SD_CMD1 \<equiv> 0xFDAA"

abbreviation (input) RTSX_SD_CMD2 :: u16 where
  "RTSX_SD_CMD2 \<equiv> 0xFDAB"

abbreviation (input) RTSX_SD_CMD3 :: u16 where
  "RTSX_SD_CMD3 \<equiv> 0xFDAC"

abbreviation (input) RTSX_SD_CMD4 :: u16 where
  "RTSX_SD_CMD4 \<equiv> 0xFDAD"

abbreviation (input) RTSX_SD_CMD5 :: u16 where
  "RTSX_SD_CMD5 \<equiv> 0xFDAE"

abbreviation (input) RTSX_SD_BYTE_CNT_L :: u16 where
  "RTSX_SD_BYTE_CNT_L \<equiv> 0xFDAF"

abbreviation (input) RTSX_SD_BYTE_CNT_H :: u16 where
  "RTSX_SD_BYTE_CNT_H \<equiv> 0xFDB0"

abbreviation (input) RTSX_SD_BLOCK_CNT_L :: u16 where
  "RTSX_SD_BLOCK_CNT_L \<equiv> 0xFDB1"

abbreviation (input) RTSX_SD_BLOCK_CNT_H :: u16 where
  "RTSX_SD_BLOCK_CNT_H \<equiv> 0xFDB2"

abbreviation (input) RTSX_SD_TRANSFER :: u16 where
  "RTSX_SD_TRANSFER \<equiv> 0xFDB3"

abbreviation (input) RTSX_TM_NORMAL_WRITE :: u8 where
  "RTSX_TM_NORMAL_WRITE \<equiv> 0x0"

abbreviation (input) RTSX_TM_AUTO_WRITE3 :: u8 where
  "RTSX_TM_AUTO_WRITE3 \<equiv> 0x1"

abbreviation (input) RTSX_TM_AUTO_WRITE4 :: u8 where
  "RTSX_TM_AUTO_WRITE4 \<equiv> 0x2"

abbreviation (input) RTSX_TM_AUTO_READ3 :: u8 where
  "RTSX_TM_AUTO_READ3 \<equiv> 0x5"

abbreviation (input) RTSX_TM_AUTO_READ4 :: u8 where
  "RTSX_TM_AUTO_READ4 \<equiv> 0x6"

abbreviation (input) RTSX_TM_CMD_RSP :: u8 where
  "RTSX_TM_CMD_RSP \<equiv> 0x8"

abbreviation (input) RTSX_TM_AUTO_WRITE1 :: u8 where
  "RTSX_TM_AUTO_WRITE1 \<equiv> 0x9"

abbreviation (input) RTSX_TM_AUTO_WRITE2 :: u8 where
  "RTSX_TM_AUTO_WRITE2 \<equiv> 0xA"

abbreviation (input) RTSX_TM_NORMAL_READ :: u8 where
  "RTSX_TM_NORMAL_READ \<equiv> 0xC"

abbreviation (input) RTSX_TM_AUTO_READ1 :: u8 where
  "RTSX_TM_AUTO_READ1 \<equiv> 0xD"

abbreviation (input) RTSX_TM_AUTO_READ2 :: u8 where
  "RTSX_TM_AUTO_READ2 \<equiv> 0xE"

abbreviation (input) RTSX_TM_AUTO_TUNING :: u8 where
  "RTSX_TM_AUTO_TUNING \<equiv> 0xF"

abbreviation (input) RTSX_SD_TRANSFER_START :: u8 where
  "RTSX_SD_TRANSFER_START \<equiv> 0x80"

abbreviation (input) RTSX_SD_TRANSFER_END :: u8 where
  "RTSX_SD_TRANSFER_END \<equiv> 0x40"

abbreviation (input) RTSX_SD_STAT_IDLE :: u8 where
  "RTSX_SD_STAT_IDLE \<equiv> 0x20"

abbreviation (input) RTSX_SD_TRANSFER_ERR :: u8 where
  "RTSX_SD_TRANSFER_ERR \<equiv> 0x10"

abbreviation (input) RTSX_SD_CMD_STATE :: u16 where
  "RTSX_SD_CMD_STATE \<equiv> 0xFDB5"

abbreviation (input) RTSX_SD_DATA_STATE :: u16 where
  "RTSX_SD_DATA_STATE \<equiv> 0xFDB6"

abbreviation (input) RTSX_CARD_STOP :: u16 where
  "RTSX_CARD_STOP \<equiv> 0xFD54"

abbreviation (input) RTSX_SPI_STOP :: u8 where
  "RTSX_SPI_STOP \<equiv> 0x1"

abbreviation (input) RTSX_XD_STOP :: u8 where
  "RTSX_XD_STOP \<equiv> 0x2"

abbreviation (input) RTSX_SD_STOP :: u8 where
  "RTSX_SD_STOP \<equiv> 0x4"

abbreviation (input) RTSX_MS_STOP :: u8 where
  "RTSX_MS_STOP \<equiv> 0x8"

abbreviation (input) RTSX_SPI_CLR_ERR :: u8 where
  "RTSX_SPI_CLR_ERR \<equiv> 0x10"

abbreviation (input) RTSX_XD_CLR_ERR :: u8 where
  "RTSX_XD_CLR_ERR \<equiv> 0x20"

abbreviation (input) RTSX_SD_CLR_ERR :: u8 where
  "RTSX_SD_CLR_ERR \<equiv> 0x40"

abbreviation (input) RTSX_MS_CLR_ERR :: u8 where
  "RTSX_MS_CLR_ERR \<equiv> 0x80"

abbreviation (input) RTSX_ALL_STOP :: u8 where
  "RTSX_ALL_STOP \<equiv> 0xF"

abbreviation (input) RTSX_ALL_CLR_ERR :: u8 where
  "RTSX_ALL_CLR_ERR \<equiv> 0xF0"

abbreviation (input) RTSX_CARD_OE :: u16 where
  "RTSX_CARD_OE \<equiv> 0xFD55"

abbreviation (input) RTSX_XD_OUTPUT_EN :: u8 where
  "RTSX_XD_OUTPUT_EN \<equiv> 0x2"

abbreviation (input) RTSX_SD_OUTPUT_EN :: u8 where
  "RTSX_SD_OUTPUT_EN \<equiv> 0x4"

abbreviation (input) RTSX_MS_OUTPUT_EN :: u8 where
  "RTSX_MS_OUTPUT_EN \<equiv> 0x8"

abbreviation (input) RTSX_SPI_OUTPUT_EN :: u8 where
  "RTSX_SPI_OUTPUT_EN \<equiv> 0x10"

abbreviation (input) RTSX_CARD_OUTPUT_EN :: u8 where
  "RTSX_CARD_OUTPUT_EN \<equiv> 0xE"

abbreviation (input) RTSX_CARD_DATA_SOURCE :: u16 where
  "RTSX_CARD_DATA_SOURCE \<equiv> 0xFD5B"

abbreviation (input) RTSX_RING_BUFFER :: u8 where
  "RTSX_RING_BUFFER \<equiv> 0x0"

abbreviation (input) RTSX_PINGPONG_BUFFER :: u8 where
  "RTSX_PINGPONG_BUFFER \<equiv> 0x1"

abbreviation (input) RTSX_CARD_SELECT :: u16 where
  "RTSX_CARD_SELECT \<equiv> 0xFD5C"

abbreviation (input) RTSX_XD_MOD_SEL :: u8 where
  "RTSX_XD_MOD_SEL \<equiv> 0x1"

abbreviation (input) RTSX_SD_MOD_SEL :: u8 where
  "RTSX_SD_MOD_SEL \<equiv> 0x2"

abbreviation (input) RTSX_MS_MOD_SEL :: u8 where
  "RTSX_MS_MOD_SEL \<equiv> 0x3"

abbreviation (input) RTSX_SPI_MOD_SEL :: u8 where
  "RTSX_SPI_MOD_SEL \<equiv> 0x4"

abbreviation (input) RTSX_CARD_GPIO_DIR :: u16 where
  "RTSX_CARD_GPIO_DIR \<equiv> 0xFD57"

abbreviation (input) RTSX_CARD_GPIO :: u16 where
  "RTSX_CARD_GPIO \<equiv> 0xFD58"

abbreviation (input) RTSX_CARD_GPIO_LED_OFF :: u8 where
  "RTSX_CARD_GPIO_LED_OFF \<equiv> 0x1"

abbreviation (input) RTSX_PPBUF_BASE2 :: u16 where
  "RTSX_PPBUF_BASE2 \<equiv> 0xFA00"

abbreviation (input) RTSX_PPBUF_SIZE :: nat where
  "RTSX_PPBUF_SIZE \<equiv> 256"

abbreviation (input) RTSX_IRQEN0 :: u16 where
  "RTSX_IRQEN0 \<equiv> 0xFE20"

abbreviation (input) RTSX_LINK_DOWN_INT_EN :: u8 where
  "RTSX_LINK_DOWN_INT_EN \<equiv> 0x10"

abbreviation (input) RTSX_LINK_READY_INT_EN :: u8 where
  "RTSX_LINK_READY_INT_EN \<equiv> 0x20"

abbreviation (input) RTSX_SUSPEND_INT_EN :: u8 where
  "RTSX_SUSPEND_INT_EN \<equiv> 0x40"

abbreviation (input) RTSX_DMA_DONE_INT_EN :: u8 where
  "RTSX_DMA_DONE_INT_EN \<equiv> 0x80"

abbreviation (input) RTSX_IRQSTAT0 :: u16 where
  "RTSX_IRQSTAT0 \<equiv> 0xFE21"

abbreviation (input) RTSX_LINK_DOWN_INT :: u8 where
  "RTSX_LINK_DOWN_INT \<equiv> 0x10"

abbreviation (input) RTSX_LINK_READY_INT :: u8 where
  "RTSX_LINK_READY_INT \<equiv> 0x20"

abbreviation (input) RTSX_SUSPEND_INT :: u8 where
  "RTSX_SUSPEND_INT \<equiv> 0x40"

abbreviation (input) RTSX_DMA_DONE_INT :: u8 where
  "RTSX_DMA_DONE_INT \<equiv> 0x80"

abbreviation (input) RTSX_DMATC0 :: u16 where
  "RTSX_DMATC0 \<equiv> 0xFE28"

abbreviation (input) RTSX_DMATC1 :: u16 where
  "RTSX_DMATC1 \<equiv> 0xFE29"

abbreviation (input) RTSX_DMATC2 :: u16 where
  "RTSX_DMATC2 \<equiv> 0xFE2A"

abbreviation (input) RTSX_DMATC3 :: u16 where
  "RTSX_DMATC3 \<equiv> 0xFE2B"

abbreviation (input) RTSX_DMACTL :: u16 where
  "RTSX_DMACTL \<equiv> 0xFE2C"

abbreviation (input) RTSX_DMA_DIR_TO_CARD :: u8 where
  "RTSX_DMA_DIR_TO_CARD \<equiv> 0x0"

abbreviation (input) RTSX_DMA_EN :: u8 where
  "RTSX_DMA_EN \<equiv> 0x1"

abbreviation (input) RTSX_DMA_DIR_FROM_CARD :: u8 where
  "RTSX_DMA_DIR_FROM_CARD \<equiv> 0x2"

abbreviation (input) RTSX_DMA_BUSY :: u8 where
  "RTSX_DMA_BUSY \<equiv> 0x4"

abbreviation (input) RTSX_DMA_RST :: u8 where
  "RTSX_DMA_RST \<equiv> 0x80"

abbreviation (input) RTSX_DMA_128 :: u8 where
  "RTSX_DMA_128 \<equiv> 0x0"

abbreviation (input) RTSX_DMA_256 :: u8 where
  "RTSX_DMA_256 \<equiv> 0x10"

abbreviation (input) RTSX_DMA_512 :: u8 where
  "RTSX_DMA_512 \<equiv> 0x20"

abbreviation (input) RTSX_DMA_1024 :: u8 where
  "RTSX_DMA_1024 \<equiv> 0x30"

abbreviation (input) RTSX_DMA_PACK_SIZE_MASK :: u8 where
  "RTSX_DMA_PACK_SIZE_MASK \<equiv> 0x30"

abbreviation (input) RTSX_RBCTL :: u16 where
  "RTSX_RBCTL \<equiv> 0xFE34"

abbreviation (input) RTSX_RB_FLUSH :: u8 where
  "RTSX_RB_FLUSH \<equiv> 0x80"

abbreviation (input) RTSX_CFGADDR0 :: u16 where
  "RTSX_CFGADDR0 \<equiv> 0xFE35"

abbreviation (input) RTSX_CFGADDR1 :: u16 where
  "RTSX_CFGADDR1 \<equiv> 0xFE36"

abbreviation (input) RTSX_CFGDATA0 :: u16 where
  "RTSX_CFGDATA0 \<equiv> 0xFE37"

abbreviation (input) RTSX_CFGDATA1 :: u16 where
  "RTSX_CFGDATA1 \<equiv> 0xFE38"

abbreviation (input) RTSX_CFGDATA2 :: u16 where
  "RTSX_CFGDATA2 \<equiv> 0xFE39"

abbreviation (input) RTSX_CFGDATA3 :: u16 where
  "RTSX_CFGDATA3 \<equiv> 0xFE3A"

abbreviation (input) RTSX_CFGRWCTL :: u16 where
  "RTSX_CFGRWCTL \<equiv> 0xFE3B"

abbreviation (input) RTSX_CFG_WRITE_DATA0 :: u8 where
  "RTSX_CFG_WRITE_DATA0 \<equiv> 0x1"

abbreviation (input) RTSX_CFG_WRITE_DATA1 :: u8 where
  "RTSX_CFG_WRITE_DATA1 \<equiv> 0x2"

abbreviation (input) RTSX_CFG_WRITE_DATA2 :: u8 where
  "RTSX_CFG_WRITE_DATA2 \<equiv> 0x4"

abbreviation (input) RTSX_CFG_WRITE_DATA3 :: u8 where
  "RTSX_CFG_WRITE_DATA3 \<equiv> 0x8"

abbreviation (input) RTSX_CFG_BUSY :: u8 where
  "RTSX_CFG_BUSY \<equiv> 0x80"

abbreviation (input) RTSX_SDIOCFG_REG :: u16 where
  "RTSX_SDIOCFG_REG \<equiv> 0x724"

abbreviation (input) RTSX_SDIOCFG_NO_BYPASS_SDIO :: u8 where
  "RTSX_SDIOCFG_NO_BYPASS_SDIO \<equiv> 0x2"

abbreviation (input) RTSX_SDIOCFG_HAVE_SDIO :: u8 where
  "RTSX_SDIOCFG_HAVE_SDIO \<equiv> 0x4"

abbreviation (input) RTSX_SDIOCFG_SINGLE_LUN :: u8 where
  "RTSX_SDIOCFG_SINGLE_LUN \<equiv> 0x8"

abbreviation (input) RTSX_SDIOCFG_SDIO_ONLY :: u8 where
  "RTSX_SDIOCFG_SDIO_ONLY \<equiv> 0x80"

abbreviation (input) RTSX_HOST_SLEEP_STATE :: u16 where
  "RTSX_HOST_SLEEP_STATE \<equiv> 0xFE60"

abbreviation (input) RTSX_HOST_ENTER_S1 :: u8 where
  "RTSX_HOST_ENTER_S1 \<equiv> 0x1"

abbreviation (input) RTSX_HOST_ENTER_S3 :: u8 where
  "RTSX_HOST_ENTER_S3 \<equiv> 0x2"

abbreviation (input) RTSX_SDIO_CFG :: u16 where
  "RTSX_SDIO_CFG \<equiv> 0xFE70"

abbreviation (input) RTSX_SDIO_BUS_AUTO_SWITCH :: u8 where
  "RTSX_SDIO_BUS_AUTO_SWITCH \<equiv> 0x10"

abbreviation (input) RTSX_NFTS_TX_CTRL :: u16 where
  "RTSX_NFTS_TX_CTRL \<equiv> 0xFE72"

abbreviation (input) RTSX_INT_READ_CLR :: u8 where
  "RTSX_INT_READ_CLR \<equiv> 0x2"

abbreviation (input) RTSX_PWR_GATE_CTRL :: u16 where
  "RTSX_PWR_GATE_CTRL \<equiv> 0xFE75"

abbreviation (input) RTSX_PWR_GATE_EN :: u8 where
  "RTSX_PWR_GATE_EN \<equiv> 0x1"

abbreviation (input) RTSX_LDO3318_ON :: u8 where
  "RTSX_LDO3318_ON \<equiv> 0x0"

abbreviation (input) RTSX_LDO3318_SUSPEND :: u8 where
  "RTSX_LDO3318_SUSPEND \<equiv> 0x4"

abbreviation (input) RTSX_LDO3318_OFF :: u8 where
  "RTSX_LDO3318_OFF \<equiv> 0x6"

abbreviation (input) RTSX_LDO3318_VCC1 :: u8 where
  "RTSX_LDO3318_VCC1 \<equiv> 0x2"

abbreviation (input) RTSX_LDO3318_VCC2 :: u8 where
  "RTSX_LDO3318_VCC2 \<equiv> 0x4"

abbreviation (input) RTSX_PWD_SUSPEND_EN :: u16 where
  "RTSX_PWD_SUSPEND_EN \<equiv> 0xFE76"

abbreviation (input) RTSX_LDO_PWR_SEL :: u16 where
  "RTSX_LDO_PWR_SEL \<equiv> 0xFE78"

abbreviation (input) RTSX_LDO_PWR_SEL_3V3 :: u8 where
  "RTSX_LDO_PWR_SEL_3V3 \<equiv> 0x1"

abbreviation (input) RTSX_LDO_PWR_SEL_DV33 :: u8 where
  "RTSX_LDO_PWR_SEL_DV33 \<equiv> 0x3"

abbreviation (input) RTSX_PHY_RWCTL :: u16 where
  "RTSX_PHY_RWCTL \<equiv> 0xFE3C"

abbreviation (input) RTSX_PHY_READ :: u8 where
  "RTSX_PHY_READ \<equiv> 0x0"

abbreviation (input) RTSX_PHY_WRITE :: u8 where
  "RTSX_PHY_WRITE \<equiv> 0x1"

abbreviation (input) RTSX_PHY_BUSY :: u8 where
  "RTSX_PHY_BUSY \<equiv> 0x80"

abbreviation (input) RTSX_PHY_DATA0 :: u16 where
  "RTSX_PHY_DATA0 \<equiv> 0xFE3D"

abbreviation (input) RTSX_PHY_DATA1 :: u16 where
  "RTSX_PHY_DATA1 \<equiv> 0xFE3E"

abbreviation (input) RTSX_PHY_ADDR :: u16 where
  "RTSX_PHY_ADDR \<equiv> 0xFE3F"

abbreviation (input) RTSX_PHY_VOLTAGE :: u8 where
  "RTSX_PHY_VOLTAGE \<equiv> 0x8"

abbreviation (input) RTSX_PHY_VOLTAGE_MASK :: u8 where
  "RTSX_PHY_VOLTAGE_MASK \<equiv> 0x3F"

abbreviation (input) RTSX_PETXCFG :: u16 where
  "RTSX_PETXCFG \<equiv> 0xFF03"

abbreviation (input) RTSX_PETXCFG_CLKREQ_PIN :: u8 where
  "RTSX_PETXCFG_CLKREQ_PIN \<equiv> 0x8"

abbreviation (input) RTSX_CARD_AUTO_BLINK :: u16 where
  "RTSX_CARD_AUTO_BLINK \<equiv> 0xFD56"

abbreviation (input) RTSX_LED_BLINK_EN :: u8 where
  "RTSX_LED_BLINK_EN \<equiv> 0x8"

abbreviation (input) RTSX_LED_BLINK_SPEED :: u8 where
  "RTSX_LED_BLINK_SPEED \<equiv> 0x5"

abbreviation (input) RTSX_WAKE_SEL_CTL :: u16 where
  "RTSX_WAKE_SEL_CTL \<equiv> 0xFE54"

abbreviation (input) RTSX_PME_FORCE_CTL :: u16 where
  "RTSX_PME_FORCE_CTL \<equiv> 0xFE56"

abbreviation (input) RTSX_CHANGE_LINK_STATE :: u16 where
  "RTSX_CHANGE_LINK_STATE \<equiv> 0xFE5B"

abbreviation (input) RTSX_CD_RST_CORE_EN :: u8 where
  "RTSX_CD_RST_CORE_EN \<equiv> 0x1"

abbreviation (input) RTSX_FORCE_RST_CORE_EN :: u8 where
  "RTSX_FORCE_RST_CORE_EN \<equiv> 0x2"

abbreviation (input) RTSX_NON_STICKY_RST_N_DBG :: u8 where
  "RTSX_NON_STICKY_RST_N_DBG \<equiv> 0x8"

abbreviation (input) RTSX_MAC_PHY_RST_N_DBG :: u8 where
  "RTSX_MAC_PHY_RST_N_DBG \<equiv> 0x10"

abbreviation (input) RTSX_PERST_GLITCH_WIDTH :: u16 where
  "RTSX_PERST_GLITCH_WIDTH \<equiv> 0xFE5C"

abbreviation (input) RTSX_SD30_DRIVE_SEL :: u16 where
  "RTSX_SD30_DRIVE_SEL \<equiv> 0xFE5E"

abbreviation (input) RTSX_SD30_DRIVE_SEL_3V3 :: u8 where
  "RTSX_SD30_DRIVE_SEL_3V3 \<equiv> 0x1"

abbreviation (input) RTSX_SD30_DRIVE_SEL_1V8 :: u8 where
  "RTSX_SD30_DRIVE_SEL_1V8 \<equiv> 0x3"

abbreviation (input) RTSX_SD30_DRIVE_SEL_MASK :: u8 where
  "RTSX_SD30_DRIVE_SEL_MASK \<equiv> 0x7"

abbreviation (input) RTSX_DUMMY_REG :: u16 where
  "RTSX_DUMMY_REG \<equiv> 0xFE90"

abbreviation (input) RTSX_LDO_VCC_CFG1 :: u16 where
  "RTSX_LDO_VCC_CFG1 \<equiv> 0xFF73"

abbreviation (input) RTSX_LDO_VCC_REF_TUNE_MASK :: u8 where
  "RTSX_LDO_VCC_REF_TUNE_MASK \<equiv> 0x30"

abbreviation (input) RTSX_LDO_VCC_REF_1V2 :: u8 where
  "RTSX_LDO_VCC_REF_1V2 \<equiv> 0x20"

abbreviation (input) RTSX_LDO_VCC_TUNE_MASK :: u8 where
  "RTSX_LDO_VCC_TUNE_MASK \<equiv> 0x7"

abbreviation (input) RTSX_LDO_VCC_1V8 :: u8 where
  "RTSX_LDO_VCC_1V8 \<equiv> 0x4"

abbreviation (input) RTSX_LDO_VCC_3V3 :: u8 where
  "RTSX_LDO_VCC_3V3 \<equiv> 0x7"

abbreviation (input) RTSX_LDO_VCC_LMT_EN :: u8 where
  "RTSX_LDO_VCC_LMT_EN \<equiv> 0x8"

abbreviation (input) RTSX_SG_INT :: u8 where
  "RTSX_SG_INT \<equiv> 0x4"

abbreviation (input) RTSX_SG_END :: u8 where
  "RTSX_SG_END \<equiv> 0x2"

abbreviation (input) RTSX_SG_VALID :: u8 where
  "RTSX_SG_VALID \<equiv> 0x1"

abbreviation (input) RTSX_SG_NO_OP :: u8 where
  "RTSX_SG_NO_OP \<equiv> 0x0"

abbreviation (input) RTSX_SG_TRANS_DATA :: u8 where
  "RTSX_SG_TRANS_DATA \<equiv> 0x20"

abbreviation (input) RTSX_SG_LINK_DESC :: u8 where
  "RTSX_SG_LINK_DESC \<equiv> 0x30"

abbreviation (input) RTSX_IC_VERSION_A :: u8 where
  "RTSX_IC_VERSION_A \<equiv> 0x0"

abbreviation (input) RTSX_IC_VERSION_B :: u8 where
  "RTSX_IC_VERSION_B \<equiv> 0x1"

abbreviation (input) RTSX_IC_VERSION_C :: u8 where
  "RTSX_IC_VERSION_C \<equiv> 0x2"

abbreviation (input) RTSX_IC_VERSION_D :: u8 where
  "RTSX_IC_VERSION_D \<equiv> 0x3"

end
