(* ===== verification/RtsxHw.thy ===== *)
theory RtsxHw
  imports TaskQueue RtsxReg
begin

text \<open>
  The softc of the controller (rtsxvar.h) and the access to its internal registers
  (rtsx.c): \<open>rtsx_read\<close>, \<open>rtsx_write\<close>, the phy and configuration registers, and the
  registers saved across a suspend. What the chip promises of the \<open>RTSX_HAIMR\<close>
  register is the predicate \<open>haimr_device\<close>.
\<close>

section \<open>State\<close>

abbreviation (input) RTSX_F_CARD_PRESENT :: u32 where "RTSX_F_CARD_PRESENT \<equiv> 0x01"
abbreviation (input) RTSX_F_SDIO_SUPPORT :: u32 where "RTSX_F_SDIO_SUPPORT \<equiv> 0x02"
abbreviation (input) RTSX_F_5209 :: u32 where "RTSX_F_5209 \<equiv> 0x04"
abbreviation (input) RTSX_F_5229 :: u32 where "RTSX_F_5229 \<equiv> 0x08"
abbreviation (input) RTSX_F_5229_TYPE_C :: u32 where "RTSX_F_5229_TYPE_C \<equiv> 0x10"
abbreviation (input) RTSX_F_525A :: u32 where "RTSX_F_525A \<equiv> 0x20"
abbreviation (input) RTSX_F_525A_TYPE_A :: u32 where "RTSX_F_525A_TYPE_A \<equiv> 0x40"

abbreviation (input) RTSX_NREG :: nat where
  "RTSX_NREG \<equiv> (0xFDAE - 0xFDA0) + (0xFD69 - 0xFD32) + (0xFE34 - 0xFE20)"

text \<open>
  \<open>struct rtsx_softc\<close>, the static variables of rts5249.c and of \<open>rtsx_init\<close>, and the
  contents of an uninitialised automatic variable, which a failed read leaves in place.
\<close>

record 'h rtsx = "'h tasks" +
  ioh :: u64
  rflags :: u32                    \<comment> \<open>sc->flags\<close>
  intr_status :: u32
  regs :: "u8 list"
  regs4 :: "u32 list"
  dmap_cmd :: u64
  dmap_data :: u64
  dmap_adma :: u64
  admabuf :: u64
  adma_segs :: u64
  sdmmc_attached :: bool           \<comment> \<open>sc->sdmmc is not null\<close>
  init_read :: bool                \<comment> \<open>static bool read\<close>
  aspm_en :: u8
  sd30_drive_sel_1v8 :: u8
  card_drive_sel :: u8
  sd30_drive_sel_3v3 :: u8
  reverse_socket :: bool
  stack_junk :: u32

definition READ4 :: "'h platform \<Rightarrow> u32 \<Rightarrow> (('h, 'z) rtsx_scheme, u32) state" where
  "READ4 P reg = do { b \<leftarrow> fetch ioh; bus_space_read_4 P b reg }"

definition WRITE4 :: "'h platform \<Rightarrow> u32 \<Rightarrow> u32 \<Rightarrow> (('h, 'z) rtsx_scheme, unit) state" where
  "WRITE4 P reg v = do { b \<leftarrow> fetch ioh; bus_space_write_4 P b reg v }"

section \<open>Internal registers\<close>

definition haimr_read_cmd :: "u16 \<Rightarrow> u32" where
  "haimr_read_cmd addr = RTSX_HAIMR_BUSY OR push_bit 16 (ucast (addr AND 0x3FFF))"

definition haimr_write_cmd :: "u16 \<Rightarrow> u8 \<Rightarrow> u8 \<Rightarrow> u32" where
  "haimr_write_cmd addr msk val =
     RTSX_HAIMR_BUSY OR RTSX_HAIMR_WRITE OR
     (push_bit 16 (ucast (addr AND 0x3FFF)) OR push_bit 8 (ucast msk) OR ucast val)"

text \<open>
  \<open>while (tries--)\<close>: the value of \<open>tries\<close> after the loop, -1 when it ran out, and the
  last register value read.
\<close>

fun haimr_poll :: "nat \<Rightarrow> 'h platform \<Rightarrow> u32 \<Rightarrow> (('h, 'z) rtsx_scheme, int \<times> u32) state" where
  "haimr_poll 0 P reg = ret (- 1, reg)"
| "haimr_poll (Suc n) P _ = do {
     reg \<leftarrow> READ4 P RTSX_HAIMR;
     if \<not> isset reg RTSX_HAIMR_BUSY then ret (int n, reg) else haimr_poll n P reg }"

text \<open>\<open>rtsx_read\<close> stores \<open>*val\<close> and returns its error separately.\<close>

definition rtsx_read :: "'h platform \<Rightarrow> u16 \<Rightarrow> (('h, 'z) rtsx_scheme, u8 \<times> unit res) state" where
  "rtsx_read P addr = do {
     WRITE4 P RTSX_HAIMR (haimr_read_cmd addr);
     r \<leftarrow> haimr_poll 1024 P 0;
     (case r of (tries, reg) \<Rightarrow>
       ret (ucast (reg AND 0xff), if tries = 0 then Inl ETIMEDOUT else OK)) }"

fun haimr_write_poll :: "nat \<Rightarrow> 'h platform \<Rightarrow> u8 \<Rightarrow> (('h, 'z) rtsx_scheme, unit res) state" where
  "haimr_write_poll 0 P val = ret (Inl ETIMEDOUT)"
| "haimr_write_poll (Suc n) P val = do {
     reg \<leftarrow> READ4 P RTSX_HAIMR;
     if \<not> isset reg RTSX_HAIMR_BUSY
     then ret (if ucast val \<noteq> reg AND 0xff then Inl EIO else OK)
     else haimr_write_poll n P val }"

definition rtsx_write ::
    "'h platform \<Rightarrow> u16 \<Rightarrow> u8 \<Rightarrow> u8 \<Rightarrow> (('h, 'z) rtsx_scheme, unit res) state" where
  "rtsx_write P addr msk val = do {
     WRITE4 P RTSX_HAIMR (haimr_write_cmd addr msk val);
     haimr_write_poll 1024 P val }"

text \<open>The macros: a failed access returns from the calling function.\<close>

definition RTSX_READ ::
    "'h platform \<Rightarrow> u16 \<Rightarrow> (u8 \<Rightarrow> (('h, 'z) rtsx_scheme, 'a res) state) \<Rightarrow> (('h, 'z) rtsx_scheme, 'a res) state" where
  "RTSX_READ P reg k = do {
     r \<leftarrow> rtsx_read P reg;
     (case r of (val, Inl e) \<Rightarrow> ret (Inl e) | (val, Inr _) \<Rightarrow> k val) }"

definition RTSX_WRITE :: "'h platform \<Rightarrow> u16 \<Rightarrow> u8 \<Rightarrow> (('h, 'z) rtsx_scheme, unit res) state" where
  "RTSX_WRITE P reg val = rtsx_write P reg 0xff val"

definition RTSX_CLR :: "'h platform \<Rightarrow> u16 \<Rightarrow> u8 \<Rightarrow> (('h, 'z) rtsx_scheme, unit res) state" where
  "RTSX_CLR P reg bits = rtsx_write P reg bits 0"

definition RTSX_SET :: "'h platform \<Rightarrow> u16 \<Rightarrow> u8 \<Rightarrow> (('h, 'z) rtsx_scheme, unit res) state" where
  "RTSX_SET P reg bits = rtsx_write P reg bits 0xff"

section \<open>Phy and configuration registers\<close>

fun busy_poll :: "nat \<Rightarrow> 'h platform \<Rightarrow> u16 \<Rightarrow> u8 \<Rightarrow> (('h, 'z) rtsx_scheme, int res) state" where
  "busy_poll 0 P reg busy = ret (Inr (- 1))"
| "busy_poll (Suc n) P reg busy = RTSX_READ P reg (\<lambda>rwctl.
     if \<not> isset rwctl busy then ret (Inr (int n)) else busy_poll n P reg busy)"

definition rtsx_write_phy :: "'h platform \<Rightarrow> u8 \<Rightarrow> u16 \<Rightarrow> (('h, 'z) rtsx_scheme, unit res) state" where
  "rtsx_write_phy P addr val =
     chk (steps [RTSX_WRITE P RTSX_PHY_DATA0 (ucast val),
                 RTSX_WRITE P RTSX_PHY_DATA1 (ucast (drop_bit 8 val)),
                 RTSX_WRITE P RTSX_PHY_ADDR addr,
                 RTSX_WRITE P RTSX_PHY_RWCTL (RTSX_PHY_BUSY OR RTSX_PHY_WRITE)]) (\<lambda>_.
     chk (busy_poll 100000 P RTSX_PHY_RWCTL RTSX_PHY_BUSY) (\<lambda>timeout.
       ret (if timeout = 0 then Inl ETIMEDOUT else OK)))"

text \<open>
  \<open>func & 0x03 << 4\<close> is \<open>func & 0x30\<close> in C: for function 0, the only one the driver asks
  for, the two readings agree.
\<close>

definition rtsx_read_cfg :: "'h platform \<Rightarrow> u8 \<Rightarrow> u16 \<Rightarrow> (('h, 'z) rtsx_scheme, u32 res) state" where
  "rtsx_read_cfg P func addr =
     chk (steps [RTSX_WRITE P RTSX_CFGADDR0 (ucast addr),
                 RTSX_WRITE P RTSX_CFGADDR1 (ucast (drop_bit 8 addr)),
                 RTSX_WRITE P RTSX_CFGRWCTL (RTSX_CFG_BUSY OR (func AND push_bit 4 0x03))]) (\<lambda>_.
     chk (busy_poll 1024 P RTSX_CFGRWCTL RTSX_CFG_BUSY) (\<lambda>tries.
       if tries = 0 then ret (Inl EIO) else
       RTSX_READ P RTSX_CFGDATA0 (\<lambda>data0.
       RTSX_READ P RTSX_CFGDATA1 (\<lambda>data1.
       RTSX_READ P RTSX_CFGDATA2 (\<lambda>data2.
       RTSX_READ P RTSX_CFGDATA3 (\<lambda>data3.
         ret (Inr (push_bit 24 (ucast data3) OR push_bit 16 (ucast data2)
                   OR push_bit 8 (ucast data1) OR ucast data0))))))))"

section \<open>Suspend and resume\<close>

definition addr_range :: "nat \<Rightarrow> nat \<Rightarrow> u16 list" where
  "addr_range a b = map of_nat [a..<b]"

text \<open>The registers of the three loops of \<open>rtsx_save_regs\<close>, in order.\<close>

definition saved_regs :: "u16 list" where
  "saved_regs = addr_range 0xFDA0 0xFDAE @ addr_range 0xFD52 0xFD69 @ addr_range 0xFE20 0xFE34"

fun save_loop :: "'h platform \<Rightarrow> nat \<Rightarrow> u16 list \<Rightarrow> (('h, 'z) rtsx_scheme, unit) state" where
  "save_loop P i [] = ret ()"
| "save_loop P i (reg # rs) = do {
     r \<leftarrow> rtsx_read P reg;
     modify (\<lambda>s. s\<lparr>regs := (regs s)[i := fst r]\<rparr>);
     save_loop P (Suc i) rs }"

definition rtsx_save_regs :: "'h platform \<Rightarrow> (('h, 'z) rtsx_scheme, unit) state" where
  "rtsx_save_regs P = do {
     splbio;
     save_loop P 0 saved_regs;
     a \<leftarrow> READ4 P RTSX_HCBAR;
     b \<leftarrow> READ4 P RTSX_HCBCTLR;
     c \<leftarrow> READ4 P RTSX_HDBAR;
     d \<leftarrow> READ4 P RTSX_HDBCTLR;
     e \<leftarrow> READ4 P RTSX_HAIMR;
     f \<leftarrow> READ4 P RTSX_BIER;
     modify (\<lambda>s. s\<lparr>regs4 := [a, b, c, d, e, f]\<rparr>);
     splx }"

fun restore_loop :: "'h platform \<Rightarrow> nat \<Rightarrow> u16 list \<Rightarrow> (('h, 'z) rtsx_scheme, unit) state" where
  "restore_loop P i [] = ret ()"
| "restore_loop P i (reg # rs) = do {
     v \<leftarrow> fetch (\<lambda>s. regs s ! i);
     _ \<leftarrow> rtsx_write P reg 0xff v;
     restore_loop P (Suc i) rs }"

definition rtsx_restore_regs :: "'h platform \<Rightarrow> (('h, 'z) rtsx_scheme, unit) state" where
  "rtsx_restore_regs P = do {
     splbio;
     r \<leftarrow> fetch regs4;
     WRITE4 P RTSX_HCBAR (r ! 0);
     WRITE4 P RTSX_HCBCTLR (r ! 1);
     WRITE4 P RTSX_HDBAR (r ! 2);
     WRITE4 P RTSX_HDBCTLR (r ! 3);
     WRITE4 P RTSX_HAIMR (r ! 4);
     WRITE4 P RTSX_BIER (r ! 5);
     restore_loop P 0 saved_regs;
     splx }"

section \<open>Frame rules\<close>

text \<open>Register accesses change nothing but the hardware state.\<close>

definition hw_only :: "(('h, 'z) rtsx_scheme \<Rightarrow> 'b) \<Rightarrow> bool" where
  "hw_only f \<longleftrightarrow> (\<forall>s h. f (s\<lparr>hw := h\<rparr>) = f s)"

lemma keeps_READ4 [keeps]: "hw_only f \<Longrightarrow> keeps f (READ4 P reg)"
  unfolding READ4_def hw_only_def by (intro keeps) auto

lemma keeps_WRITE4 [keeps]: "hw_only f \<Longrightarrow> keeps f (WRITE4 P reg v)"
  unfolding WRITE4_def hw_only_def by (intro keeps) auto

lemma keeps_haimr_poll [keeps]: "hw_only f \<Longrightarrow> keeps f (haimr_poll n P reg)"
  by (induction n arbitrary: reg) (auto intro!: keeps)

lemma keeps_haimr_write_poll [keeps]: "hw_only f \<Longrightarrow> keeps f (haimr_write_poll n P x)"
  by (induction n) (auto intro!: keeps)

lemma keeps_rtsx_read [keeps]: "hw_only f \<Longrightarrow> keeps f (rtsx_read P a)"
  unfolding rtsx_read_def by (intro keeps)

lemma keeps_rtsx_write [keeps]: "hw_only f \<Longrightarrow> keeps f (rtsx_write P a m x)"
  unfolding rtsx_write_def by (intro keeps)

lemma keeps_RTSX_READ [keeps]:
  "hw_only f \<Longrightarrow> (\<And>v. keeps f (k v)) \<Longrightarrow> keeps f (RTSX_READ P a k)"
  unfolding RTSX_READ_def by (intro keeps) auto

lemma keeps_RTSX_WRITE [keeps]: "hw_only f \<Longrightarrow> keeps f (RTSX_WRITE P a x)"
  and keeps_RTSX_CLR [keeps]: "hw_only f \<Longrightarrow> keeps f (RTSX_CLR P a x)"
  and keeps_RTSX_SET [keeps]: "hw_only f \<Longrightarrow> keeps f (RTSX_SET P a x)"
  by (simp_all add: RTSX_WRITE_def RTSX_CLR_def RTSX_SET_def keeps_rtsx_write)

lemma keeps_busy_poll [keeps]: "hw_only f \<Longrightarrow> keeps f (busy_poll n P a b)"
  by (induction n) (auto intro!: keeps)

lemma keeps_rtsx_write_phy [keeps]: "hw_only f \<Longrightarrow> keeps f (rtsx_write_phy P a x)"
  unfolding rtsx_write_phy_def by (auto intro!: keeps)

lemma keeps_rtsx_read_cfg [keeps]: "hw_only f \<Longrightarrow> keeps f (rtsx_read_cfg P fn a)"
  unfolding rtsx_read_cfg_def by (auto intro!: keeps)

section \<open>The register file behind RTSX\_HAIMR\<close>

text \<open>
  \<open>haimr_answers P b k h v h'\<close>: from the hardware state \<open>h\<close> the register reads busy \<open>k\<close>
  times and then \<open>v\<close>.
\<close>

fun haimr_answers :: "'h platform \<Rightarrow> u64 \<Rightarrow> nat \<Rightarrow> 'h \<Rightarrow> u32 \<Rightarrow> 'h \<Rightarrow> bool" where
  "haimr_answers P b 0 h v h' \<longleftrightarrow>
     io_read4 P h b RTSX_HAIMR = (v, h') \<and> \<not> isset v RTSX_HAIMR_BUSY"
| "haimr_answers P b (Suc k) h v h' \<longleftrightarrow>
     isset (fst (io_read4 P h b RTSX_HAIMR)) RTSX_HAIMR_BUSY
     \<and> haimr_answers P b k (snd (io_read4 P h b RTSX_HAIMR)) v h'"

definition masked :: "u8 \<Rightarrow> u8 \<Rightarrow> u8 \<Rightarrow> u8" where
  "masked old m v = (old AND NOT m) OR (v AND m)"

lemma and_zero_bit: "a AND b = 0 \<Longrightarrow> bit a n \<Longrightarrow> \<not> bit b n" for a b :: "'a::len word"
  using bit_and_iff [of a b n] by auto

lemma masked_hit: "m' AND NOT m = 0 \<Longrightarrow> masked old m v AND m' = v AND m'"
  unfolding masked_def
  by (rule bit_word_eqI) (auto simp: bit_and_iff bit_or_iff bit_not_iff dest: and_zero_bit)

lemma masked_miss: "m' AND m = 0 \<Longrightarrow> masked old m v AND m' = old AND m'"
  unfolding masked_def
  by (rule bit_word_eqI) (auto simp: bit_and_iff bit_or_iff bit_not_iff dest: and_zero_bit)

lemma masked_full: "masked old 0xff v = v"
proof -
  have "(0xff :: u8) = - 1" by simp
  then show ?thesis unfolding masked_def by (simp only:) simp
qed

lemma masked_set: "masked old m 0xff = old OR m"
proof -
  have "(0xff :: u8) = - 1" by simp
  then show ?thesis unfolding masked_def
    by (simp only:) (rule bit_word_eqI, auto simp: bit_simps)
qed

lemma or_and_absorb: "(x OR y) AND y = y" for x y :: "'a::len word"
  by (rule bit_word_eqI) (auto simp: bit_simps)

text \<open>
  The chip behind the base address \<open>b\<close>: the internal registers in \<open>A\<close> are plain storage
  \<open>rf\<close>, a command is answered within 1023 polls, a read command with the contents, a write
  command with an echo of the value, and nothing else changes them.
\<close>

definition haimr_device :: "'h platform \<Rightarrow> u64 \<Rightarrow> ('h \<Rightarrow> u16 \<Rightarrow> u8) \<Rightarrow> u16 set \<Rightarrow> bool" where
  "haimr_device P b rf A \<longleftrightarrow> b \<noteq> 0
     \<and> (\<forall>h a. \<exists>k<1023. \<exists>v h'. haimr_answers P b k (io_write4 P h b RTSX_HAIMR (haimr_read_cmd a)) v h'
          \<and> (a AND 0x3FFF \<in> A \<longrightarrow> v AND 0xff = ucast (rf h (a AND 0x3FFF)))
          \<and> (\<forall>r\<in>A. rf h' r = rf h r))
     \<and> (\<forall>h a m x. \<exists>k<1023. \<exists>v h'. haimr_answers P b k (io_write4 P h b RTSX_HAIMR (haimr_write_cmd a m x)) v h'
          \<and> v AND 0xff = ucast x
          \<and> (\<forall>r\<in>A. rf h' r = (if r = a AND 0x3FFF then masked (rf h r) m x else rf h r)))
     \<and> (\<forall>h off v. off \<noteq> RTSX_HAIMR \<longrightarrow> (\<forall>r\<in>A. rf (io_write4 P h b off v) r = rf h r))
     \<and> (\<forall>h off. off \<noteq> RTSX_HAIMR \<longrightarrow> (\<forall>r\<in>A. rf (snd (io_read4 P h b off)) r = rf h r))
     \<and> (\<forall>h n. \<forall>r\<in>A. rf (io_delay P h n) r = rf h r)"

lemma run_READ4: "ioh s = b \<Longrightarrow> b \<noteq> 0 \<Longrightarrow> run_state (READ4 P off) s =
    (fst (io_read4 P (hw s) b off), s\<lparr>hw := snd (io_read4 P (hw s) b off)\<rparr>)"
  by (simp add: READ4_def bus_space_read_4_def case_prod_beta)

lemma run_WRITE4: "ioh s = b \<Longrightarrow> b \<noteq> 0 \<Longrightarrow>
    run_state (WRITE4 P off v) s = ((), s\<lparr>hw := io_write4 P (hw s) b off v\<rparr>)"
  by (simp add: WRITE4_def bus_space_write_4_def)

lemma run_READ4': "ioh s \<noteq> 0 \<Longrightarrow> run_state (READ4 P off) s =
    (fst (io_read4 P (hw s) (ioh s) off), s\<lparr>hw := snd (io_read4 P (hw s) (ioh s) off)\<rparr>)"
  by (simp add: run_READ4)

lemma run_WRITE4': "ioh s \<noteq> 0 \<Longrightarrow>
    run_state (WRITE4 P off v) s = ((), s\<lparr>hw := io_write4 P (hw s) (ioh s) off v\<rparr>)"
  by (simp add: run_WRITE4)

lemma haimr_poll_answers:
  "haimr_answers P b k (hw s) v h' \<Longrightarrow> k < n \<Longrightarrow> ioh s = b \<Longrightarrow> b \<noteq> 0 \<Longrightarrow>
   run_state (haimr_poll n P reg) s = ((int n - 1 - int k, v), s\<lparr>hw := h'\<rparr>)"
proof (induction k arbitrary: s n reg)
  case 0
  then obtain m where "n = Suc m" by (cases n) auto
  with 0 show ?case by (simp add: run_READ4)
next
  case (Suc k)
  then obtain m where n: "n = Suc m" by (cases n) auto
  have "run_state (haimr_poll m P reg') (s\<lparr>hw := snd (io_read4 P (hw s) b RTSX_HAIMR)\<rparr>)
      = ((int m - 1 - int k, v), s\<lparr>hw := h'\<rparr>)" for reg'
    using Suc.prems n Suc.IH [of "s\<lparr>hw := snd (io_read4 P (hw s) b RTSX_HAIMR)\<rparr>" m reg'] by simp
  with Suc.prems n show ?case by (simp add: run_READ4)
qed

lemma haimr_write_poll_answers:
  "haimr_answers P b k (hw s) v h' \<Longrightarrow> k < n \<Longrightarrow> ioh s = b \<Longrightarrow> b \<noteq> 0 \<Longrightarrow>
   run_state (haimr_write_poll n P x) s =
     (if ucast x \<noteq> v AND 0xff then Inl EIO else OK, s\<lparr>hw := h'\<rparr>)"
proof (induction k arbitrary: s n)
  case 0
  then obtain m where "n = Suc m" by (cases n) auto
  with 0 show ?case by (simp add: run_READ4)
next
  case (Suc k)
  then obtain m where n: "n = Suc m" by (cases n) auto
  have "run_state (haimr_write_poll m P x) (s\<lparr>hw := snd (io_read4 P (hw s) b RTSX_HAIMR)\<rparr>)
      = (if ucast x \<noteq> v AND 0xff then Inl EIO else OK, s\<lparr>hw := h'\<rparr>)"
    using Suc.prems n Suc.IH [of "s\<lparr>hw := snd (io_read4 P (hw s) b RTSX_HAIMR)\<rparr>" m] by simp
  with Suc.prems n show ?case by (simp add: run_READ4)
qed

lemma rtsx_read_dev:
  assumes "haimr_device P b rf A" and "ioh s = b"
  shows "\<exists>h v. run_state (rtsx_read P a) s = ((v, OK), s\<lparr>hw := h\<rparr>)
    \<and> (a AND 0x3FFF \<in> A \<longrightarrow> v = rf (hw s) (a AND 0x3FFF)) \<and> (\<forall>r\<in>A. rf h r = rf (hw s) r)"
proof -
  from assms obtain k v h' where k: "k < 1023"
    and ans: "haimr_answers P b k (io_write4 P (hw s) b RTSX_HAIMR (haimr_read_cmd a)) v h'"
    and v: "a AND 0x3FFF \<in> A \<longrightarrow> v AND 0xff = ucast (rf (hw s) (a AND 0x3FFF))"
    and rf: "\<forall>r\<in>A. rf h' r = rf (hw s) r"
    unfolding haimr_device_def by meson
  have b: "b \<noteq> 0" using assms(1) by (simp add: haimr_device_def)
  have "run_state (haimr_poll 1024 P 0) (s\<lparr>hw := io_write4 P (hw s) b RTSX_HAIMR (haimr_read_cmd a)\<rparr>)
      = ((int 1024 - 1 - int k, v), s\<lparr>hw := h'\<rparr>)"
    using haimr_poll_answers [of P b k "s\<lparr>hw := io_write4 P (hw s) b RTSX_HAIMR (haimr_read_cmd a)\<rparr>" v h' 1024 0]
      ans k assms(2) b by simp
  moreover have "ucast (v AND 0xff) = rf (hw s) (a AND 0x3FFF)" if "a AND 0x3FFF \<in> A"
    using v that by (simp add: ucast_ucast_up)
  ultimately show ?thesis using k rf assms(2) b
    by (intro exI [of _ h']) (simp add: rtsx_read_def run_WRITE4)
qed

lemma rtsx_write_dev:
  assumes "haimr_device P b rf A" and "ioh s = b"
  shows "\<exists>h. run_state (rtsx_write P a m x) s = (OK, s\<lparr>hw := h\<rparr>)
    \<and> (\<forall>r\<in>A. rf h r = (if r = a AND 0x3FFF then masked (rf (hw s) r) m x else rf (hw s) r))"
proof -
  from assms obtain k v h' where k: "k < 1023"
    and ans: "haimr_answers P b k (io_write4 P (hw s) b RTSX_HAIMR (haimr_write_cmd a m x)) v h'"
    and v: "v AND 0xff = ucast x"
    and rf: "\<forall>r\<in>A. rf h' r = (if r = a AND 0x3FFF then masked (rf (hw s) r) m x else rf (hw s) r)"
    unfolding haimr_device_def by meson
  have b: "b \<noteq> 0" using assms(1) by (simp add: haimr_device_def)
  have "run_state (haimr_write_poll 1024 P x) (s\<lparr>hw := io_write4 P (hw s) b RTSX_HAIMR (haimr_write_cmd a m x)\<rparr>)
      = (OK, s\<lparr>hw := h'\<rparr>)"
    using haimr_write_poll_answers [of P b k
        "s\<lparr>hw := io_write4 P (hw s) b RTSX_HAIMR (haimr_write_cmd a m x)\<rparr>" v h' 1024 x]
      ans k assms(2) b v by simp
  then show ?thesis using rf assms(2) b
    by (intro exI [of _ h']) (simp add: rtsx_write_def run_WRITE4)
qed

section \<open>Effect of a sequence of register writes\<close>

text \<open>
  \<open>reg_after r ups old\<close>: the contents of register \<open>r\<close> after the masked writes \<open>ups\<close>.
  \<open>reg_effect\<close>: on such a chip, with the flags \<open>fl\<close> and the boot argument \<open>ml\<close>, the code
  \<open>m\<close> succeeds, changes no software state, and performs the writes \<open>ups\<close>.
\<close>

fun reg_after :: "u16 \<Rightarrow> (u16 \<times> u8 \<times> u8) list \<Rightarrow> u8 \<Rightarrow> u8" where
  "reg_after r [] old = old"
| "reg_after r ((a, m, x) # ups) old =
     reg_after r ups (if r = a AND 0x3FFF then masked old m x else old)"

lemma reg_after_append: "reg_after r (us @ vs) old = reg_after r vs (reg_after r us old)"
  by (induction us arbitrary: old) auto

definition reg_effect ::
    "'h platform \<Rightarrow> u64 \<Rightarrow> ('h \<Rightarrow> u16 \<Rightarrow> u8) \<Rightarrow> u16 set \<Rightarrow> u32 \<Rightarrow> bool
       \<Rightarrow> (('h, 'z) rtsx_scheme, unit res) state \<Rightarrow> (u16 \<times> u8 \<times> u8) list \<Rightarrow> bool" where
  "reg_effect P b rf A fl ml m ups \<longleftrightarrow>
     (\<forall>s. ioh s = b \<longrightarrow> rflags s = fl \<longrightarrow> mimic_linux s = ml \<longrightarrow>
       (\<exists>h. run_state m s = (OK, s\<lparr>hw := h\<rparr>) \<and> (\<forall>r\<in>A. rf h r = reg_after r ups (rf (hw s) r))))"

named_theorems eff "rules for register effects"

lemma eff_write [eff]:
  assumes "haimr_device P b rf A"
  shows "reg_effect P b rf A fl ml (rtsx_write P a m x) [(a, m, x)]"
  unfolding reg_effect_def reg_after.simps using rtsx_write_dev [OF assms] by blast

lemma eff_WRITE [eff]: "haimr_device P b rf A \<Longrightarrow> reg_effect P b rf A fl ml (RTSX_WRITE P a x) [(a, 0xff, x)]"
  by (simp add: RTSX_WRITE_def eff_write)

lemma eff_SET [eff]: "haimr_device P b rf A \<Longrightarrow> reg_effect P b rf A fl ml (RTSX_SET P a m) [(a, m, 0xff)]"
  by (simp add: RTSX_SET_def eff_write)

lemma eff_CLR [eff]: "haimr_device P b rf A \<Longrightarrow> reg_effect P b rf A fl ml (RTSX_CLR P a m) [(a, m, 0)]"
  by (simp add: RTSX_CLR_def eff_write)

lemma eff_ret [eff]:
  "reg_effect P b rf A fl ml (ret OK :: (('h, 'z) rtsx_scheme, unit res) state) []"
  unfolding reg_effect_def
proof (intro allI impI)
  fix s :: "('h, 'z) rtsx_scheme"
  show "\<exists>h. run_state (ret OK) s = (OK, s\<lparr>hw := h\<rparr>) \<and> (\<forall>r\<in>A. rf h r = reg_after r [] (rf (hw s) r))"
    by (intro exI [of _ "hw s"]) simp
qed

lemma reg_effectD:
  assumes "reg_effect P b rf A fl ml m ups" and "ioh s = b" and "rflags s = fl" and "mimic_linux s = ml"
  obtains h where "run_state m s = (OK, s\<lparr>hw := h\<rparr>)"
    and "\<forall>r\<in>A. rf h r = reg_after r ups (rf (hw s) r)"
  using assms unfolding reg_effect_def by blast

lemma eff_bind [eff]:
  fixes m :: "(('h, 'z) rtsx_scheme, unit res) state"
  assumes m: "reg_effect P b rf A fl ml m us" and k: "reg_effect P b rf A fl ml (k OK) vs"
  shows "reg_effect P b rf A fl ml (m \<bind> k) (us @ vs)"
  unfolding reg_effect_def
proof (intro allI impI)
  fix s :: "('h, 'z) rtsx_scheme"
  assume s: "ioh s = b" "rflags s = fl" "mimic_linux s = ml"
  obtain h where h: "run_state m s = (OK, s\<lparr>hw := h\<rparr>)"
    "\<forall>r\<in>A. rf h r = reg_after r us (rf (hw s) r)" by (rule reg_effectD [OF m s])
  obtain h' where h': "run_state (k OK) (s\<lparr>hw := h\<rparr>) = (OK, s\<lparr>hw := h\<rparr>\<lparr>hw := h'\<rparr>)"
    "\<forall>r\<in>A. rf h' r = reg_after r vs (rf (hw (s\<lparr>hw := h\<rparr>)) r)"
    by (rule reg_effectD [OF k, of "s\<lparr>hw := h\<rparr>"]) (simp_all add: s)
  show "\<exists>h. run_state (m \<bind> k) s = (OK, s\<lparr>hw := h\<rparr>)
      \<and> (\<forall>r\<in>A. rf h r = reg_after r (us @ vs) (rf (hw s) r))"
    using h h' by (intro exI [of _ h']) (simp add: reg_after_append)
qed

lemma eff_chk [eff]:
  "reg_effect P b rf A fl ml m us \<Longrightarrow> reg_effect P b rf A fl ml (k ()) vs \<Longrightarrow>
   reg_effect P b rf A fl ml (chk m k) (us @ vs)"
  unfolding chk_def by (rule eff_bind) simp_all

lemma eff_steps_Nil [eff]: "reg_effect P b rf A fl ml (steps []) []"
  by (simp add: eff_ret)

lemma eff_steps_Cons [eff]:
  "reg_effect P b rf A fl ml m us \<Longrightarrow> reg_effect P b rf A fl ml (steps ms) vs \<Longrightarrow>
   reg_effect P b rf A fl ml (steps (m # ms)) (us @ vs)"
  by (simp add: eff_chk)

lemma eff_flags [eff]:
  "reg_effect P b rf A fl ml (k fl) us \<Longrightarrow> reg_effect P b rf A fl ml (fetch rflags \<bind> k) us"
  unfolding reg_effect_def by simp

lemma eff_mimic [eff]:
  "reg_effect P b rf A fl ml (k ml) us \<Longrightarrow> reg_effect P b rf A fl ml (fetch mimic_linux \<bind> k) us"
  unfolding reg_effect_def by simp

lemma eff_delay [eff]:
  fixes k :: "unit \<Rightarrow> (('h, 'z) rtsx_scheme, unit res) state"
  assumes dev: "haimr_device P b rf A" and k: "reg_effect P b rf A fl ml (k ()) us"
  shows "reg_effect P b rf A fl ml (delay P n \<bind> k) us"
  unfolding reg_effect_def
proof (intro allI impI)
  fix s :: "('h, 'z) rtsx_scheme"
  assume s: "ioh s = b" "rflags s = fl" "mimic_linux s = ml"
  let ?s = "s\<lparr>hw := io_delay P (hw s) n\<rparr>"
  have fr: "\<forall>r\<in>A. rf (io_delay P (hw s) n) r = rf (hw s) r"
    using dev by (simp add: haimr_device_def)
  obtain h where h: "run_state (k ()) ?s = (OK, ?s\<lparr>hw := h\<rparr>)"
    "\<forall>r\<in>A. rf h r = reg_after r us (rf (hw ?s) r)"
    by (rule reg_effectD [OF k, of ?s]) (simp_all add: s)
  show "\<exists>h. run_state (delay P n \<bind> k) s = (OK, s\<lparr>hw := h\<rparr>)
      \<and> (\<forall>r\<in>A. rf h r = reg_after r us (rf (hw s) r))"
    using h fr by (intro exI [of _ h]) (simp add: delay_def)
qed

lemma eff_if [eff]:
  "(c \<Longrightarrow> reg_effect P b rf A fl ml m us) \<Longrightarrow> (\<not> c \<Longrightarrow> reg_effect P b rf A fl ml n vs) \<Longrightarrow>
   reg_effect P b rf A fl ml (if c then m else n) (if c then us else vs)"
  by simp

section \<open>Saved registers survive a suspend\<close>

lemma save_loop_dev:
  fixes s :: "('h, 'z) rtsx_scheme"
  assumes dev: "haimr_device P b rf A" and "ioh s = b" and "\<forall>a\<in>set as. a AND 0x3FFF \<in> A"
    and "i + length as \<le> length (regs s)"
  shows "\<exists>h. run_state (save_loop P i as) s = ((), s\<lparr>hw := h, regs := take i (regs s)
      @ map (\<lambda>a. rf (hw s) (a AND 0x3FFF)) as @ drop (i + length as) (regs s)\<rparr>)
    \<and> (\<forall>r\<in>A. rf h r = rf (hw s) r)"
  using assms(2-)
proof (induction as arbitrary: i s)
  case Nil
  then show ?case by (intro exI [of _ "hw s"]) simp
next
  case (Cons a as)
  obtain h v where h: "run_state (rtsx_read P a) s = ((v, OK), s\<lparr>hw := h\<rparr>)"
    "v = rf (hw s) (a AND 0x3FFF)" "\<forall>r\<in>A. rf h r = rf (hw s) r"
    using rtsx_read_dev [OF dev Cons.prems(1), of a] Cons.prems(2) by auto
  define s1 where "s1 = s\<lparr>hw := h, regs := (regs s)[i := v]\<rparr>"
  obtain h' where h': "run_state (save_loop P (Suc i) as) s1 = ((), s1\<lparr>hw := h', regs := take (Suc i) (regs s1)
      @ map (\<lambda>a. rf (hw s1) (a AND 0x3FFF)) as @ drop (Suc i + length as) (regs s1)\<rparr>)"
    "\<forall>r\<in>A. rf h' r = rf (hw s1) r"
    using Cons.IH [of s1 "Suc i"] Cons.prems by (auto simp: s1_def)
  have m: "map (\<lambda>a. rf h (a AND 0x3FFF)) as = map (\<lambda>a. rf (hw s) (a AND 0x3FFF)) as"
    using h(3) Cons.prems(2) by simp
  have t: "take (Suc i) ((regs s)[i := v]) = take i (regs s) @ [v]"
    using Cons.prems(3) by (simp add: take_Suc_conv_app_nth)
  show ?case
    using h h' m t by (intro exI [of _ h']) (simp add: s1_def)
qed

lemma restore_loop_dev:
  fixes s :: "('h, 'z) rtsx_scheme"
  assumes dev: "haimr_device P b rf A" and "ioh s = b"
  shows "\<exists>h. run_state (restore_loop P i as) s = ((), s\<lparr>hw := h\<rparr>)
    \<and> (\<forall>r\<in>A. rf h r = reg_after r (map (\<lambda>k. (as ! k, 0xff, regs s ! (i + k))) [0..<length as]) (rf (hw s) r))"
  using assms(2)
proof (induction as arbitrary: i s)
  case Nil
  then show ?case by (intro exI [of _ "hw s"]) simp
next
  case (Cons a as)
  obtain h where h: "run_state (rtsx_write P a 0xff (regs s ! i)) s = (OK, s\<lparr>hw := h\<rparr>)"
    "\<forall>r\<in>A. rf h r = (if r = a AND 0x3FFF then masked (rf (hw s) r) 0xff (regs s ! i) else rf (hw s) r)"
    using rtsx_write_dev [OF dev Cons.prems] by blast
  obtain h' where h': "run_state (restore_loop P (Suc i) as) (s\<lparr>hw := h\<rparr>) = ((), s\<lparr>hw := h'\<rparr>)"
    "\<forall>r\<in>A. rf h' r = reg_after r (map (\<lambda>k. (as ! k, 0xff, regs s ! (Suc i + k))) [0..<length as]) (rf h r)"
    using Cons.IH [of "s\<lparr>hw := h\<rparr>" "Suc i"] Cons.prems by auto
  have e: "map (\<lambda>k. ((a # as) ! k, 0xff, regs s ! (i + k))) [0..<length (a # as)]
      = (a, 0xff, regs s ! i) # map (\<lambda>k. (as ! k, 0xff, regs s ! (Suc i + k))) [0..<length as]"
    by (simp add: upt_conv_Cons map_Suc_upt [symmetric] comp_def del: upt_Suc map_Suc_upt)
  show ?case
    unfolding e using h h' by (intro exI [of _ h']) simp
qed

lemma reg_after_all_written:
  assumes "\<forall>u\<in>set ups. fst (snd u) = 0xff"
    and "\<forall>u\<in>set ups. fst u AND 0x3FFF = r \<longrightarrow> snd (snd u) = v" and "\<exists>u\<in>set ups. fst u AND 0x3FFF = r"
  shows "reg_after r ups old = v"
  using assms
proof (induction ups arbitrary: old)
  case Nil
  then show ?case by simp
next
  case (Cons u ups)
  obtain a m x where u: "u = (a, m, x)" by (cases u)
  show ?case
  proof (cases "\<exists>w\<in>set ups. fst w AND 0x3FFF = r")
    case True
    then show ?thesis using Cons u by simp
  next
    case False
    then have "reg_after r ups o' = o'" for o'
      by (induction ups arbitrary: o') auto
    moreover have "a AND 0x3FFF = r" "x = v" "m = 0xff" using False Cons.prems u by auto
    ultimately show ?thesis by (simp add: u masked_full)
  qed
qed

text \<open>
  C25: the registers of the three ranges saved by \<open>rtsx_save_regs\<close> hold their old contents
  again after \<open>rtsx_restore_regs\<close>, whatever the controller lost in between, and both leave
  the lock as they found it.
\<close>

theorem save_restore_roundtrip:
  fixes s :: "('h, 'z) rtsx_scheme"
  assumes dev: "haimr_device P b rf A" and "ioh s = b" and "length (regs s) = RTSX_NREG"
    and A: "\<forall>a\<in>set saved_regs. a AND 0x3FFF \<in> A"
    and save: "run_state (rtsx_save_regs P) s = (u, s1)"
    and lost: "s2 = s1\<lparr>hw := h\<rparr>"
    and restore: "run_state (rtsx_restore_regs P) s2 = (u', s3)"
  shows "(\<forall>a\<in>set saved_regs. rf (hw s3) (a AND 0x3FFF) = rf (hw s) (a AND 0x3FFF))
    \<and> spl_depth s1 = spl_depth s \<and> spl_depth s3 = spl_depth s2"
proof -
  let ?n = "length saved_regs"
  have n: "?n \<le> length (regs s)" using assms(3) by (simp add: saved_regs_def addr_range_def)
  have b: "b \<noteq> 0" using dev by (simp add: haimr_device_def)
  define sb where "sb = s\<lparr>spl_depth := spl_depth s + 1\<rparr>"
  obtain h1 where h1: "run_state (save_loop P 0 saved_regs) sb = ((), sb\<lparr>hw := h1,
      regs := map (\<lambda>a. rf (hw s) (a AND 0x3FFF)) saved_regs @ drop ?n (regs s)\<rparr>)"
    using save_loop_dev [OF dev, of sb saved_regs 0] assms(2) A n by (auto simp: sb_def)
  have s1: "regs s1 = map (\<lambda>a. rf (hw s) (a AND 0x3FFF)) saved_regs @ drop ?n (regs s)"
    "ioh s1 = b" "spl_depth s1 = spl_depth s"
    using save h1 assms(2) b
    by (auto simp: rtsx_save_regs_def sb_def run_READ4')
  obtain s2' where s2': "ioh s2' = b" "regs s2' = regs s2" "spl_depth s2' = spl_depth s2 + 1"
    and r: "run_state (restore_loop P 0 saved_regs) s2' = ((), s3\<lparr>spl_depth := spl_depth s2 + 1\<rparr>)"
       "spl_depth s3 = spl_depth s2"
  proof -
    define sc where "sc = s2\<lparr>spl_depth := spl_depth s2 + 1\<rparr>"
    define h0 where "h0 = io_write4 P (io_write4 P (io_write4 P (io_write4 P (io_write4 P (io_write4 P
        (hw s2) b RTSX_HCBAR (regs4 s2 ! 0)) b RTSX_HCBCTLR (regs4 s2 ! 1)) b RTSX_HDBAR (regs4 s2 ! 2))
        b RTSX_HDBCTLR (regs4 s2 ! 3)) b RTSX_HAIMR (regs4 s2 ! 4)) b RTSX_BIER (regs4 s2 ! 5)"
    have ioh: "ioh sc = b" using lost s1(2) by (simp add: sc_def)
    obtain h2 where h2: "run_state (restore_loop P 0 saved_regs) (sc\<lparr>hw := h0\<rparr>) = ((), sc\<lparr>hw := h2\<rparr>)"
      using restore_loop_dev [OF dev, of "sc\<lparr>hw := h0\<rparr>" 0 saved_regs] ioh by auto
    have "s3 = s2\<lparr>hw := h2\<rparr>"
      using restore h2 ioh b lost s1(2)
      by (simp add: rtsx_restore_regs_def run_WRITE4' sc_def h0_def)
    then show ?thesis
      using that [of "sc\<lparr>hw := h0\<rparr>"] h2 ioh by (simp add: sc_def)
  qed
  obtain h3 where h3: "s3\<lparr>spl_depth := spl_depth s2 + 1\<rparr> = s2'\<lparr>hw := h3\<rparr>" and
    rf: "\<forall>r\<in>A. rf h3 r = reg_after r (map (\<lambda>k. (saved_regs ! k, 0xff, regs s2' ! k)) [0..<?n]) (rf (hw s2') r)"
    using restore_loop_dev [OF dev s2'(1), of 0 saved_regs] r(1) by auto
  have hw3: "hw s3 = h3" using arg_cong [OF h3, of hw] by simp
  have vals: "regs s2' ! k = rf (hw s) (saved_regs ! k AND 0x3FFF)" if "k < ?n" for k
    using s2'(2) lost s1(1) that by (simp add: nth_append)
  have "rf (hw s3) (a AND 0x3FFF) = rf (hw s) (a AND 0x3FFF)" if a: "a \<in> set saved_regs" for a
  proof -
    obtain k where k: "k < ?n" "saved_regs ! k = a" using a by (metis in_set_conv_nth)
    have "reg_after (a AND 0x3FFF) (map (\<lambda>k. (saved_regs ! k, 0xff, regs s2' ! k)) [0..<?n])
        (rf (hw s2') (a AND 0x3FFF)) = rf (hw s) (a AND 0x3FFF)"
      by (rule reg_after_all_written) (use vals k in \<open>auto intro!: bexI [of _ k]\<close>)
    then show ?thesis using rf A a hw3 by simp
  qed
  then show ?thesis using s1(3) r(2) by simp
qed

section \<open>Timeouts\<close>

text \<open>A device that stays busy for ever.\<close>

definition haimr_stuck :: "'h platform \<Rightarrow> u64 \<Rightarrow> bool" where
  "haimr_stuck P b \<longleftrightarrow> b \<noteq> 0 \<and> (\<forall>h. isset (fst (io_read4 P h b RTSX_HAIMR)) RTSX_HAIMR_BUSY)"

lemma haimr_poll_stuck:
  "haimr_stuck P b \<Longrightarrow> ioh s = b \<Longrightarrow> fst (fst (run_state (haimr_poll n P reg) s)) = - 1"
  by (induction n arbitrary: s reg) (auto simp: run_READ4 haimr_stuck_def)

lemma haimr_write_poll_stuck:
  "haimr_stuck P b \<Longrightarrow> ioh s = b \<Longrightarrow> fst (run_state (haimr_write_poll n P x) s) = Inl ETIMEDOUT"
  by (induction n arbitrary: s) (auto simp: run_READ4 haimr_stuck_def)

lemma stuck_chip_timeouts_write:
  assumes "haimr_stuck P b" and "ioh s = b"
  shows "fst (run_state (rtsx_write P a m x) s) = Inl ETIMEDOUT"
proof -
  have b: "b \<noteq> 0" using assms(1) by (simp add: haimr_stuck_def)
  show ?thesis
    using assms(2) b by (simp add: rtsx_write_def run_WRITE4' haimr_write_poll_stuck [OF assms(1)])
qed

text \<open>
  C36: on a chip that never answers, \<open>rtsx_write\<close> gives up after its 1024 polls and reports
  the timeout, but \<open>rtsx_read\<close> reports success: its test of the counter after
  \<open>while (tries--)\<close> compares with 0 where the exhausted counter is -1.
\<close>

theorem stuck_chip_timeouts:
  assumes "haimr_stuck P b" and "ioh s = b"
  shows "fst (run_state (rtsx_write P a m x) s) = Inl ETIMEDOUT
    \<and> snd (fst (run_state (rtsx_read P a) s)) = OK"
proof -
  have b: "b \<noteq> 0" using assms(1) by (simp add: haimr_stuck_def)
  have "fst (fst (run_state (haimr_poll 1024 P 0) (s\<lparr>hw := h\<rparr>))) = - 1" for h
    using haimr_poll_stuck [OF assms(1), of "s\<lparr>hw := h\<rparr>"] assms(2) by simp
  then show ?thesis
    using assms(2) b stuck_chip_timeouts_write [OF assms]
    by (simp add: rtsx_read_def run_WRITE4 case_prod_beta)
qed

text \<open>
  A chip that answers at the last of the 1024 polls: the read succeeded, and is reported
  as a timeout.
\<close>

lemma last_poll_reported_as_timeout:
  assumes "haimr_answers P b 1023 (io_write4 P (hw s) b RTSX_HAIMR (haimr_read_cmd a)) v h'"
    and "ioh s = b" and "b \<noteq> 0"
  shows "run_state (rtsx_read P a) s = ((ucast (v AND 0xff), Inl ETIMEDOUT), s\<lparr>hw := h'\<rparr>)"
  using haimr_poll_answers [of P b 1023 "s\<lparr>hw := io_write4 P (hw s) b RTSX_HAIMR (haimr_read_cmd a)\<rparr>"
      v h' 1024 0] assms
  by (simp add: rtsx_read_def run_WRITE4)

section \<open>A simulated chip\<close>

text \<open>
  A concrete device that satisfies \<open>haimr_device\<close>: it executes each command at once. The
  theorems are applied to it.
\<close>

record sim_chip =
  sim_rf :: "u16 \<Rightarrow> u8"
  sim_latch :: u32
  sim_regs :: "u32 \<Rightarrow> u32"

definition sim_command :: "sim_chip \<Rightarrow> u32 \<Rightarrow> sim_chip" where
  "sim_command h v = (let a = ucast (drop_bit 16 v) AND 0x3FFF; x = ucast v in
     if isset v RTSX_HAIMR_WRITE
     then h\<lparr>sim_rf := (sim_rf h)(a := masked (sim_rf h a) (ucast (drop_bit 8 v)) x), sim_latch := ucast (x :: u8)\<rparr>
     else h\<lparr>sim_latch := ucast (sim_rf h a)\<rparr>)"

definition sim_platform :: "sim_chip platform" where
  "sim_platform = bare_platform\<lparr>
     io_read4 := (\<lambda>h b off. (if off = RTSX_HAIMR then sim_latch h else sim_regs h off, h)),
     io_write4 := (\<lambda>h b off v.
       if off = RTSX_HAIMR then if isset v RTSX_HAIMR_BUSY then sim_command h v else h
       else h\<lparr>sim_regs := (sim_regs h)(off := v)\<rparr>)\<rparr>"

lemma bit_haimr:
  "bit (0x3FFF :: u16) n \<longleftrightarrow> n < 14" "bit (0xff :: u32) n \<longleftrightarrow> n < 8"
  "bit (0x80000000 :: u32) n \<longleftrightarrow> n = 31" "bit (0x40000000 :: u32) n \<longleftrightarrow> n = 30"
proof -
  have "(0x3FFF :: u16) = mask 14" "(0xff :: u32) = mask 8"
    "(0x80000000 :: u32) = 2 ^ 31" "(0x40000000 :: u32) = 2 ^ 30"
    by (simp_all add: mask_eq_exp_minus_1)
  then show "bit (0x3FFF :: u16) n \<longleftrightarrow> n < 14" "bit (0xff :: u32) n \<longleftrightarrow> n < 8"
    "bit (0x80000000 :: u32) n \<longleftrightarrow> n = 31" "bit (0x40000000 :: u32) n \<longleftrightarrow> n = 30"
    by (auto simp only: bit_mask_iff bit_exp_iff) (auto simp: possible_bit_def)
qed

lemma isset_busy: "isset v RTSX_HAIMR_BUSY \<longleftrightarrow> bit v 31"
proof -
  have "(0x80000000 :: u32) = 2 ^ 31" by simp
  then show ?thesis unfolding isset_def by (simp only: and_exp_eq_0_iff_not_bit) simp
qed

lemma isset_write: "isset v RTSX_HAIMR_WRITE \<longleftrightarrow> bit v 30"
proof -
  have "(0x40000000 :: u32) = 2 ^ 30" by simp
  then show ?thesis unfolding isset_def by (simp only: and_exp_eq_0_iff_not_bit) simp
qed

lemma byte_bit: "bit (x :: u8) n \<Longrightarrow> n < 8" "\<not> n < 8 \<Longrightarrow> \<not> bit (x :: u8) n"
  using bit_imp_le_length [of x n] by auto

lemma byte_not_busy: "\<not> isset (ucast (x :: u8) :: u32) RTSX_HAIMR_BUSY"
  by (simp add: isset_busy bit_ucast_iff byte_bit)

lemma byte_and_ff: "(ucast (x :: u8) :: u32) AND 0xff = ucast x"
  by (rule bit_word_eqI) (simp only: bit_haimr bit_and_iff bit_ucast_iff, auto dest: byte_bit)

lemmas cmd_bits = haimr_read_cmd_def haimr_write_cmd_def bit_and_iff bit_or_iff bit_haimr
  bit_ucast_iff bit_push_bit_iff bit_drop_bit_eq o_def isset_busy isset_write

lemma haimr_read_cmd_fields:
  "isset (haimr_read_cmd a) RTSX_HAIMR_BUSY" "\<not> isset (haimr_read_cmd a) RTSX_HAIMR_WRITE"
  "ucast (drop_bit 16 (haimr_read_cmd a)) AND 0x3FFF = a AND 0x3FFF"
proof -
  show "isset (haimr_read_cmd a) RTSX_HAIMR_BUSY" "\<not> isset (haimr_read_cmd a) RTSX_HAIMR_WRITE"
    by (simp_all add: cmd_bits)
  show "ucast (drop_bit 16 (haimr_read_cmd a)) AND 0x3FFF = a AND 0x3FFF"
    by (rule bit_word_eqI) (simp only: cmd_bits, auto)
qed

lemma haimr_write_cmd_fields:
  "isset (haimr_write_cmd a m x) RTSX_HAIMR_BUSY" "isset (haimr_write_cmd a m x) RTSX_HAIMR_WRITE"
  "ucast (drop_bit 16 (haimr_write_cmd a m x)) AND 0x3FFF = a AND 0x3FFF"
  "ucast (drop_bit 8 (haimr_write_cmd a m x)) = m" "ucast (haimr_write_cmd a m x) = x"
proof -
  show "isset (haimr_write_cmd a m x) RTSX_HAIMR_BUSY" "isset (haimr_write_cmd a m x) RTSX_HAIMR_WRITE"
    by (simp_all add: cmd_bits)
  show "ucast (drop_bit 16 (haimr_write_cmd a m x)) AND 0x3FFF = a AND 0x3FFF"
    "ucast (drop_bit 8 (haimr_write_cmd a m x)) = m" "ucast (haimr_write_cmd a m x) = x"
    by (rule bit_word_eqI, simp only: cmd_bits, auto dest: byte_bit)+
qed

lemma sim_write_command:
  "isset v RTSX_HAIMR_BUSY \<Longrightarrow> io_write4 sim_platform h b RTSX_HAIMR v = sim_command h v"
  by (simp add: sim_platform_def)

lemma sim_read_latch: "io_read4 sim_platform h b RTSX_HAIMR = (sim_latch h, h)"
  by (simp add: sim_platform_def)

lemma sim_haimr_device:
  assumes "b \<noteq> 0"
  shows "haimr_device sim_platform b sim_rf A"
proof -
  have r: "haimr_answers sim_platform b 0 (io_write4 sim_platform h b RTSX_HAIMR (haimr_read_cmd a))
      (ucast (sim_rf h (a AND 0x3FFF))) (h\<lparr>sim_latch := ucast (sim_rf h (a AND 0x3FFF))\<rparr>)" for h a
    by (simp only: sim_write_command haimr_read_cmd_fields haimr_answers.simps sim_read_latch)
       (simp add: sim_command_def haimr_read_cmd_fields byte_not_busy Let_def)
  have w: "haimr_answers sim_platform b 0 (io_write4 sim_platform h b RTSX_HAIMR (haimr_write_cmd a m x))
      (ucast x) (h\<lparr>sim_rf := (sim_rf h)(a AND 0x3FFF := masked (sim_rf h (a AND 0x3FFF)) m x),
                   sim_latch := ucast x\<rparr>)" for h a m x
    by (simp only: sim_write_command haimr_write_cmd_fields haimr_answers.simps sim_read_latch)
       (simp add: sim_command_def haimr_write_cmd_fields byte_not_busy Let_def)
  show ?thesis
    unfolding haimr_device_def
  proof (intro conjI allI)
    show "\<exists>k<1023. \<exists>v h'. haimr_answers sim_platform b k
          (io_write4 sim_platform h b RTSX_HAIMR (haimr_read_cmd a)) v h'
          \<and> (a AND 0x3FFF \<in> A \<longrightarrow> v AND 0xff = ucast (sim_rf h (a AND 0x3FFF)))
          \<and> (\<forall>r\<in>A. sim_rf h' r = sim_rf h r)" for h a
      by (rule exI [of _ 0], rule conjI, simp, intro exI conjI, rule r) (simp_all add: byte_and_ff)
    show "\<exists>k<1023. \<exists>v h'. haimr_answers sim_platform b k
          (io_write4 sim_platform h b RTSX_HAIMR (haimr_write_cmd a m x)) v h' \<and> v AND 0xff = ucast x
          \<and> (\<forall>r\<in>A. sim_rf h' r = (if r = a AND 0x3FFF then masked (sim_rf h r) m x else sim_rf h r))"
      for h a m x
      by (rule exI [of _ 0], rule conjI, simp, intro exI conjI, rule w) (simp_all add: byte_and_ff)
  qed (use assms in \<open>auto simp: sim_platform_def bare_platform_def\<close>)
qed

definition rtsx_boot :: "'h \<Rightarrow> 'h rtsx" where
  "rtsx_boot h = \<lparr>hw = h, spl_depth = 0, sched = [], slept = [], mimic_linux = False, no_adma = False,
     timeout_shift = 0, sleep_wake_delay_ms = 0,
     va_list = dict_init 10, seg_arrays = (\<lambda>_. []), seg_oob = False, dmamaps = Map.empty,
     tskq = [], onqueue = (\<lambda>_. False), task_sc = (\<lambda>_. False), tskq_wakeups = 0,
     ioh = 1, rflags = 0, intr_status = 0, regs = replicate RTSX_NREG 0, regs4 = replicate 6 0,
     dmap_cmd = 0, dmap_data = 0, dmap_adma = 0, admabuf = 0, adma_segs = 0, sdmmc_attached = False,
     init_read = False, aspm_en = 0, sd30_drive_sel_1v8 = 0, card_drive_sel = 0x41,
     sd30_drive_sel_3v3 = 0, reverse_socket = False, stack_junk = 0\<rparr>"

definition sim0 :: sim_chip where
  "sim0 = \<lparr>sim_rf = (\<lambda>_. 0), sim_latch = 0, sim_regs = (\<lambda>_. 0)\<rparr>"

theorem save_restore_roundtrip_witness:
  "list_all (\<lambda>a. sim_rf (hw (snd (run_state (rtsx_restore_regs sim_platform)
     ((snd (run_state (rtsx_save_regs sim_platform) (rtsx_boot (sim0\<lparr>sim_rf := (\<lambda>a. ucast a)\<rparr>))))
        \<lparr>hw := sim0\<rparr>)))) (a AND 0x3FFF) = ucast (a AND 0x3FFF)) saved_regs"
proof -
  let ?s = "rtsx_boot (sim0\<lparr>sim_rf := (\<lambda>a. ucast a)\<rparr>)"
  have dev: "haimr_device sim_platform 1 sim_rf UNIV" by (rule sim_haimr_device) simp
  have "ioh ?s = 1" "length (regs ?s) = RTSX_NREG" by (simp_all add: rtsx_boot_def)
  from save_restore_roundtrip [OF dev this _ surjective_pairing refl surjective_pairing, of sim0]
  show ?thesis by (simp add: rtsx_boot_def list_all_iff)
qed

definition stuck_platform :: "unit platform" where
  "stuck_platform = bare_platform\<lparr>io_read4 := (\<lambda>h _ _. (RTSX_HAIMR_BUSY, h))\<rparr>"

theorem stuck_chip_timeouts_witness:
  "snd (fst (run_state (rtsx_read stuck_platform RTSX_DUMMY_REG) (rtsx_boot ()))) = OK"
proof -
  have "haimr_stuck stuck_platform 1"
    by (simp add: haimr_stuck_def stuck_platform_def bare_platform_def isset_def)
  moreover have "ioh (rtsx_boot ()) = 1" by (simp add: rtsx_boot_def)
  ultimately show ?thesis using stuck_chip_timeouts by blast
qed

end
