(* ===== verification/Rts5249.thy ===== *)
theory Rts5249
  imports RtsxHw
begin

text \<open>
  The chip-specific initialisation of
  3rdParty/linux/drivers/misc/cardreader/rts5249.c: vendor settings read from the
  configuration space into static variables, phy tuning and the extra register setup of
  the RTS525A. Constants are those of 3rdParty/linux/include/linux/rtsx\_pci.h.
\<close>

section \<open>Constants\<close>

abbreviation (input) OUTPUT_3V3 :: u8 where "OUTPUT_3V3 \<equiv> 0x0"
abbreviation (input) SD30_CLK_DRIVE_SEL :: u16 where "SD30_CLK_DRIVE_SEL \<equiv> 0xFD5A"
abbreviation (input) SD30_CMD_DRIVE_SEL :: u16 where "SD30_CMD_DRIVE_SEL \<equiv> 0xFD5E"
abbreviation (input) SD30_DAT_DRIVE_SEL :: u16 where "SD30_DAT_DRIVE_SEL \<equiv> 0xFD5F"
abbreviation (input) L1SUB_CONFIG3 :: u16 where "L1SUB_CONFIG3 \<equiv> 0xFE8F"
abbreviation (input) GPIO_CTL :: u16 where "GPIO_CTL \<equiv> 0xFC1F"
abbreviation (input) ASPM_FORCE_CTL :: u16 where "ASPM_FORCE_CTL \<equiv> 0xFE57"
abbreviation (input) LDO_PWR_SEL :: u16 where "LDO_PWR_SEL \<equiv> 0xFE78"
abbreviation (input) OLT_LED_CTL :: u16 where "OLT_LED_CTL \<equiv> 0xFC1E"
abbreviation (input) PETXCFG :: u16 where "PETXCFG \<equiv> 0xFF03"
abbreviation (input) D3_DELINK_MODE_EN :: u8 where "D3_DELINK_MODE_EN \<equiv> 0x10"
abbreviation (input) PHY_FLD0 :: u8 where "PHY_FLD0 \<equiv> 0x1D"
abbreviation (input) PHY_FLD0_CLK_REQ_20C :: u16 where "PHY_FLD0_CLK_REQ_20C \<equiv> 0x8000"
abbreviation (input) PHY_FLD0_RX_IDLE_EN :: u16 where "PHY_FLD0_RX_IDLE_EN \<equiv> 0x1000"
abbreviation (input) PHY_FLD0_BIT_ERR_RSTN :: u16 where "PHY_FLD0_BIT_ERR_RSTN \<equiv> 0x800"
abbreviation (input) PHY_FLD0_BER_COUNT :: u16 where "PHY_FLD0_BER_COUNT \<equiv> 0x1E0"
abbreviation (input) PHY_FLD0_BER_TIMER :: u16 where "PHY_FLD0_BER_TIMER \<equiv> 0x1E"
abbreviation (input) PHY_FLD0_CHECK_EN :: u16 where "PHY_FLD0_CHECK_EN \<equiv> 0x1"
abbreviation (input) PHY_ANA03 :: u8 where "PHY_ANA03 \<equiv> 0x3"
abbreviation (input) PHY_ANA03_TIMER_MAX :: u16 where "PHY_ANA03_TIMER_MAX \<equiv> 0x2700"
abbreviation (input) PHY_ANA03_OOBS_DEB_EN :: u16 where "PHY_ANA03_OOBS_DEB_EN \<equiv> 0x40"
abbreviation (input) PHY_CMU_DEBUG_EN :: u16 where "PHY_CMU_DEBUG_EN \<equiv> 0x8"
abbreviation (input) PHY_REV0 :: u8 where "PHY_REV0 \<equiv> 0x19"
abbreviation (input) PHY_REV0_FILTER_OUT :: u16 where "PHY_REV0_FILTER_OUT \<equiv> 0x3800"
abbreviation (input) PHY_REV0_CDR_BYPASS_PFD :: u16 where "PHY_REV0_CDR_BYPASS_PFD \<equiv> 0x100"
abbreviation (input) PHY_REV0_CDR_RX_IDLE_BYPASS :: u16 where "PHY_REV0_CDR_RX_IDLE_BYPASS \<equiv> 0x2"
abbreviation (input) PCLK_CTL :: u16 where "PCLK_CTL \<equiv> 0xFE55"
abbreviation (input) PCLK_MODE_SEL :: u8 where "PCLK_MODE_SEL \<equiv> 0x20"
abbreviation (input) L1SUB_CONFIG2 :: u16 where "L1SUB_CONFIG2 \<equiv> 0xFE8E"
abbreviation (input) L1SUB_AUTO_CFG :: u8 where "L1SUB_AUTO_CFG \<equiv> 0x2"
abbreviation (input) RREF_CFG :: u16 where "RREF_CFG \<equiv> 0xFF6C"
abbreviation (input) RREF_VBGSEL_MASK :: u8 where "RREF_VBGSEL_MASK \<equiv> 0x38"
abbreviation (input) RREF_VBGSEL_1V25 :: u8 where "RREF_VBGSEL_1V25 \<equiv> 0x28"
abbreviation (input) LDO_VIO_CFG :: u16 where "LDO_VIO_CFG \<equiv> 0xFF75"
abbreviation (input) LDO_VIO_TUNE_MASK :: u8 where "LDO_VIO_TUNE_MASK \<equiv> 0x7"
abbreviation (input) LDO_VIO_1V7 :: u8 where "LDO_VIO_1V7 \<equiv> 0x3"
abbreviation (input) LDO_DV12S_CFG :: u16 where "LDO_DV12S_CFG \<equiv> 0xFF76"
abbreviation (input) LDO_D12_TUNE_MASK :: u8 where "LDO_D12_TUNE_MASK \<equiv> 0x7"
abbreviation (input) LDO_D12_TUNE_DF :: u8 where "LDO_D12_TUNE_DF \<equiv> 0x4"
abbreviation (input) LDO_AV12S_CFG :: u16 where "LDO_AV12S_CFG \<equiv> 0xFF77"
abbreviation (input) LDO_AV12S_TUNE_MASK :: u8 where "LDO_AV12S_TUNE_MASK \<equiv> 0x7"
abbreviation (input) LDO_AV12S_TUNE_DF :: u8 where "LDO_AV12S_TUNE_DF \<equiv> 0x4"
abbreviation (input) LDO_VCC_CFG0 :: u16 where "LDO_VCC_CFG0 \<equiv> 0xFF72"
abbreviation (input) LDO_VCC_LMTVTH_MASK :: u8 where "LDO_VCC_LMTVTH_MASK \<equiv> 0x30"
abbreviation (input) LDO_VCC_LMTVTH_2A :: u8 where "LDO_VCC_LMTVTH_2A \<equiv> 0x10"
abbreviation (input) OOBS_CONFIG :: u16 where "OOBS_CONFIG \<equiv> 0xFF6E"
abbreviation (input) OOBS_AUTOK_DIS :: u8 where "OOBS_AUTOK_DIS \<equiv> 0x80"
abbreviation (input) OOBS_VAL_MASK :: u8 where "OOBS_VAL_MASK \<equiv> 0x1F"
abbreviation (input) RTS524A_PM_CTRL3 :: u16 where "RTS524A_PM_CTRL3 \<equiv> 0xFF7E"

section \<open>Vendor settings\<close>

text \<open>
  \<open>rtsx_base_fetch_vendor_settings\<close>: the results of \<open>rtsx_read_cfg\<close> are not tested, so
  after a failed read the variable \<open>reg\<close> keeps whatever it held.
\<close>

definition read_cfg_into :: "'h platform \<Rightarrow> u16 \<Rightarrow> u32 \<Rightarrow> (('h, 'z) rtsx_scheme, u32) state" where
  "read_cfg_into P addr reg = do {
     r \<leftarrow> rtsx_read_cfg P 0 addr;
     ret (case r of Inl e \<Rightarrow> reg | Inr v \<Rightarrow> v) }"

definition rtsx_base_fetch_vendor_settings :: "'h platform \<Rightarrow> (('h, 'z) rtsx_scheme, unit) state" where
  "rtsx_base_fetch_vendor_settings P = do {
     junk \<leftarrow> fetch stack_junk;
     reg \<leftarrow> read_cfg_into P 0x724 junk;
     if isset reg 0x1000000 then ret () else do {
       modify (\<lambda>s. s\<lparr>aspm_en := ucast (drop_bit 28 reg AND 0x03),
                     sd30_drive_sel_1v8 := ucast (drop_bit 26 reg AND 0x03),
                     card_drive_sel := (card_drive_sel s AND 0x3F)
                       OR ucast (push_bit 6 (drop_bit 25 reg AND 0x01))\<rparr>);
       reg2 \<leftarrow> read_cfg_into P 0x814 reg;
       modify (\<lambda>s. s\<lparr>sd30_drive_sel_3v3 := ucast (drop_bit 5 reg2 AND 0x03)\<rparr>);
       if isset reg2 0x4000 then modify (\<lambda>s. s\<lparr>reverse_socket := True\<rparr>) else ret () } }"

section \<open>Chip initialisation\<close>

definition driving_3v3 :: "u8 list list" where
  "driving_3v3 = [[0x11, 0x11, 0x18], [0x55, 0x55, 0x5C], [0xFF, 0xFF, 0xFF], [0x96, 0x96, 0x96]]"

definition driving_1v8 :: "u8 list list" where
  "driving_1v8 = [[0xC4, 0xC4, 0xC4], [0x3C, 0x3C, 0x3C], [0xFE, 0xFE, 0xFE], [0xB3, 0xB3, 0xB3]]"

definition rts5249_fill_driving :: "'h platform \<Rightarrow> u8 \<Rightarrow> (('h, 'z) rtsx_scheme, unit) state" where
  "rts5249_fill_driving P voltage = do {
     sel3 \<leftarrow> fetch sd30_drive_sel_3v3;
     sel1 \<leftarrow> fetch sd30_drive_sel_1v8;
     let (driving, drive_sel) = (if voltage = OUTPUT_3V3 then (driving_3v3, sel3) else (driving_1v8, sel1)) in
     run_all [rtsx_write P SD30_CLK_DRIVE_SEL 0xFF (driving ! unat drive_sel ! 0),
              rtsx_write P SD30_CMD_DRIVE_SEL 0xFF (driving ! unat drive_sel ! 1),
              rtsx_write P SD30_DAT_DRIVE_SEL 0xFF (driving ! unat drive_sel ! 2)] }"

text \<open>\<open>rtsx_pci_add_cmd\<close> is \<open>rtsx_write\<close> and \<open>rtsx_pci_send_cmd\<close> is 0 in this port.\<close>

definition rts5249_extra_init_hw :: "'h platform \<Rightarrow> (('h, 'z) rtsx_scheme, unit res) state" where
  "rts5249_extra_init_hw P = do {
     run_all [rtsx_write P L1SUB_CONFIG3 0xFF 0x00,
              rtsx_write P GPIO_CTL 0x02 0x02,
              rtsx_write P ASPM_FORCE_CTL 0x3F 0,
              rtsx_write P LDO_PWR_SEL 0x03 0x00,
              rtsx_write P LDO_PWR_SEL 0x03 0x01,
              rtsx_write P OLT_LED_CTL 0x0F 0x02];
     rts5249_fill_driving P OUTPUT_3V3;
     rev \<leftarrow> fetch reverse_socket;
     _ \<leftarrow> rtsx_write P PETXCFG 0xB0 (if rev then 0xB0 else 0x80);
     ret OK }"

text \<open>
  \<open>rts525a_optimize_phy\<close>: the driver's errors are positive, so \<open>err < 0\<close> never holds and
  the first write is not checked either.
\<close>

definition rts525a_optimize_phy :: "'h platform \<Rightarrow> (('h, 'z) rtsx_scheme, unit res) state" where
  "rts525a_optimize_phy P = do {
     _ \<leftarrow> rtsx_write P RTS524A_PM_CTRL3 D3_DELINK_MODE_EN 0x00;
     _ \<leftarrow> rtsx_write_phy P PHY_FLD0 (PHY_FLD0_CLK_REQ_20C OR PHY_FLD0_RX_IDLE_EN OR
            PHY_FLD0_BIT_ERR_RSTN OR PHY_FLD0_BER_COUNT OR PHY_FLD0_BER_TIMER OR PHY_FLD0_CHECK_EN);
     _ \<leftarrow> rtsx_write_phy P PHY_ANA03 (PHY_ANA03_TIMER_MAX OR PHY_ANA03_OOBS_DEB_EN OR PHY_CMU_DEBUG_EN);
     fl \<leftarrow> fetch rflags;
     if isset fl RTSX_F_525A_TYPE_A
     then do {
       _ \<leftarrow> rtsx_write_phy P PHY_REV0 (PHY_REV0_FILTER_OUT OR PHY_REV0_CDR_BYPASS_PFD OR
              PHY_REV0_CDR_RX_IDLE_BYPASS);
       ret OK }
     else ret OK }"

definition rts525a_extra_init_hw :: "'h platform \<Rightarrow> (('h, 'z) rtsx_scheme, unit res) state" where
  "rts525a_extra_init_hw P = do {
     _ \<leftarrow> rts5249_extra_init_hw P;
     _ \<leftarrow> rtsx_write P PCLK_CTL PCLK_MODE_SEL PCLK_MODE_SEL;
     fl \<leftarrow> fetch rflags;
     (if isset fl RTSX_F_525A_TYPE_A
     then run_all [rtsx_write P L1SUB_CONFIG2 L1SUB_AUTO_CFG L1SUB_AUTO_CFG,
                   rtsx_write P RREF_CFG RREF_VBGSEL_MASK RREF_VBGSEL_1V25,
                   rtsx_write P LDO_VIO_CFG LDO_VIO_TUNE_MASK LDO_VIO_1V7,
                   rtsx_write P LDO_DV12S_CFG LDO_D12_TUNE_MASK LDO_D12_TUNE_DF,
                   rtsx_write P LDO_AV12S_CFG LDO_AV12S_TUNE_MASK LDO_AV12S_TUNE_DF,
                   rtsx_write P LDO_VCC_CFG0 LDO_VCC_LMTVTH_MASK LDO_VCC_LMTVTH_2A,
                   rtsx_write P OOBS_CONFIG (OOBS_AUTOK_DIS OR OOBS_VAL_MASK) 0x89]
     else ret ());
     ret OK }"

section \<open>Vendor settings stay within the tables\<close>

text \<open>
  The drive selections are two-bit fields, so indexing the driving tables with them is
  always in bounds; the card drive selection only changes in bit 6 and its top bit is clear.
\<close>

definition vendor_inv :: "('h, 'z) rtsx_scheme \<Rightarrow> bool" where
  "vendor_inv s \<longleftrightarrow> unat (sd30_drive_sel_3v3 s) < length driving_3v3
     \<and> unat (sd30_drive_sel_1v8 s) < length driving_1v8"

lemma two_bits: "unat (ucast (x AND 0x03 :: u32) :: u8) < 4"
proof -
  have "x AND 0x03 = take_bit 2 x" by (simp add: take_bit_eq_mask mask_eq_exp_minus_1)
  then have "unat (x AND 0x03) < 4"
    using take_bit_nat_less_exp [of 2 "unat x"] by (simp add: unsigned_take_bit_eq)
  then show ?thesis by (simp add: unsigned_ucast_eq take_bit_nat_eq_self)
qed

lemma hw_only_vendor: "hw_only (\<lambda>s. (sd30_drive_sel_3v3 s, sd30_drive_sel_1v8 s))"
  by (simp add: hw_only_def)

lemma read_cfg_into_keeps: "hw_only f \<Longrightarrow> keeps f (read_cfg_into P a reg)"
  unfolding read_cfg_into_def by (intro keeps)

text \<open>
  C40: fetching the vendor settings, whatever the configuration registers hold and whether
  or not they can be read, leaves drive selections that index the driving tables in bounds.
\<close>

theorem vendor_settings_in_bounds:
  assumes "vendor_inv s"
  shows "vendor_inv (exec (rtsx_base_fetch_vendor_settings P) s)"
proof -
  let ?f = "\<lambda>s. (sd30_drive_sel_3v3 s, sd30_drive_sel_1v8 s)"
  obtain reg s1 where 1: "run_state (read_cfg_into P 0x724 (stack_junk s)) s = (reg, s1)"
    by (cases "run_state (read_cfg_into P 0x724 (stack_junk s)) s") auto
  have s1: "?f s1 = ?f s" by (rule keeps_run [OF read_cfg_into_keeps [OF hw_only_vendor] 1])
  define s2 where "s2 = s1\<lparr>aspm_en := ucast (drop_bit 28 reg AND 0x03),
      sd30_drive_sel_1v8 := ucast (drop_bit 26 reg AND 0x03),
      card_drive_sel := (card_drive_sel s1 AND 0x3F) OR ucast (push_bit 6 (drop_bit 25 reg AND 0x01))\<rparr>"
  obtain reg2 s3 where 2: "run_state (read_cfg_into P 0x814 reg) s2 = (reg2, s3)"
    by (cases "run_state (read_cfg_into P 0x814 reg) s2") auto
  have s3: "?f s3 = ?f s2" by (rule keeps_run [OF read_cfg_into_keeps [OF hw_only_vendor] 2])
  show ?thesis
    using assms s1 s3 two_bits [of "drop_bit 26 reg"] two_bits [of "drop_bit 5 reg2"] 1 2 [unfolded s2_def]
    by (auto simp: exec_def rtsx_base_fetch_vendor_settings_def vendor_inv_def driving_3v3_def
        driving_1v8_def s2_def)
qed

theorem vendor_settings_in_bounds_witness:
  "vendor_inv (exec (rtsx_base_fetch_vendor_settings sim_platform) (rtsx_boot sim0))"
  by (rule vendor_settings_in_bounds)
     (simp add: vendor_inv_def rtsx_boot_def driving_3v3_def driving_1v8_def)

end
