(* ===== verification/RtsxPower.thy ===== *)
theory RtsxPower
  imports Rts5249
begin

text \<open>
  Controller initialisation, reset, power, clock, bus width and LED of rtsx.c, and the
  properties of the register sequences they issue.
\<close>

section \<open>Constants\<close>

abbreviation (input) SDMMC_SDCLK_OFF :: int where "SDMMC_SDCLK_OFF \<equiv> 0"
abbreviation (input) SDMMC_SDCLK_400KHZ :: int where "SDMMC_SDCLK_400KHZ \<equiv> 400"
abbreviation (input) SDMMC_SDCLK_25MHZ :: int where "SDMMC_SDCLK_25MHZ \<equiv> 25000"
abbreviation (input) SDMMC_SDCLK_50MHZ :: int where "SDMMC_SDCLK_50MHZ \<equiv> 50000"
abbreviation (input) SDMMC_TIMING_LEGACY :: int where "SDMMC_TIMING_LEGACY \<equiv> 0"
abbreviation (input) SDMMC_TIMING_HIGHSPEED :: int where "SDMMC_TIMING_HIGHSPEED \<equiv> 1"

abbreviation (input) MMC_OCR_MEM_READY :: u32 where "MMC_OCR_MEM_READY \<equiv> 0x80000000"
abbreviation (input) SD_OCR_SDHC_CAP :: u32 where "SD_OCR_SDHC_CAP \<equiv> 0x40000000"
abbreviation (input) MMC_OCR_3_3V_3_4V :: u32 where "MMC_OCR_3_3V_3_4V \<equiv> 0x200000"
abbreviation (input) MMC_OCR_3_2V_3_3V :: u32 where "MMC_OCR_3_2V_3_3V \<equiv> 0x100000"
abbreviation (input) MMC_OCR_3_1V_3_2V :: u32 where "MMC_OCR_3_1V_3_2V \<equiv> 0x80000"
abbreviation (input) MMC_OCR_3_0V_3_1V :: u32 where "MMC_OCR_3_0V_3_1V \<equiv> 0x40000"
abbreviation (input) MMC_OCR_1_65V_1_95V :: u32 where "MMC_OCR_1_65V_1_95V \<equiv> 0x80"

definition RTSX_SUPPORT_VOLTAGE :: u32 where
  "RTSX_SUPPORT_VOLTAGE = MMC_OCR_3_3V_3_4V OR MMC_OCR_3_2V_3_3V OR MMC_OCR_3_1V_3_2V
     OR MMC_OCR_3_0V_3_1V OR SD_OCR_SDHC_CAP"

section \<open>Initialisation\<close>

text \<open>The first part of \<open>rtsx_init\<close>: the IC version.\<close>

definition rtsx_init_version :: "'h platform \<Rightarrow> (('h, 'z) rtsx_scheme, unit res) state" where
  "rtsx_init_version P = do {
     fl \<leftarrow> fetch rflags;
     if isset fl RTSX_F_5229 then
       RTSX_READ P RTSX_DUMMY_REG (\<lambda>version.
         let v = version AND 0x0F in
         if v = RTSX_IC_VERSION_A \<or> v = RTSX_IC_VERSION_B \<or> v = RTSX_IC_VERSION_D then ret OK
         else if v = RTSX_IC_VERSION_C
         then do { modify (\<lambda>s. s\<lparr>rflags := setf (rflags s) RTSX_F_5229_TYPE_C\<rparr>); ret OK }
         else ret (Inl E1))
     else if isset fl RTSX_F_525A then do {
       r \<leftarrow> fetch init_read;
       if r then ret OK else do {
         modify (\<lambda>s. s\<lparr>init_read := True\<rparr>);
         RTSX_READ P RTSX_DUMMY_REG (\<lambda>version. do {
           (if version AND 0x0F = RTSX_IC_VERSION_A
            then modify (\<lambda>s. s\<lparr>rflags := setf (rflags s) RTSX_F_525A_TYPE_A\<rparr>) else ret ());
           rtsx_base_fetch_vendor_settings P;
           ret OK }) } }
     else ret OK }"

text \<open>Interrupts: write-clear mode, acknowledge what is pending, note a card, enable.\<close>

definition rtsx_init_intr :: "'h platform \<Rightarrow> bool \<Rightarrow> (('h, 'z) rtsx_scheme, unit res) state" where
  "rtsx_init_intr P attaching =
     chk (RTSX_CLR P RTSX_NFTS_TX_CTRL RTSX_INT_READ_CLR) (\<lambda>_. do {
       status \<leftarrow> READ4 P RTSX_BIPR;
       WRITE4 P RTSX_BIPR status;
       (if attaching \<and> isset status RTSX_SD_EXIST
        then modify (\<lambda>s. s\<lparr>rflags := setf (rflags s) RTSX_F_CARD_PRESENT\<rparr>) else ret ());
       WRITE4 P RTSX_BIER (RTSX_TRANS_OK_INT_EN OR RTSX_TRANS_FAIL_INT_EN OR RTSX_SD_INT_EN);
       ret OK })"

text \<open>The SSC clock and the phy.\<close>

definition rtsx_init_phy :: "'h platform \<Rightarrow> (('h, 'z) rtsx_scheme, unit res) state" where
  "rtsx_init_phy P =
     chk (RTSX_CLR P RTSX_FPDCTL RTSX_SSC_POWER_DOWN) (\<lambda>_. do {
       delay P 200;
       fl \<leftarrow> fetch rflags;
       ml \<leftarrow> fetch mimic_linux;
       e \<leftarrow> (if isset fl RTSX_F_5209 then rtsx_write_phy P 0x00 0xB966
             else if ml \<and> isset fl RTSX_F_525A then rts525a_optimize_phy P
             else rtsx_write_phy P 0x00 0xBA42);
       ret (case e of Inl _ \<Rightarrow> Inl E1 | Inr _ \<Rightarrow> OK) })"

text \<open>Clock divider, sleep mode, link state and drive strength.\<close>

definition rtsx_init_link :: "'h platform \<Rightarrow> (('h, 'z) rtsx_scheme, unit res) state" where
  "rtsx_init_link P = do {
     fl \<leftarrow> fetch rflags;
     ml \<leftarrow> fetch mimic_linux;
     sel \<leftarrow> fetch card_drive_sel;
     chk (steps [RTSX_SET P RTSX_CLK_DIV 0x07,
                 RTSX_CLR P RTSX_HOST_SLEEP_STATE (RTSX_HOST_ENTER_S1 OR RTSX_HOST_ENTER_S3),
                 RTSX_CLR P RTSX_CARD_CLK_EN RTSX_CARD_CLK_EN_ALL]) (\<lambda>_.
     chk (if ml
          then steps [RTSX_CLR P RTSX_CHANGE_LINK_STATE 0x0A,
                      if isset fl (RTSX_F_5229 OR RTSX_F_525A)
                      then RTSX_WRITE P 0xFD53 sel else ret OK]
          else steps [RTSX_CLR P RTSX_CHANGE_LINK_STATE
                        (RTSX_FORCE_RST_CORE_EN OR RTSX_NON_STICKY_RST_N_DBG OR 0x04),
                      RTSX_WRITE P RTSX_SD30_DRIVE_SEL RTSX_SD30_DRIVE_SEL_3V3]) (\<lambda>_.
     chk (steps [RTSX_WRITE P RTSX_SSC_CTL1 (RTSX_SSC_8X_EN OR RTSX_SSC_SEL_4M),
                 RTSX_WRITE P RTSX_SSC_CTL2 0x12]) (\<lambda>_.
     chk (if ml then do { _ \<leftarrow> rtsx_write P RTSX_CHANGE_LINK_STATE 0x16 0x10; ret OK }
          else RTSX_SET P RTSX_CHANGE_LINK_STATE RTSX_MAC_PHY_RST_N_DBG) (\<lambda>_.
     steps [RTSX_SET P RTSX_IRQSTAT0 RTSX_LINK_READY_INT,
            RTSX_WRITE P RTSX_PERST_GLITCH_WIDTH 0x80,
            RTSX_CLR P RTSX_RCCTL RTSX_RCCTL_F_2M,
            RTSX_CLR P RTSX_NFTS_TX_CTRL 0x02,
            RTSX_SET P 0xFE58 0x01])))) }"

text \<open>The extra setup of the RTS525A, clock request and LED.\<close>

definition rtsx_init_led :: "'h platform \<Rightarrow> (('h, 'z) rtsx_scheme, unit res) state" where
  "rtsx_init_led P = do {
     fl \<leftarrow> fetch rflags;
     chk (if isset fl RTSX_F_525A then rts525a_extra_init_hw P else ret OK) (\<lambda>_.
     chk (RTSX_SET P RTSX_PETXCFG RTSX_PETXCFG_CLKREQ_PIN) (\<lambda>_.
     if isset fl RTSX_F_5209
     then steps [RTSX_WRITE P RTSX_CARD_GPIO 0x03, RTSX_WRITE P RTSX_CARD_GPIO_DIR 0x03]
     else steps [RTSX_SET P RTSX_GPIO_CTL RTSX_GPIO_LED_ON,
                 RTSX_CLR P RTSX_LDO_PWR_SEL RTSX_LDO_PWR_SEL_DV33,
                 RTSX_SET P RTSX_LDO_PWR_SEL RTSX_LDO_PWR_SEL_3V3,
                 RTSX_SET P RTSX_OLT_LED_CTL RTSX_OLT_LED_PERIOD])) }"

definition rtsx_init :: "'h platform \<Rightarrow> bool \<Rightarrow> (('h, 'z) rtsx_scheme, unit res) state" where
  "rtsx_init P attaching = steps [rtsx_init_version P, rtsx_init_intr P attaching, rtsx_init_phy P,
     rtsx_init_link P, rtsx_init_led P]"

section \<open>LED and reset\<close>

definition rtsx_led_enable :: "'h platform \<Rightarrow> (('h, 'z) rtsx_scheme, unit res) state" where
  "rtsx_led_enable P = do {
     fl \<leftarrow> fetch rflags;
     if isset fl RTSX_F_5209
     then steps [RTSX_CLR P RTSX_CARD_GPIO RTSX_CARD_GPIO_LED_OFF,
                 RTSX_WRITE P RTSX_CARD_AUTO_BLINK (RTSX_LED_BLINK_EN OR RTSX_LED_BLINK_SPEED)]
     else steps [RTSX_SET P RTSX_GPIO_CTL RTSX_GPIO_LED_ON,
                 RTSX_SET P RTSX_OLT_LED_CTL RTSX_OLT_LED_AUTOBLINK] }"

definition rtsx_led_disable :: "'h platform \<Rightarrow> (('h, 'z) rtsx_scheme, unit res) state" where
  "rtsx_led_disable P = do {
     fl \<leftarrow> fetch rflags;
     if isset fl RTSX_F_5209
     then steps [RTSX_CLR P RTSX_CARD_AUTO_BLINK RTSX_LED_BLINK_EN,
                 RTSX_WRITE P RTSX_CARD_GPIO RTSX_CARD_GPIO_LED_OFF]
     else steps [RTSX_CLR P RTSX_OLT_LED_CTL RTSX_OLT_LED_AUTOBLINK,
                 RTSX_CLR P RTSX_GPIO_CTL RTSX_GPIO_LED_ON] }"

definition rtsx_soft_reset :: "'h platform \<Rightarrow> (('h, 'z) rtsx_scheme, unit) state" where
  "rtsx_soft_reset P = do {
     WRITE4 P RTSX_HCBCTLR RTSX_STOP_CMD;
     _ \<leftarrow> rtsx_write P RTSX_CARD_STOP (RTSX_SD_STOP OR RTSX_SD_CLR_ERR) (RTSX_SD_STOP OR RTSX_SD_CLR_ERR);
     WRITE4 P RTSX_HDBCTLR RTSX_STOP_DMA;
     run_all [rtsx_write P RTSX_DMACTL RTSX_DMA_RST RTSX_DMA_RST,
              rtsx_write P RTSX_RBCTL RTSX_RB_FLUSH RTSX_RB_FLUSH] }"

definition rtsx_host_reset :: "'h platform \<Rightarrow> (('h, 'z) rtsx_scheme, unit res) state" where
  "rtsx_host_reset P = do {
     splbio;
     fl \<leftarrow> fetch rflags;
     (if isset fl RTSX_F_CARD_PRESENT then rtsx_soft_reset P else ret ());
     e \<leftarrow> rtsx_init P False;
     (case e of
        Inl _ \<Rightarrow> do { splx; ret (Inl E1) }
      | Inr _ \<Rightarrow> do { splx; ret OK }) }"

definition rtsx_host_ocr :: "(('h, 'z) rtsx_scheme, u32) state" where
  "rtsx_host_ocr = do {
     ml \<leftarrow> fetch mimic_linux;
     ret (if ml then MMC_OCR_1_65V_1_95V OR MMC_OCR_3_2V_3_3V OR MMC_OCR_3_3V_3_4V
          else RTSX_SUPPORT_VOLTAGE) }"

definition rtsx_host_maxblklen :: "(('h, 'z) rtsx_scheme, int) state" where
  "rtsx_host_maxblklen = ret 512"

definition rtsx_card_detect :: "(('h, 'z) rtsx_scheme, bool) state" where
  "rtsx_card_detect = fetch (\<lambda>s. isset (rflags s) RTSX_F_CARD_PRESENT)"

section \<open>Power\<close>

definition rtsx_stop_sd_clock :: "'h platform \<Rightarrow> (('h, 'z) rtsx_scheme, unit res) state" where
  "rtsx_stop_sd_clock P = steps [RTSX_CLR P RTSX_CARD_CLK_EN RTSX_CARD_CLK_EN_ALL,
     RTSX_SET P RTSX_SD_BUS_STAT RTSX_SD_CLK_FORCE_STOP]"

definition rtsx_bus_power_off :: "'h platform \<Rightarrow> (('h, 'z) rtsx_scheme, unit res) state" where
  "rtsx_bus_power_off P = do {
     fl \<leftarrow> fetch rflags;
     let disable3 = (if \<not> isset fl RTSX_F_5209 \<and> isset fl RTSX_F_5229_TYPE_C
                     then RTSX_PULL_CTL_DISABLE3_TYPE_C else RTSX_PULL_CTL_DISABLE3) in
     steps [rtsx_stop_sd_clock P,
            RTSX_CLR P RTSX_CARD_OE RTSX_CARD_OUTPUT_EN,
            if isset fl RTSX_F_5209 then RTSX_SET P RTSX_PWR_GATE_CTRL RTSX_LDO3318_OFF
            else RTSX_CLR P RTSX_PWR_GATE_CTRL (RTSX_LDO3318_VCC1 OR RTSX_LDO3318_VCC2),
            RTSX_SET P RTSX_CARD_PWR_CTL RTSX_SD_PWR_OFF,
            RTSX_CLR P RTSX_CARD_PWR_CTL RTSX_PMOS_STRG_800mA,
            RTSX_WRITE P RTSX_CARD_PULL_CTL1 RTSX_PULL_CTL_DISABLE12,
            RTSX_WRITE P RTSX_CARD_PULL_CTL2 RTSX_PULL_CTL_DISABLE12,
            RTSX_WRITE P RTSX_CARD_PULL_CTL3 disable3] }"

definition rtsx_bus_power_on :: "'h platform \<Rightarrow> (('h, 'z) rtsx_scheme, unit res) state" where
  "rtsx_bus_power_on P = do {
     fl \<leftarrow> fetch rflags;
     let enable3 = (if isset fl RTSX_F_5229_TYPE_C then RTSX_PULL_CTL_ENABLE3_TYPE_C
                    else RTSX_PULL_CTL_ENABLE3) in
     chk (steps [if isset fl RTSX_F_525A
                 then rtsx_write P RTSX_LDO_VCC_CFG1 RTSX_LDO_VCC_TUNE_MASK RTSX_LDO_VCC_3V3 else ret OK,
                 RTSX_WRITE P RTSX_CARD_SELECT RTSX_SD_MOD_SEL,
                 RTSX_WRITE P RTSX_CARD_SHARE_MODE RTSX_CARD_SHARE_48_SD,
                 RTSX_SET P RTSX_CARD_CLK_EN RTSX_SD_CLK_EN,
                 RTSX_WRITE P RTSX_CARD_PULL_CTL1 RTSX_PULL_CTL_ENABLE12,
                 RTSX_WRITE P RTSX_CARD_PULL_CTL2 RTSX_PULL_CTL_ENABLE12,
                 RTSX_WRITE P RTSX_CARD_PULL_CTL3 enable3,
                 RTSX_SET P RTSX_CARD_PWR_CTL RTSX_SD_PARTIAL_PWR_ON,
                 RTSX_SET P RTSX_PWR_GATE_CTRL
                   (if isset fl RTSX_F_5209 then RTSX_LDO3318_SUSPEND else RTSX_LDO3318_VCC1)]) (\<lambda>_. do {
       delay P 200;
       steps [RTSX_CLR P RTSX_CARD_PWR_CTL RTSX_SD_PWR_OFF,
              if isset fl RTSX_F_5209 then RTSX_CLR P RTSX_PWR_GATE_CTRL RTSX_LDO3318_OFF
              else RTSX_SET P RTSX_PWR_GATE_CTRL RTSX_LDO3318_VCC2,
              RTSX_WRITE P RTSX_CARD_OE RTSX_SD_OUTPUT_EN] }) }"

definition rtsx_set_bus_width :: "'h platform \<Rightarrow> int \<Rightarrow> (('h, 'z) rtsx_scheme, unit res) state" where
  "rtsx_set_bus_width P w = rtsx_write P RTSX_SD_CFG1 RTSX_BUS_WIDTH_MASK
     (if w = 8 then RTSX_BUS_WIDTH_8 else if w = 4 then RTSX_BUS_WIDTH_4 else RTSX_BUS_WIDTH_1)"

definition rtsx_bus_width :: "'h platform \<Rightarrow> int \<Rightarrow> (('h, 'z) rtsx_scheme, unit res) state" where
  "rtsx_bus_width P width = rtsx_set_bus_width P width"

definition rtsx_bus_power :: "'h platform \<Rightarrow> u32 \<Rightarrow> (('h, 'z) rtsx_scheme, unit res) state" where
  "rtsx_bus_power P ocr = do {
     splbio;
     e \<leftarrow> rtsx_bus_power_off P;
     (case e of
        Inl err \<Rightarrow> do { splx; ret (Inl err) }
      | Inr _ \<Rightarrow> do {
          ml \<leftarrow> fetch mimic_linux;
          delay P (if ml then 5000 else 200);
          if ocr = 0 then do { splx; _ \<leftarrow> rtsx_host_reset P; ret OK }
          else if \<not> isset ocr RTSX_SUPPORT_VOLTAGE then do { splx; ret (Inl EINVAL) }
          else do {
            e2 \<leftarrow> chk (rtsx_bus_power_on P) (\<lambda>_. rtsx_set_bus_width P 1);
            splx;
            ret e2 } }) }"

section \<open>Clock\<close>

definition rtsx_switch_sd_clock ::
    "'h platform \<Rightarrow> u8 \<Rightarrow> u8 \<Rightarrow> u8 \<Rightarrow> (('h, 'z) rtsx_scheme, unit res) state" where
  "rtsx_switch_sd_clock P n dv mcu = do {
     ml \<leftarrow> fetch mimic_linux;
     chk (steps [if \<not> ml then RTSX_CLR P RTSX_SD_CFG1 RTSX_SD_MODE_MASK else ret OK,
                 RTSX_SET P RTSX_CLK_CTL RTSX_CLK_LOW_FREQ,
                 if \<not> ml then steps
                   [RTSX_WRITE P RTSX_CARD_CLK_SOURCE (RTSX_CRC_FIX_CLK OR RTSX_SD30_VAR_CLK0 OR RTSX_SAMPLE_VAR_CLK1),
                    RTSX_CLR P RTSX_SD_SAMPLE_POINT_CTL RTSX_SD20_RX_SEL_MASK,
                    RTSX_WRITE P RTSX_SD_PUSH_POINT_CTL RTSX_SD20_TX_NEG_EDGE]
                 else ret OK,
                 RTSX_WRITE P RTSX_CLK_DIV (push_bit 4 dv OR mcu),
                 RTSX_CLR P RTSX_SSC_CTL1 RTSX_RSTB]) (\<lambda>_. do {
       _ \<leftarrow> rtsx_write P RTSX_SSC_CTL2 RTSX_SSC_DEPTH_MASK (4 - dv);
       chk (steps [RTSX_WRITE P RTSX_SSC_DIV_N_0 n,
                   RTSX_SET P RTSX_SSC_CTL1 RTSX_RSTB]) (\<lambda>_. do {
         delay P 130;
         RTSX_CLR P RTSX_CLK_CTL RTSX_CLK_LOW_FREQ }) }) }"

text \<open>
  The Linux branch of \<open>rtsx_bus_clock\<close>: \<open>sd_set_timing\<close>. The cases compare \<open>timing\<close>, one of
  the \<open>SDMMC_TIMING_*\<close> numbers, with a frequency.
\<close>

definition bus_clock_timing :: "'h platform \<Rightarrow> int \<Rightarrow> (('h, 'z) rtsx_scheme, unit res) state" where
  "bus_clock_timing P timing =
     (if timing = SDMMC_SDCLK_50MHZ then
        steps [RTSX_CLR P RTSX_SD_CFG1 RTSX_SD_MODE_MASK,
               RTSX_SET P RTSX_CLK_CTL RTSX_CLK_LOW_FREQ,
               RTSX_WRITE P RTSX_CARD_CLK_SOURCE (RTSX_CRC_FIX_CLK OR RTSX_SD30_VAR_CLK0 OR RTSX_SAMPLE_VAR_CLK1),
               RTSX_CLR P RTSX_CLK_CTL RTSX_CLK_LOW_FREQ,
               RTSX_SET P RTSX_SD_PUSH_POINT_CTL 0x10,
               RTSX_SET P RTSX_SD_SAMPLE_POINT_CTL RTSX_SD20_RX_14_DELAY]
      else
        steps [RTSX_CLR P RTSX_SD_CFG1 RTSX_SD_MODE_MASK,
               RTSX_SET P RTSX_CLK_CTL RTSX_CLK_LOW_FREQ,
               RTSX_WRITE P RTSX_CARD_CLK_SOURCE (RTSX_CRC_FIX_CLK OR RTSX_SD30_VAR_CLK0 OR RTSX_SAMPLE_VAR_CLK1),
               RTSX_CLR P RTSX_CLK_CTL RTSX_CLK_LOW_FREQ,
               RTSX_WRITE P RTSX_SD_PUSH_POINT_CTL 0x00,
               RTSX_CLR P RTSX_SD_SAMPLE_POINT_CTL RTSX_SD20_RX_14_DELAY])"

definition round_freq :: "int \<Rightarrow> int" where
  "round_freq freq = (if freq \<ge> SDMMC_SDCLK_50MHZ then SDMMC_SDCLK_50MHZ
     else if freq \<ge> SDMMC_SDCLK_25MHZ then SDMMC_SDCLK_25MHZ else SDMMC_SDCLK_400KHZ)"

text \<open>
  The clock parameters n, div and mcu of a rounded frequency and the access to the divider.
  The default cases of the two switches are not reachable after the rounding.
\<close>

definition clock_params ::
    "'h platform \<Rightarrow> bool \<Rightarrow> int \<Rightarrow> (('h, 'z) rtsx_scheme, (u8 \<times> u8 \<times> u8) res) state" where
  "clock_params P ml freq =
     (if ml then
        if freq = SDMMC_SDCLK_400KHZ
        then chk (rtsx_write P RTSX_SD_CFG1 RTSX_CLK_DIVIDE_MASK RTSX_CLK_DIVIDE_128)
               (\<lambda>_. ret (Inr (128, RTSX_CLK_DIV_4, 7)))
        else if freq = SDMMC_SDCLK_25MHZ
        then chk (RTSX_CLR P RTSX_SD_CFG1 RTSX_CLK_DIVIDE_MASK) (\<lambda>_. ret (Inr (98, RTSX_CLK_DIV_2, 5)))
        else chk (RTSX_CLR P RTSX_SD_CFG1 RTSX_CLK_DIVIDE_MASK) (\<lambda>_. ret (Inr (98, RTSX_CLK_DIV_1, 4)))
      else
        if freq = SDMMC_SDCLK_400KHZ
        then chk (RTSX_SET P RTSX_SD_CFG1 RTSX_CLK_DIVIDE_128) (\<lambda>_. ret (Inr (80, RTSX_CLK_DIV_8, 7)))
        else if freq = SDMMC_SDCLK_25MHZ
        then chk (RTSX_CLR P RTSX_SD_CFG1 RTSX_CLK_DIVIDE_MASK) (\<lambda>_. ret (Inr (100, RTSX_CLK_DIV_4, 7)))
        else chk (RTSX_CLR P RTSX_SD_CFG1 RTSX_CLK_DIVIDE_MASK) (\<lambda>_. ret (Inr (100, RTSX_CLK_DIV_2, 7))))"

text \<open>
  \<open>rtsx_bus_clock\<close>: the register macros return from the function itself, past the label
  that releases the lock, so an error there leaves the lock held.
\<close>

definition rtsx_bus_clock ::
    "'h platform \<Rightarrow> int \<Rightarrow> int \<Rightarrow> (('h, 'z) rtsx_scheme, unit res) state" where
  "rtsx_bus_clock P freq timing = do {
     splbio;
     if freq = SDMMC_SDCLK_OFF then do { e \<leftarrow> rtsx_stop_sd_clock P; splx; ret e }
     else do {
       ml \<leftarrow> fetch mimic_linux;
       chk (if ml then bus_clock_timing P timing else ret OK) (\<lambda>_.
       chk (clock_params P ml (round_freq freq)) (\<lambda>(n, dv, mcu). do {
         e \<leftarrow> rtsx_switch_sd_clock P n dv mcu;
         splx;
         ret e })) } }"

section \<open>The lock is released on every path but one\<close>

definition rtsx_hw_only :: "(('h, 'z) rtsx_scheme \<Rightarrow> 'b) \<Rightarrow> bool" where
  "rtsx_hw_only f \<longleftrightarrow> hw_only f \<and> (\<forall>s x. f (s\<lparr>rflags := x\<rparr>) = f s) \<and> (\<forall>s x. f (s\<lparr>init_read := x\<rparr>) = f s)
     \<and> (\<forall>s a b c. f (s\<lparr>aspm_en := a, sd30_drive_sel_1v8 := b, card_drive_sel := c\<rparr>) = f s)
     \<and> (\<forall>s x. f (s\<lparr>sd30_drive_sel_3v3 := x\<rparr>) = f s) \<and> (\<forall>s x. f (s\<lparr>reverse_socket := x\<rparr>) = f s)"

lemma rtsx_hw_onlyD [simp]: "rtsx_hw_only f \<Longrightarrow> hw_only f"
  by (simp add: rtsx_hw_only_def)

lemma hw_only_delay [keeps]: "hw_only f \<Longrightarrow> keeps f (delay P n)"
  by (rule keeps_delay) (simp add: hw_only_def)

lemma keeps_vendor [keeps]: "rtsx_hw_only f \<Longrightarrow> keeps f (rtsx_base_fetch_vendor_settings P)"
  unfolding rtsx_base_fetch_vendor_settings_def
  by (intro keeps read_cfg_into_keeps keeps_modify) (auto simp: rtsx_hw_only_def)

lemma keeps_optimize_phy [keeps]: "hw_only f \<Longrightarrow> keeps f (rts525a_optimize_phy P)"
  unfolding rts525a_optimize_phy_def by (intro keeps)

lemma keeps_fill_driving [keeps]: "hw_only f \<Longrightarrow> keeps f (rts5249_fill_driving P v)"
  unfolding rts5249_fill_driving_def by (auto simp: Let_def intro!: keeps)

lemma keeps_extra_init [keeps]: "hw_only f \<Longrightarrow> keeps f (rts525a_extra_init_hw P)"
  unfolding rts525a_extra_init_hw_def rts5249_extra_init_hw_def by (auto intro!: keeps)

lemma keeps_init_version [keeps]: "rtsx_hw_only f \<Longrightarrow> keeps f (rtsx_init_version P)"
  unfolding rtsx_init_version_def Let_def
  by (intro keeps keeps_modify) (auto simp: rtsx_hw_only_def)

lemma keeps_init_intr [keeps]: "rtsx_hw_only f \<Longrightarrow> keeps f (rtsx_init_intr P a)"
  unfolding rtsx_init_intr_def by (intro keeps keeps_modify) (auto simp: rtsx_hw_only_def)

lemma keeps_init_phy [keeps]: "hw_only f \<Longrightarrow> keeps f (rtsx_init_phy P)"
  unfolding rtsx_init_phy_def by (intro keeps)

lemma keeps_init_link [keeps]: "hw_only f \<Longrightarrow> keeps f (rtsx_init_link P)"
  unfolding rtsx_init_link_def by (auto intro!: keeps)

lemma keeps_init_led [keeps]: "hw_only f \<Longrightarrow> keeps f (rtsx_init_led P)"
  unfolding rtsx_init_led_def by (auto intro!: keeps)

lemma keeps_rtsx_init [keeps]: "rtsx_hw_only f \<Longrightarrow> keeps f (rtsx_init P a)"
  unfolding rtsx_init_def by (auto intro!: keeps)

lemma keeps_led [keeps]:
  "hw_only f \<Longrightarrow> keeps f (rtsx_led_enable P)" "hw_only f \<Longrightarrow> keeps f (rtsx_led_disable P)"
  unfolding rtsx_led_enable_def rtsx_led_disable_def by (auto intro!: keeps)

lemma keeps_soft_reset [keeps]: "hw_only f \<Longrightarrow> keeps f (rtsx_soft_reset P)"
  unfolding rtsx_soft_reset_def by (auto intro!: keeps)

lemma keeps_stop_clock [keeps]: "hw_only f \<Longrightarrow> keeps f (rtsx_stop_sd_clock P)"
  unfolding rtsx_stop_sd_clock_def by (auto intro!: keeps)

lemma keeps_power_off [keeps]: "hw_only f \<Longrightarrow> keeps f (rtsx_bus_power_off P)"
  unfolding rtsx_bus_power_off_def by (auto simp: Let_def intro!: keeps)

lemma keeps_power_on [keeps]: "hw_only f \<Longrightarrow> keeps f (rtsx_bus_power_on P)"
  unfolding rtsx_bus_power_on_def Let_def by (auto intro!: keeps)

lemma keeps_set_bus_width [keeps]: "hw_only f \<Longrightarrow> keeps f (rtsx_set_bus_width P w)"
  unfolding rtsx_set_bus_width_def by (intro keeps)

lemma keeps_switch_clock [keeps]: "hw_only f \<Longrightarrow> keeps f (rtsx_switch_sd_clock P n d m)"
  unfolding rtsx_switch_sd_clock_def by (auto intro!: keeps)

lemma keeps_clock_timing [keeps]: "hw_only f \<Longrightarrow> keeps f (bus_clock_timing P tm)"
  unfolding bus_clock_timing_def by (auto intro!: keeps)

lemma keeps_clock_params [keeps]: "hw_only f \<Longrightarrow> keeps f (clock_params P ml fr)"
  unfolding clock_params_def by (auto intro!: keeps)

lemma spl_hw_only [simp]: "rtsx_hw_only spl_depth" "hw_only spl_depth"
  by (simp_all add: rtsx_hw_only_def hw_only_def)

text \<open>A section between splbio and splx: balanced when its body is.\<close>

lemma balanced_section:
  assumes "keeps spl_depth m"
  shows "keeps spl_depth (do { splbio; r \<leftarrow> m; splx; ret (g r) })"
  using assms by (auto simp: keeps_def case_prod_beta)

lemma host_reset_balanced [keeps]: "keeps spl_depth (rtsx_host_reset P)"
proof -
  have m: "keeps spl_depth (do { fl \<leftarrow> fetch rflags;
      (if isset fl RTSX_F_CARD_PRESENT then rtsx_soft_reset P else ret ()); rtsx_init P False })"
    by (intro keeps) simp_all
  show ?thesis
    unfolding keeps_def
  proof
    fix s :: "('a, 'b) rtsx_scheme"
    show "spl_depth (snd (run_state (rtsx_host_reset P) s)) = spl_depth s"
      using keepsD [OF m, of "s\<lparr>spl_depth := spl_depth s + 1\<rparr>"]
      by (auto simp: rtsx_host_reset_def split: prod.splits sum.splits if_splits)
  qed
qed

lemma power_on_width_balanced: "keeps spl_depth (chk (rtsx_bus_power_on P) (\<lambda>_. rtsx_set_bus_width P w))"
  by (intro keeps) simp_all

text \<open>
  The function \<open>rtsx_bus_power\<close> releases the lock it takes on every path: power-off failure, power
  disabled, unsupported voltage, power-on failure and success.
\<close>

theorem bus_power_releases_lock: "spl_depth (exec (rtsx_bus_power P ocr) s) = spl_depth s"
proof -
  let ?s1 = "s\<lparr>spl_depth := spl_depth s + 1\<rparr>"
  obtain e s2 where off: "run_state (rtsx_bus_power_off P) ?s1 = (e, s2)"
    by (cases "run_state (rtsx_bus_power_off P) ?s1") auto
  have 2: "spl_depth s2 = spl_depth s + 1"
    using keeps_run [OF keeps_power_off off, of spl_depth] by simp
  have d: "spl_depth (snd (run_state (delay P n) s2)) = spl_depth s + 1" for n
    using keepsD [OF hw_only_delay, of spl_depth P n s2] 2 by simp
  have on: "spl_depth (snd (run_state (chk (rtsx_bus_power_on P) (\<lambda>_. rtsx_set_bus_width P 1)) s3)) = spl_depth s3"
    for s3 :: "('a, 'b) rtsx_scheme"
    by (rule keepsD [OF power_on_width_balanced])
  have rst: "spl_depth (snd (run_state (rtsx_host_reset P) s3)) = spl_depth s3" for s3 :: "('a, 'b) rtsx_scheme"
    by (rule keepsD [OF host_reset_balanced])
  show ?thesis
    using off 2 d on rst by (cases e) (simp_all add: rtsx_bus_power_def exec_def case_prod_beta)
qed

text \<open>\<open>releases m\<close>: success releases the lock once; \<open>gives_up P m\<close>: a dead chip ends \<open>m\<close> at once.\<close>

definition releases :: "(('h, 'z) rtsx_scheme, 'a res) state \<Rightarrow> bool" where
  "releases m \<longleftrightarrow> (\<forall>s x s'. run_state m s = (Inr x, s') \<longrightarrow> spl_depth s' = spl_depth s - 1)"

definition gives_up :: "'h platform \<Rightarrow> (('h, 'z) rtsx_scheme, 'a res) state \<Rightarrow> bool" where
  "gives_up P m \<longleftrightarrow> (\<forall>s. haimr_stuck P (ioh s) \<longrightarrow>
     (\<exists>s'. run_state m s = (Inl ETIMEDOUT, s') \<and> spl_depth s' = spl_depth s))"

lemma releases_splx: "keeps spl_depth m \<Longrightarrow> releases (do { e \<leftarrow> m; splx; ret e })"
  by (auto simp: releases_def split: prod.splits dest!: keeps_run)

lemma releases_chk:
  assumes "keeps spl_depth m" and "\<And>x. releases (k x)"
  shows "releases (chk m k)"
  unfolding releases_def
proof (intro allI impI)
  fix s x s' assume "run_state (chk m k) s = (Inr x, s')"
  then obtain y s1 where 1: "run_state m s = (Inr y, s1)" "run_state (k y) s1 = (Inr x, s')"
    by (auto split: prod.splits sum.splits)
  then show "spl_depth s' = spl_depth s - 1"
    using keeps_run [OF assms(1) 1(1)] assms(2) by (simp add: releases_def)
qed

lemma gives_up_write: "gives_up P (rtsx_write P a m x)"
  unfolding gives_up_def
proof (intro allI impI)
  fix s :: "('a, 'b) rtsx_scheme"
  assume st: "haimr_stuck P (ioh s)"
  obtain r s' where run: "run_state (rtsx_write P a m x) s = (r, s')"
    by (cases "run_state (rtsx_write P a m x) s")
  have "r = Inl ETIMEDOUT"
    using stuck_chip_timeouts_write [OF st refl, of a m x] run by simp
  moreover have "spl_depth s' = spl_depth s" using keeps_run [OF keeps_rtsx_write run, of spl_depth] by simp
  ultimately show "\<exists>s'. run_state (rtsx_write P a m x) s = (Inl ETIMEDOUT, s') \<and> spl_depth s' = spl_depth s"
    using run by blast
qed

lemma gives_up_chk: "gives_up P m \<Longrightarrow> gives_up P (chk m k)"
  by (fastforce simp: gives_up_def)

lemma gives_up_steps: "gives_up P m \<Longrightarrow> gives_up P (steps (m # ms))"
  by (simp add: gives_up_chk)

lemma gives_up_if: "gives_up P m \<Longrightarrow> gives_up P n \<Longrightarrow> gives_up P (if c then m else n)"
  by simp

lemma gives_up_timing: "gives_up P (bus_clock_timing P tm)"
  and gives_up_params: "gives_up P (clock_params P ml fr)"
  unfolding bus_clock_timing_def clock_params_def RTSX_CLR_def RTSX_SET_def
  by (intro gives_up_if gives_up_chk gives_up_steps gives_up_write)+

lemma gives_up_clock:
  "gives_up P (chk (if ml then bus_clock_timing P tm else ret OK) (\<lambda>_. chk (clock_params P ml fr) k))"
  by (cases ml) (simp_all only: if_True if_False gives_up_chk gives_up_timing gives_up_params chk_return)

lemma gives_upD:
  "gives_up P m \<Longrightarrow> haimr_stuck P (ioh s) \<Longrightarrow>
   \<exists>s'. run_state m s = (Inl ETIMEDOUT, s') \<and> spl_depth s' = spl_depth s"
  by (simp add: gives_up_def)

lemma releasesD: "releases m \<Longrightarrow> run_state m s = (Inr x, s') \<Longrightarrow> spl_depth s' = spl_depth s - 1"
  by (simp add: releases_def)

text \<open>
  C35: \<open>rtsx_bus_clock\<close> releases the lock when it succeeds, but on a chip that does not
  answer it returns the timeout with the lock still held: the register macros return past
  the label \<open>ret\<close>.
\<close>

theorem bus_clock_lock:
  fixes s :: "('h, 'z) rtsx_scheme"
  shows "(run_state (rtsx_bus_clock P freq timing) s = (OK, s') \<longrightarrow> spl_depth s' = spl_depth s)
    \<and> (haimr_stuck P (ioh s) \<longrightarrow> freq \<noteq> SDMMC_SDCLK_OFF \<longrightarrow>
        fst (run_state (rtsx_bus_clock P freq timing) s) = Inl ETIMEDOUT
        \<and> spl_depth (exec (rtsx_bus_clock P freq timing) s) = spl_depth s + 1)"
proof (intro conjI impI)
  let ?s1 = "s\<lparr>spl_depth := spl_depth s + 1\<rparr>"
  let ?k = "\<lambda>(n, dv, mcu). do { e \<leftarrow> rtsx_switch_sd_clock P n dv mcu; splx; ret e }"
  let ?body = "chk (if mimic_linux s then bus_clock_timing P timing else ret OK) (\<lambda>_.
     chk (clock_params P (mimic_linux s) (round_freq freq)) ?k)"
  have run: "run_state (rtsx_bus_clock P freq timing) s =
      (if freq = SDMMC_SDCLK_OFF then run_state (do { e \<leftarrow> rtsx_stop_sd_clock P; splx; ret e }) ?s1
       else run_state ?body ?s1)"
    by (simp add: rtsx_bus_clock_def del: run_state_chk)
  have rel: "releases ?body" "releases (do { e \<leftarrow> rtsx_stop_sd_clock P; splx; ret e })"
    by (auto intro!: releases_chk releases_splx keeps split: prod.split)
  show "spl_depth s' = spl_depth s" if ok: "run_state (rtsx_bus_clock P freq timing) s = (OK, s')"
  proof -
    have "spl_depth s' = spl_depth ?s1 - 1"
    proof (cases "freq = SDMMC_SDCLK_OFF")
      case True
      have "run_state (do { e \<leftarrow> rtsx_stop_sd_clock P; splx; ret e }) ?s1 = (OK, s')"
        using ok run True by (metis (no_types, lifting))
      then show ?thesis by (rule releasesD [OF rel(2)])
    next
      case False
      have "run_state ?body ?s1 = (OK, s')"
        using ok run False by (metis (no_types, lifting))
      then show ?thesis by (rule releasesD [OF rel(1)])
    qed
    then show ?thesis by simp
  qed
  assume st: "haimr_stuck P (ioh s)" and "freq \<noteq> SDMMC_SDCLK_OFF"
  have g: "gives_up P ?body" by (rule gives_up_clock)
  have "haimr_stuck P (ioh ?s1)" using st by simp
  from gives_upD [OF g this] obtain s2
    where "run_state ?body ?s1 = (Inl ETIMEDOUT, s2)" "spl_depth s2 = spl_depth ?s1" by blast
  then show "fst (run_state (rtsx_bus_clock P freq timing) s) = Inl ETIMEDOUT"
    "spl_depth (exec (rtsx_bus_clock P freq timing) s) = spl_depth s + 1"
    using run \<open>freq \<noteq> SDMMC_SDCLK_OFF\<close> by (simp_all add: exec_def del: run_state_chk)
qed

theorem bus_clock_lock_witness:
  "spl_depth (exec (rtsx_bus_clock stuck_platform SDMMC_SDCLK_400KHZ SDMMC_TIMING_LEGACY) (rtsx_boot ())) = 1"
proof -
  have "haimr_stuck stuck_platform (ioh (rtsx_boot ()))"
    by (simp add: haimr_stuck_def stuck_platform_def bare_platform_def isset_def rtsx_boot_def)
  then show ?thesis
    using bus_clock_lock [where P = stuck_platform and s = "rtsx_boot ()"
        and freq = SDMMC_SDCLK_400KHZ and timing = SDMMC_TIMING_LEGACY]
    by (auto simp: rtsx_boot_def)
qed

text \<open>
  None of the \<open>SDMMC_TIMING_*\<close> values is a frequency, so the high-speed case of the Linux
  timing switch is never taken.
\<close>

lemma high_speed_timing_unreachable:
  assumes "timing \<in> {SDMMC_TIMING_LEGACY, SDMMC_TIMING_HIGHSPEED, 2}"
  shows "bus_clock_timing P timing = bus_clock_timing P SDMMC_TIMING_LEGACY"
  using assms by (auto simp: bus_clock_timing_def)

section \<open>What the register sequences leave behind\<close>

text \<open>The register index of an address, as the chip decodes it.\<close>

definition ireg :: "u16 \<Rightarrow> u16" where
  "ireg a = a AND 0x3FFF"

definition power_regs :: "u16 set" where
  "power_regs = ireg ` {RTSX_CARD_PWR_CTL, RTSX_CARD_OE, RTSX_CARD_SELECT, RTSX_CARD_SHARE_MODE,
     RTSX_CARD_CLK_EN, RTSX_CARD_PULL_CTL1, RTSX_CARD_PULL_CTL2, RTSX_CARD_PULL_CTL3,
     RTSX_PWR_GATE_CTRL, RTSX_SD_CFG1}"

lemma power_regs_in:
  "power_regs \<subseteq> A \<Longrightarrow> a \<in> {RTSX_CARD_PWR_CTL, RTSX_CARD_OE, RTSX_CARD_SELECT, RTSX_CARD_SHARE_MODE,
     RTSX_CARD_CLK_EN, RTSX_CARD_PULL_CTL1, RTSX_CARD_PULL_CTL2, RTSX_CARD_PULL_CTL3,
     RTSX_PWR_GATE_CTRL, RTSX_SD_CFG1} \<Longrightarrow> ireg a \<in> A"
  unfolding power_regs_def by blast

definition power_on_ups :: "u32 \<Rightarrow> (u16 \<times> u8 \<times> u8) list" where
  "power_on_ups fl = (if isset fl RTSX_F_525A then [(RTSX_LDO_VCC_CFG1, 0x07, 0x07)] else []) @
     [(RTSX_CARD_SELECT, 0xff, 0x02), (RTSX_CARD_SHARE_MODE, 0xff, 0x04), (RTSX_CARD_CLK_EN, 0x04, 0xff),
      (RTSX_CARD_PULL_CTL1, 0xff, 0xAA), (RTSX_CARD_PULL_CTL2, 0xff, 0xAA),
      (RTSX_CARD_PULL_CTL3, 0xff, if isset fl RTSX_F_5229_TYPE_C then 0xD9 else 0xE9),
      (RTSX_CARD_PWR_CTL, 0x01, 0xff),
      (RTSX_PWR_GATE_CTRL, if isset fl RTSX_F_5209 then 0x04 else 0x02, 0xff),
      (RTSX_CARD_PWR_CTL, 0x03, 0),
      (RTSX_PWR_GATE_CTRL, if isset fl RTSX_F_5209 then 0x06 else 0x04,
         if isset fl RTSX_F_5209 then 0 else 0xff),
      (RTSX_CARD_OE, 0xff, 0x04)]"

lemma eff_subst: "reg_effect P b rf A fl ml m us \<Longrightarrow> us = vs \<Longrightarrow> reg_effect P b rf A fl ml m vs"
  by simp

lemma power_on_effect:
  assumes "haimr_device P b rf A"
  shows "reg_effect P b rf A fl ml (rtsx_bus_power_on P) (power_on_ups fl)"
  unfolding rtsx_bus_power_on_def Let_def
  by (rule eff_subst, (rule eff assms)+) (simp add: power_on_ups_def)



definition power_off_ups :: "u32 \<Rightarrow> (u16 \<times> u8 \<times> u8) list" where
  "power_off_ups fl =
     [(RTSX_CARD_CLK_EN, 0x1E, 0), (RTSX_SD_BUS_STAT, 0x40, 0xff), (RTSX_CARD_OE, 0x0E, 0),
      if isset fl RTSX_F_5209 then (RTSX_PWR_GATE_CTRL, 0x06, 0xff) else (RTSX_PWR_GATE_CTRL, 0x06, 0),
      (RTSX_CARD_PWR_CTL, 0x03, 0xff), (RTSX_CARD_PWR_CTL, 0x10, 0),
      (RTSX_CARD_PULL_CTL1, 0xff, 0x55), (RTSX_CARD_PULL_CTL2, 0xff, 0x55),
      (RTSX_CARD_PULL_CTL3, 0xff,
        if \<not> isset fl RTSX_F_5209 \<and> isset fl RTSX_F_5229_TYPE_C then 0xE5 else 0xD5)]"

lemma power_off_effect:
  assumes "haimr_device P b rf A"
  shows "reg_effect P b rf A fl ml (rtsx_bus_power_off P) (power_off_ups fl)"
  unfolding rtsx_bus_power_off_def rtsx_stop_sd_clock_def Let_def
  by (rule eff_subst, (rule eff assms)+) (simp add: power_off_ups_def)

text \<open>
  On a responding chip \<open>rtsx_bus_power_off\<close> succeeds and leaves every card clock and
  output disabled, the card power switched off and the pull-ups of the chip type disabled.
\<close>

theorem bus_power_off_registers:
  fixes s :: "('h, 'z) rtsx_scheme"
  assumes dev: "haimr_device P b rf A" and "ioh s = b" and A: "power_regs \<subseteq> A"
  shows "\<exists>h. run_state (rtsx_bus_power_off P) s = (OK, s\<lparr>hw := h\<rparr>)
    \<and> rf h (ireg RTSX_CARD_CLK_EN) AND RTSX_CARD_CLK_EN_ALL = 0
    \<and> rf h (ireg RTSX_CARD_OE) AND RTSX_CARD_OUTPUT_EN = 0
    \<and> rf h (ireg RTSX_CARD_PWR_CTL) AND (RTSX_SD_PWR_MASK OR RTSX_PMOS_STRG_MASK) = RTSX_SD_PWR_OFF
    \<and> rf h (ireg RTSX_CARD_PULL_CTL1) = RTSX_PULL_CTL_DISABLE12
    \<and> rf h (ireg RTSX_CARD_PULL_CTL2) = RTSX_PULL_CTL_DISABLE12
    \<and> rf h (ireg RTSX_CARD_PULL_CTL3) = (if \<not> isset (rflags s) RTSX_F_5209
         \<and> isset (rflags s) RTSX_F_5229_TYPE_C then RTSX_PULL_CTL_DISABLE3_TYPE_C else RTSX_PULL_CTL_DISABLE3)"
proof -
  obtain h where h: "run_state (rtsx_bus_power_off P) s = (OK, s\<lparr>hw := h\<rparr>)"
    and rf: "\<forall>r\<in>A. rf h r = reg_after r (power_off_ups (rflags s)) (rf (hw s) r)"
    using power_off_effect [OF dev, of "rflags s" "mimic_linux s"] assms(2) by (auto elim: reg_effectD)
  have pw: "masked (masked x 3 0xff) 0x10 0 AND 0x13 = 3" for x
    unfolding masked_def by (rule bit_word_eqI) (auto simp: bit_simps numeral_eq_Suc less_Suc_eq)
  show ?thesis
    by (intro exI [of _ h] conjI h)
       (simp_all add: rf power_regs_in [OF A], simp_all add: ireg_def power_off_ups_def masked_full
          masked_hit masked_miss pw)
qed

theorem bus_power_off_registers_witness:
  "\<exists>h. run_state (rtsx_bus_power_off sim_platform) (rtsx_boot sim0) = (OK, (rtsx_boot sim0)\<lparr>hw := h\<rparr>)
     \<and> sim_rf h (ireg RTSX_CARD_PULL_CTL3) = RTSX_PULL_CTL_DISABLE3"
proof -
  have dev: "haimr_device sim_platform 1 sim_rf UNIV" by (rule sim_haimr_device) simp
  have b: "ioh (rtsx_boot sim0) = 1" by (simp add: rtsx_boot_def)
  show ?thesis
    using bus_power_off_registers [OF dev b subset_UNIV] by (auto simp: rtsx_boot_def isset_def)
qed

end
