(* ===== verification/RtsxCmd.thy ===== *)
theory RtsxCmd
  imports RtsxPower "HOL-Library.Signed_Division"
begin

text \<open>
  Command execution in rtsx.c: the host command queue, data transfers through the bounce
  buffer or an ADMA descriptor list, the wait for the completion interrupt, the interrupt
  handler with card insertion and removal, suspend and resume.
\<close>

section \<open>Commands\<close>

abbreviation (input) SCF_ITSDONE :: u32 where "SCF_ITSDONE \<equiv> 0x0001"
abbreviation (input) SCF_CMD_AC :: u32 where "SCF_CMD_AC \<equiv> 0x0000"
abbreviation (input) SCF_CMD_ADTC :: u32 where "SCF_CMD_ADTC \<equiv> 0x0010"
abbreviation (input) SCF_CMD_BC :: u32 where "SCF_CMD_BC \<equiv> 0x0020"
abbreviation (input) SCF_CMD_BCR :: u32 where "SCF_CMD_BCR \<equiv> 0x0030"
abbreviation (input) SCF_CMD_READ :: u32 where "SCF_CMD_READ \<equiv> 0x0040"
abbreviation (input) SCF_RSP_BSY :: u32 where "SCF_RSP_BSY \<equiv> 0x0100"
abbreviation (input) SCF_RSP_136 :: u32 where "SCF_RSP_136 \<equiv> 0x0200"
abbreviation (input) SCF_RSP_CRC :: u32 where "SCF_RSP_CRC \<equiv> 0x0400"
abbreviation (input) SCF_RSP_IDX :: u32 where "SCF_RSP_IDX \<equiv> 0x0800"
abbreviation (input) SCF_RSP_PRESENT :: u32 where "SCF_RSP_PRESENT \<equiv> 0x1000"
abbreviation (input) SCF_RSP_R0 :: u32 where "SCF_RSP_R0 \<equiv> 0"
abbreviation (input) SCF_RSP_R1 :: u32 where "SCF_RSP_R1 \<equiv> 0x1C00"
abbreviation (input) SCF_RSP_R1B :: u32 where "SCF_RSP_R1B \<equiv> 0x1D00"
abbreviation (input) SCF_RSP_R2 :: u32 where "SCF_RSP_R2 \<equiv> 0x1600"
abbreviation (input) SCF_RSP_R3 :: u32 where "SCF_RSP_R3 \<equiv> 0x1000"
abbreviation (input) SCF_RSP_R4 :: u32 where "SCF_RSP_R4 \<equiv> 0x1000"
abbreviation (input) SCF_RSP_R5 :: u32 where "SCF_RSP_R5 \<equiv> 0x1C00"
abbreviation (input) SCF_RSP_R6 :: u32 where "SCF_RSP_R6 \<equiv> 0x1C00"
abbreviation (input) SCF_RSP_R7 :: u32 where "SCF_RSP_R7 \<equiv> 0x1C00"

abbreviation (input) SD_IO_SEND_OP_COND :: u16 where "SD_IO_SEND_OP_COND \<equiv> 5"

text \<open>\<open>struct sdmmc_command\<close>; pointers are addresses, 0 for null.\<close>

record sdmmc_command =
  c_opcode :: u16
  c_arg :: u32
  c_resp :: "u32 list"
  c_dmamap :: u64
  c_data :: u64
  c_datalen :: int
  c_blklen :: int
  c_flags :: u32
  c_error :: "unit res"

definition zero_command :: sdmmc_command where
  "zero_command = \<lparr>c_opcode = 0, c_arg = 0, c_resp = [0, 0, 0, 0], c_dmamap = 0, c_data = 0,
     c_datalen = 0, c_blklen = 0, c_flags = 0, c_error = OK\<rparr>"

abbreviation (input) RTSX_HOSTCMD_MAX :: nat where "RTSX_HOSTCMD_MAX \<equiv> 256"
abbreviation (input) RTSX_HOSTCMD_BUFSIZE :: nat where "RTSX_HOSTCMD_BUFSIZE \<equiv> 4 * RTSX_HOSTCMD_MAX"
abbreviation (input) RTSX_DMA_MAX_SEGSIZE :: u64 where "RTSX_DMA_MAX_SEGSIZE \<equiv> 0x80000"

definition SDMMC_MAXNSEGS :: "'h platform \<Rightarrow> nat" where
  "SDMMC_MAXNSEGS P = nat (MAXPHYS P div PAGE_SIZE P + 1)"

definition RTSX_ADMA_DESC_SIZE :: "'h platform \<Rightarrow> u64" where
  "RTSX_ADMA_DESC_SIZE P = of_nat (8 * SDMMC_MAXNSEGS P)"

section \<open>The host command queue\<close>

text \<open>
  \<open>rtsx_hostcmd\<close> appends one word; the queue is the list of the words written so far. The
  check against \<open>RTSX_HOSTCMD_MAX\<close> only logs.
\<close>

definition hostcmd_word :: "u8 \<Rightarrow> u16 \<Rightarrow> u8 \<Rightarrow> u8 \<Rightarrow> u32" where
  "hostcmd_word cmd reg msk dat =
     push_bit 30 (ucast (cmd AND 0x3)) OR push_bit 16 (ucast (reg AND 0x3fff))
     OR push_bit 8 (ucast msk) OR ucast dat"

definition rtsx_hostcmd :: "u32 list \<Rightarrow> u8 \<Rightarrow> u16 \<Rightarrow> u8 \<Rightarrow> u8 \<Rightarrow> u32 list" where
  "rtsx_hostcmd cmdbuf cmd reg msk dat = cmdbuf @ [hostcmd_word cmd reg msk dat]"

definition response_types :: "(u32 \<times> u8) list" where
  "response_types = [(SCF_RSP_R0, RTSX_SD_RSP_TYPE_R0), (SCF_RSP_R1, RTSX_SD_RSP_TYPE_R1),
     (SCF_RSP_R1B, RTSX_SD_RSP_TYPE_R1B), (SCF_RSP_R2, RTSX_SD_RSP_TYPE_R2),
     (SCF_RSP_R3, RTSX_SD_RSP_TYPE_R3), (SCF_RSP_R4, RTSX_SD_RSP_TYPE_R4),
     (SCF_RSP_R5, RTSX_SD_RSP_TYPE_R5), (SCF_RSP_R6, RTSX_SD_RSP_TYPE_R6),
     (SCF_RSP_R7, RTSX_SD_RSP_TYPE_R7)]"

text \<open>\<open>rtsx_response_type\<close>: the first entry of the table that matches, 0 for none.\<close>

definition rtsx_response_type :: "u32 \<Rightarrow> u8" where
  "rtsx_response_type sdmmc_rsp =
     (case map_of response_types sdmmc_rsp of None \<Rightarrow> 0 | Some t \<Rightarrow> t)"

text \<open>The queue that \<open>rtsx_exec_command\<close> builds.\<close>

definition exec_queue :: "u8 \<Rightarrow> sdmmc_command \<Rightarrow> u32 list" where
  "exec_queue rsp_type cmd = (
     let w = (\<lambda>q reg msk dat. rtsx_hostcmd q RTSX_WRITE_REG_CMD reg msk dat);
         q = w [] RTSX_SD_CMD0 0xff (ucast (0x40 OR c_opcode cmd));
         q = w q RTSX_SD_CMD1 0xff (ucast (drop_bit 24 (c_arg cmd)));
         q = w q RTSX_SD_CMD2 0xff (ucast (drop_bit 16 (c_arg cmd)));
         q = w q RTSX_SD_CMD3 0xff (ucast (drop_bit 8 (c_arg cmd)));
         q = w q RTSX_SD_CMD4 0xff (ucast (c_arg cmd));
         q = w q RTSX_SD_CFG2 0xff rsp_type;
         q = w q RTSX_CARD_DATA_SOURCE 0x01 RTSX_PINGPONG_BUFFER;
         q = w q RTSX_SD_TRANSFER 0xff (RTSX_TM_CMD_RSP OR RTSX_SD_TRANSFER_START);
         q = rtsx_hostcmd q RTSX_CHECK_REG_CMD RTSX_SD_TRANSFER
               (RTSX_SD_TRANSFER_END OR RTSX_SD_STAT_IDLE) (RTSX_SD_TRANSFER_END OR RTSX_SD_STAT_IDLE);
         rd = (\<lambda>q r. rtsx_hostcmd q RTSX_READ_REG_CMD r 0 0)
     in if rsp_type = RTSX_SD_RSP_TYPE_R2
        then rd (foldl rd q (map (\<lambda>i. RTSX_PPBUF_BASE2 + of_nat i) (rev [1..<16]))) RTSX_SD_CMD5
        else if rsp_type \<noteq> RTSX_SD_RSP_TYPE_R0
        then foldl rd q [RTSX_SD_CMD0, RTSX_SD_CMD1, RTSX_SD_CMD2, RTSX_SD_CMD3, RTSX_SD_CMD4]
        else q)"

text \<open>The queue that \<open>rtsx_xfer\<close> builds.\<close>

definition xfer_cfg2 :: "bool \<Rightarrow> u8" where
  "xfer_cfg2 rd = RTSX_SD_NO_CHECK_WAIT_CRC_TO OR RTSX_SD_CHECK_CRC16 OR RTSX_SD_NO_WAIT_BUSY_END
     OR RTSX_SD_RSP_LEN_0 OR
     (if rd then RTSX_SD_CALCULATE_CRC7 OR RTSX_SD_CHECK_CRC7
      else RTSX_SD_NO_CALCULATE_CRC7 OR RTSX_SD_NO_CHECK_CRC7)"

definition xfer_queue :: "sdmmc_command \<Rightarrow> u32 list" where
  "xfer_queue cmd = (
     let rd = isset (c_flags cmd) SCF_CMD_READ;
         dma_dir = (if rd then RTSX_DMA_DIR_FROM_CARD else RTSX_DMA_DIR_TO_CARD);
         tmode = (if rd then RTSX_TM_AUTO_READ3 else RTSX_TM_AUTO_WRITE3);
         blocks = c_datalen cmd sdiv c_blklen cmd;
         byte = (\<lambda>(x :: int) n. word_of_int (x div 2 ^ n) :: u8);
         w = (\<lambda>q reg msk dat. rtsx_hostcmd q RTSX_WRITE_REG_CMD reg msk dat);
         q = w [] RTSX_SD_CFG2 0xff (xfer_cfg2 rd);
         q = w q RTSX_SD_BYTE_CNT_L 0xff (byte (c_blklen cmd) 0);
         q = w q RTSX_SD_BYTE_CNT_H 0xff (byte (c_blklen cmd) 8);
         q = w q RTSX_SD_BLOCK_CNT_L 0xff (byte blocks 0);
         q = w q RTSX_SD_BLOCK_CNT_H 0xff (byte blocks 8);
         q = w q RTSX_CARD_DATA_SOURCE 0x01 RTSX_RING_BUFFER;
         q = w q RTSX_IRQSTAT0 RTSX_DMA_DONE_INT RTSX_DMA_DONE_INT;
         q = w q RTSX_DMATC3 0xff (byte (c_datalen cmd) 24);
         q = w q RTSX_DMATC2 0xff (byte (c_datalen cmd) 16);
         q = w q RTSX_DMATC1 0xff (byte (c_datalen cmd) 8);
         q = w q RTSX_DMATC0 0xff (byte (c_datalen cmd) 0);
         q = w q RTSX_DMACTL (0x03 OR RTSX_DMA_PACK_SIZE_MASK) (dma_dir OR RTSX_DMA_EN OR RTSX_DMA_512);
         q = w q RTSX_SD_TRANSFER 0xff (tmode OR RTSX_SD_TRANSFER_START)
     in rtsx_hostcmd q RTSX_CHECK_REG_CMD RTSX_SD_TRANSFER RTSX_SD_TRANSFER_END RTSX_SD_TRANSFER_END)"

text \<open>The words are stored little-endian from the start of the command buffer.\<close>

definition le_bytes :: "nat \<Rightarrow> 'a::len word \<Rightarrow> u8 list" where
  "le_bytes n w = map (\<lambda>i. ucast (drop_bit (8 * i) w)) [0..<n]"

definition store_cmdbuf :: "'h platform \<Rightarrow> u64 \<Rightarrow> u32 list \<Rightarrow> (('h, 'z) kernel_scheme, unit) state" where
  "store_cmdbuf P kva ws =
     run_all (map (\<lambda>(i, w). exec_hw (\<lambda>h. km_write P h (kva + of_nat (4 * i)) (le_bytes 4 w)))
       (enumerate 0 ws))"

definition le_word :: "u8 list \<Rightarrow> 'a::len word" where
  "le_word bs = foldr (\<lambda>b w. ucast b OR push_bit 8 w) bs 0"

text \<open>\<open>be32toh\<close> and \<open>betoh32\<close>: a big-endian word on this little-endian machine.\<close>

definition be32toh :: "u32 \<Rightarrow> u32" where
  "be32toh w = le_word (rev (le_bytes 4 w))"

section \<open>Waiting for completion and the interrupt handler\<close>

definition rtsx_card_insert :: "'h platform \<Rightarrow> (('h, 'z) rtsx_scheme, unit) state" where
  "rtsx_card_insert P = do {
     modify (\<lambda>s. s\<lparr>rflags := setf (rflags s) RTSX_F_CARD_PRESENT\<rparr>);
     _ \<leftarrow> rtsx_led_enable P;
     sdmmc_needs_discover }"

definition rtsx_card_eject :: "'h platform \<Rightarrow> (('h, 'z) rtsx_scheme, unit) state" where
  "rtsx_card_eject P = do {
     modify (\<lambda>s. s\<lparr>rflags := clrf (rflags s) RTSX_F_CARD_PRESENT\<rparr>);
     _ \<leftarrow> rtsx_led_disable P;
     sdmmc_needs_discover }"

text \<open>The part of \<open>rtsx_intr\<close> that handles the card detection interrupt.\<close>

definition intr_card :: "'h platform \<Rightarrow> u32 \<Rightarrow> (('h, 'z) rtsx_scheme, unit) state" where
  "intr_card P status =
     (if isset status RTSX_SD_INT then
        if isset status RTSX_SD_EXIST then do {
          fl \<leftarrow> fetch rflags;
          if \<not> isset fl RTSX_F_CARD_PRESENT then rtsx_card_insert P else ret () }
        else rtsx_card_eject P
      else ret ())"

definition rtsx_intr :: "'h platform \<Rightarrow> (('h, 'z) rtsx_scheme, bool) state" where
  "rtsx_intr P = do {
     enabled \<leftarrow> READ4 P RTSX_BIER;
     status \<leftarrow> READ4 P RTSX_BIPR;
     WRITE4 P RTSX_BIPR status;
     if enabled AND status = 0 \<or> status = 0xffffffff then ret False
     else do {
       intr_card P status;
       (if isset status (RTSX_TRANS_OK_INT OR RTSX_TRANS_FAIL_INT)
        then modify (\<lambda>s. s\<lparr>intr_status := setf (intr_status s) status\<rparr>) else ret ());
       ret True } }"

definition intr_timeout_ns :: "bool \<Rightarrow> int \<Rightarrow> u64 \<Rightarrow> u64" where
  "intr_timeout_ns ml sh secs =
     (let ns = (if ml \<and> secs = 1 then 100000000 else secs * 1000000000) in
      if sh > 0 then push_bit (nat sh) ns else if sh < 0 then drop_bit (nat (- sh)) ns else ns)"

text \<open>
  The loop of \<open>rtsx_wait_intr\<close>. Every sleep uses up one event of the schedule and an
  empty schedule is a timeout, so one round more than the length of the schedule is enough;
  the result for no fuel is never used.
\<close>

fun wait_loop ::
    "nat \<Rightarrow> 'h platform \<Rightarrow> u32 \<Rightarrow> u64 \<Rightarrow> u32 \<Rightarrow> (('h, 'z) rtsx_scheme, u32 \<times> unit res) state" where
  "wait_loop 0 P msk ns status = ret (status, Inl (EKern (- 1)))"
| "wait_loop (Suc n) P msk ns status =
     (if status \<noteq> 0 then ret (status, OK) else do {
        r \<leftarrow> tsleep_nsec P (rtsx_intr P) ns;
        if r = Inl EWOULDBLOCK then do { rtsx_soft_reset P; ret (status, Inl ETIMEDOUT) }
        else do {
          st \<leftarrow> fetch (\<lambda>s. intr_status s AND msk);
          wait_loop n P msk ns st } })"

definition rtsx_wait_intr ::
    "'h platform \<Rightarrow> u32 \<Rightarrow> u64 \<Rightarrow> (('h, 'z) rtsx_scheme, unit res) state" where
  "rtsx_wait_intr P m secs = (let msk = m OR RTSX_TRANS_FAIL_INT in do {
     splbio;
     st0 \<leftarrow> fetch (\<lambda>s. intr_status s AND msk);
     ns \<leftarrow> fetch (\<lambda>s. intr_timeout_ns (mimic_linux s) (timeout_shift s) secs);
     fuel \<leftarrow> fetch (\<lambda>s. Suc (Suc (length (sched s))));
     r \<leftarrow> wait_loop fuel P msk ns st0;
     (case r of (status, err) \<Rightarrow> do {
       modify (\<lambda>s. s\<lparr>intr_status := clrf (intr_status s) status\<rparr>);
       present \<leftarrow> fetch (\<lambda>s. isset (rflags s) RTSX_F_CARD_PRESENT);
       splx;
       let e = (if \<not> present then Inl ENODEV else err) in
       ret (if e = OK \<and> isset status RTSX_TRANS_FAIL_INT then Inl EIO else e) }) })"

section \<open>Running the queue\<close>

text \<open>The physical address of the first segment of a map, as written to a 32 bit register.\<close>

definition map_addr :: "('h, 'z) dma_scheme \<Rightarrow> u64 \<Rightarrow> u32" where
  "map_addr s p = (case dmamaps s p of
     Some dm \<Rightarrow> (case dm_segs dm of g # _ \<Rightarrow> ucast (ds_addr g) | [] \<Rightarrow> 0) | None \<Rightarrow> 0)"

definition rtsx_hostcmd_send :: "'h platform \<Rightarrow> nat \<Rightarrow> (('h, 'z) rtsx_scheme, unit res) state" where
  "rtsx_hostcmd_send P ncmd = do {
     splbio;
     a \<leftarrow> fetch (\<lambda>s. map_addr s (dmap_cmd s));
     WRITE4 P RTSX_HCBAR a;
     WRITE4 P RTSX_HCBCTLR ((of_nat (ncmd * 4) AND 0x00ffffff) OR RTSX_START_CMD OR RTSX_HW_AUTO_RSP);
     splx;
     ret OK }"

definition rtsx_xfer_exec :: "'h platform \<Rightarrow> u64 \<Rightarrow> u32 \<Rightarrow> (('h, 'z) rtsx_scheme, unit res) state" where
  "rtsx_xfer_exec P dmap dmaflags = do {
     splbio;
     a \<leftarrow> fetch (\<lambda>s. map_addr s dmap);
     WRITE4 P RTSX_HDBAR a;
     WRITE4 P RTSX_HDBCTLR dmaflags;
     splx;
     rtsx_wait_intr P RTSX_TRANS_OK_INT 10 }"

text \<open>The addresses of the automatic segment variables, and their fresh contents.\<close>

abbreviation (input) cmd_segs :: u64 where "cmd_segs \<equiv> 1"
abbreviation (input) bounce_segs :: u64 where "bounce_segs \<equiv> 2"

definition local_segs :: "u64 \<Rightarrow> (('h, 'z) dma_scheme, unit) state" where
  "local_segs a = modify (\<lambda>s. s\<lparr>seg_arrays := (seg_arrays s)(a := [zero_segment])\<rparr>)"

definition memcpy :: "'h platform \<Rightarrow> u64 \<Rightarrow> u64 \<Rightarrow> int \<Rightarrow> (('h, 'z) kernel_scheme, unit) state" where
  "memcpy P dst src n = exec_hw (\<lambda>h. km_write P h dst (km_read P h src (nat n)))"

definition rtsx_xfer_bounce ::
    "'h platform \<Rightarrow> sdmmc_command \<Rightarrow> (('h, 'z) rtsx_scheme, unit res) state" where
  "rtsx_xfer_bounce P cmd = (
     let rd = isset (c_flags cmd) SCF_CMD_READ; len = word_of_int (c_datalen cmd) in do {
       local_segs bounce_segs;
       chk (bus_dmamem_alloc P len bounce_segs 1) (\<lambda>_. do {
         dm \<leftarrow> fetch dmap_data;
         m \<leftarrow> bus_dmamem_map P bounce_segs;
         e \<leftarrow> (case m of
            Inl err \<Rightarrow> ret (Inl err)
          | Inr kva \<Rightarrow> do {
              (if \<not> rd then memcpy P kva (c_data cmd) (c_datalen cmd) else ret ());
              l \<leftarrow> bus_dmamap_load P dm kva len;
              e2 \<leftarrow> (case l of
                 Inl err \<Rightarrow> ret (Inl err)
               | Inr _ \<Rightarrow> do {
                   bus_dmamap_sync;
                   x \<leftarrow> rtsx_xfer_exec P dm (RTSX_TRIG_DMA OR (if rd then RTSX_DMA_READ else 0)
                          OR (word_of_int (c_datalen cmd) AND 0x00ffffff));
                   bus_dmamap_sync;
                   bus_dmamap_unload P dm;
                   (if x = OK \<and> rd then memcpy P (c_data cmd) kva (c_datalen cmd) else ret ());
                   ret x });
              bus_dmamem_unmap P kva;
              ret e2 });
         bus_dmamem_free P bounce_segs;
         ret e }) })"

definition adma_desc :: "bool \<Rightarrow> dma_segment \<Rightarrow> u64" where
  "adma_desc last_seg g = push_bit 32 (ds_addr g) OR push_bit 12 (ds_len g AND 0x00ffffff)
     OR ucast (RTSX_SG_VALID OR RTSX_SG_TRANS_DATA OR (if last_seg then RTSX_SG_END else 0))"

definition adma_list :: "dma_segment list \<Rightarrow> u64 list" where
  "adma_list gs = map (\<lambda>(i, g). adma_desc (Suc i = length gs) g) (enumerate 0 gs)"

definition rtsx_xfer_adma ::
    "'h platform \<Rightarrow> sdmmc_command \<Rightarrow> (('h, 'z) rtsx_scheme, unit res) state" where
  "rtsx_xfer_adma P cmd = do {
     buf \<leftarrow> fetch admabuf;
     dm \<leftarrow> fetch dmap_adma;
     gs \<leftarrow> fetch (\<lambda>s. case dmamaps s (c_dmamap cmd) of
             Some d \<Rightarrow> take (dm_nsegs d) (dm_segs d) | None \<Rightarrow> []);
     run_all (map (\<lambda>(i, d). exec_hw (\<lambda>h. km_write P h (buf + of_nat (8 * i)) (le_bytes 8 d)))
       (enumerate 0 (adma_list gs)));
     chk (bus_dmamap_load P dm buf (RTSX_ADMA_DESC_SIZE P)) (\<lambda>_. do {
       bus_dmamap_sync;
       x \<leftarrow> rtsx_xfer_exec P dm (RTSX_ADMA_MODE OR RTSX_TRIG_DMA
              OR (if isset (c_flags cmd) SCF_CMD_READ then RTSX_DMA_READ else 0));
       bus_dmamap_sync;
       bus_dmamap_unload P dm;
       ret x }) }"

definition rtsx_xfer ::
    "'h platform \<Rightarrow> sdmmc_command \<Rightarrow> u64 \<Rightarrow> (('h, 'z) rtsx_scheme, unit res) state" where
  "rtsx_xfer P cmd cmdkva =
     (if c_datalen cmd > MAXPHYS P then ret (Inl ENOMEM) else do {
        store_cmdbuf P cmdkva (xfer_queue cmd);
        chk (rtsx_hostcmd_send P (length (xfer_queue cmd))) (\<lambda>_.
          if c_dmamap cmd \<noteq> 0 then rtsx_xfer_adma P cmd else rtsx_xfer_bounce P cmd) })"

section \<open>Executing a command\<close>

text \<open>
  The response words: a short response is put together from the first two queue words, read as
  big-endian; a long one is copied from byte 1 on, in memory order.
\<close>

definition read_response :: "'h platform \<Rightarrow> u64 \<Rightarrow> sdmmc_command \<Rightarrow> 'h \<Rightarrow> sdmmc_command" where
  "read_response P kva cmd h =
     (if \<not> isset (c_flags cmd) SCF_RSP_PRESENT then cmd
      else if isset (c_flags cmd) SCF_RSP_136 then
        let bs = km_read P h (kva + 1) 16 in
        cmd\<lparr>c_resp := map (\<lambda>i. le_word (take 4 (drop (4 * i) bs))) [0..<4]\<rparr>
      else
        let w0 = be32toh (le_word (km_read P h kva 4)); w1 = be32toh (le_word (km_read P h (kva + 4) 4)) in
        cmd\<lparr>c_resp := (c_resp cmd)[0 := push_bit 16 (w0 AND 0xffff) OR drop_bit 16 (w1 AND 0xffff0000)]\<rparr>)"

text \<open>The part of \<open>rtsx_exec_command\<close> between the load and the label unload\_cmdbuf.\<close>

definition exec_run ::
    "'h platform \<Rightarrow> u64 \<Rightarrow> nat \<Rightarrow> sdmmc_command \<Rightarrow> (('h, 'z) rtsx_scheme, sdmmc_command \<times> unit res) state" where
  "exec_run P kva ncmd cmd = do {
     r \<leftarrow> chk (rtsx_hostcmd_send P ncmd) (\<lambda>_. rtsx_wait_intr P RTSX_TRANS_OK_INT 1);
     (case r of
        Inl e \<Rightarrow> ret (cmd, Inl e)
      | Inr _ \<Rightarrow> do {
          bus_dmamap_sync;
          cmd' \<leftarrow> fetch (\<lambda>s. read_response P kva cmd (hw s));
          if c_data cmd = 0 then ret (cmd', OK) else do {
            x \<leftarrow> rtsx_xfer P cmd kva;
            (case x of
               Inr _ \<Rightarrow> ret (cmd', OK)
             | Inl e \<Rightarrow> do {
                 _ \<leftarrow> rtsx_read P RTSX_SD_STAT1;
                 ml \<leftarrow> fetch mimic_linux;
                 (if ml then rtsx_soft_reset P else ret ());
                 ret (cmd', Inl e) }) } }) }"

text \<open>The part between the mapping of the command buffer and the label free\_cmdbuf.\<close>

definition exec_mapped ::
    "'h platform \<Rightarrow> u64 \<Rightarrow> u32 list \<Rightarrow> sdmmc_command \<Rightarrow> (('h, 'z) rtsx_scheme, sdmmc_command \<times> unit res) state" where
  "exec_mapped P kva q cmd = do {
     store_cmdbuf P kva q;
     dm \<leftarrow> fetch dmap_cmd;
     l \<leftarrow> bus_dmamap_load P dm kva (of_nat RTSX_HOSTCMD_BUFSIZE);
     r \<leftarrow> (case l of
        Inl e \<Rightarrow> ret (cmd, Inl e)
      | Inr _ \<Rightarrow> do {
          bus_dmamap_sync;
          x \<leftarrow> exec_run P kva (length q) cmd;
          bus_dmamap_unload P dm;
          ret x });
     bus_dmamem_unmap P kva;
     ret r }"

text \<open>\<open>rtsx_exec_command\<close> returns the command with its response, error and done flag.\<close>

definition rtsx_exec_command ::
    "'h platform \<Rightarrow> sdmmc_command \<Rightarrow> (('h, 'z) rtsx_scheme, sdmmc_command) state" where
  "rtsx_exec_command P cmd = do {
     fl \<leftarrow> fetch rflags;
     let rsp_type = rtsx_response_type (c_flags cmd AND 0xff00) in do {
       r \<leftarrow>
         (if c_opcode cmd = SD_IO_SEND_OP_COND \<and> \<not> isset fl RTSX_F_SDIO_SUPPORT
          then ret (cmd, Inl ENOTSUP)
          else if rsp_type = 0 then ret (cmd, Inl EINVAL)
          else do {
            local_segs cmd_segs;
            a \<leftarrow> bus_dmamem_alloc P (of_nat RTSX_HOSTCMD_BUFSIZE) cmd_segs 1;
            (case a of
               Inl e \<Rightarrow> ret (cmd, Inl e)
             | Inr _ \<Rightarrow> do {
                 m \<leftarrow> bus_dmamem_map P cmd_segs;
                 x \<leftarrow> (case m of
                    Inl e \<Rightarrow> ret (cmd, Inl e)
                  | Inr kva \<Rightarrow> exec_mapped P kva (exec_queue rsp_type cmd) cmd);
                 bus_dmamem_free P cmd_segs;
                 ret x }) });
       ret ((fst r)\<lparr>c_flags := setf (c_flags (fst r)) SCF_ITSDONE, c_error := snd r\<rparr>) } }"

section \<open>Suspend, resume and attachment\<close>

datatype dvact = DVACT_DEACTIVATE | DVACT_QUIESCE | DVACT_SUSPEND | DVACT_RESUME | DVACT_WAKEUP | DVACT_POWERDOWN

text \<open>\<open>rtsx_activate\<close>; \<open>children\<close> is \<open>config_activate_children\<close> on this device.\<close>

definition rtsx_activate ::
    "'h platform \<Rightarrow> (dvact \<Rightarrow> (('h, 'z) rtsx_scheme, unit res) state) \<Rightarrow> dvact
       \<Rightarrow> (('h, 'z) rtsx_scheme, unit res) state" where
  "rtsx_activate P children act =
     (case act of
        DVACT_SUSPEND \<Rightarrow> do { rv \<leftarrow> children act; rtsx_save_regs P; ret rv }
      | DVACT_RESUME \<Rightarrow> do {
          rtsx_restore_regs P;
          st \<leftarrow> READ4 P RTSX_BIPR;
          (if isset st RTSX_SD_EXIST then rtsx_card_insert P else rtsx_card_eject P);
          children act }
      | _ \<Rightarrow> children act)"

abbreviation (input) SMF_STOP_AFTER_MULTIPLE :: u32 where "SMF_STOP_AFTER_MULTIPLE \<equiv> 0x0040"
abbreviation (input) SMC_CAPS_4BIT_MODE :: u32 where "SMC_CAPS_4BIT_MODE \<equiv> 0x0002"
abbreviation (input) SMC_CAPS_DMA :: u32 where "SMC_CAPS_DMA \<equiv> 0x0004"

abbreviation (input) adma_segs_addr :: u64 where "adma_segs_addr \<equiv> 3"

text \<open>The undo labels of \<open>rtsx_attach\<close>, each falling through to the next.\<close>

definition destroy_maps :: "'h platform \<Rightarrow> (('h, 'z) rtsx_scheme \<Rightarrow> u64) list \<Rightarrow> (('h, 'z) rtsx_scheme, unit res) state" where
  "destroy_maps P fs = do {
     run_all (map (\<lambda>f. do { p \<leftarrow> fetch f; bus_dmamap_destroy P p }) fs);
     ret (Inl E1) }"

text \<open>
  \<open>rtsx_attach\<close>; \<open>found flags caps\<close> is \<open>config_found\<close> with the attach arguments, True when
  it returns a device.
\<close>

definition rtsx_attach ::
    "'h platform \<Rightarrow> (u32 \<Rightarrow> u32 \<Rightarrow> (('h, 'z) rtsx_scheme, bool) state) \<Rightarrow> u64 \<Rightarrow> u32
       \<Rightarrow> (('h, 'z) rtsx_scheme, unit res) state" where
  "rtsx_attach P found iohandle flags = do {
     modify (\<lambda>s. s\<lparr>ioh := iohandle, rflags := flags\<rparr>);
     i \<leftarrow> rtsx_init P True;
     if i \<noteq> OK then ret (Inl E1) else do {
     c \<leftarrow> bus_dmamap_create P (of_nat RTSX_HOSTCMD_BUFSIZE) 1 RTSX_DMA_MAX_SEGSIZE 0 1;
     (case c of Inl _ \<Rightarrow> ret (Inl E1) | Inr pc \<Rightarrow> do {
     modify (\<lambda>s. s\<lparr>dmap_cmd := pc\<rparr>);
     d \<leftarrow> bus_dmamap_create P (word_of_int (MAXPHYS P)) 1 RTSX_DMA_MAX_SEGSIZE 0 1;
     (case d of Inl _ \<Rightarrow> destroy_maps P [dmap_cmd] | Inr pd \<Rightarrow> do {
     modify (\<lambda>s. s\<lparr>dmap_data := pd\<rparr>);
     a \<leftarrow> bus_dmamap_create P (RTSX_ADMA_DESC_SIZE P) 1 RTSX_DMA_MAX_SEGSIZE 0 1;
     (case a of Inl _ \<Rightarrow> destroy_maps P [dmap_data, dmap_cmd] | Inr pa \<Rightarrow> do {
     modify (\<lambda>s. s\<lparr>dmap_adma := pa, adma_segs := adma_segs_addr\<rparr>);
     local_segs adma_segs_addr;
     m \<leftarrow> bus_dmamem_alloc P (RTSX_ADMA_DESC_SIZE P) adma_segs_addr 1;
     (case m of Inl _ \<Rightarrow> destroy_maps P [dmap_adma, dmap_data, dmap_cmd] | Inr _ \<Rightarrow> do {
     v \<leftarrow> bus_dmamem_map P adma_segs_addr;
     (case v of
        Inl _ \<Rightarrow> do {
          bus_dmamem_free P adma_segs_addr;
          destroy_maps P [dmap_adma, dmap_data, dmap_cmd] }
      | Inr kva \<Rightarrow> do {
     modify (\<lambda>s. s\<lparr>admabuf := kva\<rparr>);
     na \<leftarrow> fetch no_adma;
     dev \<leftarrow> found SMF_STOP_AFTER_MULTIPLE
             (let caps = SMC_CAPS_4BIT_MODE OR SMC_CAPS_DMA in if na then clrf caps SMC_CAPS_DMA else caps);
     modify (\<lambda>s. s\<lparr>sdmmc_attached := dev\<rparr>);
     if \<not> dev then do {
       bus_dmamem_unmap P kva;
       bus_dmamem_free P adma_segs_addr;
       destroy_maps P [dmap_adma, dmap_data, dmap_cmd] }
     else do {
       fl \<leftarrow> fetch rflags;
       (if isset fl RTSX_F_CARD_PRESENT then rtsx_card_insert P else ret ());
       ret OK } }) }) }) }) }) } }"

section \<open>Queue properties\<close>

lemma bit_u8_const: "bit (0x3 :: u8) n \<longleftrightarrow> n < 2" "bit (0x3fff :: u16) n \<longleftrightarrow> n < 14"
proof -
  have "(0x3 :: u8) = mask 2" "(0x3fff :: u16) = mask 14" by (simp_all add: mask_eq_exp_minus_1)
  then show "bit (0x3 :: u8) n \<longleftrightarrow> n < 2" "bit (0x3fff :: u16) n \<longleftrightarrow> n < 14"
    by (auto simp only: bit_mask_iff) (auto simp: possible_bit_def)
qed

lemmas hostcmd_bits = hostcmd_word_def bit_and_iff bit_or_iff bit_u8_const bit_ucast_iff bit_push_bit_iff
    bit_drop_bit_eq o_def

lemma hostcmd_data: "ucast (hostcmd_word cmd reg msk dat) = dat"
  by (rule bit_word_eqI, simp only: hostcmd_bits, auto dest: byte_bit)

text \<open>
  A host command word carries its four fields: the chip can recover the command
  type, the 14 bit register index, the mask and the data byte from it.
\<close>

theorem hostcmd_word_fields:
  "ucast (drop_bit 30 (hostcmd_word cmd reg msk dat)) = cmd AND 0x3
   \<and> ucast (drop_bit 16 (hostcmd_word cmd reg msk dat)) AND 0x3fff = reg AND 0x3fff
   \<and> ucast (drop_bit 8 (hostcmd_word cmd reg msk dat)) = msk
   \<and> ucast (hostcmd_word cmd reg msk dat) = dat"
proof (intro conjI hostcmd_data)
qed (rule bit_word_eqI, simp only: hostcmd_bits, auto dest: byte_bit)+

lemma length_foldl_rd:
  "length (foldl (\<lambda>q r. q @ [f r]) q rs) = length q + length rs"
  by (induction rs arbitrary: q) simp_all

text \<open>
  The queues that \<open>rtsx_exec_command\<close> and \<open>rtsx_xfer\<close> write fit the command buffer:
  9 words plus 16 reads for a long response, 5 for a short one and none without a
  response, and 14 words for a transfer, of the 256 there is room for.
\<close>

theorem queue_lengths:
  "length (exec_queue rsp_type cmd) =
     (if rsp_type = RTSX_SD_RSP_TYPE_R2 then 25 else if rsp_type \<noteq> RTSX_SD_RSP_TYPE_R0 then 14 else 9)
   \<and> length (xfer_queue cmd) = 14
   \<and> length (exec_queue rsp_type cmd) \<le> RTSX_HOSTCMD_MAX"
  by (simp add: exec_queue_def xfer_queue_def Let_def length_foldl_rd rtsx_hostcmd_def)

text \<open>The data byte of the \<open>i\<close>-th word of a queue.\<close>

definition qdata :: "u32 list \<Rightarrow> nat \<Rightarrow> u8" where
  "qdata q i = ucast (q ! i)"

text \<open>
  The transfer queue tells the chip the size of the transfer: the bytes written to the
  \<open>RTSX_DMATC\<close> registers are the data length, the \<open>RTSX_SD_BYTE_CNT\<close> pair is the
  block length and the \<open>RTSX_SD_BLOCK_CNT\<close> pair the number of blocks, whose product is
  the data length again.
\<close>

theorem xfer_queue_sizes:
  assumes "0 < c_blklen cmd" and "c_blklen cmd < 2 ^ 16" and "0 \<le> c_datalen cmd" and "c_datalen cmd < 2 ^ 31"
    and "c_blklen cmd dvd c_datalen cmd" and "c_datalen cmd < 2 ^ 16 * c_blklen cmd"
  shows "uint (qdata (xfer_queue cmd) 7) * 2 ^ 24 + uint (qdata (xfer_queue cmd) 8) * 2 ^ 16
      + uint (qdata (xfer_queue cmd) 9) * 2 ^ 8 + uint (qdata (xfer_queue cmd) 10) = c_datalen cmd
    \<and> uint (qdata (xfer_queue cmd) 2) * 2 ^ 8 + uint (qdata (xfer_queue cmd) 1) = c_blklen cmd
    \<and> (uint (qdata (xfer_queue cmd) 4) * 2 ^ 8 + uint (qdata (xfer_queue cmd) 3)) * c_blklen cmd = c_datalen cmd"
proof -
  let ?n = "c_datalen cmd div c_blklen cmd"
  have sd: "c_datalen cmd sdiv c_blklen cmd = ?n"
    using assms by (cases "c_datalen cmd = 0") (simp_all add: signed_divide_int_def)
  have n: "0 \<le> ?n" "?n * c_blklen cmd = c_datalen cmd"
    using assms by (simp_all add: pos_imp_zdiv_nonneg_iff)
  have n16: "?n < 2 ^ 16"
    using assms(1,6) n(2) by (metis mult_less_cancel_right_pos)
  have q: "qdata (xfer_queue cmd) 7 = word_of_int (c_datalen cmd div 2 ^ 24)"
    "qdata (xfer_queue cmd) 8 = word_of_int (c_datalen cmd div 2 ^ 16)"
    "qdata (xfer_queue cmd) 9 = word_of_int (c_datalen cmd div 2 ^ 8)"
    "qdata (xfer_queue cmd) 10 = word_of_int (c_datalen cmd div 2 ^ 0)"
    "qdata (xfer_queue cmd) 2 = word_of_int (c_blklen cmd div 2 ^ 8)"
    "qdata (xfer_queue cmd) 1 = word_of_int (c_blklen cmd div 2 ^ 0)"
    "qdata (xfer_queue cmd) 4 = word_of_int (?n div 2 ^ 8)"
    "qdata (xfer_queue cmd) 3 = word_of_int (?n div 2 ^ 0)"
    by (simp_all only: qdata_def xfer_queue_def Let_def rtsx_hostcmd_def sd) (simp_all add: hostcmd_data)
  have two: "uint (word_of_int (x div 2 ^ 8) :: u8) * 2 ^ 8 + uint (word_of_int (x div 2 ^ 0) :: u8) = x"
    if "0 \<le> x" "x < 2 ^ 16" for x :: int
    using that by (simp add: uint_word_of_int take_bit_eq_mod)
  have four: "uint (word_of_int (x div 2 ^ 24) :: u8) * 2 ^ 24 + uint (word_of_int (x div 2 ^ 16) :: u8) * 2 ^ 16
      + uint (word_of_int (x div 2 ^ 8) :: u8) * 2 ^ 8 + uint (word_of_int (x div 2 ^ 0) :: u8) = x"
    if "0 \<le> x" "x < 2 ^ 31" for x :: int
  proof -
    define a b c where "a = x div 2 ^ 8" and "b = a div 2 ^ 8" and "c = b div 2 ^ 8"
    have d: "x div 2 ^ 16 = b" "x div 2 ^ 24 = c"
      by (simp_all add: a_def b_def c_def flip: zdiv_zmult2_eq)
    have "0 \<le> c" "c < 2 ^ 8" using that d(2) by (auto simp: pos_imp_zdiv_nonneg_iff)
    then have "c mod 2 ^ 8 = c" by simp
    moreover have "x = a * 2 ^ 8 + x mod 2 ^ 8" "a = b * 2 ^ 8 + a mod 2 ^ 8" "b = c * 2 ^ 8 + b mod 2 ^ 8"
      by (simp_all only: a_def b_def c_def div_mult_mod_eq)
    ultimately show ?thesis
      unfolding d a_def [symmetric] by (simp add: uint_word_of_int take_bit_eq_mod)
  qed
  show ?thesis
    unfolding q using two [of "c_blklen cmd"] two [OF n(1) n16] four [of "c_datalen cmd"] assms n(2) by simp
qed

theorem xfer_queue_sizes_witness:
  "uint (qdata (xfer_queue (zero_command\<lparr>c_datalen := 65536, c_blklen := 512\<rparr>)) 8) * 2 ^ 16 = 65536
   \<and> uint (qdata (xfer_queue (zero_command\<lparr>c_datalen := 65536, c_blklen := 512\<rparr>)) 3) * 512 = 65536"
proof -
  let ?c = "zero_command\<lparr>c_datalen := 65536, c_blklen := 512\<rparr>"
  have "qdata (xfer_queue ?c) 8 = 1 \<and> qdata (xfer_queue ?c) 3 = 128 \<and> qdata (xfer_queue ?c) 4 = 0
      \<and> qdata (xfer_queue ?c) 7 = 0 \<and> qdata (xfer_queue ?c) 9 = 0 \<and> qdata (xfer_queue ?c) 10 = 0"
    by code_simp
  then show ?thesis using xfer_queue_sizes [of ?c] by simp
qed

section \<open>Scatter-gather descriptors\<close>

lemma bit_sg: "bit (0xffffff :: u64) n \<longleftrightarrow> n < 24" "bit (0xFFFFF :: u64) n \<longleftrightarrow> n < 20"
proof -
  have "(0xffffff :: u64) = mask 24" "(0xFFFFF :: u64) = mask 20" by (simp_all add: mask_eq_exp_minus_1)
  then show "bit (0xffffff :: u64) n \<longleftrightarrow> n < 24" "bit (0xFFFFF :: u64) n \<longleftrightarrow> n < 20"
    by (auto simp only: bit_mask_iff) (auto simp: possible_bit_def)
qed

lemma small_bits: "unat (x :: 'w :: len word) < 2 ^ k \<Longrightarrow> bit x n \<Longrightarrow> n < k"
proof (rule ccontr)
  assume a: "unat x < 2 ^ k" "bit x n" "\<not> n < k"
  have "take_bit k (unat x) = unat x" using a(1) by (simp add: take_bit_nat_eq_self)
  moreover have "bit (unat x) n" using a(2) by (simp add: bit_unsigned_iff)
  ultimately show False using a(3) bit_take_bit_iff [of k "unat x" n] by simp
qed

lemmas adma_bits = adma_desc_def bit_and_iff bit_or_iff bit_push_bit_iff bit_drop_bit_eq o_def
    bit_sg bit_ucast_iff

lemma adma_flags_bit: "bit (RTSX_SG_VALID OR RTSX_SG_TRANS_DATA OR (if l then RTSX_SG_END else 0)) n \<Longrightarrow> n < 6"
proof -
  assume "bit (RTSX_SG_VALID OR RTSX_SG_TRANS_DATA OR (if l then RTSX_SG_END else 0)) n"
  then have "bit (if l then 0x23 else 0x21 :: u8) n" by (simp split: if_splits)
  moreover have "(if l then 0x23 else 0x21 :: u8) = take_bit 6 (if l then 0x23 else 0x21)" by simp
  ultimately show "n < 6" by (metis bit_take_bit_iff)
qed

lemma adma_desc_fields:
  assumes "unat (ds_addr g) < 2 ^ 32" and "unat (ds_len g) < 2 ^ 20"
  shows "drop_bit 32 (adma_desc l g) = ds_addr g"
    and "drop_bit 12 (adma_desc l g) AND 0xFFFFF = ds_len g"
    and "ucast (adma_desc l g) = RTSX_SG_VALID OR RTSX_SG_TRANS_DATA OR (if l then RTSX_SG_END else 0)"
proof -
  note small = small_bits [OF assms(1)] small_bits [OF assms(2)]
  show "drop_bit 32 (adma_desc l g) = ds_addr g"
    by (rule bit_word_eqI, simp only: adma_bits)
       (use small in \<open>fastforce dest: adma_flags_bit bit_imp_le_length\<close>)
  show "drop_bit 12 (adma_desc l g) AND 0xFFFFF = ds_len g"
    by (rule bit_word_eqI, simp only: adma_bits)
       (use small in \<open>fastforce dest: adma_flags_bit bit_imp_le_length\<close>)
  show "ucast (adma_desc l g) = RTSX_SG_VALID OR RTSX_SG_TRANS_DATA OR (if l then RTSX_SG_END else 0)"
    by (rule bit_word_eqI, simp only: adma_bits) auto
qed

text \<open>
  C16: for segments below 4 GB and shorter than 1 MB, which the DMA map guarantees, the
  descriptor list gives the chip back exactly the address and length of every segment, and
  exactly the last descriptor carries the end flag.
\<close>

theorem adma_list_describes:
  assumes "\<forall>g\<in>set gs. unat (ds_addr g) < 2 ^ 32 \<and> unat (ds_len g) < 2 ^ 20"
  shows "map (\<lambda>d. (drop_bit 32 d, drop_bit 12 d AND 0xFFFFF)) (adma_list gs) = map (\<lambda>g. (ds_addr g, ds_len g)) gs
    \<and> (\<forall>i<length gs. (ucast (adma_list gs ! i) :: u8) =
         RTSX_SG_VALID OR RTSX_SG_TRANS_DATA OR (if Suc i = length gs then RTSX_SG_END else 0))"
proof
  have nth: "adma_list gs ! i = adma_desc (Suc i = length gs) (gs ! i)" if "i < length gs" for i
    using that by (simp add: adma_list_def nth_enumerate_eq)
  have len: "length (adma_list gs) = length gs" by (simp add: adma_list_def)
  show "map (\<lambda>d. (drop_bit 32 d, drop_bit 12 d AND 0xFFFFF)) (adma_list gs) = map (\<lambda>g. (ds_addr g, ds_len g)) gs"
    using assms by (intro nth_equalityI) (simp_all add: len nth adma_desc_fields)
  show "\<forall>i<length gs. (ucast (adma_list gs ! i) :: u8) =
         RTSX_SG_VALID OR RTSX_SG_TRANS_DATA OR (if Suc i = length gs then RTSX_SG_END else 0)"
    using assms adma_desc_fields(3) by (simp add: nth)
qed

theorem adma_list_describes_witness:
  "map (\<lambda>d. drop_bit 32 d) (adma_list [zero_segment\<lparr>ds_addr := 0x10000, ds_len := 4096\<rparr>,
      zero_segment\<lparr>ds_addr := 0x30000, ds_len := 512\<rparr>]) = [0x10000, 0x30000]"
proof -
  let ?gs = "[zero_segment\<lparr>ds_addr := 0x10000, ds_len := 4096\<rparr>, zero_segment\<lparr>ds_addr := 0x30000, ds_len := 512\<rparr>]"
  have "\<forall>g\<in>set ?gs. unat (ds_addr g) < 2 ^ 32 \<and> unat (ds_len g) < 2 ^ 20" by simp
  from adma_list_describes [OF this] have "map (\<lambda>d. (drop_bit 32 d, drop_bit 12 d AND 0xFFFFF)) (adma_list ?gs)
      = map (\<lambda>g. (ds_addr g, ds_len g)) ?gs" by blast
  then have "map fst (map (\<lambda>d. (drop_bit 32 d, drop_bit 12 d AND 0xFFFFF)) (adma_list ?gs)) = [0x10000, 0x30000]"
    by simp
  then show ?thesis by (simp only: map_map comp_def fst_conv)
qed

text \<open>From one megabyte on, the length runs into the address field.\<close>

lemma adma_long_segment_overlaps:
  "drop_bit 32 (adma_desc True (zero_segment\<lparr>ds_addr := 0x10000, ds_len := 0x100000\<rparr>)) = 0x10001"
  by code_simp

section \<open>Waiting for the completion interrupt\<close>

lemma keeps_needs_discover [keeps]:
  assumes "\<And>s q w x y d. f (s\<lparr>spl_depth := d, tskq := q, onqueue := x, task_sc := y, tskq_wakeups := w\<rparr>) = f s"
  shows "keeps f sdmmc_needs_discover"
proof (rule keepsI)
  show "f (snd (run_state sdmmc_needs_discover s)) = f s" for s
    using assms [where s = s and q = "tskq s @ [DiscoverTask]" and w = "Suc (tskq_wakeups s)"
        and x = "(onqueue s)(DiscoverTask := True)" and y = "(task_sc s)(DiscoverTask := True)"
        and d = "spl_depth s"]
    by (simp add: sdmmc_needs_discover_def sdmmc_task_pending_def sdmmc_add_task_def)
qed

lemma hw_only_sched [simp]: "hw_only sched"
  by (simp add: hw_only_def)

lemma keeps_rtsx_intr_sched: "keeps sched (rtsx_intr P)"
  unfolding rtsx_intr_def intr_card_def rtsx_card_insert_def rtsx_card_eject_def
  by (intro keeps keeps_modify) simp_all

lemma tsleep_cases:
  assumes "run_state (tsleep_nsec P isr ns) s = (r, s')" and "0 < spl_depth s"
    and "keeps sched isr"
  shows "spl_depth s' = spl_depth s \<and> sched s' = tl (sched s)
    \<and> (r = Inl EWOULDBLOCK \<and> (\<exists>a b c. s' = s\<lparr>slept := a, sched := b, hw := c\<rparr>)
       \<or> r = OK \<and> sched s \<noteq> [])"
proof (cases "sched s")
  case Nil
  then show ?thesis using assms(1,2) by (auto simp: tsleep_nsec_def)
next
  case (Cons e es)
  let ?s1 = "s\<lparr>slept := ns # slept s, sched := es, hw := io_idle P (hw s), spl_depth := 0\<rparr>"
  obtain x s2 where i: "run_state isr ?s1 = (x, s2)" by (cases "run_state isr ?s1")
  have es: "sched s2 = es" using keeps_run [OF assms(3) i] by simp
  show ?thesis
  proof (cases e)
    case WakeTimeout
    then show ?thesis using assms(1,2) Cons by (auto simp: tsleep_nsec_def)
  next
    case WakeIntr
    then show ?thesis using assms(1,2) Cons i es by (auto simp: tsleep_nsec_def)
  qed
qed

lemma wait_loop_result:
  assumes "run_state (wait_loop n P msk ns status) s = ((st, err), s')" and "length (sched s) + 1 < n"
    and "0 < spl_depth s" and "status = intr_status s AND msk"
  shows "spl_depth s' = spl_depth s \<and> st = intr_status s' AND msk
    \<and> (err = OK \<and> st \<noteq> 0 \<or> err = Inl ETIMEDOUT \<and> st = 0)"
  using assms
proof (induction n arbitrary: s status)
  case 0
  then show ?case by simp
next
  case (Suc n)
  show ?case
  proof (cases "status = 0")
    case False
    with Suc.prems show ?thesis by auto
  next
    case True
    obtain r s1 where r: "run_state (tsleep_nsec P (rtsx_intr P) ns) s = (r, s1)"
      by (cases "run_state (tsleep_nsec P (rtsx_intr P) ns) s")
    note ts = tsleep_cases [OF r Suc.prems(3) keeps_rtsx_intr_sched]
    show ?thesis
    proof (cases "r = Inl EWOULDBLOCK")
      case True
      have "spl_depth (snd (run_state (rtsx_soft_reset P) s1)) = spl_depth s1"
        by (rule keepsD [OF keeps_soft_reset]) simp
      moreover have "intr_status (snd (run_state (rtsx_soft_reset P) s1)) = intr_status s1"
        by (rule keepsD [OF keeps_soft_reset]) (simp add: hw_only_def)
      moreover have "intr_status s1 = intr_status s" using ts True by auto
      ultimately show ?thesis
        using Suc.prems(1,4) r ts True \<open>status = 0\<close> by (auto simp: case_prod_beta)
    next
      case False
      with ts have ok: "sched s \<noteq> []" "r = OK" by auto
      have "run_state (wait_loop n P msk ns (intr_status s1 AND msk)) s1 = ((st, err), s')"
        using Suc.prems(1) r ok True by simp
      then show ?thesis
        using Suc.IH [of "intr_status s1 AND msk" s1] ts ok Suc.prems(2,3) by auto
    qed
  qed
qed

text \<open>
  C18: a wait releases the lock it took and has one of four outcomes; any outcome but
  ENODEV means that the card was still present when the wait ended, and the completion
  and failure bits it waited for are used up, so that the next wait does not see them.
\<close>

theorem wait_intr_outcomes:
  assumes "run_state (rtsx_wait_intr P RTSX_TRANS_OK_INT secs) s = (r, s')" and "0 \<le> spl_depth s"
  shows "spl_depth s' = spl_depth s
    \<and> r \<in> {OK, Inl EIO, Inl ENODEV, Inl ETIMEDOUT}
    \<and> intr_status s' AND (RTSX_TRANS_OK_INT OR RTSX_TRANS_FAIL_INT) = 0
    \<and> (r \<noteq> Inl ENODEV \<longrightarrow> isset (rflags s') RTSX_F_CARD_PRESENT)"
proof -
  let ?m = "RTSX_TRANS_OK_INT OR RTSX_TRANS_FAIL_INT"
  let ?s1 = "s\<lparr>spl_depth := spl_depth s + 1\<rparr>"
  let ?ns = "intr_timeout_ns (mimic_linux s) (timeout_shift s) secs"
  obtain st err s2 where w: "run_state (wait_loop (Suc (Suc (length (sched s)))) P ?m ?ns (intr_status s AND ?m)) ?s1
      = ((st, err), s2)" by (metis surj_pair)
  have res0: "spl_depth s2 = spl_depth ?s1 \<and> st = intr_status s2 AND ?m
    \<and> (err = OK \<and> st \<noteq> 0 \<or> err = Inl ETIMEDOUT \<and> st = 0)"
    by (rule wait_loop_result [OF w]) (use assms(2) in simp_all)
  then have res: "spl_depth s2 = spl_depth s + 1" "st = intr_status s2 AND ?m"
    "err = OK \<or> err = Inl ETIMEDOUT" by auto
  have clr: "clrf x (x AND m) AND m = 0" for x m :: u32
    unfolding clrf_def by (rule bit_word_eqI) (simp only: bit_and_iff bit_not_iff, auto)
  have r: "r = (if \<not> isset (rflags s2) RTSX_F_CARD_PRESENT then Inl ENODEV
      else if err = OK \<and> isset st RTSX_TRANS_FAIL_INT then Inl EIO else err)"
    and s': "s' = s2\<lparr>intr_status := clrf (intr_status s2) st, spl_depth := spl_depth s2 - 1\<rparr>"
    using assms(1) w by (auto simp: rtsx_wait_intr_def Let_def simp del: wait_loop.simps)
  show ?thesis
    using res clr [of "intr_status s2" ?m] by (auto simp: r s')
qed

text \<open>
  An interrupt that arrives after its command has timed out stays recorded: the next wait
  returns at once, without sleeping and without an answer to its own command.
\<close>

lemma stale_completion_accepted:
  assumes "isset (intr_status s) RTSX_TRANS_OK_INT" and "\<not> isset (intr_status s) RTSX_TRANS_FAIL_INT"
    and "isset (rflags s) RTSX_F_CARD_PRESENT"
  shows "fst (run_state (rtsx_wait_intr P RTSX_TRANS_OK_INT secs) s) = OK
    \<and> slept (exec (rtsx_wait_intr P RTSX_TRANS_OK_INT secs) s) = slept s
    \<and> hw (exec (rtsx_wait_intr P RTSX_TRANS_OK_INT secs) s) = hw s"
proof -
  let ?m = "RTSX_TRANS_OK_INT OR RTSX_TRANS_FAIL_INT"
  have "isset (intr_status s) ?m" using assms(1) by (subst isset_or) simp
  then have nz: "intr_status s AND ?m \<noteq> 0" by (simp add: isset_def)
  have fail: "\<not> isset (intr_status s AND ?m) RTSX_TRANS_FAIL_INT"
    using assms(2) by (simp add: isset_def and.assoc)
  show ?thesis
    using nz fail assms(3) by (simp add: rtsx_wait_intr_def Let_def exec_def)
qed

theorem wait_intr_outcomes_witness:
  "spl_depth (snd (run_state (rtsx_wait_intr sim_platform RTSX_TRANS_OK_INT 1) (rtsx_boot sim0))) = 0
   \<and> fst (run_state (rtsx_wait_intr sim_platform RTSX_TRANS_OK_INT 1) (rtsx_boot sim0))
       \<in> {OK, Inl EIO, Inl ENODEV, Inl ETIMEDOUT}"
  using wait_intr_outcomes [OF surjective_pairing, of "rtsx_boot sim0" sim_platform 1]
  by (simp add: rtsx_boot_def)

section \<open>The interrupt handler\<close>

lemma hw_only_flags: "hw_only (\<lambda>s. (rflags s, intr_status s, tskq s, onqueue s, task_sc s, spl_depth s, tskq_wakeups s))"
  by (simp add: hw_only_def)

lemma card_insert_run:
  assumes "run_state (rtsx_card_insert P) s = (u, s')"
  shows "rflags s' = setf (rflags s) RTSX_F_CARD_PRESENT \<and> intr_status s' = intr_status s
    \<and> onqueue s' DiscoverTask \<and> (tskq_inv s \<longrightarrow> tskq_inv s')"
proof -
  let ?s1 = "s\<lparr>rflags := setf (rflags s) RTSX_F_CARD_PRESENT\<rparr>"
  obtain r s2 where l: "run_state (rtsx_led_enable P) ?s1 = (r, s2)"
    by (cases "run_state (rtsx_led_enable P) ?s1")
  note k = keeps_run [OF keeps_led(1) [OF hw_only_flags] l]
  have s': "s' = exec sdmmc_needs_discover s2"
    using assms l by (auto simp: rtsx_card_insert_def exec_def split: prod.splits)
  show ?thesis
    using k tskq_inv_needs_discover [of s2]
    by (auto simp: s' tskq_inv_def exec_needs_discover exec_add)
qed

lemma card_eject_run:
  assumes "run_state (rtsx_card_eject P) s = (u, s')"
  shows "rflags s' = clrf (rflags s) RTSX_F_CARD_PRESENT \<and> intr_status s' = intr_status s
    \<and> onqueue s' DiscoverTask \<and> (tskq_inv s \<longrightarrow> tskq_inv s')"
proof -
  let ?s1 = "s\<lparr>rflags := clrf (rflags s) RTSX_F_CARD_PRESENT\<rparr>"
  obtain r s2 where l: "run_state (rtsx_led_disable P) ?s1 = (r, s2)"
    by (cases "run_state (rtsx_led_disable P) ?s1")
  note k = keeps_run [OF keeps_led(2) [OF hw_only_flags] l]
  have s': "s' = exec sdmmc_needs_discover s2"
    using assms l by (auto simp: rtsx_card_eject_def exec_def split: prod.splits)
  show ?thesis
    using k tskq_inv_needs_discover [of s2]
    by (auto simp: s' tskq_inv_def exec_needs_discover exec_add)
qed

lemma present_setf: "isset (setf x RTSX_F_CARD_PRESENT) RTSX_F_CARD_PRESENT"
  unfolding isset_def setf_def by (subst or_and_absorb) simp

lemma present_clrf: "\<not> isset (clrf x RTSX_F_CARD_PRESENT) RTSX_F_CARD_PRESENT"
  unfolding isset_def clrf_def by (simp add: and.assoc)

text \<open>
  C14: the interrupt handler keeps the driver's idea of the slot in step with the hardware.
  An interrupt that is not enabled, or a read of all ones, changes no driver state. An SD
  interrupt makes the present flag equal to the card-exists bit, and discovery is queued
  whenever the flag changes or the card is gone. Completion bits are added to those recorded.
\<close>

theorem rtsx_intr_tracks_card:
  fixes s :: "('h, 'z) rtsx_scheme"
  assumes "ioh s \<noteq> 0" and "run_state (rtsx_intr P) s = (handled, s')" and "tskq_inv s"
  defines "enabled \<equiv> fst (io_read4 P (hw s) (ioh s) RTSX_BIER)"
    and "status \<equiv> fst (io_read4 P (snd (io_read4 P (hw s) (ioh s) RTSX_BIER)) (ioh s) RTSX_BIPR)"
  shows "handled = (enabled AND status \<noteq> 0 \<and> status \<noteq> 0xffffffff)
    \<and> (\<not> handled \<longrightarrow> s' = s\<lparr>hw := hw s'\<rparr>)
    \<and> (handled \<and> isset status RTSX_SD_INT \<longrightarrow>
         isset (rflags s') RTSX_F_CARD_PRESENT = isset status RTSX_SD_EXIST
         \<and> (isset (rflags s) RTSX_F_CARD_PRESENT \<noteq> isset status RTSX_SD_EXIST
              \<or> \<not> isset status RTSX_SD_EXIST \<longrightarrow> onqueue s' DiscoverTask))
    \<and> (handled \<longrightarrow> intr_status s' = (if isset status (RTSX_TRANS_OK_INT OR RTSX_TRANS_FAIL_INT)
         then intr_status s OR status else intr_status s))
    \<and> tskq_inv s'"
proof -
  let ?h1 = "snd (io_read4 P (hw s) (ioh s) RTSX_BIER)"
  let ?h2 = "snd (io_read4 P ?h1 (ioh s) RTSX_BIPR)"
  define s1 where "s1 = s\<lparr>hw := io_write4 P ?h2 (ioh s) RTSX_BIPR status\<rparr>"
  have s1: "rflags s1 = rflags s" "intr_status s1 = intr_status s" "onqueue s1 = onqueue s" "tskq_inv s1"
    using assms(3) by (simp_all add: s1_def tskq_inv_def)
  obtain u s2 where c: "run_state (intr_card P status) s1 = (u, s2)" by (cases "run_state (intr_card P status) s1")
  have s2: "intr_status s2 = intr_status s" "tskq_inv s2"
    "isset status RTSX_SD_INT \<Longrightarrow> isset (rflags s2) RTSX_F_CARD_PRESENT = isset status RTSX_SD_EXIST"
    "isset status RTSX_SD_INT \<Longrightarrow> isset (rflags s) RTSX_F_CARD_PRESENT \<noteq> isset status RTSX_SD_EXIST
              \<or> \<not> isset status RTSX_SD_EXIST \<Longrightarrow> onqueue s2 DiscoverTask"
    using c s1 by (auto simp: intr_card_def present_setf present_clrf split: if_splits
        dest!: card_insert_run card_eject_run)
  have run: "run_state (rtsx_intr P) s = (if enabled AND status = 0 \<or> status = 0xffffffff then (False, s1)
      else (True, if isset status (RTSX_TRANS_OK_INT OR RTSX_TRANS_FAIL_INT)
                  then s2\<lparr>intr_status := setf (intr_status s2) status\<rparr> else s2))"
    using assms(1) c
    by (simp add: rtsx_intr_def run_READ4' run_WRITE4' enabled_def status_def s1_def)
  show ?thesis
    using assms(2) s2 s1 run
    by (auto simp: s1_def setf_def tskq_inv_def split: if_splits)
qed

theorem rtsx_intr_tracks_card_witness:
  "isset (rflags (snd (run_state (rtsx_intr sim_platform)
     (rtsx_boot (sim0\<lparr>sim_regs := (\<lambda>_. RTSX_SD_INT OR RTSX_SD_EXIST)\<rparr>))))) RTSX_F_CARD_PRESENT"
proof -
  let ?s = "rtsx_boot (sim0\<lparr>sim_regs := (\<lambda>_. RTSX_SD_INT OR RTSX_SD_EXIST)\<rparr>)"
  have "ioh ?s \<noteq> 0" "tskq_inv ?s" by (simp_all add: rtsx_boot_def tskq_inv_def)
  from rtsx_intr_tracks_card [OF this(1) surjective_pairing this(2), of sim_platform]
  show ?thesis by (simp add: rtsx_boot_def sim_platform_def sim0_def isset_def)
qed

section \<open>Refused commands\<close>

text \<open>
  C38: \<open>rtsx_exec_command\<close> always marks the command as done. A probe for SDIO on a chip
  without SDIO support and a command with an unknown response type are refused with their
  own errors before the hardware or the driver state is touched.
\<close>

theorem exec_command_refusals:
  "isset (c_flags (fst (run_state (rtsx_exec_command P cmd) s))) SCF_ITSDONE
   \<and> (c_opcode cmd = SD_IO_SEND_OP_COND \<and> \<not> isset (rflags s) RTSX_F_SDIO_SUPPORT \<longrightarrow>
        run_state (rtsx_exec_command P cmd) s
          = (cmd\<lparr>c_flags := setf (c_flags cmd) SCF_ITSDONE, c_error := Inl ENOTSUP\<rparr>, s))
   \<and> (c_opcode cmd \<noteq> SD_IO_SEND_OP_COND \<and>
        c_flags cmd AND 0xff00 \<notin> {SCF_RSP_R0, SCF_RSP_R1, SCF_RSP_R1B, SCF_RSP_R2, SCF_RSP_R3} \<longrightarrow>
        run_state (rtsx_exec_command P cmd) s
          = (cmd\<lparr>c_flags := setf (c_flags cmd) SCF_ITSDONE, c_error := Inl EINVAL\<rparr>, s))"
proof -
  have done_set: "isset (setf x SCF_ITSDONE) SCF_ITSDONE" for x
    unfolding isset_def setf_def by (subst or_and_absorb) simp
  show ?thesis
    by (auto simp: rtsx_exec_command_def Let_def done_set rtsx_response_type_def response_types_def
        simp del: run_state_chk split: prod.split)
qed

theorem exec_command_refusals_witness:
  "c_error (fst (run_state (rtsx_exec_command sim_platform (zero_command\<lparr>c_flags := 0x0100\<rparr>)) (rtsx_boot sim0)))
     = Inl EINVAL"
  using exec_command_refusals [of sim_platform "zero_command\<lparr>c_flags := 0x0100\<rparr>" "rtsx_boot sim0"]
  by (simp add: zero_command_def)

end
