(* ===== verification/SdmmcReg.thy ===== *)
theory SdmmcReg
  imports RtsxCmd
begin

text \<open>
  The commands, argument and register fields of 3rdParty/openbsd/sdmmcreg.h: constants,
  \<open>__bitfield\<close> with its specification, the fields of CSD, CID and SCR, and the decoded
  records of sdmmcvar.h.
\<close>

section \<open>Constants\<close>

abbreviation (input) MMC_GO_IDLE_STATE :: u16 where "MMC_GO_IDLE_STATE \<equiv> 0x0"
abbreviation (input) MMC_SEND_OP_COND :: u16 where "MMC_SEND_OP_COND \<equiv> 0x1"
abbreviation (input) MMC_ALL_SEND_CID :: u16 where "MMC_ALL_SEND_CID \<equiv> 0x2"
abbreviation (input) MMC_SET_RELATIVE_ADDR :: u16 where "MMC_SET_RELATIVE_ADDR \<equiv> 0x3"
abbreviation (input) MMC_SWITCH :: u16 where "MMC_SWITCH \<equiv> 0x6"
abbreviation (input) MMC_SELECT_CARD :: u16 where "MMC_SELECT_CARD \<equiv> 0x7"
abbreviation (input) MMC_SEND_EXT_CSD :: u16 where "MMC_SEND_EXT_CSD \<equiv> 0x8"
abbreviation (input) MMC_SEND_CSD :: u16 where "MMC_SEND_CSD \<equiv> 0x9"
abbreviation (input) MMC_STOP_TRANSMISSION :: u16 where "MMC_STOP_TRANSMISSION \<equiv> 0xC"
abbreviation (input) MMC_SEND_STATUS :: u16 where "MMC_SEND_STATUS \<equiv> 0xD"
abbreviation (input) MMC_SET_BLOCKLEN :: u16 where "MMC_SET_BLOCKLEN \<equiv> 0x10"
abbreviation (input) MMC_READ_BLOCK_SINGLE :: u16 where "MMC_READ_BLOCK_SINGLE \<equiv> 0x11"
abbreviation (input) MMC_READ_BLOCK_MULTIPLE :: u16 where "MMC_READ_BLOCK_MULTIPLE \<equiv> 0x12"
abbreviation (input) MMC_WRITE_BLOCK_SINGLE :: u16 where "MMC_WRITE_BLOCK_SINGLE \<equiv> 0x18"
abbreviation (input) MMC_WRITE_BLOCK_MULTIPLE :: u16 where "MMC_WRITE_BLOCK_MULTIPLE \<equiv> 0x19"
abbreviation (input) MMC_APP_CMD :: u16 where "MMC_APP_CMD \<equiv> 0x37"
abbreviation (input) SD_SEND_RELATIVE_ADDR :: u16 where "SD_SEND_RELATIVE_ADDR \<equiv> 0x3"
abbreviation (input) SD_SEND_SWITCH_FUNC :: u16 where "SD_SEND_SWITCH_FUNC \<equiv> 0x6"
abbreviation (input) SD_SEND_IF_COND :: u16 where "SD_SEND_IF_COND \<equiv> 0x8"
abbreviation (input) SD_APP_SET_BUS_WIDTH :: u16 where "SD_APP_SET_BUS_WIDTH \<equiv> 0x6"
abbreviation (input) SD_APP_OP_COND :: u16 where "SD_APP_OP_COND \<equiv> 0x29"
abbreviation (input) SD_APP_SEND_SCR :: u16 where "SD_APP_SEND_SCR \<equiv> 0x33"
abbreviation (input) MMC_OCR_ACCESS_MODE_MASK :: u32 where "MMC_OCR_ACCESS_MODE_MASK \<equiv> 0x60000000"
abbreviation (input) MMC_OCR_SECTOR_MODE :: u32 where "MMC_OCR_SECTOR_MODE \<equiv> 0x40000000"
abbreviation (input) SD_OCR_VOL_MASK :: u32 where "SD_OCR_VOL_MASK \<equiv> 0xFF8000"
abbreviation (input) MMC_R1_READY_FOR_DATA :: u32 where "MMC_R1_READY_FOR_DATA \<equiv> 0x100"
abbreviation (input) MMC_R1_APP_CMD :: u32 where "MMC_R1_APP_CMD \<equiv> 0x20"
abbreviation (input) SD_ARG_BUS_WIDTH_1 :: u32 where "SD_ARG_BUS_WIDTH_1 \<equiv> 0x0"
abbreviation (input) SD_ARG_BUS_WIDTH_4 :: u32 where "SD_ARG_BUS_WIDTH_4 \<equiv> 0x2"
abbreviation (input) EXT_CSD_BUS_WIDTH :: u8 where "EXT_CSD_BUS_WIDTH \<equiv> 0xB7"
abbreviation (input) EXT_CSD_HS_TIMING :: u8 where "EXT_CSD_HS_TIMING \<equiv> 0xB9"
abbreviation (input) EXT_CSD_CARD_TYPE :: nat where "EXT_CSD_CARD_TYPE \<equiv> 196"
abbreviation (input) EXT_CSD_SEC_COUNT :: nat where "EXT_CSD_SEC_COUNT \<equiv> 212"
abbreviation (input) EXT_CSD_CMD_SET_NORMAL :: u8 where "EXT_CSD_CMD_SET_NORMAL \<equiv> 0x1"
abbreviation (input) EXT_CSD_HS_TIMING_HS :: u8 where "EXT_CSD_HS_TIMING_HS \<equiv> 0x1"
abbreviation (input) EXT_CSD_BUS_WIDTH_1 :: u8 where "EXT_CSD_BUS_WIDTH_1 \<equiv> 0x0"
abbreviation (input) EXT_CSD_BUS_WIDTH_4 :: u8 where "EXT_CSD_BUS_WIDTH_4 \<equiv> 0x1"
abbreviation (input) EXT_CSD_BUS_WIDTH_8 :: u8 where "EXT_CSD_BUS_WIDTH_8 \<equiv> 0x2"
abbreviation (input) EXT_CSD_BUS_WIDTH_4_DDR :: u8 where "EXT_CSD_BUS_WIDTH_4_DDR \<equiv> 0x5"
abbreviation (input) EXT_CSD_BUS_WIDTH_8_DDR :: u8 where "EXT_CSD_BUS_WIDTH_8_DDR \<equiv> 0x6"
abbreviation (input) EXT_CSD_CARD_TYPE_F_26M :: u8 where "EXT_CSD_CARD_TYPE_F_26M \<equiv> 0x1"
abbreviation (input) EXT_CSD_CARD_TYPE_F_52M :: u8 where "EXT_CSD_CARD_TYPE_F_52M \<equiv> 0x2"
abbreviation (input) EXT_CSD_CARD_TYPE_F_52M_1_8V :: u8 where "EXT_CSD_CARD_TYPE_F_52M_1_8V \<equiv> 0x4"
abbreviation (input) MMC_CSD_CSDVER_1_0 :: int where "MMC_CSD_CSDVER_1_0 \<equiv> 1"
abbreviation (input) MMC_CSD_CSDVER_2_0 :: int where "MMC_CSD_CSDVER_2_0 \<equiv> 2"
abbreviation (input) MMC_CSD_CSDVER_EXT_CSD :: int where "MMC_CSD_CSDVER_EXT_CSD \<equiv> 3"
abbreviation (input) MMC_CSD_MMCVER_1_0 :: int where "MMC_CSD_MMCVER_1_0 \<equiv> 0"
abbreviation (input) MMC_CSD_MMCVER_1_4 :: int where "MMC_CSD_MMCVER_1_4 \<equiv> 1"
abbreviation (input) MMC_CSD_MMCVER_2_0 :: int where "MMC_CSD_MMCVER_2_0 \<equiv> 2"
abbreviation (input) MMC_CSD_MMCVER_3_1 :: int where "MMC_CSD_MMCVER_3_1 \<equiv> 3"
abbreviation (input) MMC_CSD_MMCVER_4_0 :: int where "MMC_CSD_MMCVER_4_0 \<equiv> 4"
abbreviation (input) SD_CSD_CSDVER_1_0 :: int where "SD_CSD_CSDVER_1_0 \<equiv> 0"
abbreviation (input) SD_CSD_CSDVER_2_0 :: int where "SD_CSD_CSDVER_2_0 \<equiv> 1"
abbreviation (input) SD_CSD_V2_BL_LEN :: int where "SD_CSD_V2_BL_LEN \<equiv> 9"
abbreviation (input) SCR_SD_SPEC_VER_1_10 :: int where "SCR_SD_SPEC_VER_1_10 \<equiv> 1"
abbreviation (input) SD_CSD_CCC_SWITCH :: u32 where "SD_CSD_CCC_SWITCH \<equiv> 0x400"
abbreviation (input) SCR_SD_BUS_WIDTHS_4BIT :: u32 where "SCR_SD_BUS_WIDTHS_4BIT \<equiv> 0x4"

section \<open>Bit fields of a response\<close>

text \<open>The bytes of an array of 32 bit words, and a byte of it; outside it reads are unspecified.\<close>

definition resp_bytes :: "u32 list \<Rightarrow> u8 list" where
  "resp_bytes ws = concat (map (le_bytes 4) ws)"

definition byte_at :: "u8 list \<Rightarrow> nat \<Rightarrow> u8" where
  "byte_at src i = (if i < length src then src ! i else 0)"

text \<open>The loop of \<open>__bitfield\<close>; \<open>len\<close> decreases by at least one bit per round.\<close>

function bitfield_loop :: "u8 list \<Rightarrow> nat \<Rightarrow> nat \<Rightarrow> nat \<Rightarrow> u32 \<Rightarrow> u32" where
  "bitfield_loop src start len shift dst =
     (if len = 0 then dst else
        let bs = start mod 8; bc = min (8 - bs) len in
        bitfield_loop src (start + bc) (len - bc) (shift + bc)
          (dst OR push_bit shift (ucast (drop_bit bs (byte_at src (start div 8))))))"
  by pat_completeness auto
termination by (relation "measure (\<lambda>(src, start, len, shift, dst). len)") auto

declare bitfield_loop.simps [simp del]

definition sdmmc_bitfield :: "u8 list \<Rightarrow> int \<Rightarrow> int \<Rightarrow> int" where
  "sdmmc_bitfield src start len =
     (if start < 0 \<or> len < 0 \<or> len > 32 then 0 else
        let m = (if len mod 32 \<noteq> 0 then drop_bit (nat (32 - len mod 32)) (- 1) else - 1 :: u32) in
        sint (bitfield_loop src (nat start) (nat len) 0 0 AND m))"

definition MMC_RSP_BITS :: "u32 list \<Rightarrow> int \<Rightarrow> int \<Rightarrow> int" where
  "MMC_RSP_BITS resp start len = sdmmc_bitfield (resp_bytes resp) (start - 8) len"

definition MMC_CSD_CSDVER :: "u32 list \<Rightarrow> int" where
  "MMC_CSD_CSDVER resp = MMC_RSP_BITS resp 126 2"

definition MMC_CSD_MMCVER :: "u32 list \<Rightarrow> int" where
  "MMC_CSD_MMCVER resp = MMC_RSP_BITS resp 122 4"

definition MMC_CSD_READ_BL_LEN :: "u32 list \<Rightarrow> int" where
  "MMC_CSD_READ_BL_LEN resp = MMC_RSP_BITS resp 80 4"

definition MMC_CSD_C_SIZE :: "u32 list \<Rightarrow> int" where
  "MMC_CSD_C_SIZE resp = MMC_RSP_BITS resp 62 12"

definition MMC_CSD_C_SIZE_MULT :: "u32 list \<Rightarrow> int" where
  "MMC_CSD_C_SIZE_MULT resp = MMC_RSP_BITS resp 47 3"

definition MMC_CID_MID_V1 :: "u32 list \<Rightarrow> int" where
  "MMC_CID_MID_V1 resp = MMC_RSP_BITS resp 104 24"

definition MMC_CID_REV_V1 :: "u32 list \<Rightarrow> int" where
  "MMC_CID_REV_V1 resp = MMC_RSP_BITS resp 40 8"

definition MMC_CID_PSN_V1 :: "u32 list \<Rightarrow> int" where
  "MMC_CID_PSN_V1 resp = MMC_RSP_BITS resp 16 24"

definition MMC_CID_MDT_V1 :: "u32 list \<Rightarrow> int" where
  "MMC_CID_MDT_V1 resp = MMC_RSP_BITS resp 8 8"

definition MMC_CID_MID_V2 :: "u32 list \<Rightarrow> int" where
  "MMC_CID_MID_V2 resp = MMC_RSP_BITS resp 120 8"

definition MMC_CID_OID_V2 :: "u32 list \<Rightarrow> int" where
  "MMC_CID_OID_V2 resp = MMC_RSP_BITS resp 104 16"

definition MMC_CID_PSN_V2 :: "u32 list \<Rightarrow> int" where
  "MMC_CID_PSN_V2 resp = MMC_RSP_BITS resp 16 32"

definition SD_CSD_CSDVER :: "u32 list \<Rightarrow> int" where
  "SD_CSD_CSDVER resp = MMC_RSP_BITS resp 126 2"

definition SD_CSD_CCC :: "u32 list \<Rightarrow> int" where
  "SD_CSD_CCC resp = MMC_RSP_BITS resp 84 12"

definition SD_CSD_READ_BL_LEN :: "u32 list \<Rightarrow> int" where
  "SD_CSD_READ_BL_LEN resp = MMC_RSP_BITS resp 80 4"

definition SD_CSD_C_SIZE :: "u32 list \<Rightarrow> int" where
  "SD_CSD_C_SIZE resp = MMC_RSP_BITS resp 62 12"

definition SD_CSD_V2_C_SIZE :: "u32 list \<Rightarrow> int" where
  "SD_CSD_V2_C_SIZE resp = MMC_RSP_BITS resp 48 22"

definition SD_CSD_C_SIZE_MULT :: "u32 list \<Rightarrow> int" where
  "SD_CSD_C_SIZE_MULT resp = MMC_RSP_BITS resp 47 3"

definition SD_CID_MID :: "u32 list \<Rightarrow> int" where
  "SD_CID_MID resp = MMC_RSP_BITS resp 120 8"

definition SD_CID_OID :: "u32 list \<Rightarrow> int" where
  "SD_CID_OID resp = MMC_RSP_BITS resp 104 16"

definition SD_CID_REV :: "u32 list \<Rightarrow> int" where
  "SD_CID_REV resp = MMC_RSP_BITS resp 56 8"

definition SD_CID_PSN :: "u32 list \<Rightarrow> int" where
  "SD_CID_PSN resp = MMC_RSP_BITS resp 24 32"

definition SD_CID_MDT :: "u32 list \<Rightarrow> int" where
  "SD_CID_MDT resp = MMC_RSP_BITS resp 8 12"

definition SCR_STRUCTURE :: "u32 list \<Rightarrow> int" where
  "SCR_STRUCTURE resp = MMC_RSP_BITS resp 60 4"

definition SCR_SD_SPEC :: "u32 list \<Rightarrow> int" where
  "SCR_SD_SPEC resp = MMC_RSP_BITS resp 56 4"

definition SCR_SD_BUS_WIDTHS :: "u32 list \<Rightarrow> int" where
  "SCR_SD_BUS_WIDTHS resp = MMC_RSP_BITS resp 48 4"

definition MMC_CSD_CAPACITY :: "u32 list \<Rightarrow> int" where
  "MMC_CSD_CAPACITY resp = (MMC_CSD_C_SIZE resp + 1) * 2 ^ nat (MMC_CSD_C_SIZE_MULT resp + 2)"

definition SD_CSD_CAPACITY :: "u32 list \<Rightarrow> int" where
  "SD_CSD_CAPACITY resp = (SD_CSD_C_SIZE resp + 1) * 2 ^ nat (SD_CSD_C_SIZE_MULT resp + 2)"

text \<open>22 bits plus one, shifted left by ten: at most \<open>2 ^ 32\<close>, taken as a C int.\<close>

definition SD_CSD_V2_CAPACITY :: "u32 list \<Rightarrow> int" where
  "SD_CSD_V2_CAPACITY resp = sint (word_of_int ((SD_CSD_V2_C_SIZE resp + 1) * 2 ^ 10) :: u32)"

text \<open>The product name copies, one character per byte field.\<close>

definition pnm_copy :: "u32 list \<Rightarrow> int list \<Rightarrow> u8 list" where
  "pnm_copy resp starts = map (\<lambda>st. word_of_int (MMC_RSP_BITS resp st 8)) starts @ [0]"

definition SD_CID_PNM_CPY :: "u32 list \<Rightarrow> u8 list" where
  "SD_CID_PNM_CPY resp = pnm_copy resp [96, 88, 80, 72, 64]"

definition MMC_CID_PNM_V1_CPY :: "u32 list \<Rightarrow> u8 list" where
  "MMC_CID_PNM_V1_CPY resp = pnm_copy resp [96, 88, 80, 72, 64, 56, 48]"

definition MMC_CID_PNM_V2_CPY :: "u32 list \<Rightarrow> u8 list" where
  "MMC_CID_PNM_V2_CPY resp = pnm_copy resp [96, 88, 80, 72, 64, 56]"

text \<open>\<open>SFUNC_STATUS_GROUP\<close> reads the 512 bit switch status without the offset of a response.\<close>

definition SFUNC_STATUS_GROUP :: "u32 list \<Rightarrow> int \<Rightarrow> int" where
  "SFUNC_STATUS_GROUP status grp = sdmmc_bitfield (resp_bytes status) (400 + (grp - 1) * 16) 16"

definition MMC_ARG_RCA :: "u16 \<Rightarrow> u32" where
  "MMC_ARG_RCA rca = push_bit 16 (ucast rca)"

definition SD_R6_RCA :: "u32 list \<Rightarrow> u16" where
  "SD_R6_RCA resp = ucast (drop_bit 16 (resp ! 0))"

section \<open>Decoded registers\<close>

record sdmmc_csd =
  csdver :: int
  mmcver :: int
  capacity :: int
  sector_size :: int
  read_bl_len :: int
  ccc :: int

record sdmmc_cid =
  cid_mid :: int
  cid_oid :: int
  cid_pnm :: "u8 list"
  cid_rev :: int
  cid_psn :: int
  cid_mdt :: int

record sdmmc_scr =
  sd_spec :: int
  bus_widths :: int

section \<open>What the bit field loop computes\<close>

definition src_bit :: "u8 list \<Rightarrow> nat \<Rightarrow> bool" where
  "src_bit src i = bit (byte_at src (i div 8)) (i mod 8)"

lemma bitfield_loop_0: "bitfield_loop src start 0 shift dst = dst"
  by (simp add: bitfield_loop.simps [of src start 0])

lemma bitfield_loop_bits:
  assumes "shift + len \<le> 32" and "\<And>n. bit dst n \<Longrightarrow> n < shift" and "n < shift + len"
  shows "bit (bitfield_loop src start len shift dst) n =
    (if n < shift then bit dst n else src_bit src (start + n - shift))"
  using assms
proof (induction src start len shift dst arbitrary: n rule: bitfield_loop.induct)
  case (1 src start len shift dst)
  show ?case
  proof (cases "len = 0")
    case True
    with 1 show ?thesis by (simp add: bitfield_loop_0)
  next
    case False
    define bs bc where "bs = start mod 8" and "bc = min (8 - bs) len"
    define w where "w = drop_bit bs (byte_at src (start div 8))"
    define dst' where "dst' = dst OR push_bit shift (ucast w :: u32)"
    have bs8: "bs < 8" and bc: "0 < bc" "bc \<le> len" "bc \<le> 8 - bs"
      using False by (auto simp: bs_def bc_def)
    have wbit: "bit w i \<longleftrightarrow> i + bs < 8 \<and> bit (byte_at src (start div 8)) (i + bs)" for i
      using bit_imp_le_length [of "byte_at src (start div 8)" "i + bs"]
      by (auto simp: w_def bit_drop_bit_eq add.commute)
    have dbit: "bit dst' i \<longleftrightarrow> bit dst i \<or> shift \<le> i \<and> i < 32 \<and> bit w (i - shift)" for i
      using bit_imp_le_length [of w "i - shift"]
      by (auto simp: dst'_def bit_or_iff bit_push_bit_iff bit_ucast_iff)
    have step: "bitfield_loop src start len shift dst
        = bitfield_loop src (start + bc) (len - bc) (shift + bc) dst'"
      using False by (subst bitfield_loop.simps) (simp add: Let_def bs_def bc_def dst'_def w_def)
    have here: "bit dst' i = (if i < shift then bit dst i else src_bit src (start + i - shift))"
      if "i < shift + bc" for i
    proof (cases "i < shift")
      case True
      then show ?thesis by (simp add: dbit)
    next
      case False
      then have lt: "i - shift + bs < 8" using that bc by linarith
      have "start + i - shift = 8 * (start div 8) + (i - shift + bs)"
        using False by (simp add: bs_def)
      then have "(start + i - shift) div 8 = start div 8" "(start + i - shift) mod 8 = i - shift + bs"
        using lt by simp_all
      moreover have "i < 32" using that bc 1(2) by linarith
      ultimately show ?thesis using False lt "1.prems"(2) by (auto simp: dbit wbit src_bit_def)
    qed
    show ?thesis
    proof (cases "len - bc = 0")
      case True
      then have "n < shift + bc" using 1 bc by linarith
      then show ?thesis using here True by (simp add: step bitfield_loop_0)
    next
      case False
      then have full: "bc = 8 - bs" using bc by (simp add: bc_def)
      have small: "i < shift + bc" if "bit dst' i" for i
        using that "1.prems"(2) wbit full bs8 by (fastforce simp: dbit)
      have "bit (bitfield_loop src (start + bc) (len - bc) (shift + bc) dst') n =
          (if n < shift + bc then bit dst' n else src_bit src (start + bc + n - (shift + bc)))"
        by (rule "1.IH" [OF \<open>len \<noteq> 0\<close> bs_def bc_def, folded w_def, folded dst'_def])
           (use 1 bc small in auto)
      then show ?thesis using here step by (auto simp: algebra_simps)
    qed
  qed
qed

text \<open>Bit \<open>i\<close> of a response of 32 bit words; past the end reads are modelled as 0.\<close>

definition resp_bit :: "u32 list \<Rightarrow> nat \<Rightarrow> bool" where
  "resp_bit ws i = (i < 32 * length ws \<and> bit (ws ! (i div 32)) (i mod 32))"

lemma length_resp_bytes [simp]: "length (resp_bytes ws) = 4 * length ws"
  by (induction ws) (simp_all add: resp_bytes_def le_bytes_def)

lemma le_bytes_nth: "i < k \<Longrightarrow> le_bytes k w ! i = ucast (drop_bit (8 * i) w)"
  by (simp add: le_bytes_def)

lemma resp_bytes_nth:
  "i < 4 * length ws \<Longrightarrow> resp_bytes ws ! i = ucast (drop_bit (8 * (i mod 4)) (ws ! (i div 4)))"
proof (induction ws arbitrary: i)
  case Nil
  then show ?case by simp
next
  case (Cons w ws)
  have split: "resp_bytes (w # ws) = le_bytes 4 w @ resp_bytes ws"
    and len: "length (le_bytes 4 w) = 4" by (simp_all add: resp_bytes_def le_bytes_def)
  show ?case
  proof (cases "i < 4")
    case True
    then show ?thesis by (simp add: split nth_append len le_bytes_nth)
  next
    case False
    then obtain j where "i = j + 4" by (metis add.commute le_Suc_ex not_less)
    moreover have "(j + 4) div 4 = Suc (j div 4)" by simp
    ultimately show ?thesis using Cons by (simp add: split nth_append len del: div_add_self2)
  qed
qed

lemma src_bit_resp_bytes: "src_bit (resp_bytes ws) i = resp_bit ws i"
proof (cases "i < 32 * length ws")
  case True
  then have lt: "i div 8 < 4 * length ws" by (simp add: less_mult_imp_div_less mult.commute)
  have dm: "i div 8 div 4 = i div 32" by (simp add: div_mult2_eq [symmetric])
  have "i mod 32 = 8 * (i div 8 mod 4) + i mod 8"
    using mod_mult2_eq [of i 8 4] by simp
  then show ?thesis using True lt
    by (simp add: src_bit_def resp_bit_def byte_at_def resp_bytes_nth dm bit_ucast_iff bit_drop_bit_eq)
next
  case False
  then have "\<not> i div 8 < 4 * length ws" by (simp add: not_less) 
  with False show ?thesis by (simp add: src_bit_def resp_bit_def byte_at_def)
qed

lemma bitfield_mask_bit:
  assumes "0 \<le> len" "len \<le> 32" "n < nat len"
  shows "bit (if len mod 32 \<noteq> 0 then drop_bit (nat (32 - len mod 32)) (- 1) else - 1 :: u32) n"
proof (cases "len = 32")
  case True
  then show ?thesis using assms by simp
next
  case False
  then have "len mod 32 = len" using assms by simp
  then show ?thesis using assms by (auto simp: bit_mask_iff)
qed

lemma sdmmc_bitfield_value:
  assumes "0 \<le> start" "0 \<le> len" "len \<le> 32"
  shows "sdmmc_bitfield src start len =
    sint (horner_sum of_bool 2 (map (src_bit src) [nat start ..< nat start + nat len]) :: u32)"
proof -
  let ?m = "if len mod 32 \<noteq> 0 then drop_bit (nat (32 - len mod 32)) (- 1) else - 1 :: u32"
  let ?l = "bitfield_loop src (nat start) (nat len) 0 0"
  have bits: "bit ?l n = src_bit src (nat start + n)" if "n < nat len" for n
    using bitfield_loop_bits [of 0 "nat len" 0 n src "nat start"] that assms by simp
  have big: "\<not> bit ?m n \<or> \<not> bit ?l n" if "\<not> n < nat len" "n < 32" for n
  proof (cases "len = 0")
    case True
    then show ?thesis by (simp add: bitfield_loop_0)
  next
    case False
    then have "len mod 32 = len" using assms that by auto
    then show ?thesis using False that assms by (auto simp: bit_mask_iff nat_diff_distrib)
  qed
  have "?l AND ?m = horner_sum of_bool 2 (map (src_bit src) [nat start ..< nat start + nat len])"
  proof (rule bit_word_eqI)
    fix n assume "n < LENGTH(32)"
    then show "bit (?l AND ?m) n =
        bit (horner_sum of_bool 2 (map (src_bit src) [nat start ..< nat start + nat len]) :: u32) n"
      using bits [of n] big [of n] bitfield_mask_bit [OF assms(2,3), of n] assms(3)
      by (cases "n < nat len")
         (simp_all add: bit_and_iff bit_horner_sum_bit_word_iff del: drop_bit_minus_one split del: if_split, blast?)
  qed
  then show ?thesis using assms by (simp add: sdmmc_bitfield_def Let_def)
qed

lemma rsp_bits_value:
  assumes "8 \<le> start" "0 \<le> len" "len \<le> 32"
  shows "MMC_RSP_BITS resp start len =
    sint (horner_sum of_bool 2
      (map (resp_bit resp) [nat start - 8 ..< nat start - 8 + nat len]) :: u32)"
proof -
  have "src_bit (resp_bytes resp) = resp_bit resp" by (rule ext) (rule src_bit_resp_bytes)
  then show ?thesis using assms
    by (simp add: MMC_RSP_BITS_def sdmmc_bitfield_value nat_diff_distrib)
qed

text \<open>C28: \<open>MMC_RSP_BITS(resp, start, len)\<close> returns exactly the bits \<open>start - 8\<close> to
  \<open>start - 8 + len - 1\<close> of the response, the lowest first, however they are spread over its bytes
  and words; the value of a field of 32 bits is taken as a signed int.\<close>

theorem rsp_bits_extracts_field:
  assumes "8 \<le> start" "0 \<le> len" "len \<le> 32"
  shows "MMC_RSP_BITS resp start len =
    sint (horner_sum of_bool 2
      (map (resp_bit resp) [nat start - 8 ..< nat start - 8 + nat len]) :: u32)"
  by (rule rsp_bits_value [OF assms])

lemma rsp_bits_extracts_field_witness:
  "MMC_RSP_BITS [0x80000000, 0x5] 39 3 = 3 \<and> MMC_RSP_BITS [0xFFFFFFFF] 8 32 = - 1"
proof
  show "MMC_RSP_BITS [0x80000000, 0x5] 39 3 = 3"
    by (subst rsp_bits_extracts_field) (simp_all add: resp_bit_def upt_rec)
  show "MMC_RSP_BITS [0xFFFFFFFF] 8 32 = - 1"
    by (subst rsp_bits_extracts_field) (simp_all add: resp_bit_def upt_rec)
qed

text \<open>A field of fewer than 32 bits is a natural number below \<open>2 ^ len\<close>.\<close>

lemma rsp_bits_range:
  assumes "8 \<le> start" "0 \<le> len" "len < 32"
  shows "0 \<le> MMC_RSP_BITS resp start len" "MMC_RSP_BITS resp start len < 2 ^ nat len"
proof -
  let ?h = "horner_sum of_bool 2 (map (resp_bit resp) [nat start - 8 ..< nat start - 8 + nat len]) :: u32"
  have h: "?h = take_bit (nat len) ?h"
    by (rule bit_word_eqI) (auto simp: bit_take_bit_iff bit_horner_sum_bit_word_iff)
  have u: "uint ?h = take_bit (nat len) (uint ?h)"
    by (subst h) (simp add: unsigned_take_bit_eq)
  have "sint ?h = signed_take_bit 31 (take_bit (nat len) (uint ?h))"
    by (subst u [symmetric]) (simp add: sint_uint)
  also have "\<dots> = take_bit (nat len) (uint ?h)"
    using assms by (simp add: signed_take_bit_eq_if_positive bit_take_bit_iff nat_less_iff min_absorb2)
  finally have s: "sint ?h = take_bit (nat len) (uint ?h)" .
  have v: "MMC_RSP_BITS resp start len = take_bit (nat len) (uint ?h)"
    unfolding s [symmetric] by (rule rsp_bits_value) (use assms in auto)
  show "0 \<le> MMC_RSP_BITS resp start len" "MMC_RSP_BITS resp start len < 2 ^ nat len"
    unfolding v by simp_all
qed


end
