(* ===== verification/RtsxFrame.thy ===== *)
theory RtsxFrame
  imports RtsxCmd
begin

text \<open>
  Nothing that the host controller driver or the DMA layer does touches the state that the
  layers above keep in the extension of the record, queues or removes a disk request, or puts
  anything in front of one:
  \<open>keeps outer\<close> for every operation.
\<close>

fun disk_task :: "task \<Rightarrow> bool" where
  "disk_task (DiskTask i) = True"
| "disk_task _ = False"

text \<open>The disk requests on the queue and the marks that their tasks carry.\<close>

definition disk_queue :: "('h, 'z) tasks_scheme \<Rightarrow> task list \<times> (nat \<Rightarrow> bool) \<times> (nat \<Rightarrow> bool)" where
  "disk_queue s = (filter disk_task (tskq s), \<lambda>i. onqueue s (DiskTask i), \<lambda>i. task_sc s (DiskTask i))"

text \<open>The tasks that come before a discovery; queueing one more discovery does not change it.\<close>

definition front :: "('h, 'z) tasks_scheme \<Rightarrow> task list" where
  "front s = takeWhile (\<lambda>t. t \<noteq> DiscoverTask) (tskq s)"

definition outer ::
    "('h, 'z) rtsx_scheme \<Rightarrow> ((task list \<times> (nat \<Rightarrow> bool) \<times> (nat \<Rightarrow> bool)) \<times> task list \<times> bool) \<times> 'z" where
  "outer s = ((disk_queue s, front s, sdmmc_attached s), rtsx.more s)"

lemma disk_queue_DiskTask:
  "disk_queue s = disk_queue s' \<Longrightarrow> (DiskTask i \<in> set (tskq s) \<longleftrightarrow> DiskTask i \<in> set (tskq s'))
    \<and> onqueue s (DiskTask i) = onqueue s' (DiskTask i) \<and> task_sc s (DiskTask i) = task_sc s' (DiskTask i)"
proof -
  assume eq: "disk_queue s = disk_queue s'"
  have "DiskTask i \<in> set q \<longleftrightarrow> DiskTask i \<in> set (filter disk_task q)" for q by simp
  with eq show ?thesis unfolding disk_queue_def by (metis prod.inject)
qed

lemma outer_more: "outer s = outer s' \<Longrightarrow> rtsx.more s = rtsx.more s'"
  by (simp add: outer_def)

lemma outer_update [simp]:
  "outer (s\<lparr>hw := a0\<rparr>) = outer s" "outer (s\<lparr>spl_depth := a1\<rparr>) = outer s"
  "outer (s\<lparr>sched := a2\<rparr>) = outer s" "outer (s\<lparr>slept := a3\<rparr>) = outer s"
  "outer (s\<lparr>va_list := a4\<rparr>) = outer s" "outer (s\<lparr>seg_arrays := a5\<rparr>) = outer s"
  "outer (s\<lparr>seg_oob := a6\<rparr>) = outer s" "outer (s\<lparr>dmamaps := a7\<rparr>) = outer s"
  "outer (s\<lparr>tskq_wakeups := a10\<rparr>) = outer s" "outer (s\<lparr>ioh := a11\<rparr>) = outer s"
  "outer (s\<lparr>rflags := a12\<rparr>) = outer s" "outer (s\<lparr>intr_status := a13\<rparr>) = outer s"
  "outer (s\<lparr>regs := a14\<rparr>) = outer s" "outer (s\<lparr>regs4 := a15\<rparr>) = outer s"
  "outer (s\<lparr>dmap_cmd := a16\<rparr>) = outer s" "outer (s\<lparr>dmap_data := a17\<rparr>) = outer s"
  "outer (s\<lparr>dmap_adma := a18\<rparr>) = outer s" "outer (s\<lparr>admabuf := a19\<rparr>) = outer s"
  "outer (s\<lparr>adma_segs := a20\<rparr>) = outer s"
  "outer (s\<lparr>init_read := a22\<rparr>) = outer s" "outer (s\<lparr>aspm_en := a23\<rparr>) = outer s"
  "outer (s\<lparr>sd30_drive_sel_1v8 := a24\<rparr>) = outer s"
  "outer (s\<lparr>card_drive_sel := a25\<rparr>) = outer s"
  "outer (s\<lparr>sd30_drive_sel_3v3 := a26\<rparr>) = outer s"
  "outer (s\<lparr>reverse_socket := a27\<rparr>) = outer s"
  by (simp_all add: outer_def disk_queue_def front_def)

lemma hw_only_outer [simp]: "hw_only outer"
  by (simp add: hw_only_def)

lemma rtsx_hw_only_outer [simp]: "rtsx_hw_only outer"
  by (simp add: rtsx_hw_only_def hw_only_def)

lemma keeps_State [keeps]: "(\<And>s. f (snd (g s)) = f s) \<Longrightarrow> keeps f (State g)"
  by (simp add: keeps_def)

lemma more_hw [keeps]: "keeps outer (exec_hw f)" "keeps outer (call_hw g)"
  by (auto simp: keeps_def exec_hw_def call_hw_def split: prod.splits)

lemma more_spl [keeps]: "keeps outer splbio" "keeps outer splhigh" "keeps outer splx"
  by (simp_all add: keeps_def)

lemma more_sleep [keeps]: "keeps outer (IOSleep P n)"
  by (rule keeps_IOSleep) simp

lemma more_put_seg [keeps]: "keeps outer (put_seg a i g)"
  by (auto simp: keeps_def put_seg_def)

lemma more_alloc_loop [keeps]: "keeps outer (alloc_loop n P md sz segs k off t i)"
  by (induction n arbitrary: off t i) (auto intro!: keeps)

lemma more_dmamem [keeps]:
  "keeps outer (bus_dmamem_alloc P sz segs n)"
  "keeps outer (bus_dmamem_free P segs)"
  "keeps outer (bus_dmamem_map P segs)"
  "keeps outer (bus_dmamem_unmap P kva)"
  unfolding bus_dmamem_alloc_def bus_dmamem_free_def bus_dmamem_map_def bus_dmamem_unmap_def
  by (intro keeps; simp split: prod.split)+

lemma more_put_map_seg [keeps]: "keeps outer (put_map_seg p i a l)"
  unfolding put_map_seg_def by (intro keeps) (simp split: option.split)

lemma more_finish_load [keeps]: "keeps outer (finish_load p b c md mm)"
  unfolding finish_load_def by (intro keeps) (simp split: option.split)

lemma more_load_loop [keeps]: "keeps outer (load_loop n P p c b off i)"
proof (induction n arbitrary: off i)
  case 0
  then show ?case by (simp add: keeps_return)
next
  case (Suc n)
  show ?case unfolding load_loop.simps by (intro keeps Suc)
qed

lemma more_dmamap [keeps]:
  "keeps outer (bus_dmamap_create P sz n ms b fl)"
  "keeps outer (bus_dmamap_destroy P p)"
  "keeps outer (bus_dmamap_load P p buf len)"
  "keeps outer (bus_dmamap_unload P p)"
  "keeps outer bus_dmamap_sync"
  unfolding bus_dmamap_create_def bus_dmamap_destroy_def bus_dmamap_load_def bus_dmamap_unload_def
    bus_dmamap_sync_def
  by (intro keeps; simp)+

section \<open>Interrupts and commands\<close>

lemma more_needs_discover [keeps]: "keeps outer sdmmc_needs_discover"
  unfolding sdmmc_needs_discover_def sdmmc_add_task_def by (intro keeps) (simp_all add: outer_def disk_queue_def front_def takeWhile_tail)

lemma more_intr [keeps]:
  "keeps outer (rtsx_card_insert P)" "keeps outer (rtsx_card_eject P)"
  "keeps outer (intr_card P st)" "keeps outer (rtsx_intr P)"
  unfolding rtsx_intr_def intr_card_def rtsx_card_insert_def rtsx_card_eject_def
  by (intro keeps; simp)+

lemma more_tsleep [keeps]: "keeps outer isr \<Longrightarrow> keeps outer (tsleep_nsec P isr ns)"
  unfolding tsleep_nsec_def
  by (intro keeps; (simp split: list.split sleep_event.split)?) (auto intro!: keeps split: list.split sleep_event.split)

lemma more_wait_loop [keeps]: "keeps outer (wait_loop n P m ns st)"
proof (induction n arbitrary: st)
  case 0
  then show ?case by (simp add: keeps_return)
next
  case (Suc n)
  show ?case unfolding wait_loop.simps by (intro keeps Suc) simp_all
qed

lemma more_wait_intr [keeps]: "keeps outer (rtsx_wait_intr P m secs)"
  unfolding rtsx_wait_intr_def by (intro keeps; simp)

lemma more_store [keeps]: "keeps outer (store_cmdbuf P kva ws)" "keeps outer (local_segs a)"
  "keeps outer (memcpy P d sr n)"
  unfolding store_cmdbuf_def local_segs_def memcpy_def
  by (intro keeps; auto intro!: keeps)+

lemma more_xfer [keeps]:
  "keeps outer (rtsx_hostcmd_send P n)"
  "keeps outer (rtsx_xfer_exec P dm fl)"
  "keeps outer (rtsx_xfer_bounce P cmd)"
  "keeps outer (rtsx_xfer_adma P cmd)"
  "keeps outer (rtsx_xfer P cmd kva)"
  unfolding rtsx_xfer_def rtsx_xfer_adma_def rtsx_xfer_bounce_def rtsx_xfer_exec_def
    rtsx_hostcmd_send_def Let_def
  by (intro keeps; auto intro!: keeps)+

lemma more_exec_command [keeps]: "keeps outer (rtsx_exec_command P cmd)"
  unfolding rtsx_exec_command_def exec_mapped_def exec_run_def Let_def
  by (intro keeps; simp)

section \<open>The other entry points\<close>

lemma more_power [keeps]:
  "keeps outer (rtsx_host_reset P)" "keeps outer rtsx_host_ocr"
  "keeps outer rtsx_host_maxblklen" "keeps outer rtsx_card_detect"
  "keeps outer (rtsx_bus_power P ocr)" "keeps outer (rtsx_bus_clock P fr tm)"
  "keeps outer (rtsx_bus_width P w)"
  unfolding rtsx_host_reset_def rtsx_host_ocr_def rtsx_host_maxblklen_def rtsx_card_detect_def
    rtsx_bus_power_def rtsx_bus_clock_def rtsx_bus_width_def Let_def
  by (intro keeps; simp)+

lemma outer_power_parts:
  "keeps outer (IOSleep P k)" "keeps outer (rtsx_init P b)" "keeps outer (rtsx_save_regs P)"
  "keeps outer (rtsx_restore_regs P)" "keeps outer (READ4 P reg)"
proof -
  have "keeps outer (save_loop P i rs)" for i rs
    by (induction rs arbitrary: i) (auto intro!: keeps)
  then show "keeps outer (rtsx_save_regs P)" unfolding rtsx_save_regs_def by (intro keeps) simp_all
  have "keeps outer (restore_loop P i rs)" for i rs
    by (induction rs arbitrary: i) (auto intro!: keeps)
  then show "keeps outer (rtsx_restore_regs P)" unfolding rtsx_restore_regs_def by (intro keeps) simp_all
  show "keeps outer (IOSleep P k)" "keeps outer (rtsx_init P b)" "keeps outer (READ4 P reg)"
    by (intro keeps; simp)+
qed

end
