(* ===== verification/Sdmmc.thy ===== *)
theory Sdmmc
  imports SdmmcReg RtsxFrame
begin

text \<open>
  The slot (3rdParty/openbsd/sdmmc.c, sdmmcvar.h, sdmmcchip.h): its state, the functions of
  the host controller it is given, the commands every other part of the slot sends, and the
  selection of a card. The contract between the slot and a host controller is the locale
  \<open>sdmmc_chip\<close>, which \<open>rtsx_functions\<close> is shown to satisfy.
\<close>

section \<open>State\<close>

abbreviation (input) SMF_SD_MODE :: u32 where "SMF_SD_MODE \<equiv> 0x0001"
abbreviation (input) SMF_IO_MODE :: u32 where "SMF_IO_MODE \<equiv> 0x0002"
abbreviation (input) SMF_MEM_MODE :: u32 where "SMF_MEM_MODE \<equiv> 0x0004"
abbreviation (input) SMF_CARD_PRESENT :: u32 where "SMF_CARD_PRESENT \<equiv> 0x0010"
abbreviation (input) SMF_CARD_ATTACHED :: u32 where "SMF_CARD_ATTACHED \<equiv> 0x0020"
abbreviation (input) SMF_CONFIG_PENDING :: u32 where "SMF_CONFIG_PENDING \<equiv> 0x0080"

abbreviation (input) SMC_CAPS_SINGLE_ONLY :: u32 where "SMC_CAPS_SINGLE_ONLY \<equiv> 0x0020"
abbreviation (input) SMC_CAPS_8BIT_MODE :: u32 where "SMC_CAPS_8BIT_MODE \<equiv> 0x0040"
abbreviation (input) SMC_CAPS_MMC_HIGHSPEED :: u32 where "SMC_CAPS_MMC_HIGHSPEED \<equiv> 0x0200"
abbreviation (input) SMC_CAPS_MMC_DDR52 :: u32 where "SMC_CAPS_MMC_DDR52 \<equiv> 0x2000"
abbreviation (input) SMC_CAPS_NONREMOVABLE :: u32 where "SMC_CAPS_NONREMOVABLE \<equiv> 0x10000"

abbreviation (input) SDMMC_TIMING_MMC_DDR52 :: int where "SDMMC_TIMING_MMC_DDR52 \<equiv> 2"
abbreviation (input) SDMMC_SIGNAL_VOLTAGE_180 :: int where "SDMMC_SIGNAL_VOLTAGE_180 \<equiv> 1"

abbreviation (input) SMC_CAPS_SD_HIGHSPEED :: u32 where "SMC_CAPS_SD_HIGHSPEED \<equiv> 0x0100"

abbreviation (input) SFF_ERROR :: u32 where "SFF_ERROR \<equiv> 0x0001"
abbreviation (input) SFF_SDHC :: u32 where "SFF_SDHC \<equiv> 0x0002"

abbreviation (input) SDMMC_VENDOR_INVALID :: u16 where "SDMMC_VENDOR_INVALID \<equiv> 0xffff"
abbreviation (input) SDMMC_PRODUCT_INVALID :: u16 where "SDMMC_PRODUCT_INVALID \<equiv> 0xffff"
abbreviation (input) SDMMC_FUNCTION_INVALID :: u8 where "SDMMC_FUNCTION_INVALID \<equiv> 0xff"

text \<open>The pointers into \<open>cis1_info_buf\<close> are offsets.\<close>

record sdmmc_cis =
  cis_manufacturer :: u16
  cis_product :: u16
  cis_function :: u8
  cis1_major :: u8
  cis1_minor :: u8
  cis1_info_buf :: "u8 list"
  cis1_info :: "nat option list"

record sdmmc_function =
  sf_rca :: u16
  sf_flags :: u32
  sf_number :: int
  sf_child :: bool
  sf_cis :: sdmmc_cis
  sf_cur_blklen :: int
  sf_csd :: sdmmc_csd
  sf_cid :: sdmmc_cid
  sf_raw_cid :: "u32 list"
  sf_scr :: sdmmc_scr

text \<open>
  \<open>struct sdmmc_softc\<close>. The function structures are objects of the heap \<open>sfs\<close>, and
  \<open>sc_card\<close>, \<open>sc_fn0\<close> and the list \<open>sf_head\<close> hold pointers to them, so that sharing and
  freeing are visible. \<open>sc_lock\<close> counts the acquisitions of the write lock minus the
  releases. An interrupt handler of \<open>sc_intrq\<close> is its address with a number that stands for
  its function and argument. \<open>sc_panic\<close> is set where the code would call a null function pointer or divide by zero.
\<close>

record 'h sdmmc = "'h rtsx" +
  sc_dmap :: u64
  sc_flags :: u32
  sc_caps :: u32
  sc_function_count :: int
  sc_card :: "nat option"
  sc_fn0 :: "nat option"
  sf_head :: "nat list"
  sfs :: "nat \<Rightarrow> sdmmc_function option"
  sf_next :: nat
  sc_dying :: int
  sc_task_thread :: bool
  sc_lock :: int
  sc_max_seg :: int
  sc_max_xfer :: int
  sc_intrq :: "(u64 \<times> nat) list"
  sc_panic :: bool

text \<open>\<open>struct sdmmc_chip_functions\<close>; a null entry is None.\<close>

record 's chip =
  chip_host_reset :: "('s, unit res) state"
  chip_host_ocr :: "('s, u32) state"
  chip_host_maxblklen :: "('s, int) state"
  chip_card_detect :: "('s, bool) state"
  chip_bus_power :: "u32 \<Rightarrow> ('s, unit res) state"
  chip_bus_clock :: "int \<Rightarrow> int \<Rightarrow> ('s, unit res) state"
  chip_bus_width :: "int \<Rightarrow> ('s, unit res) state"
  chip_exec_command :: "sdmmc_command \<Rightarrow> ('s, sdmmc_command) state"
  chip_card_intr_mask :: "(bool \<Rightarrow> ('s, unit) state) option"
  chip_card_intr_ack :: "('s, unit) state option"
  chip_signal_voltage :: "(int \<Rightarrow> ('s, unit res) state) option"

definition rtsx_functions :: "'h platform \<Rightarrow> ('h, 'z) rtsx_scheme chip" where
  "rtsx_functions P = \<lparr>
     chip_host_reset = rtsx_host_reset P,
     chip_host_ocr = rtsx_host_ocr,
     chip_host_maxblklen = rtsx_host_maxblklen,
     chip_card_detect = rtsx_card_detect,
     chip_bus_power = rtsx_bus_power P,
     chip_bus_clock = rtsx_bus_clock P,
     chip_bus_width = rtsx_bus_width P,
     chip_exec_command = rtsx_exec_command P,
     chip_card_intr_mask = None,
     chip_card_intr_ack = None,
     chip_signal_voltage = None\<rparr>"

type_synonym ('h, 'z) slot_chip = "('h, 'z) sdmmc_scheme chip"

section \<open>The heap of function structures\<close>

definition zero_csd :: sdmmc_csd where
  "zero_csd = \<lparr>csdver = 0, mmcver = 0, capacity = 0, sector_size = 0, read_bl_len = 0, ccc = 0\<rparr>"

definition zero_cid :: sdmmc_cid where
  "zero_cid = \<lparr>cid_mid = 0, cid_oid = 0, cid_pnm = replicate 8 0, cid_rev = 0, cid_psn = 0, cid_mdt = 0\<rparr>"

definition zero_function :: sdmmc_function where
  "zero_function = \<lparr>sf_rca = 0, sf_flags = 0, sf_number = 0, sf_child = False,
     sf_cis = \<lparr>cis_manufacturer = 0, cis_product = 0, cis_function = 0, cis1_major = 0, cis1_minor = 0,
       cis1_info_buf = replicate 256 0, cis1_info = replicate 4 None\<rparr>,
     sf_cur_blklen = 0, sf_csd = zero_csd, sf_cid = zero_cid, sf_raw_cid = [0, 0, 0, 0],
     sf_scr = \<lparr>sd_spec = 0, bus_widths = 0\<rparr>\<rparr>"

text \<open>Reading and writing through a pointer; freed memory reads as zero and ignores writes.\<close>

definition fn_at :: "('h, 'z) sdmmc_scheme \<Rightarrow> nat \<Rightarrow> sdmmc_function" where
  "fn_at s p = (case sfs s p of Some f \<Rightarrow> f | None \<Rightarrow> zero_function)"

definition upd_fn :: "nat \<Rightarrow> (sdmmc_function \<Rightarrow> sdmmc_function) \<Rightarrow> (('h, 'z) sdmmc_scheme, unit) state" where
  "upd_fn p g = modify (\<lambda>s. s\<lparr>sfs := (sfs s)(p := map_option g (sfs s p))\<rparr>)"

definition sdmmc_function_alloc :: "('h, 'z) slot_chip \<Rightarrow> (('h, 'z) sdmmc_scheme, nat) state" where
  "sdmmc_function_alloc T = do {
     p \<leftarrow> fetch sf_next;
     modify (\<lambda>s. s\<lparr>sf_next := Suc p, sfs := (sfs s)(p \<mapsto> zero_function)\<rparr>);
     upd_fn p (\<lambda>f. f\<lparr>sf_number := - 1\<rparr>);
     upd_fn p (\<lambda>f. f\<lparr>sf_cis := (sf_cis f)\<lparr>cis_manufacturer := SDMMC_VENDOR_INVALID,
       cis_product := SDMMC_PRODUCT_INVALID, cis_function := SDMMC_FUNCTION_INVALID\<rparr>\<rparr>);
     n \<leftarrow> chip_host_maxblklen T;
     upd_fn p (\<lambda>f. f\<lparr>sf_cur_blklen := n\<rparr>);
     ret p }"

definition sdmmc_function_free :: "nat \<Rightarrow> (('h, 'z) sdmmc_scheme, unit) state" where
  "sdmmc_function_free p = modify (\<lambda>s. s\<lparr>sfs := (sfs s)(p := None)\<rparr>)"

section \<open>Commands\<close>

text \<open>\<open>get_status\<close>: at most two attempts, the second with the structure left by the first.\<close>

definition get_status :: "('h, 'z) slot_chip \<Rightarrow> (('h, 'z) sdmmc_scheme, unit) state" where
  "get_status T = do {
     c \<leftarrow> fetch sc_card;
     (case c of
        None \<Rightarrow> ret ()
      | Some p \<Rightarrow> do {
          a \<leftarrow> fetch (\<lambda>s. sf_rca (fn_at s p));
          if a = 0 then ret () else do {
            st \<leftarrow> chip_exec_command T (zero_command\<lparr>c_opcode := MMC_SEND_STATUS,
                    c_arg := MMC_ARG_RCA a, c_flags := SCF_CMD_AC OR SCF_RSP_R1\<rparr>);
            if c_error st = OK then ret ()
            else do { _ \<leftarrow> chip_exec_command T st; ret () } } }) }"

text \<open>Only the commands \<open>sdmmc_dump_command\<close> sends are modelled, not what it prints.\<close>

definition sdmmc_dump_command ::
    "('h, 'z) slot_chip \<Rightarrow> sdmmc_command \<Rightarrow> (('h, 'z) sdmmc_scheme, unit) state" where
  "sdmmc_dump_command T cmd =
     (if c_error cmd \<noteq> OK \<and> c_opcode cmd \<noteq> MMC_SEND_STATUS then get_status T else ret ())"

definition sdmmc_mmc_command ::
    "('h, 'z) slot_chip \<Rightarrow> sdmmc_command \<Rightarrow> (('h, 'z) sdmmc_scheme, sdmmc_command) state" where
  "sdmmc_mmc_command T cmd = do {
     cmd' \<leftarrow> chip_exec_command T cmd;
     (if c_error cmd' \<noteq> OK then sdmmc_dump_command T cmd' else ret ());
     ret cmd' }"

text \<open>\<open>sdmmc_app_command\<close> returns its own error and the command, untouched when it was not sent.\<close>

definition sdmmc_app_command ::
    "('h, 'z) slot_chip \<Rightarrow> sdmmc_command \<Rightarrow> (('h, 'z) sdmmc_scheme, unit res \<times> sdmmc_command) state" where
  "sdmmc_app_command T cmd = do {
     a \<leftarrow> fetch (\<lambda>s. case sc_card s of None \<Rightarrow> 0 | Some p \<Rightarrow> MMC_ARG_RCA (sf_rca (fn_at s p)));
     acmd \<leftarrow> sdmmc_mmc_command T (zero_command\<lparr>c_opcode := MMC_APP_CMD, c_arg := a,
               c_flags := SCF_CMD_AC OR SCF_RSP_R1\<rparr>);
     if c_error acmd \<noteq> OK then ret (c_error acmd, cmd)
     else if \<not> isset (c_resp acmd ! 0) MMC_R1_APP_CMD then ret (Inl ENODEV, cmd)
     else do { cmd' \<leftarrow> sdmmc_mmc_command T cmd; ret (c_error cmd', cmd') } }"

definition sdmmc_go_idle_state ::
    "'h platform \<Rightarrow> ('h, 'z) slot_chip \<Rightarrow> (('h, 'z) sdmmc_scheme, unit) state" where
  "sdmmc_go_idle_state P T = do {
     IOSleep P 1;
     _ \<leftarrow> sdmmc_mmc_command T (zero_command\<lparr>c_opcode := MMC_GO_IDLE_STATE,
            c_flags := SCF_CMD_BC OR SCF_RSP_R0\<rparr>);
     IOSleep P 2 }"

definition sdmmc_send_if_cond ::
    "('h, 'z) slot_chip \<Rightarrow> u32 \<Rightarrow> (('h, 'z) sdmmc_scheme, unit res) state" where
  "sdmmc_send_if_cond T card_ocr = do {
     let pat = 0xaa :: u8 in do {
     c \<leftarrow> sdmmc_mmc_command T (zero_command\<lparr>c_opcode := SD_SEND_IF_COND,
            c_arg := push_bit 8 (if card_ocr AND SD_OCR_VOL_MASK \<noteq> 0 then 1 else 0) OR ucast pat,
            c_flags := SCF_CMD_BCR OR SCF_RSP_R7\<rparr>);
     ret (if c_error c \<noteq> OK then Inl E1
          else if ucast (c_resp c ! 0) \<noteq> pat then Inl E1 else OK) } }"

definition sdmmc_set_relative_addr ::
    "('h, 'z) slot_chip \<Rightarrow> nat \<Rightarrow> (('h, 'z) sdmmc_scheme, unit res) state" where
  "sdmmc_set_relative_addr T p = do {
     sd \<leftarrow> fetch (\<lambda>s. isset (sc_flags s) SMF_SD_MODE);
     a \<leftarrow> fetch (\<lambda>s. MMC_ARG_RCA (sf_rca (fn_at s p)));
     c \<leftarrow> sdmmc_mmc_command T
            (if sd then zero_command\<lparr>c_opcode := SD_SEND_RELATIVE_ADDR, c_flags := SCF_CMD_BCR OR SCF_RSP_R6\<rparr>
             else zero_command\<lparr>c_opcode := MMC_SET_RELATIVE_ADDR, c_arg := a,
                    c_flags := SCF_CMD_AC OR SCF_RSP_R1\<rparr>);
     if c_error c \<noteq> OK then ret (Inl E1) else do {
       sd' \<leftarrow> fetch (\<lambda>s. isset (sc_flags s) SMF_SD_MODE);
       (if sd' then upd_fn p (\<lambda>f. f\<lparr>sf_rca := SD_R6_RCA (c_resp c)\<rparr>) else ret ());
       ret OK } }"

text \<open>Two pointers denote the same card when they are equal or both carry the same address.\<close>

definition same_card :: "('h, 'z) sdmmc_scheme \<Rightarrow> nat option \<Rightarrow> bool" where
  "same_card s sf \<longleftrightarrow> sc_card s = sf \<or>
     (case (sf, sc_card s) of (Some p, Some q) \<Rightarrow> sf_rca (fn_at s q) = sf_rca (fn_at s p) | _ \<Rightarrow> False)"

definition sdmmc_select_card ::
    "('h, 'z) slot_chip \<Rightarrow> nat option \<Rightarrow> (('h, 'z) sdmmc_scheme, unit res) state" where
  "sdmmc_select_card T sf = do {
     same \<leftarrow> fetch (\<lambda>s. same_card s sf);
     if same then do { modify (\<lambda>s. s\<lparr>sc_card := sf\<rparr>); ret OK }
     else do {
       a \<leftarrow> fetch (\<lambda>s. case sf of None \<Rightarrow> 0 | Some p \<Rightarrow> MMC_ARG_RCA (sf_rca (fn_at s p)));
       c \<leftarrow> sdmmc_mmc_command T (zero_command\<lparr>c_opcode := MMC_SELECT_CARD, c_arg := a,
              c_flags := SCF_CMD_AC OR (if sf = None then SCF_RSP_R0 else SCF_RSP_R1)\<rparr>);
       (if c_error c = OK \<or> sf = None then modify (\<lambda>s. s\<lparr>sc_card := sf\<rparr>) else ret ());
       ret (c_error c) } }"

text \<open>\<open>sdmmc_set_bus_power\<close>: the loop over the bits 4 to 22 stops at the lowest common voltage.\<close>

fun lowest_voltage :: "u32 \<Rightarrow> nat \<Rightarrow> nat \<Rightarrow> u32" where
  "lowest_voltage ocr b 0 = ocr"
| "lowest_voltage ocr b (Suc n) =
     (if isset ocr (push_bit b 1) then ocr AND push_bit b 3 else lowest_voltage ocr (Suc b) n)"

definition sdmmc_set_bus_power ::
    "('h, 'z) slot_chip \<Rightarrow> u32 \<Rightarrow> u32 \<Rightarrow> (('h, 'z) sdmmc_scheme, unit res) state" where
  "sdmmc_set_bus_power T host_ocr card_ocr = (
     let ocr = lowest_voltage (host_ocr AND card_ocr) 4 19 in
     if ocr = 0 then ret (Inl E1) else do {
       e \<leftarrow> chip_bus_power T ocr;
       ret (if e \<noteq> OK then Inl E1 else OK) })"

definition rw_enter_write :: "(('h, 'z) sdmmc_scheme, unit) state" where
  "rw_enter_write = modify (\<lambda>s. s\<lparr>sc_lock := sc_lock s + 1\<rparr>)"

definition rw_exit :: "(('h, 'z) sdmmc_scheme, unit) state" where
  "rw_exit = modify (\<lambda>s. s\<lparr>sc_lock := sc_lock s - 1\<rparr>)"

section \<open>The contract of a host controller\<close>

text \<open>The part of a command that describes the request.\<close>

definition request :: "sdmmc_command \<Rightarrow> u16 \<times> u32 \<times> u64 \<times> u64 \<times> int \<times> int" where
  "request c = (c_opcode c, c_arg c, c_dmamap c, c_data c, c_datalen c, c_blklen c)"

text \<open>
  What the slot relies on: a host controller leaves the state of the slot alone, answers a
  command without changing the request, and has a positive maximal block length that
  does not depend on the state.
\<close>

locale sdmmc_chip =
  fixes T :: "('h, 'z) sdmmc_scheme chip"
    and maxblk :: int
  assumes more_ocr: "keeps outer (chip_host_ocr T)"
    and more_detect: "keeps outer (chip_card_detect T)"
    and more_power: "keeps outer (chip_bus_power T ocr)"
    and more_clock: "keeps outer (chip_bus_clock T freq timing)"
    and more_width: "keeps outer (chip_bus_width T w)"
    and more_exec: "keeps outer (chip_exec_command T cmd)"
    and maxblklen: "run_state (chip_host_maxblklen T) s = (maxblk, s)"
    and maxblk_pos: "0 < maxblk"
    and exec_request: "request (fst (run_state (chip_exec_command T cmd) s)) = request cmd"

text \<open>A function of the state that is determined by the slot part of it.\<close>

definition slot_part :: "(('h, 'z) sdmmc_scheme \<Rightarrow> 'b) \<Rightarrow> bool" where
  "slot_part f \<longleftrightarrow> (\<forall>s s'. outer s = outer s' \<longrightarrow> f s = f s')"

lemma slot_partI: "(\<And>s. f s = g (outer s)) \<Longrightarrow> slot_part f"
  by (simp add: slot_part_def)

lemma keeps_slot_part: "keeps outer m \<Longrightarrow> slot_part f \<Longrightarrow> keeps f m"
  unfolding keeps_def slot_part_def by blast

lemma slot_fields:
  fixes s s' :: "('h, 'z) sdmmc_scheme"
  assumes "outer s = outer s'"
  shows "sc_dmap s = sc_dmap s'" "sc_flags s = sc_flags s'" "sc_caps s = sc_caps s'"
    "sc_function_count s = sc_function_count s'" "sc_card s = sc_card s'" "sc_fn0 s = sc_fn0 s'"
    "sf_head s = sf_head s'" "sfs s = sfs s'" "sf_next s = sf_next s'" "sc_dying s = sc_dying s'"
    "sc_task_thread s = sc_task_thread s'" "sc_lock s = sc_lock s'" "sc_max_seg s = sc_max_seg s'"
    "sc_max_xfer s = sc_max_xfer s'" "sc_intrq s = sc_intrq s'" "sc_panic s = sc_panic s'" "sdmmc.more s = sdmmc.more s'"
  using outer_more [OF assms] by (cases s; cases s'; simp)+

lemma request_resp [simp]: "request (c\<lparr>c_resp := r\<rparr>) = request c" "request (c\<lparr>c_flags := fl\<rparr>) = request c"
  "request (c\<lparr>c_error := e\<rparr>) = request c"
  by (simp_all add: request_def)

lemma read_response_request [simp]: "request (read_response P kva cmd h) = request cmd"
  by (simp add: read_response_def Let_def)

lemma exec_run_request: "request (fst (fst (run_state (exec_run P kva n cmd) s))) = request cmd"
  by (auto simp: exec_run_def simp del: run_state_chk split: prod.split sum.split)

lemma exec_runD: "run_state (exec_run P kva n cmd) s = ((c, e), s') \<Longrightarrow> request c = request cmd"
  using exec_run_request [of P kva n cmd s] by simp

lemma exec_mappedD: "run_state (exec_mapped P kva q cmd) s = ((c, e), s') \<Longrightarrow> request c = request cmd"
  by (auto simp: exec_mapped_def split: prod.splits sum.splits dest: exec_runD)

lemma rtsx_exec_request: "request (fst (run_state (rtsx_exec_command P cmd) s)) = request cmd"
  by (auto simp: rtsx_exec_command_def Let_def simp del: run_state_chk
      split: prod.split sum.split dest: exec_mappedD)

text \<open>The controller of this driver satisfies the contract, with 512 byte blocks.\<close>

interpretation rtsx_chip: sdmmc_chip "rtsx_functions P" 512 for P
  by unfold_locales
     (simp_all add: rtsx_functions_def keeps rtsx_exec_request, simp add: rtsx_host_maxblklen_def)

end
