(* ===== verification/SdmmcMem.thy ===== *)
theory SdmmcMem
  imports Sdmmc
begin

text \<open>
  SD and MMC memory cards (3rdParty/openbsd/sdmmc_mem.c): identification, the decoding of
  the card registers, initialisation, and the transfer of blocks.
\<close>

section \<open>Operating conditions\<close>

text \<open>One round of \<open>sdmmc_mem_send_op_cond\<close>, and its loop of 100 rounds.\<close>

definition op_cond_round ::
    "('h, 'z) slot_chip \<Rightarrow> u32 \<Rightarrow> (('h, 'z) sdmmc_scheme, unit res \<times> sdmmc_command) state" where
  "op_cond_round T ocr = do {
     let cmd = zero_command\<lparr>c_arg := ocr, c_flags := SCF_CMD_BCR OR SCF_RSP_R3\<rparr> in do {
     sd \<leftarrow> fetch (\<lambda>s. isset (sc_flags s) SMF_SD_MODE);
     if sd then sdmmc_app_command T (cmd\<lparr>c_opcode := SD_APP_OP_COND\<rparr>)
     else do {
       c \<leftarrow> sdmmc_mmc_command T (cmd\<lparr>c_opcode := MMC_SEND_OP_COND,
              c_arg := (ocr AND NOT MMC_OCR_ACCESS_MODE_MASK) OR MMC_OCR_SECTOR_MODE\<rparr>);
       ret (c_error c, c) } } }"

fun op_cond_loop ::
    "nat \<Rightarrow> 'h platform \<Rightarrow> ('h, 'z) slot_chip \<Rightarrow> u32 \<Rightarrow> (('h, 'z) sdmmc_scheme, u32 res) state" where
  "op_cond_loop 0 P T ocr = ret (Inl ETIMEDOUT)"
| "op_cond_loop (Suc n) P T ocr = do {
     r \<leftarrow> op_cond_round T ocr;
     (case r of
        (Inl e, c) \<Rightarrow> ret (Inl e)
      | (Inr _, c) \<Rightarrow>
          if isset (c_resp c ! 0) MMC_OCR_MEM_READY \<or> ocr = 0 then ret (Inr (c_resp c ! 0))
          else do { delay P 10000; op_cond_loop n P T ocr }) }"

definition sdmmc_mem_send_op_cond ::
    "'h platform \<Rightarrow> ('h, 'z) slot_chip \<Rightarrow> u32 \<Rightarrow> (('h, 'z) sdmmc_scheme, u32 res) state" where
  "sdmmc_mem_send_op_cond P T ocr = op_cond_loop 100 P T ocr"

text \<open>
  The part of \<open>sdmmc_mem_enable\<close> that reads the OCR: \<open>goto mmc_mode\<close> is taken at most
  once, as it clears the flag it depends on. \<open>Inl\<close> is the final result of the function.
\<close>

fun mem_read_ocr ::
    "nat \<Rightarrow> 'h platform \<Rightarrow> ('h, 'z) slot_chip \<Rightarrow> (('h, 'z) sdmmc_scheme, unit res + u32) state" where
  "mem_read_ocr n P T = do {
     r \<leftarrow> sdmmc_mem_send_op_cond P T 0;
     (case r of
        Inr card_ocr \<Rightarrow> ret (Inr card_ocr)
      | Inl _ \<Rightarrow> do {
          fl \<leftarrow> fetch sc_flags;
          if isset fl SMF_SD_MODE \<and> \<not> isset fl SMF_IO_MODE \<and> 0 < n
          then do { modify (\<lambda>s. s\<lparr>sc_flags := clrf (sc_flags s) SMF_SD_MODE\<rparr>); mem_read_ocr (n - 1) P T }
          else if \<not> isset fl SMF_SD_MODE then ret (Inl (Inl E1))
          else do { modify (\<lambda>s. s\<lparr>sc_flags := clrf (sc_flags s) SMF_MEM_MODE\<rparr>); ret (Inl OK) } }) }"

declare mem_read_ocr.simps [simp del]

definition sdmmc_mem_enable ::
    "'h platform \<Rightarrow> ('h, 'z) slot_chip \<Rightarrow> (('h, 'z) sdmmc_scheme, unit res) state" where
  "sdmmc_mem_enable P T = do {
     modify (\<lambda>s. s\<lparr>sc_flags := setf (sc_flags s) (SMF_SD_MODE OR SMF_MEM_MODE)\<rparr>);
     sdmmc_go_idle_state P T;
     r \<leftarrow> mem_read_ocr 1 P T;
     (case r of
        Inl e \<Rightarrow> ret e
      | Inr card_ocr \<Rightarrow> do {
          host_ocr \<leftarrow> chip_host_ocr T;
          e \<leftarrow> sdmmc_set_bus_power T host_ocr card_ocr;
          if e \<noteq> OK then ret (Inl E1) else do {
            sdmmc_go_idle_state P T;
            ml \<leftarrow> fetch mimic_linux;
            (if ml then IOSleep P 3 else ret ());
            c \<leftarrow> sdmmc_send_if_cond T card_ocr;
            let ocr = (host_ocr AND card_ocr) OR (if c = OK then SD_OCR_SDHC_CAP else 0) in do {
            o2 \<leftarrow> sdmmc_mem_send_op_cond P T ocr;
            ret (case o2 of Inl _ \<Rightarrow> Inl E1 | Inr _ \<Rightarrow> OK) } } }) }"

section \<open>Decoding the registers\<close>

definition c_int :: "int \<Rightarrow> int" where
  "c_int x = sint (word_of_int x :: u32)"

definition upd_csd :: "nat \<Rightarrow> (sdmmc_csd \<Rightarrow> sdmmc_csd) \<Rightarrow> (('h, 'z) sdmmc_scheme, unit) state" where
  "upd_csd p g = upd_fn p (\<lambda>f. f\<lparr>sf_csd := g (sf_csd f)\<rparr>)"

definition upd_cid :: "nat \<Rightarrow> (sdmmc_cid \<Rightarrow> sdmmc_cid) \<Rightarrow> (('h, 'z) sdmmc_scheme, unit) state" where
  "upd_cid p g = upd_fn p (\<lambda>f. f\<lparr>sf_cid := g (sf_cid f)\<rparr>)"

text \<open>The sector size and the capacity in sectors, at the end of \<open>sdmmc_decode_csd\<close>.\<close>

definition csd_sectors :: "int \<Rightarrow> sdmmc_csd \<Rightarrow> sdmmc_csd" where
  "csd_sectors maxblk c = (
     let bl = 2 ^ nat (read_bl_len c); ss = min bl maxblk in
     c\<lparr>sector_size := ss, capacity := (if ss < bl then c_int (capacity c * (bl div ss)) else capacity c)\<rparr>)"

definition sdmmc_decode_csd ::
    "('h, 'z) slot_chip \<Rightarrow> u32 list \<Rightarrow> nat \<Rightarrow> (('h, 'z) sdmmc_scheme, unit res) state" where
  "sdmmc_decode_csd T resp p = do {
     sd \<leftarrow> fetch (\<lambda>s. isset (sc_flags s) SMF_SD_MODE);
     r \<leftarrow>
       (if sd then do {
          upd_csd p (\<lambda>c. c\<lparr>csdver := SD_CSD_CSDVER resp\<rparr>);
          if SD_CSD_CSDVER resp = SD_CSD_CSDVER_2_0 then do {
            upd_fn p (\<lambda>f. f\<lparr>sf_flags := setf (sf_flags f) SFF_SDHC\<rparr>);
            upd_csd p (\<lambda>c. c\<lparr>capacity := SD_CSD_V2_CAPACITY resp, read_bl_len := SD_CSD_V2_BL_LEN\<rparr>);
            upd_csd p (\<lambda>c. c\<lparr>ccc := SD_CSD_CCC resp\<rparr>);
            ret OK }
          else if SD_CSD_CSDVER resp = SD_CSD_CSDVER_1_0 then do {
            upd_csd p (\<lambda>c. c\<lparr>capacity := SD_CSD_CAPACITY resp, read_bl_len := SD_CSD_READ_BL_LEN resp\<rparr>);
            upd_csd p (\<lambda>c. c\<lparr>ccc := SD_CSD_CCC resp\<rparr>);
            ret OK }
          else ret (Inl E1) }
        else do {
          upd_csd p (\<lambda>c. c\<lparr>csdver := MMC_CSD_CSDVER resp\<rparr>);
          if MMC_CSD_CSDVER resp \<in> {MMC_CSD_CSDVER_1_0, MMC_CSD_CSDVER_2_0, MMC_CSD_CSDVER_EXT_CSD}
          then do {
            upd_csd p (\<lambda>c. c\<lparr>mmcver := MMC_CSD_MMCVER resp, capacity := MMC_CSD_CAPACITY resp,
                              read_bl_len := MMC_CSD_READ_BL_LEN resp\<rparr>);
            ret OK }
          else ret (Inl E1) });
     if r \<noteq> OK then ret r else do {
       maxblk \<leftarrow> chip_host_maxblklen T;
       upd_csd p (csd_sectors maxblk);
       ret OK } }"

definition sdmmc_decode_cid ::
    "u32 list \<Rightarrow> nat \<Rightarrow> (('h, 'z) sdmmc_scheme, unit res) state" where
  "sdmmc_decode_cid resp p = do {
     sd \<leftarrow> fetch (\<lambda>s. isset (sc_flags s) SMF_SD_MODE);
     ver \<leftarrow> fetch (\<lambda>s. mmcver (sf_csd (fn_at s p)));
     if sd then do {
       upd_cid p (\<lambda>c. c\<lparr>cid_mid := SD_CID_MID resp, cid_oid := SD_CID_OID resp,
         cid_pnm := SD_CID_PNM_CPY resp @ drop 6 (cid_pnm c), cid_rev := SD_CID_REV resp,
         cid_psn := SD_CID_PSN resp, cid_mdt := SD_CID_MDT resp\<rparr>);
       ret OK }
     else if ver = MMC_CSD_MMCVER_1_0 \<or> ver = MMC_CSD_MMCVER_1_4 then do {
       upd_cid p (\<lambda>c. c\<lparr>cid_mid := MMC_CID_MID_V1 resp, cid_pnm := MMC_CID_PNM_V1_CPY resp,
         cid_rev := MMC_CID_REV_V1 resp, cid_psn := MMC_CID_PSN_V1 resp, cid_mdt := MMC_CID_MDT_V1 resp\<rparr>);
       ret OK }
     else if ver = MMC_CSD_MMCVER_2_0 \<or> ver = MMC_CSD_MMCVER_3_1 \<or> ver = MMC_CSD_MMCVER_4_0 then do {
       upd_cid p (\<lambda>c. c\<lparr>cid_mid := MMC_CID_MID_V2 resp, cid_oid := MMC_CID_OID_V2 resp,
         cid_pnm := MMC_CID_PNM_V2_CPY resp @ drop 7 (cid_pnm c), cid_psn := MMC_CID_PSN_V2 resp\<rparr>);
       ret OK }
     else ret (Inl E1) }"

section \<open>Scanning for cards\<close>

text \<open>
  The loop that identifies the cards, at most 100 of them. In MMC mode the next address is
  one more than the number of functions found so far.
\<close>

fun scan_loop ::
    "nat \<Rightarrow> ('h, 'z) slot_chip \<Rightarrow> (('h, 'z) sdmmc_scheme, unit) state" where
  "scan_loop 0 T = ret ()"
| "scan_loop (Suc n) T = do {
     c \<leftarrow> sdmmc_mmc_command T (zero_command\<lparr>c_opcode := MMC_ALL_SEND_CID, c_flags := SCF_CMD_BCR OR SCF_RSP_R2\<rparr>);
     if c_error c \<noteq> OK then ret () else do {
       next_rca \<leftarrow> fetch (\<lambda>s. if isset (sc_flags s) SMF_SD_MODE then 1 else 1 + of_nat (length (sf_head s)) :: u16);
       p \<leftarrow> sdmmc_function_alloc T;
       upd_fn p (\<lambda>f. f\<lparr>sf_rca := next_rca\<rparr>);
       upd_fn p (\<lambda>f. f\<lparr>sf_raw_cid := c_resp c\<rparr>);
       e \<leftarrow> sdmmc_set_relative_addr T p;
       if e \<noteq> OK then sdmmc_function_free p
       else do {
         modify (\<lambda>s. s\<lparr>sc_fn0 := (if sc_fn0 s = None then Some p else sc_fn0 s)\<rparr>);
         modify (\<lambda>s. s\<lparr>sf_head := sf_head s @ [p]\<rparr>);
         scan_loop n T } } }"

definition read_csd :: "('h, 'z) slot_chip \<Rightarrow> nat \<Rightarrow> (('h, 'z) sdmmc_scheme, unit) state" where
  "read_csd T p = do {
     a \<leftarrow> fetch (\<lambda>s. MMC_ARG_RCA (sf_rca (fn_at s p)));
     c \<leftarrow> sdmmc_mmc_command T (zero_command\<lparr>c_opcode := MMC_SEND_CSD, c_arg := a, c_flags := SCF_CMD_AC OR SCF_RSP_R2\<rparr>);
     e \<leftarrow> (if c_error c \<noteq> OK then ret (Inl E1) else
             chk (sdmmc_decode_csd T (c_resp c) p) (\<lambda>_. do {
               raw \<leftarrow> fetch (\<lambda>s. sf_raw_cid (fn_at s p));
               sdmmc_decode_cid raw p }));
     (if e \<noteq> OK then upd_fn p (\<lambda>f. f\<lparr>sf_flags := setf (sf_flags f) SFF_ERROR\<rparr>) else ret ()) }"

definition sdmmc_mem_scan :: "('h, 'z) slot_chip \<Rightarrow> (('h, 'z) sdmmc_scheme, unit) state" where
  "sdmmc_mem_scan T = do {
     scan_loop 100 T;
     ps \<leftarrow> fetch sf_head;
     run_all (map (read_csd T) ps) }"

section \<open>Registers read by a data transfer\<close>

text \<open>The \<open>n\<close> words at an address of kernel memory.\<close>

definition km_words :: "'h platform \<Rightarrow> 'h \<Rightarrow> u64 \<Rightarrow> nat \<Rightarrow> u32 list" where
  "km_words P h a n = map (\<lambda>i. le_word (km_read P h (a + of_nat (4 * i)) 4)) [0..<n]"

text \<open>
  \<open>sdmmc_mem_send_scr\<close>: the error and the contents of the caller's buffer afterwards. When
  the allocation fails the code returns 0 and leaves the buffer as it was.
\<close>

definition sdmmc_mem_send_scr ::
    "'h platform \<Rightarrow> ('h, 'z) slot_chip \<Rightarrow> u32 list \<Rightarrow> (('h, 'z) sdmmc_scheme, unit res \<times> u32 list) state" where
  "sdmmc_mem_send_scr P T scr = do {
     ptr \<leftarrow> call_hw (\<lambda>h. km_alloc P h 8);
     if ptr = 0 then ret (OK, scr) else do {
       r \<leftarrow> sdmmc_app_command T (zero_command\<lparr>c_data := ptr, c_datalen := 8, c_blklen := 8,
              c_flags := SCF_CMD_ADTC OR SCF_CMD_READ OR SCF_RSP_R1, c_opcode := SD_APP_SEND_SCR\<rparr>);
       ws \<leftarrow> fetch (\<lambda>s. km_words P (hw s) ptr 2);
       exec_hw (\<lambda>h. km_free P h ptr 8);
       ret (fst r, if fst r = OK then ws else scr) } }"

definition scr_response :: "u32 list \<Rightarrow> u32 list" where
  "scr_response raw = (
     let hi = be32toh (raw ! 0); lo = drop_bit 8 (be32toh (raw ! 1)) in
     [lo OR push_bit 24 (hi AND 0xff), drop_bit 8 hi, 0, 0])"

definition sdmmc_mem_decode_scr :: "u32 list \<Rightarrow> nat \<Rightarrow> (('h, 'z) sdmmc_scheme, unit res) state" where
  "sdmmc_mem_decode_scr raw p = (let resp = scr_response raw in do {
     upd_fn p (\<lambda>f. f\<lparr>sf_scr := \<lparr>sd_spec = SCR_SD_SPEC resp, bus_widths = SCR_SD_BUS_WIDTHS resp\<rparr>\<rparr>);
     ret (if SCR_STRUCTURE resp \<noteq> 0 then Inl EINVAL else OK) })"

definition sdmmc_mem_send_cxd_data ::
    "'h platform \<Rightarrow> ('h, 'z) slot_chip \<Rightarrow> u16 \<Rightarrow> nat \<Rightarrow> (('h, 'z) sdmmc_scheme, u8 list res) state" where
  "sdmmc_mem_send_cxd_data P T opcode datalen = do {
     ptr \<leftarrow> call_hw (\<lambda>h. km_alloc P h datalen);
     if ptr = 0 then ret (Inl ENOMEM) else do {
       c \<leftarrow> sdmmc_mmc_command T (zero_command\<lparr>c_data := ptr, c_datalen := int datalen, c_blklen := int datalen,
              c_opcode := opcode,
              c_flags := SCF_CMD_ADTC OR SCF_CMD_READ OR (if opcode = MMC_SEND_EXT_CSD then SCF_RSP_R1 else SCF_RSP_R2)\<rparr>);
       bs \<leftarrow> fetch (\<lambda>s. km_read P (hw s) ptr datalen);
       exec_hw (\<lambda>h. km_free P h ptr datalen);
       ret (case c_error c of Inl e \<Rightarrow> Inl e | Inr _ \<Rightarrow> Inr bs) } }"

definition sdmmc_mem_set_bus_width ::
    "('h, 'z) slot_chip \<Rightarrow> int \<Rightarrow> (('h, 'z) sdmmc_scheme, unit res) state" where
  "sdmmc_mem_set_bus_width T width =
     (if width \<noteq> 1 \<and> width \<noteq> 4 then ret (Inl EINVAL) else do {
        r \<leftarrow> sdmmc_app_command T (zero_command\<lparr>c_opcode := SD_APP_SET_BUS_WIDTH,
               c_flags := SCF_RSP_R1 OR SCF_CMD_AC,
               c_arg := (if width = 1 then SD_ARG_BUS_WIDTH_1 else SD_ARG_BUS_WIDTH_4)\<rparr>);
        if fst r = OK then chip_bus_width T width else ret (fst r) })"

text \<open>The loop swaps word \<open>i\<close> with word \<open>15 - i\<close>, each converted from big endian.\<close>

definition swap_words :: "u32 list \<Rightarrow> nat \<Rightarrow> u32 list" where
  "swap_words b i = (let tmp0 = b ! i; tmp1 = b ! (length b - 1 - i) in
     (b[i := be32toh tmp1])[length b - 1 - i := be32toh tmp0])"

definition sdmmc_be512_to_bitfield512 :: "u32 list \<Rightarrow> u32 list" where
  "sdmmc_be512_to_bitfield512 buf = foldl swap_words buf [0..<length buf div 2]"

definition switch_arg :: "int \<Rightarrow> int \<Rightarrow> int \<Rightarrow> u32" where
  "switch_arg mode grp func = (let gsft = nat ((grp - 1) * 4) in
     (if mode \<noteq> 0 then 0x80000000 else 0) OR push_bit gsft (word_of_int func)
     OR (0x00ffffff AND NOT (push_bit gsft 0xf)))"

text \<open>\<open>status\<close> is the caller's buffer, returned as the call leaves it.\<close>

definition sdmmc_mem_sd_switch ::
    "'h platform \<Rightarrow> ('h, 'z) slot_chip \<Rightarrow> nat \<Rightarrow> int \<Rightarrow> int \<Rightarrow> int \<Rightarrow> u32 list
       \<Rightarrow> (('h, 'z) sdmmc_scheme, unit res \<times> u32 list) state" where
  "sdmmc_mem_sd_switch P T p mode grp func status = do {
     f \<leftarrow> fetch (\<lambda>s. fn_at s p);
     if sd_spec (sf_scr f) \<ge> SCR_SD_SPEC_VER_1_10
        \<and> \<not> isset (word_of_int (ccc (sf_csd f))) SD_CSD_CCC_SWITCH then ret (Inl EINVAL, status)
     else if grp \<le> 0 \<or> grp > 6 \<or> func < 0 \<or> func > 15 then ret (Inl EINVAL, status)
     else do {
       ptr \<leftarrow> call_hw (\<lambda>h. km_alloc P h 64);
       if ptr = 0 then ret (OK, sdmmc_be512_to_bitfield512 status) else do {
         c \<leftarrow> sdmmc_mmc_command T (zero_command\<lparr>c_data := ptr, c_datalen := 64, c_blklen := 64,
                c_opcode := SD_SEND_SWITCH_FUNC, c_arg := switch_arg mode grp func,
                c_flags := SCF_CMD_ADTC OR SCF_CMD_READ OR SCF_RSP_R1\<rparr>);
         ws \<leftarrow> fetch (\<lambda>s. km_words P (hw s) ptr 16);
         exec_hw (\<lambda>h. km_free P h ptr 64);
         ret (c_error c, if c_error c = OK then sdmmc_be512_to_bitfield512 ws else status) } } }"

definition sdmmc_mem_mmc_switch ::
    "('h, 'z) slot_chip \<Rightarrow> u8 \<Rightarrow> u8 \<Rightarrow> u8 \<Rightarrow> (('h, 'z) sdmmc_scheme, unit res) state" where
  "sdmmc_mem_mmc_switch T cset index val = do {
     c \<leftarrow> sdmmc_mmc_command T (zero_command\<lparr>c_opcode := MMC_SWITCH,
            c_arg := push_bit 24 0x03 OR push_bit 16 (ucast index) OR push_bit 8 (ucast val) OR ucast cset,
            c_flags := SCF_RSP_R1B OR SCF_CMD_AC\<rparr>);
     ret (c_error c) }"

definition sdmmc_mem_set_blocklen ::
    "('h, 'z) slot_chip \<Rightarrow> nat \<Rightarrow> (('h, 'z) sdmmc_scheme, unit res) state" where
  "sdmmc_mem_set_blocklen T p = do {
     n \<leftarrow> fetch (\<lambda>s. sector_size (sf_csd (fn_at s p)));
     c \<leftarrow> sdmmc_mmc_command T (zero_command\<lparr>c_opcode := MMC_SET_BLOCKLEN, c_arg := word_of_int n,
            c_flags := SCF_CMD_AC OR SCF_RSP_R1\<rparr>);
     ret (c_error c) }"

section \<open>Initialising a card\<close>

text \<open>The second half of \<open>sdmmc_mem_sd_init\<close>: the switch to high speed.\<close>

definition sd_high_speed ::
    "'h platform \<Rightarrow> ('h, 'z) slot_chip \<Rightarrow> nat \<Rightarrow> (('h, 'z) sdmmc_scheme, unit res) state" where
  "sd_high_speed P T p = do {
     f \<leftarrow> fetch (\<lambda>s. fn_at s p);
     junk \<leftarrow> fetch stack_junk;
     r \<leftarrow> (if sd_spec (sf_scr f) \<ge> SCR_SD_SPEC_VER_1_10
              \<and> isset (word_of_int (ccc (sf_csd f))) SD_CSD_CCC_SWITCH
           then do {
             x \<leftarrow> sdmmc_mem_sd_switch P T p 0 1 0 (replicate 16 junk);
             ret (fst x, snd x, isset (word_of_int (SFUNC_STATUS_GROUP (snd x) 1) :: u32) 2) }
           else ret (OK, replicate 16 junk, False));
     (case r of
        (Inl e, _) \<Rightarrow> ret (Inl e)
      | (Inr _, status, best) \<Rightarrow>
          if best then do {
            r2 \<leftarrow> sdmmc_mem_sd_switch P T p 1 1 1 status;
            if fst r2 \<noteq> OK then ret (fst r2) else do {
              delay P 25;
              chip_bus_clock T SDMMC_SDCLK_50MHZ SDMMC_TIMING_HIGHSPEED } }
          else ret OK) }"

definition sdmmc_mem_sd_init ::
    "'h platform \<Rightarrow> ('h, 'z) slot_chip \<Rightarrow> nat \<Rightarrow> (('h, 'z) sdmmc_scheme, unit res) state" where
  "sdmmc_mem_sd_init P T p =
     chk (chip_bus_clock T SDMMC_SDCLK_25MHZ SDMMC_TIMING_LEGACY) (\<lambda>_. do {
       junk \<leftarrow> fetch stack_junk;
       r \<leftarrow> sdmmc_mem_send_scr P T [junk, junk];
       (case r of
          (Inl e, _) \<Rightarrow> ret (Inl e)
        | (Inr _, raw) \<Rightarrow> chk (sdmmc_mem_decode_scr raw p) (\<lambda>_. do {
            caps \<leftarrow> fetch sc_caps;
            w \<leftarrow> fetch (\<lambda>s. bus_widths (sf_scr (fn_at s p)));
            chk (if isset caps SMC_CAPS_4BIT_MODE \<and> isset (word_of_int w) SCR_SD_BUS_WIDTHS_4BIT
                 then sdmmc_mem_set_bus_width T 4 else ret OK)
              (\<lambda>_. sd_high_speed P T p) })) })"

text \<open>The clock and timing that \<open>sdmmc_mem_mmc_init\<close> picks from the card type.\<close>

definition mmc_speed :: "u8 \<Rightarrow> u32 \<Rightarrow> int \<times> int" where
  "mmc_speed card_type caps =
     (if isset card_type EXT_CSD_CARD_TYPE_F_52M_1_8V \<and> isset caps SMC_CAPS_MMC_DDR52
      then (52000, SDMMC_TIMING_MMC_DDR52)
      else if isset card_type EXT_CSD_CARD_TYPE_F_52M \<and> isset caps SMC_CAPS_MMC_HIGHSPEED
      then (52000, SDMMC_TIMING_HIGHSPEED)
      else if isset card_type EXT_CSD_CARD_TYPE_F_26M then (26000, SDMMC_TIMING_LEGACY)
      else (20000, SDMMC_TIMING_LEGACY))"

definition mmc_width :: "u32 \<Rightarrow> int \<times> u8" where
  "mmc_width caps =
     (if isset caps SMC_CAPS_8BIT_MODE then (8, EXT_CSD_BUS_WIDTH_8)
      else if isset caps SMC_CAPS_4BIT_MODE then (4, EXT_CSD_BUS_WIDTH_4)
      else (1, EXT_CSD_BUS_WIDTH_1))"

text \<open>\<open>sdmmc_chip_signal_voltage\<close> through the table, where the entry may be null.\<close>

definition signal_voltage :: "('h, 'z) slot_chip \<Rightarrow> int \<Rightarrow> (('h, 'z) sdmmc_scheme, unit res) state" where
  "signal_voltage T v = (case chip_signal_voltage T of
     Some f \<Rightarrow> f v
   | None \<Rightarrow> do { modify (\<lambda>s. s\<lparr>sc_panic := True\<rparr>); ret OK })"

text \<open>The switch of \<open>sdmmc_mem_mmc_init\<close> to double data rate.\<close>

definition mmc_ddr ::
    "'h platform \<Rightarrow> ('h, 'z) slot_chip \<Rightarrow> int \<Rightarrow> int \<Rightarrow> int \<Rightarrow> u8 \<Rightarrow> (('h, 'z) sdmmc_scheme, unit res) state" where
  "mmc_ddr P T speed timing width val =
     chk (sdmmc_mem_mmc_switch T EXT_CSD_CMD_SET_NORMAL EXT_CSD_BUS_WIDTH
           (if width = 4 then EXT_CSD_BUS_WIDTH_4_DDR else if width = 8 then EXT_CSD_BUS_WIDTH_8_DDR else val)) (\<lambda>_. do {
       delay P 10000;
       chk (signal_voltage T SDMMC_SIGNAL_VOLTAGE_180) (\<lambda>_.
       chk (chip_bus_clock T speed timing) (\<lambda>_. do {
       delay P 10000;
       ret OK })) })"

definition ext_csd_sectors :: "u8 list \<Rightarrow> u32" where
  "ext_csd_sectors e = ucast (e ! EXT_CSD_SEC_COUNT) OR push_bit 8 (ucast (e ! (EXT_CSD_SEC_COUNT + 1)))
     OR push_bit 16 (ucast (e ! (EXT_CSD_SEC_COUNT + 2))) OR push_bit 24 (ucast (e ! (EXT_CSD_SEC_COUNT + 3)))"

text \<open>The part of \<open>sdmmc_mem_mmc_init\<close> for cards with an EXT\_CSD, after it has been read.\<close>

definition mmc_init_ext ::
    "'h platform \<Rightarrow> ('h, 'z) slot_chip \<Rightarrow> nat \<Rightarrow> u8 list \<Rightarrow> (('h, 'z) sdmmc_scheme, unit res) state" where
  "mmc_init_ext P T p ext_csd = do {
     caps \<leftarrow> fetch sc_caps;
     (case (mmc_speed (ext_csd ! EXT_CSD_CARD_TYPE) caps, mmc_width caps) of
       ((speed, timing), (width, val)) \<Rightarrow>
       chk (if timing \<noteq> SDMMC_TIMING_LEGACY
            then chk (sdmmc_mem_mmc_switch T EXT_CSD_CMD_SET_NORMAL EXT_CSD_HS_TIMING EXT_CSD_HS_TIMING_HS)
                   (\<lambda>_. do { delay P 10000; ret OK })
            else ret OK) (\<lambda>_.
       chk (chip_bus_clock T speed SDMMC_TIMING_HIGHSPEED) (\<lambda>_.
       chk (if timing \<noteq> SDMMC_TIMING_LEGACY
            then chk (sdmmc_mem_send_cxd_data P T MMC_SEND_EXT_CSD 512) (\<lambda>e.
                   ret (if e ! unat EXT_CSD_HS_TIMING \<noteq> EXT_CSD_HS_TIMING_HS then Inl EINVAL else Inr e))
            else ret (Inr ext_csd)) (\<lambda>ext. do {
       e \<leftarrow> (if width \<noteq> 1 then do {
               sw \<leftarrow> sdmmc_mem_mmc_switch T EXT_CSD_CMD_SET_NORMAL EXT_CSD_BUS_WIDTH val;
               if sw \<noteq> OK then ret (Inl sw) else do {
                 e \<leftarrow> chip_bus_width T width;
                 delay P 10000;
                 ret (Inr e) } }
             else ret (Inr OK));
       (case e of
          Inl err \<Rightarrow> ret err
        | Inr err \<Rightarrow> do {
            d \<leftarrow> (if timing = SDMMC_TIMING_MMC_DDR52 then do { x \<leftarrow> mmc_ddr P T speed timing width val; ret (x, x) }
                  else ret (OK, err));
            if fst d \<noteq> OK then ret (fst d) else do {
              let sectors = ext_csd_sectors ext in do {
              (if sectors > 4194304 then do {
                 upd_fn p (\<lambda>f. f\<lparr>sf_flags := setf (sf_flags f) SFF_SDHC\<rparr>);
                 upd_csd p (\<lambda>c. c\<lparr>capacity := sint sectors\<rparr>) } else ret ());
              ret (snd d) } } }) })))) }"

definition sdmmc_mem_mmc_init ::
    "'h platform \<Rightarrow> ('h, 'z) slot_chip \<Rightarrow> nat \<Rightarrow> (('h, 'z) sdmmc_scheme, unit res) state" where
  "sdmmc_mem_mmc_init P T p =
     chk (chip_bus_clock T 20000 SDMMC_TIMING_LEGACY) (\<lambda>_. do {
       ver \<leftarrow> fetch (\<lambda>s. mmcver (sf_csd (fn_at s p)));
       if ver \<ge> MMC_CSD_MMCVER_4_0 then do {
         r \<leftarrow> sdmmc_mem_send_cxd_data P T MMC_SEND_EXT_CSD 512;
         (case r of
            Inl e \<Rightarrow> do { upd_fn p (\<lambda>f. f\<lparr>sf_flags := setf (sf_flags f) SFF_ERROR\<rparr>); ret (Inl e) }
          | Inr ext_csd \<Rightarrow> mmc_init_ext P T p ext_csd) }
       else ret OK })"

text \<open>A failure to select the card or to set the block length is overwritten by the rest.\<close>

definition sdmmc_mem_init ::
    "'h platform \<Rightarrow> ('h, 'z) slot_chip \<Rightarrow> nat \<Rightarrow> (('h, 'z) sdmmc_scheme, unit res) state" where
  "sdmmc_mem_init P T p = do {
     _ \<leftarrow> chk (sdmmc_select_card T (Some p)) (\<lambda>_. sdmmc_mem_set_blocklen T p);
     sd \<leftarrow> fetch (\<lambda>s. isset (sc_flags s) SMF_SD_MODE);
     if sd then sdmmc_mem_sd_init P T p else sdmmc_mem_mmc_init P T p }"

section \<open>Transferring blocks\<close>

text \<open>
  The loops that wait for the card have no bound: the result is None when \<open>n\<close> polls were not
  enough.
\<close>

fun poll_ready ::
    "nat \<Rightarrow> ('h, 'z) slot_chip \<Rightarrow> u16 \<Rightarrow> (('h, 'z) sdmmc_scheme, unit res option) state" where
  "poll_ready 0 T rca = ret None"
| "poll_ready (Suc n) T rca = do {
     c \<leftarrow> sdmmc_mmc_command T (zero_command\<lparr>c_opcode := MMC_SEND_STATUS, c_arg := MMC_ARG_RCA rca,
            c_flags := SCF_CMD_AC OR SCF_RSP_R1\<rparr>);
     if c_error c \<noteq> OK then ret (Some (c_error c))
     else if isset (c_resp c ! 0) MMC_R1_READY_FOR_DATA then ret (Some OK)
     else poll_ready n T rca }"

text \<open>\<open>a / b\<close> of C, where a division by zero traps.\<close>

definition c_div :: "int \<Rightarrow> int \<Rightarrow> (('h, 'z) sdmmc_scheme, int) state" where
  "c_div a b = do {
     (if b = 0 then modify (\<lambda>s. s\<lparr>sc_panic := True\<rparr>) else ret ());
     ret (a div b) }"

text \<open>The block number as the card takes it: blocks or bytes.\<close>

definition block_arg :: "sdmmc_function \<Rightarrow> int \<Rightarrow> u32" where
  "block_arg f blkno = (if isset (sf_flags f) SFF_SDHC then word_of_int blkno else word_of_int (blkno * 2 ^ 9))"

text \<open>
  The parts that \<open>sdmmc_mem_read_block_subr\<close> and \<open>sdmmc_mem_write_block_subr\<close> share: the command
  that moves the data, and the end of a multiple block transfer (with the address of the card as
  argument for reading, 0 for writing).
\<close>

definition data_command ::
    "bool \<Rightarrow> ('h, 'z) slot_chip \<Rightarrow> nat \<Rightarrow> u64 \<Rightarrow> int \<Rightarrow> u64 \<Rightarrow> int
       \<Rightarrow> (('h, 'z) sdmmc_scheme, sdmmc_command) state" where
  "data_command wr T p dmap blkno data datalen = do {
     f \<leftarrow> fetch (\<lambda>s. fn_at s p);
     blks \<leftarrow> c_div datalen (sector_size (sf_csd f));
     sdmmc_mmc_command T (zero_command\<lparr>c_data := data, c_datalen := datalen,
       c_blklen := sector_size (sf_csd f),
       c_opcode := (if wr then if blks > 1 then MMC_WRITE_BLOCK_MULTIPLE else MMC_WRITE_BLOCK_SINGLE
                    else if blks > 1 then MMC_READ_BLOCK_MULTIPLE else MMC_READ_BLOCK_SINGLE),
       c_arg := block_arg f blkno,
       c_flags := (if wr then SCF_CMD_ADTC OR SCF_RSP_R1 else SCF_CMD_ADTC OR SCF_CMD_READ OR SCF_RSP_R1),
       c_dmamap := dmap\<rparr>) }"

definition stop_multiple ::
    "('h, 'z) slot_chip \<Rightarrow> bool \<Rightarrow> u32 \<Rightarrow> (('h, 'z) sdmmc_scheme, unit res) state" where
  "stop_multiple T multiple a = do {
     stop \<leftarrow> fetch (\<lambda>s. isset (sc_flags s) SMF_STOP_AFTER_MULTIPLE);
     if stop \<and> multiple then do {
       c \<leftarrow> sdmmc_mmc_command T (zero_command\<lparr>c_opcode := MMC_STOP_TRANSMISSION,
              c_arg := a, c_flags := SCF_CMD_AC OR SCF_RSP_R1B\<rparr>);
       ret (c_error c) }
     else ret OK }"

text \<open>What follows the command of a read: the end of the transfer and the wait for the card.\<close>

definition finish_read ::
    "nat \<Rightarrow> ('h, 'z) slot_chip \<Rightarrow> nat \<Rightarrow> bool \<Rightarrow> (('h, 'z) sdmmc_scheme, unit res option) state" where
  "finish_read n T p multiple = do {
     rca \<leftarrow> fetch (\<lambda>s. sf_rca (fn_at s p));
     e2 \<leftarrow> stop_multiple T multiple (MMC_ARG_RCA rca);
     if e2 \<noteq> OK then ret (Some e2) else poll_ready n T rca }"

definition sdmmc_mem_read_block_subr ::
    "nat \<Rightarrow> ('h, 'z) slot_chip \<Rightarrow> nat \<Rightarrow> u64 \<Rightarrow> int \<Rightarrow> u64 \<Rightarrow> int
       \<Rightarrow> (('h, 'z) sdmmc_scheme, unit res option) state" where
  "sdmmc_mem_read_block_subr n T p dmap blkno data datalen = do {
     e \<leftarrow> sdmmc_select_card T (Some p);
     if e \<noteq> OK then ret (Some e) else do {
       c \<leftarrow> data_command False T p dmap blkno data datalen;
       ml \<leftarrow> fetch mimic_linux;
       if \<not> ml \<and> c_error c \<noteq> OK then ret (Some (c_error c))
       else finish_read n T p (c_opcode c = MMC_READ_BLOCK_MULTIPLE) } }"

definition sdmmc_mem_write_block_subr ::
    "nat \<Rightarrow> ('h, 'z) slot_chip \<Rightarrow> nat \<Rightarrow> u64 \<Rightarrow> int \<Rightarrow> u64 \<Rightarrow> int
       \<Rightarrow> (('h, 'z) sdmmc_scheme, unit res option) state" where
  "sdmmc_mem_write_block_subr n T p dmap blkno data datalen = do {
     e \<leftarrow> sdmmc_select_card T (Some p);
     if e \<noteq> OK then ret (Some e) else do {
       c \<leftarrow> data_command True T p dmap blkno data datalen;
       let wr_error = c_error c in do {
       rca \<leftarrow> fetch (\<lambda>s. sf_rca (fn_at s p));
       e2 \<leftarrow> stop_multiple T (c_opcode c = MMC_WRITE_BLOCK_MULTIPLE) 0;
       if e2 \<noteq> OK then ret (Some (if wr_error \<noteq> OK then wr_error else e2))
       else obind (poll_ready n T rca) (\<lambda>r. ret (Some (if wr_error \<noteq> OK then wr_error else r))) } } }"

text \<open>The loop over single blocks, \<open>i\<close> being the next one and \<open>k\<close> the number left.\<close>

fun single_blocks ::
    "nat \<Rightarrow> (int \<Rightarrow> u64 \<Rightarrow> int \<Rightarrow> (('h, 'z) sdmmc_scheme, unit res option) state) \<Rightarrow> nat
       \<Rightarrow> int \<Rightarrow> int \<Rightarrow> u64 \<Rightarrow> (('h, 'z) sdmmc_scheme, unit res option) state" where
  "single_blocks 0 io p i blkno data = ret (Some OK)"
| "single_blocks (Suc k) io p i blkno data = do {
     ss \<leftarrow> fetch (\<lambda>s. sector_size (sf_csd (fn_at s p)));
     obind (io (blkno + i) (data + word_of_int (i * ss)) ss) (\<lambda>r.
       if r \<noteq> OK then ret (Some r) else single_blocks k io p (i + 1) blkno data) }"

definition sdmmc_mem_single_read_block ::
    "nat \<Rightarrow> ('h, 'z) slot_chip \<Rightarrow> nat \<Rightarrow> int \<Rightarrow> u64 \<Rightarrow> int
       \<Rightarrow> (('h, 'z) sdmmc_scheme, unit res option) state" where
  "sdmmc_mem_single_read_block n T p blkno data datalen = do {
     ss \<leftarrow> fetch (\<lambda>s. sector_size (sf_csd (fn_at s p)));
     k \<leftarrow> c_div datalen ss;
     single_blocks (nat k) (sdmmc_mem_read_block_subr n T p 0) p 0 blkno data }"

definition sdmmc_mem_single_write_block ::
    "nat \<Rightarrow> ('h, 'z) slot_chip \<Rightarrow> nat \<Rightarrow> int \<Rightarrow> u64 \<Rightarrow> int
       \<Rightarrow> (('h, 'z) sdmmc_scheme, unit res option) state" where
  "sdmmc_mem_single_write_block n T p blkno data datalen = do {
     ss \<leftarrow> fetch (\<lambda>s. sector_size (sf_csd (fn_at s p)));
     k \<leftarrow> c_div datalen ss;
     single_blocks (nat k) (sdmmc_mem_write_block_subr n T p 0) p 0 blkno data }"

text \<open>The common frame of \<open>sdmmc_mem_read_block\<close> and \<open>sdmmc_mem_write_block\<close>: map the buffer, run, unmap.\<close>

definition with_dma ::
    "'h platform \<Rightarrow> u64 \<Rightarrow> int \<Rightarrow> (u64 \<Rightarrow> (('h, 'z) sdmmc_scheme, unit res option) state)
       \<Rightarrow> (('h, 'z) sdmmc_scheme, unit res option) state" where
  "with_dma P data datalen io = do {
     dm \<leftarrow> fetch sc_dmap;
     l \<leftarrow> bus_dmamap_load P dm data (word_of_int datalen);
     if l \<noteq> OK then ret (Some l) else do {
       bus_dmamap_sync;
       obind (io dm) (\<lambda>r. do {
         (if r = OK then bus_dmamap_sync else ret ());
         bus_dmamap_unload P dm;
         ret (Some r) }) } }"

definition sdmmc_mem_read_block ::
    "nat \<Rightarrow> 'h platform \<Rightarrow> ('h, 'z) slot_chip \<Rightarrow> nat \<Rightarrow> int \<Rightarrow> u64 \<Rightarrow> int
       \<Rightarrow> (('h, 'z) sdmmc_scheme, unit res option) state" where
  "sdmmc_mem_read_block n P T p blkno data datalen = do {
     rw_enter_write;
     caps \<leftarrow> fetch sc_caps;
     obind (if isset caps SMC_CAPS_SINGLE_ONLY then sdmmc_mem_single_read_block n T p blkno data datalen
            else if \<not> isset caps SMC_CAPS_DMA then sdmmc_mem_read_block_subr n T p 0 blkno data datalen
            else with_dma P data datalen (\<lambda>dm. sdmmc_mem_read_block_subr n T p dm blkno data datalen))
       (\<lambda>e. do { rw_exit; ret (Some e) }) }"

definition sdmmc_mem_write_block ::
    "nat \<Rightarrow> 'h platform \<Rightarrow> ('h, 'z) slot_chip \<Rightarrow> nat \<Rightarrow> int \<Rightarrow> u64 \<Rightarrow> int
       \<Rightarrow> (('h, 'z) sdmmc_scheme, unit res option) state" where
  "sdmmc_mem_write_block n P T p blkno data datalen = do {
     rw_enter_write;
     caps \<leftarrow> fetch sc_caps;
     obind (if isset caps SMC_CAPS_SINGLE_ONLY then sdmmc_mem_single_write_block n T p blkno data datalen
            else if \<not> isset caps SMC_CAPS_DMA then sdmmc_mem_write_block_subr n T p 0 blkno data datalen
            else with_dma P data datalen (\<lambda>dm. sdmmc_mem_write_block_subr n T p dm blkno data datalen))
       (\<lambda>e. do { rw_exit; ret (Some e) }) }"

end
