(* ===== verification/SdmmcIo.thy ===== *)
theory SdmmcIo
  imports SdmmcMem
begin

text \<open>
  SDIO functions (3rdParty/openbsd/sdmmc_io.c, sdmmc_cis.c): register access, the card
  information structure, initialisation of the functions and their interrupts. In this
  build \<open>sdmmc_io_enable\<close> is not called, so the slot never enters I/O mode; the code is
  modelled because the slot calls it when the flag is set.
\<close>

section \<open>Constants\<close>

abbreviation (input) SD_IO_RW_DIRECT :: u16 where "SD_IO_RW_DIRECT \<equiv> 52"
abbreviation (input) SD_IO_RW_EXTENDED :: u16 where "SD_IO_RW_EXTENDED \<equiv> 53"
abbreviation (input) SD_ARG_CMD52_READ :: u32 where "SD_ARG_CMD52_READ \<equiv> 0"
abbreviation (input) SD_ARG_CMD52_WRITE :: u32 where "SD_ARG_CMD52_WRITE \<equiv> 0x80000000"
abbreviation (input) SD_ARG_CMD52_EXCHANGE :: u32 where "SD_ARG_CMD52_EXCHANGE \<equiv> 0x08000000"
abbreviation (input) SD_ARG_CMD53_READ :: u32 where "SD_ARG_CMD53_READ \<equiv> 0"
abbreviation (input) SD_ARG_CMD53_WRITE :: u32 where "SD_ARG_CMD53_WRITE \<equiv> 0x80000000"
abbreviation (input) SD_ARG_CMD53_BLOCK_MODE :: u32 where "SD_ARG_CMD53_BLOCK_MODE \<equiv> 0x08000000"
abbreviation (input) SD_ARG_CMD53_INCREMENT :: u32 where "SD_ARG_CMD53_INCREMENT \<equiv> 0x04000000"
abbreviation (input) SD_ARG_CMD53_LENGTH_MAX :: int where "SD_ARG_CMD53_LENGTH_MAX \<equiv> 511"
abbreviation (input) SD_IO_OCR_MEM_READY :: u32 where "SD_IO_OCR_MEM_READY \<equiv> 0x80000000"
abbreviation (input) SD_IO_OCR_MEM_PRESENT :: u32 where "SD_IO_OCR_MEM_PRESENT \<equiv> 0x0f000000"
abbreviation (input) SD_IO_OCR_MASK :: u32 where "SD_IO_OCR_MASK \<equiv> 0x00fffff0"
abbreviation (input) SD_IO_CCCR_SIZE :: int where "SD_IO_CCCR_SIZE \<equiv> 0x100"
abbreviation (input) SD_IO_CCCR_FN_ENABLE :: int where "SD_IO_CCCR_FN_ENABLE \<equiv> 0x02"
abbreviation (input) SD_IO_CCCR_FN_READY :: int where "SD_IO_CCCR_FN_READY \<equiv> 0x03"
abbreviation (input) SD_IO_CCCR_INT_ENABLE :: int where "SD_IO_CCCR_INT_ENABLE \<equiv> 0x04"
abbreviation (input) SD_IO_CCCR_CTL :: int where "SD_IO_CCCR_CTL \<equiv> 0x06"
abbreviation (input) CCCR_CTL_RES :: u8 where "CCCR_CTL_RES \<equiv> 0x08"
abbreviation (input) SD_IO_CCCR_BUS_WIDTH :: int where "SD_IO_CCCR_BUS_WIDTH \<equiv> 0x07"
abbreviation (input) CCCR_BUS_WIDTH_1 :: u8 where "CCCR_BUS_WIDTH_1 \<equiv> 0"
abbreviation (input) CCCR_BUS_WIDTH_4 :: u8 where "CCCR_BUS_WIDTH_4 \<equiv> 2"
abbreviation (input) CCCR_BUS_WIDTH_MASK :: u8 where "CCCR_BUS_WIDTH_MASK \<equiv> 3"
abbreviation (input) SD_IO_CCCR_CISPTR :: int where "SD_IO_CCCR_CISPTR \<equiv> 0x09"
abbreviation (input) SD_IO_CCCR_SPEED :: int where "SD_IO_CCCR_SPEED \<equiv> 0x13"
abbreviation (input) CCCR_SPEED_SHS :: u8 where "CCCR_SPEED_SHS \<equiv> 1"
abbreviation (input) CCCR_SPEED_EHS :: u8 where "CCCR_SPEED_EHS \<equiv> 2"
abbreviation (input) CCCR_SPEED_MASK :: u8 where "CCCR_SPEED_MASK \<equiv> 0xe"
abbreviation (input) SD_IO_FBR_BLOCKLEN :: int where "SD_IO_FBR_BLOCKLEN \<equiv> 0x10"
abbreviation (input) SD_IO_CIS_START :: int where "SD_IO_CIS_START \<equiv> 0x01000"
abbreviation (input) SD_IO_CIS_SIZE :: int where "SD_IO_CIS_SIZE \<equiv> 0x17000"
abbreviation (input) SD_IO_CISTPL_NULL :: u8 where "SD_IO_CISTPL_NULL \<equiv> 0x00"
abbreviation (input) SD_IO_CISTPL_VERS_1 :: u8 where "SD_IO_CISTPL_VERS_1 \<equiv> 0x15"
abbreviation (input) SD_IO_CISTPL_MANFID :: u8 where "SD_IO_CISTPL_MANFID \<equiv> 0x20"
abbreviation (input) SD_IO_CISTPL_FUNCID :: u8 where "SD_IO_CISTPL_FUNCID \<equiv> 0x21"
abbreviation (input) SD_IO_CISTPL_END :: u8 where "SD_IO_CISTPL_END \<equiv> 0xff"

section \<open>Register access\<close>

definition io_number :: "('h, 'z) sdmmc_scheme \<Rightarrow> nat option \<Rightarrow> int" where
  "io_number s sf = (case sf of None \<Rightarrow> 0 | Some p \<Rightarrow> sf_number (fn_at s p))"

definition cmd52_arg :: "int \<Rightarrow> int \<Rightarrow> u8 \<Rightarrow> u32 \<Rightarrow> u32" where
  "cmd52_arg number reg data arg = arg OR push_bit 28 (word_of_int number AND 0x7)
     OR push_bit 9 (word_of_int reg AND 0x1ffff) OR ucast data"

text \<open>\<open>sdmmc_io_rw_direct\<close> returns its error and the value left in \<open>*datap\<close>.\<close>

definition sdmmc_io_rw_direct ::
    "('h, 'z) slot_chip \<Rightarrow> nat option \<Rightarrow> int \<Rightarrow> u8 \<Rightarrow> u32 \<Rightarrow> (('h, 'z) sdmmc_scheme, unit res \<times> u8) state" where
  "sdmmc_io_rw_direct T sf reg data arg = do {
     e \<leftarrow> sdmmc_select_card T sf;
     if e \<noteq> OK then do { rw_exit; ret (e, data) } else do {
       num \<leftarrow> fetch (\<lambda>s. io_number s sf);
       c \<leftarrow> sdmmc_mmc_command T (zero_command\<lparr>c_opcode := SD_IO_RW_DIRECT,
              c_arg := cmd52_arg num reg data arg, c_flags := SCF_CMD_AC OR SCF_RSP_R5\<rparr>);
       ret (c_error c, ucast (c_resp c ! 0 AND 0xff)) } }"

definition cmd53_arg :: "int \<Rightarrow> int \<Rightarrow> int \<Rightarrow> u32 \<Rightarrow> u32" where
  "cmd53_arg number reg len arg = arg OR push_bit 28 (word_of_int number AND 0x7)
     OR push_bit 9 (word_of_int reg AND 0x1ffff) OR (word_of_int len AND 0x1ff)"

definition sdmmc_io_rw_extended_subr ::
    "('h, 'z) slot_chip \<Rightarrow> nat option \<Rightarrow> u64 \<Rightarrow> int \<Rightarrow> u64 \<Rightarrow> int \<Rightarrow> u32 \<Rightarrow> (('h, 'z) sdmmc_scheme, unit res) state" where
  "sdmmc_io_rw_extended_subr T sf dmap reg datap len arg0 = do {
     num \<leftarrow> fetch (\<lambda>s. io_number s sf);
     cur \<leftarrow> fetch (\<lambda>s. case sf of None \<Rightarrow> 0 | Some p \<Rightarrow> sf_cur_blklen (fn_at s p));
     let arg = cmd53_arg num reg len arg0; bm = isset arg SD_ARG_CMD53_BLOCK_MODE in do {
     c \<leftarrow> sdmmc_mmc_command T (zero_command\<lparr>c_opcode := SD_IO_RW_EXTENDED, c_arg := arg,
            c_flags := SCF_CMD_AC OR SCF_RSP_R5 OR (if isset arg SD_ARG_CMD53_WRITE then 0 else SCF_CMD_READ),
            c_dmamap := dmap, c_data := datap,
            c_datalen := (if bm then c_int (len * cur) else len),
            c_blklen := (if bm then c_int cur else c_int (min (len mod 2 ^ 32) cur))\<rparr>);
     ret (c_error c) } }"

definition sdmmc_io_rw_extended ::
    "'h platform \<Rightarrow> ('h, 'z) slot_chip \<Rightarrow> nat option \<Rightarrow> int \<Rightarrow> u64 \<Rightarrow> int \<Rightarrow> u32
       \<Rightarrow> (('h, 'z) sdmmc_scheme, unit res) state" where
  "sdmmc_io_rw_extended P T sf reg datap len arg = do {
     caps \<leftarrow> fetch sc_caps;
     if \<not> isset caps SMC_CAPS_DMA then sdmmc_io_rw_extended_subr T sf 0 reg datap len arg
     else do {
       cur \<leftarrow> fetch (\<lambda>s. case sf of None \<Rightarrow> 0 | Some p \<Rightarrow> sf_cur_blklen (fn_at s p));
       dm \<leftarrow> fetch sc_dmap;
       l \<leftarrow> bus_dmamap_load P dm datap
              (word_of_int (if isset arg SD_ARG_CMD53_BLOCK_MODE then c_int (len * cur) else len));
       if l \<noteq> OK then ret l else do {
         bus_dmamap_sync;
         e \<leftarrow> sdmmc_io_rw_extended_subr T sf dm reg datap len arg;
         (if e = OK then bus_dmamap_sync else ret ());
         bus_dmamap_unload P dm;
         ret e } } }"

definition sdmmc_io_read_1 :: "('h, 'z) slot_chip \<Rightarrow> nat option \<Rightarrow> int \<Rightarrow> (('h, 'z) sdmmc_scheme, u8) state" where
  "sdmmc_io_read_1 T sf reg = do { r \<leftarrow> sdmmc_io_rw_direct T sf reg 0 SD_ARG_CMD52_READ; ret (snd r) }"

definition sdmmc_io_write_1 :: "('h, 'z) slot_chip \<Rightarrow> nat option \<Rightarrow> int \<Rightarrow> u8 \<Rightarrow> (('h, 'z) sdmmc_scheme, unit) state" where
  "sdmmc_io_write_1 T sf reg data = do { _ \<leftarrow> sdmmc_io_rw_direct T sf reg data SD_ARG_CMD52_WRITE; ret () }"

text \<open>The two and four byte accesses go through a local variable at the address \<open>stk\<close>.\<close>

definition io_read_local ::
    "'h platform \<Rightarrow> ('h, 'z) slot_chip \<Rightarrow> u64 \<Rightarrow> nat \<Rightarrow> nat option \<Rightarrow> int \<Rightarrow> (('h, 'z) sdmmc_scheme, u8 list) state" where
  "io_read_local P T stk n sf reg = do {
     exec_hw (\<lambda>h. km_write P h stk (replicate n 0));
     _ \<leftarrow> sdmmc_io_rw_extended_subr T sf 0 reg stk (int n) (SD_ARG_CMD53_READ OR SD_ARG_CMD53_INCREMENT);
     fetch (\<lambda>s. km_read P (hw s) stk n) }"

definition sdmmc_io_read_2 ::
    "'h platform \<Rightarrow> ('h, 'z) slot_chip \<Rightarrow> u64 \<Rightarrow> nat option \<Rightarrow> int \<Rightarrow> (('h, 'z) sdmmc_scheme, u16) state" where
  "sdmmc_io_read_2 P T stk sf reg = do { bs \<leftarrow> io_read_local P T stk 2 sf reg; ret (le_word bs) }"

definition sdmmc_io_read_4 ::
    "'h platform \<Rightarrow> ('h, 'z) slot_chip \<Rightarrow> u64 \<Rightarrow> nat option \<Rightarrow> int \<Rightarrow> (('h, 'z) sdmmc_scheme, u32) state" where
  "sdmmc_io_read_4 P T stk sf reg = do { bs \<leftarrow> io_read_local P T stk 4 sf reg; ret (le_word bs) }"

definition io_write_local ::
    "'h platform \<Rightarrow> ('h, 'z) slot_chip \<Rightarrow> u64 \<Rightarrow> u8 list \<Rightarrow> nat option \<Rightarrow> int \<Rightarrow> (('h, 'z) sdmmc_scheme, unit) state" where
  "io_write_local P T stk bs sf reg = do {
     exec_hw (\<lambda>h. km_write P h stk bs);
     _ \<leftarrow> sdmmc_io_rw_extended_subr T sf 0 reg stk (int (length bs)) (SD_ARG_CMD53_WRITE OR SD_ARG_CMD53_INCREMENT);
     ret () }"

definition sdmmc_io_write_2 ::
    "'h platform \<Rightarrow> ('h, 'z) slot_chip \<Rightarrow> u64 \<Rightarrow> nat option \<Rightarrow> int \<Rightarrow> u16 \<Rightarrow> (('h, 'z) sdmmc_scheme, unit) state" where
  "sdmmc_io_write_2 P T stk sf reg data = io_write_local P T stk (le_bytes 2 data) sf reg"

definition sdmmc_io_write_4 ::
    "'h platform \<Rightarrow> ('h, 'z) slot_chip \<Rightarrow> u64 \<Rightarrow> nat option \<Rightarrow> int \<Rightarrow> u32 \<Rightarrow> (('h, 'z) sdmmc_scheme, unit) state" where
  "sdmmc_io_write_4 P T stk sf reg data = io_write_local P T stk (le_bytes 4 data) sf reg"

text \<open>
  The loop shared by the four multi byte transfers; \<open>step\<close> tells whether the register
  address advances; the block length is unsigned, so the length is compared and divided as
  an unsigned number. Every round moves at least one block, so \<open>datalen\<close> rounds are enough for a
  positive block length; None stands for a loop that does not end.
\<close>

fun io_transfer ::
    "nat \<Rightarrow> 'h platform \<Rightarrow> ('h, 'z) slot_chip \<Rightarrow> nat \<Rightarrow> u32 \<Rightarrow> bool \<Rightarrow> int \<Rightarrow> u64 \<Rightarrow> int
       \<Rightarrow> (('h, 'z) sdmmc_scheme, unit res option) state" where
  "io_transfer 0 P T p arg step reg data datalen = ret None"
| "io_transfer (Suc n) P T p arg step reg data datalen = do {
     cur \<leftarrow> fetch (\<lambda>s. sf_cur_blklen (fn_at s p));
     if datalen mod 2 ^ 32 \<ge> cur then do {
       k \<leftarrow> c_div (datalen mod 2 ^ 32) cur;
       let blocks = min k SD_ARG_CMD53_LENGTH_MAX in do {
       e \<leftarrow> sdmmc_io_rw_extended P T (Some p) reg data blocks (arg OR SD_ARG_CMD53_BLOCK_MODE);
       if e \<noteq> OK then ret (Some e)
       else io_transfer n P T p arg step (if step then reg + blocks * cur else reg)
              (data + word_of_int (blocks * cur)) (c_int (datalen - blocks * cur)) } }
     else if datalen \<noteq> 0 then osome (sdmmc_io_rw_extended P T (Some p) reg data datalen arg)
     else ret (Some OK) }"

definition sdmmc_io_read_multi_1 ::
    "'h platform \<Rightarrow> ('h, 'z) slot_chip \<Rightarrow> nat \<Rightarrow> int \<Rightarrow> u64 \<Rightarrow> int \<Rightarrow> (('h, 'z) sdmmc_scheme, unit res option) state" where
  "sdmmc_io_read_multi_1 P T p reg data datalen =
     io_transfer (Suc (nat (datalen mod 2 ^ 32))) P T p SD_ARG_CMD53_READ False reg data datalen"

definition sdmmc_io_write_multi_1 ::
    "'h platform \<Rightarrow> ('h, 'z) slot_chip \<Rightarrow> nat \<Rightarrow> int \<Rightarrow> u64 \<Rightarrow> int \<Rightarrow> (('h, 'z) sdmmc_scheme, unit res option) state" where
  "sdmmc_io_write_multi_1 P T p reg data datalen =
     io_transfer (Suc (nat (datalen mod 2 ^ 32))) P T p SD_ARG_CMD53_WRITE False reg data datalen"

definition sdmmc_io_read_region_1 ::
    "'h platform \<Rightarrow> ('h, 'z) slot_chip \<Rightarrow> nat \<Rightarrow> int \<Rightarrow> u64 \<Rightarrow> int \<Rightarrow> (('h, 'z) sdmmc_scheme, unit res option) state" where
  "sdmmc_io_read_region_1 P T p reg data datalen =
     io_transfer (Suc (nat (datalen mod 2 ^ 32))) P T p (SD_ARG_CMD53_READ OR SD_ARG_CMD53_INCREMENT) True reg data datalen"

definition sdmmc_io_write_region_1 ::
    "'h platform \<Rightarrow> ('h, 'z) slot_chip \<Rightarrow> nat \<Rightarrow> int \<Rightarrow> u64 \<Rightarrow> int \<Rightarrow> (('h, 'z) sdmmc_scheme, unit res option) state" where
  "sdmmc_io_write_region_1 P T p reg data datalen =
     io_transfer (Suc (nat (datalen mod 2 ^ 32))) P T p (SD_ARG_CMD53_WRITE OR SD_ARG_CMD53_INCREMENT) True reg data datalen"

definition sdmmc_io_xchg ::
    "('h, 'z) slot_chip \<Rightarrow> nat option \<Rightarrow> int \<Rightarrow> u8 \<Rightarrow> (('h, 'z) sdmmc_scheme, unit res \<times> u8) state" where
  "sdmmc_io_xchg T sf reg data = sdmmc_io_rw_direct T sf reg data (SD_ARG_CMD52_WRITE OR SD_ARG_CMD52_EXCHANGE)"

definition sdmmc_io_reset :: "'h platform \<Rightarrow> ('h, 'z) slot_chip \<Rightarrow> (('h, 'z) sdmmc_scheme, unit) state" where
  "sdmmc_io_reset P T = do {
     r \<leftarrow> sdmmc_io_rw_direct T None SD_IO_CCCR_CTL CCCR_CTL_RES SD_ARG_CMD52_WRITE;
     (if fst r = OK then delay P 100000 else ret ()) }"

section \<open>Operating conditions and enabling\<close>

fun io_op_cond_loop ::
    "nat \<Rightarrow> 'h platform \<Rightarrow> ('h, 'z) slot_chip \<Rightarrow> u32 \<Rightarrow> (('h, 'z) sdmmc_scheme, u32 res) state" where
  "io_op_cond_loop 0 P T ocr = ret (Inl ETIMEDOUT)"
| "io_op_cond_loop (Suc n) P T ocr = do {
     c \<leftarrow> sdmmc_mmc_command T (zero_command\<lparr>c_opcode := SD_IO_SEND_OP_COND, c_arg := ocr,
            c_flags := SCF_CMD_BCR OR SCF_RSP_R4\<rparr>);
     (case c_error c of
        Inl e \<Rightarrow> ret (Inl e)
      | Inr _ \<Rightarrow>
          if isset (c_resp c ! 0) SD_IO_OCR_MEM_READY \<or> ocr = 0 then ret (Inr (c_resp c ! 0))
          else do { delay P 10000; io_op_cond_loop n P T ocr }) }"

definition sdmmc_io_send_op_cond ::
    "'h platform \<Rightarrow> ('h, 'z) slot_chip \<Rightarrow> u32 \<Rightarrow> (('h, 'z) sdmmc_scheme, u32 res) state" where
  "sdmmc_io_send_op_cond P T ocr = io_op_cond_loop 100 P T ocr"

definition sdmmc_io_enable ::
    "'h platform \<Rightarrow> ('h, 'z) slot_chip \<Rightarrow> (('h, 'z) sdmmc_scheme, unit res) state" where
  "sdmmc_io_enable P T = do {
     modify (\<lambda>s. s\<lparr>sc_flags := setf (sc_flags s) (SMF_SD_MODE OR SMF_IO_MODE OR SMF_MEM_MODE)\<rparr>);
     sdmmc_io_reset P T;
     r \<leftarrow> sdmmc_io_send_op_cond P T 0;
     (case r of
        Inl _ \<Rightarrow> do { modify (\<lambda>s. s\<lparr>sc_flags := clrf (sc_flags s) SMF_IO_MODE\<rparr>); ret OK }
      | Inr card_ocr \<Rightarrow> do {
          (if \<not> isset card_ocr SD_IO_OCR_MEM_PRESENT
           then modify (\<lambda>s. s\<lparr>sc_flags := clrf (sc_flags s) SMF_MEM_MODE\<rparr>) else ret ());
          let k = uint (drop_bit 28 card_ocr AND 0x7) in do {
          modify (\<lambda>s. s\<lparr>sc_function_count := k\<rparr>);
          if k = 0 then do { modify (\<lambda>s. s\<lparr>sc_flags := clrf (sc_flags s) SMF_IO_MODE\<rparr>); ret OK }
          else do {
            host_ocr \<leftarrow> chip_host_ocr T;
            e \<leftarrow> sdmmc_set_bus_power T host_ocr (card_ocr AND SD_IO_OCR_MASK);
            if e \<noteq> OK then ret (Inl E1) else do {
              o2 \<leftarrow> sdmmc_io_send_op_cond P T host_ocr;
              ret (case o2 of Inl _ \<Rightarrow> Inl E1 | Inr _ \<Rightarrow> OK) } } } }) }"

text \<open>The loop of \<open>sdmmc_io_scan\<close> over the functions \<open>i\<close> to \<open>i + k - 1\<close>.\<close>

fun io_scan_loop ::
    "nat \<Rightarrow> ('h, 'z) slot_chip \<Rightarrow> nat \<Rightarrow> int \<Rightarrow> (('h, 'z) sdmmc_scheme, unit) state" where
  "io_scan_loop 0 T p0 i = ret ()"
| "io_scan_loop (Suc k) T p0 i = do {
     p \<leftarrow> sdmmc_function_alloc T;
     upd_fn p (\<lambda>f. f\<lparr>sf_number := i\<rparr>);
     a \<leftarrow> fetch (\<lambda>s. sf_rca (fn_at s p0));
     upd_fn p (\<lambda>f. f\<lparr>sf_rca := a\<rparr>);
     modify (\<lambda>s. s\<lparr>sf_head := sf_head s @ [p]\<rparr>);
     io_scan_loop k T p0 (i + 1) }"

definition sdmmc_io_scan :: "('h, 'z) slot_chip \<Rightarrow> (('h, 'z) sdmmc_scheme, unit) state" where
  "sdmmc_io_scan T = do {
     p0 \<leftarrow> sdmmc_function_alloc T;
     upd_fn p0 (\<lambda>f. f\<lparr>sf_number := 0\<rparr>);
     e \<leftarrow> sdmmc_set_relative_addr T p0;
     if e \<noteq> OK then sdmmc_function_free p0
     else do {
       modify (\<lambda>s. s\<lparr>sc_fn0 := Some p0\<rparr>);
       modify (\<lambda>s. s\<lparr>sf_head := sf_head s @ [p0]\<rparr>);
       e2 \<leftarrow> sdmmc_select_card T (Some p0);
       if e2 \<noteq> OK then upd_fn p0 (\<lambda>f. f\<lparr>sf_flags := setf (sf_flags f) SFF_ERROR\<rparr>)
       else do {
         k \<leftarrow> fetch (\<lambda>s. nat (sc_function_count s));
         io_scan_loop k T p0 1 } } }"

section \<open>The card information structure\<close>

definition sdmmc_cisptr :: "('h, 'z) slot_chip \<Rightarrow> nat \<Rightarrow> (('h, 'z) sdmmc_scheme, u32) state" where
  "sdmmc_cisptr T p = do {
     f0 \<leftarrow> fetch sc_fn0;
     num \<leftarrow> fetch (\<lambda>s. sf_number (fn_at s p));
     let reg = SD_IO_CCCR_CISPTR + num * SD_IO_CCCR_SIZE in do {
     b0 \<leftarrow> sdmmc_io_read_1 T f0 reg;
     b1 \<leftarrow> sdmmc_io_read_1 T f0 (reg + 1);
     b2 \<leftarrow> sdmmc_io_read_1 T f0 (reg + 2);
     ret (ucast b0 OR push_bit 8 (ucast b1) OR push_bit 16 (ucast b2)) } }"

definition upd_cis :: "nat \<Rightarrow> (sdmmc_cis \<Rightarrow> sdmmc_cis) \<Rightarrow> (('h, 'z) sdmmc_scheme, unit) state" where
  "upd_cis p g = upd_fn p (\<lambda>f. f\<lparr>sf_cis := g (sf_cis f)\<rparr>)"

text \<open>The strings of a VERS\_1 tuple: \<open>n\<close> is \<open>252 - i\<close>.\<close>

fun cis_info_loop ::
    "nat \<Rightarrow> ('h, 'z) slot_chip \<Rightarrow> nat \<Rightarrow> nat option \<Rightarrow> int \<Rightarrow> nat \<Rightarrow> nat \<Rightarrow> nat
       \<Rightarrow> (('h, 'z) sdmmc_scheme, unit) state" where
  "cis_info_loop 0 T p f0 reg i start count = ret ()"
| "cis_info_loop (Suc n) T p f0 reg i start count =
     (if count < 4 then do {
        ch \<leftarrow> sdmmc_io_read_1 T f0 (reg + int i);
        if ch = 0xff then ret () else do {
          upd_cis p (\<lambda>c. c\<lparr>cis1_info_buf := (cis1_info_buf c)[i := ch]\<rparr>);
          if ch = 0 then do {
            upd_cis p (\<lambda>c. c\<lparr>cis1_info := (cis1_info c)[count := Some start]\<rparr>);
            cis_info_loop n T p f0 reg (Suc i) (Suc i) (Suc count) }
          else cis_info_loop n T p f0 reg (Suc i) start count } }
      else ret ())"

text \<open>One tuple after its code and length; the result is the register after it.\<close>

definition cis_tuple ::
    "('h, 'z) slot_chip \<Rightarrow> nat \<Rightarrow> nat option \<Rightarrow> u8 \<Rightarrow> int \<Rightarrow> int \<Rightarrow> (('h, 'z) sdmmc_scheme, int) state" where
  "cis_tuple T p f0 code len reg =
     (if code = SD_IO_CISTPL_FUNCID then
        if len < 2 then ret (reg + len) else do {
          b \<leftarrow> sdmmc_io_read_1 T f0 reg;
          upd_cis p (\<lambda>c. c\<lparr>cis_function := b\<rparr>);
          ret (reg + len) }
      else if code = SD_IO_CISTPL_MANFID then
        if len < 4 then ret (reg + len) else do {
          m0 \<leftarrow> sdmmc_io_read_1 T f0 reg;
          m1 \<leftarrow> sdmmc_io_read_1 T f0 (reg + 1);
          p0 \<leftarrow> sdmmc_io_read_1 T f0 (reg + 2);
          p1 \<leftarrow> sdmmc_io_read_1 T f0 (reg + 3);
          upd_cis p (\<lambda>c. c\<lparr>cis_manufacturer := ucast m0 OR push_bit 8 (ucast m1),
                           cis_product := ucast p0 OR push_bit 8 (ucast p1)\<rparr>);
          ret (reg + 4) }
      else if code = SD_IO_CISTPL_VERS_1 then
        if len < 2 then ret (reg + len) else do {
          a \<leftarrow> sdmmc_io_read_1 T f0 reg;
          b \<leftarrow> sdmmc_io_read_1 T f0 (reg + 1);
          upd_cis p (\<lambda>c. c\<lparr>cis1_major := a, cis1_minor := b\<rparr>);
          cis_info_loop 252 T p f0 (reg + 2) 0 0 0;
          ret (reg + 2 + (len - 2)) }
      else ret (reg + len))"

text \<open>The loop over the tuples ends at the end tuple; None when \<open>n\<close> rounds were not enough.\<close>

fun cis_loop ::
    "nat \<Rightarrow> ('h, 'z) slot_chip \<Rightarrow> nat \<Rightarrow> nat option \<Rightarrow> int \<Rightarrow> (('h, 'z) sdmmc_scheme, unit res option) state" where
  "cis_loop 0 T p f0 reg = ret None"
| "cis_loop (Suc n) T p f0 reg = do {
     code \<leftarrow> sdmmc_io_read_1 T f0 reg;
     if code = SD_IO_CISTPL_END then ret (Some OK)
     else if code = SD_IO_CISTPL_NULL then cis_loop n T p f0 (reg + 1)
     else do {
       len \<leftarrow> sdmmc_io_read_1 T f0 (reg + 1);
       r \<leftarrow> cis_tuple T p f0 code (uint len) (reg + 2);
       cis_loop n T p f0 r } }"

definition sdmmc_read_cis ::
    "nat \<Rightarrow> ('h, 'z) slot_chip \<Rightarrow> nat \<Rightarrow> (('h, 'z) sdmmc_scheme, unit res option) state" where
  "sdmmc_read_cis n T p = do {
     f0 \<leftarrow> fetch sc_fn0;
     a \<leftarrow> sdmmc_cisptr T p;
     let reg = sint a in
     if reg < SD_IO_CIS_START \<or> reg \<ge> SD_IO_CIS_START + SD_IO_CIS_SIZE - 16 then ret (Some (Inl E1))
     else cis_loop n T p f0 reg }"

text \<open>The strings \<open>sdmmc_check_cis_quirks\<close> puts in are constants: only their presence is modelled.\<close>

abbreviation (input) SDMMC_VENDOR_SPECTEC :: u16 where "SDMMC_VENDOR_SPECTEC \<equiv> 0x02fe"
abbreviation (input) SDMMC_PRODUCT_SPECTEC_SDW820 :: u16 where "SDMMC_PRODUCT_SPECTEC_SDW820 \<equiv> 0x2128"

definition sdmmc_check_cis_quirks :: "nat \<Rightarrow> (('h, 'z) sdmmc_scheme, unit) state" where
  "sdmmc_check_cis_quirks p = upd_cis p (\<lambda>c.
     if cis_manufacturer c = SDMMC_VENDOR_SPECTEC \<and> cis_product c = SDMMC_PRODUCT_SPECTEC_SDW820
     then c\<lparr>cis1_major := 1, cis1_minor := 0, cis1_info := replicate 4 (Some 0)\<rparr> else c)"

section \<open>Initialising a function\<close>

definition sdmmc_io_set_bus_width :: "('h, 'z) slot_chip \<Rightarrow> nat \<Rightarrow> int \<Rightarrow> (('h, 'z) sdmmc_scheme, unit) state" where
  "sdmmc_io_set_bus_width T p width = do {
     rv \<leftarrow> sdmmc_io_read_1 T (Some p) SD_IO_CCCR_BUS_WIDTH;
     sdmmc_io_write_1 T (Some p) SD_IO_CCCR_BUS_WIDTH
       ((rv AND NOT CCCR_BUS_WIDTH_MASK) OR (if width = 4 then CCCR_BUS_WIDTH_4 else CCCR_BUS_WIDTH_1)) }"

definition sdmmc_io_set_highspeed ::
    "('h, 'z) slot_chip \<Rightarrow> nat \<Rightarrow> bool \<Rightarrow> (('h, 'z) sdmmc_scheme, unit res) state" where
  "sdmmc_io_set_highspeed T p enable = do {
     rv \<leftarrow> sdmmc_io_read_1 T (Some p) SD_IO_CCCR_SPEED;
     if enable \<and> \<not> isset rv CCCR_SPEED_SHS then ret (Inl E1) else do {
       sdmmc_io_write_1 T (Some p) SD_IO_CCCR_SPEED
         ((rv AND NOT CCCR_SPEED_MASK) OR (if enable then CCCR_SPEED_EHS else 0));
       ret OK } }"

definition sdmmc_io_init ::
    "nat \<Rightarrow> ('h, 'z) slot_chip \<Rightarrow> nat \<Rightarrow> (('h, 'z) sdmmc_scheme, unit res option) state" where
  "sdmmc_io_init n T p = obind (sdmmc_read_cis n T p) (\<lambda>r.
     if r \<noteq> OK then do {
       upd_fn p (\<lambda>f. f\<lparr>sf_flags := setf (sf_flags f) SFF_ERROR\<rparr>);
       ret (Some (Inl E1)) }
     else do {
       sdmmc_check_cis_quirks p;
       num \<leftarrow> fetch (\<lambda>s. sf_number (fn_at s p));
       (if num = 0 then do {
          caps \<leftarrow> fetch sc_caps;
          hs \<leftarrow> (if isset caps SMC_CAPS_SD_HIGHSPEED then sdmmc_io_set_highspeed T p True else ret (Inl E1));
          if hs = OK then do {
            _ \<leftarrow> chip_bus_clock T SDMMC_SDCLK_50MHZ SDMMC_TIMING_HIGHSPEED;
            (if isset caps SMC_CAPS_4BIT_MODE then do {
               sdmmc_io_set_bus_width T p 4;
               _ \<leftarrow> chip_bus_width T 4;
               ret () } else ret ()) }
          else do { _ \<leftarrow> chip_bus_clock T SDMMC_SDCLK_25MHZ SDMMC_TIMING_LEGACY; ret () } }
        else ret ());
       ret (Some OK) })"

definition sdmmc_io_set_blocklen ::
    "('h, 'z) slot_chip \<Rightarrow> nat \<Rightarrow> int \<Rightarrow> (('h, 'z) sdmmc_scheme, unit) state" where
  "sdmmc_io_set_blocklen T p blklen = do {
     m \<leftarrow> chip_host_maxblklen T;
     if blklen > m then ret () else do {
       f0 \<leftarrow> fetch sc_fn0;
       num \<leftarrow> fetch (\<lambda>s. sf_number (fn_at s p));
       let b = (if blklen = 0 then min 512 m else blklen); reg = num * 0x100 + SD_IO_FBR_BLOCKLEN in do {
       sdmmc_io_write_1 T f0 reg (word_of_int b);
       sdmmc_io_write_1 T f0 (reg + 1) (word_of_int (b div 2 ^ 8));
       upd_fn p (\<lambda>f. f\<lparr>sf_cur_blklen := b\<rparr>) } } }"

definition sdmmc_io_function_ready :: "('h, 'z) slot_chip \<Rightarrow> nat \<Rightarrow> (('h, 'z) sdmmc_scheme, bool) state" where
  "sdmmc_io_function_ready T p = do {
     f0 \<leftarrow> fetch sc_fn0;
     num \<leftarrow> fetch (\<lambda>s. sf_number (fn_at s p));
     if num = 0 then ret True else do {
       rv \<leftarrow> sdmmc_io_read_1 T f0 SD_IO_CCCR_FN_READY;
       ret (bit rv (nat num)) } }"

definition sdmmc_io_function_disable :: "('h, 'z) slot_chip \<Rightarrow> nat \<Rightarrow> (('h, 'z) sdmmc_scheme, unit) state" where
  "sdmmc_io_function_disable T p = do {
     f0 \<leftarrow> fetch sc_fn0;
     num \<leftarrow> fetch (\<lambda>s. sf_number (fn_at s p));
     if num = 0 then ret () else do {
       rv \<leftarrow> sdmmc_io_read_1 T f0 SD_IO_CCCR_FN_ENABLE;
       sdmmc_io_write_1 T f0 SD_IO_CCCR_FN_ENABLE (unset_bit (nat num) rv) } }"

section \<open>Function drivers\<close>

text \<open>\<open>found p\<close> is \<open>config_found_sm\<close> for the function \<open>p\<close>, True when it returns a device.\<close>

definition sdmmc_io_attach ::
    "(nat \<Rightarrow> (('h, 'z) sdmmc_scheme, bool) state) \<Rightarrow> (('h, 'z) sdmmc_scheme, unit) state" where
  "sdmmc_io_attach found = do {
     ps \<leftarrow> fetch sf_head;
     run_all (map (\<lambda>p. do {
       num \<leftarrow> fetch (\<lambda>s. sf_number (fn_at s p));
       if num < 1 then ret () else do {
         c \<leftarrow> found p;
         upd_fn p (\<lambda>f. f\<lparr>sf_child := c\<rparr>) } }) ps) }"

definition sdmmc_io_detach ::
    "(nat \<Rightarrow> (('h, 'z) sdmmc_scheme, unit res) state) \<Rightarrow> (('h, 'z) sdmmc_scheme, unit) state" where
  "sdmmc_io_detach detach = do {
     ps \<leftarrow> fetch sf_head;
     run_all (map (\<lambda>p. do {
       c \<leftarrow> fetch (\<lambda>s. sf_child (fn_at s p));
       if \<not> c then ret () else do {
         _ \<leftarrow> detach p;
         upd_fn p (\<lambda>f. f\<lparr>sf_child := False\<rparr>) } }) ps) }"

section \<open>Card interrupts\<close>

definition intr_mask_bit :: "('h, 'z) slot_chip \<Rightarrow> nat option \<Rightarrow> bool \<Rightarrow> (('h, 'z) sdmmc_scheme, unit) state" where
  "intr_mask_bit T sf on = do {
     f0 \<leftarrow> fetch sc_fn0;
     num \<leftarrow> fetch (\<lambda>s. io_number s sf);
     imask \<leftarrow> sdmmc_io_read_1 T f0 SD_IO_CCCR_INT_ENABLE;
     sdmmc_io_write_1 T f0 SD_IO_CCCR_INT_ENABLE
       (if on then set_bit (nat num) imask else unset_bit (nat num) imask) }"

definition sdmmc_intr_enable :: "('h, 'z) slot_chip \<Rightarrow> nat option \<Rightarrow> (('h, 'z) sdmmc_scheme, unit) state" where
  "sdmmc_intr_enable T sf = intr_mask_bit T sf True"

definition sdmmc_intr_disable :: "('h, 'z) slot_chip \<Rightarrow> nat option \<Rightarrow> (('h, 'z) sdmmc_scheme, unit) state" where
  "sdmmc_intr_disable T sf = intr_mask_bit T sf False"

text \<open>The handler is the address of its structure, 0 when it is refused.\<close>

definition sdmmc_intr_establish ::
    "'h platform \<Rightarrow> ('h, 'z) slot_chip \<Rightarrow> nat \<Rightarrow> (('h, 'z) sdmmc_scheme, u64) state" where
  "sdmmc_intr_establish P T handler = (case chip_card_intr_mask T of
     None \<Rightarrow> ret 0
   | Some mask_fn \<Rightarrow> do {
       ih \<leftarrow> call_hw (\<lambda>h. km_alloc P h 48);
       if ih = 0 then ret 0 else do {
         splhigh;
         q \<leftarrow> fetch sc_intrq;
         (if q = [] then do {
            f0 \<leftarrow> fetch sc_fn0;
            sdmmc_intr_enable T f0;
            mask_fn True } else ret ());
         modify (\<lambda>s. s\<lparr>sc_intrq := sc_intrq s @ [(ih, handler)]\<rparr>);
         splx;
         ret ih } })"

definition sdmmc_intr_disestablish ::
    "'h platform \<Rightarrow> ('h, 'z) slot_chip \<Rightarrow> u64 \<Rightarrow> (('h, 'z) sdmmc_scheme, unit) state" where
  "sdmmc_intr_disestablish P T ih = (case chip_card_intr_mask T of
     None \<Rightarrow> ret ()
   | Some mask_fn \<Rightarrow> do {
       splhigh;
       modify (\<lambda>s. s\<lparr>sc_intrq := filter (\<lambda>e. fst e \<noteq> ih) (sc_intrq s)\<rparr>);
       q \<leftarrow> fetch sc_intrq;
       (if q = [] then do {
          mask_fn False;
          f0 \<leftarrow> fetch sc_fn0;
          sdmmc_intr_disable T f0 } else ret ());
       splx;
       exec_hw (\<lambda>h. km_free P h ih 48) })"

definition sdmmc_card_intr :: "('h, 'z) slot_chip \<Rightarrow> (('h, 'z) sdmmc_scheme, unit) state" where
  "sdmmc_card_intr T = (case chip_card_intr_mask T of
     None \<Rightarrow> ret ()
   | Some _ \<Rightarrow> do {
       p \<leftarrow> fetch (sdmmc_task_pending IntrTask);
       if \<not> p then sdmmc_add_task IntrTask else ret () })"

text \<open>\<open>run_handler\<close> calls the function of a handler with its argument.\<close>

definition sdmmc_intr_task ::
    "('h, 'z) slot_chip \<Rightarrow> (nat \<Rightarrow> (('h, 'z) sdmmc_scheme, unit) state) \<Rightarrow> (('h, 'z) sdmmc_scheme, unit) state" where
  "sdmmc_intr_task T run_handler = do {
     splhigh;
     q \<leftarrow> fetch sc_intrq;
     run_all (map (\<lambda>e. do { splx; run_handler (snd e); splhigh }) q);
     (case chip_card_intr_ack T of
        None \<Rightarrow> modify (\<lambda>s. s\<lparr>sc_panic := True\<rparr>)
      | Some ack \<Rightarrow> ack);
     splx }"

end
