(* ===== verification/Slot.thy ===== *)
theory Slot
  imports SdmmcIo
begin

text \<open>
  The life of a card in the slot (sdmmc.c): enabling, scanning and initialising it, its
  attachment and detachment, the discovery task and the task thread, and the attachment,
  detachment and suspension of the slot itself.
\<close>

section \<open>What hangs below the slot\<close>

text \<open>
  The drivers attached to a card: the block device (\<open>sdmmc_scsi_attach\<close> and
  \<open>sdmmc_scsi_detach\<close> of compat/openbsd.cpp) and the drivers of I/O functions.
\<close>

record 's drivers =
  scsi_attach :: "('s, unit) state"
  scsi_detach :: "('s, unit) state"
  io_found :: "nat \<Rightarrow> ('s, bool) state"
  io_release :: "nat \<Rightarrow> ('s, unit res) state"

type_synonym ('h, 'z) slot_drivers = "('h, 'z) sdmmc_scheme drivers"

section \<open>Enabling a card\<close>

definition sdmmc_disable :: "('h, 'z) slot_chip \<Rightarrow> (('h, 'z) sdmmc_scheme, unit) state" where
  "sdmmc_disable T = do {
     _ \<leftarrow> sdmmc_select_card T None;
     _ \<leftarrow> chip_bus_clock T SDMMC_SDCLK_OFF SDMMC_TIMING_LEGACY;
     _ \<leftarrow> chip_bus_power T 0;
     ret () }"

definition sdmmc_enable ::
    "'h platform \<Rightarrow> ('h, 'z) slot_chip \<Rightarrow> (('h, 'z) sdmmc_scheme, unit res) state" where
  "sdmmc_enable P T = do {
     host_ocr \<leftarrow> chip_host_ocr T;
     e \<leftarrow> chk (chip_bus_power T host_ocr) (\<lambda>_.
           chk (chip_bus_clock T SDMMC_SDCLK_400KHZ SDMMC_TIMING_LEGACY) (\<lambda>_. do {
             delay P 250000;
             modify (\<lambda>s. s\<lparr>sc_flags := setf (sc_flags s) (SMF_SD_MODE OR SMF_MEM_MODE)\<rparr>);
             fl \<leftarrow> fetch sc_flags;
             if isset fl SMF_MEM_MODE then sdmmc_mem_enable P T else ret OK }));
     (if e \<noteq> OK then sdmmc_disable T else ret ());
     ret e }"

definition sdmmc_scan :: "('h, 'z) slot_chip \<Rightarrow> (('h, 'z) sdmmc_scheme, unit res) state" where
  "sdmmc_scan T = do {
     fl \<leftarrow> fetch sc_flags;
     (if isset fl SMF_IO_MODE then sdmmc_io_scan T else ret ());
     fl2 \<leftarrow> fetch sc_flags;
     (if isset fl2 SMF_MEM_MODE then sdmmc_mem_scan T else ret ());
     ps \<leftarrow> fetch sf_head;
     ret (if ps = [] then Inl E1 else OK) }"

text \<open>The first loop of \<open>sdmmc_init\<close>; failures are only logged.\<close>

fun init_loop ::
    "nat \<Rightarrow> 'h platform \<Rightarrow> ('h, 'z) slot_chip \<Rightarrow> nat list \<Rightarrow> (('h, 'z) sdmmc_scheme, unit option) state" where
  "init_loop n P T [] = ret (Some ())"
| "init_loop n P T (p # ps) = do {
     fl \<leftarrow> fetch sc_flags;
     obind (if isset fl SMF_IO_MODE then sdmmc_io_init n T p else ret (Some OK)) (\<lambda>_. do {
       fl2 \<leftarrow> fetch sc_flags;
       _ \<leftarrow> (if isset fl2 SMF_MEM_MODE then sdmmc_mem_init P T p else ret OK);
       init_loop n P T ps }) }"

definition usable :: "('h, 'z) sdmmc_scheme \<Rightarrow> nat \<Rightarrow> bool" where
  "usable s p \<longleftrightarrow> \<not> isset (sf_flags (fn_at s p)) SFF_ERROR"

definition sdmmc_init ::
    "nat \<Rightarrow> 'h platform \<Rightarrow> ('h, 'z) slot_chip \<Rightarrow> (('h, 'z) sdmmc_scheme, unit res option) state" where
  "sdmmc_init n P T = do {
     ps \<leftarrow> fetch sf_head;
     obind (init_loop n P T ps) (\<lambda>_. do {
       good \<leftarrow> fetch (\<lambda>s. list_ex (usable s) (sf_head s));
       ret (Some (if good then OK else Inl E1)) }) }"

section \<open>Attaching and detaching a card\<close>

definition detach_drivers :: "('h, 'z) slot_drivers \<Rightarrow> (('h, 'z) sdmmc_scheme, unit) state" where
  "detach_drivers D = do {
     fl \<leftarrow> fetch sc_flags;
     (if isset fl SMF_CARD_ATTACHED then do {
        (if isset fl SMF_IO_MODE then sdmmc_io_detach (io_release D) else ret ());
        fl2 \<leftarrow> fetch sc_flags;
        (if isset fl2 SMF_MEM_MODE then scsi_detach D else ret ());
        modify (\<lambda>s. s\<lparr>sc_flags := clrf (sc_flags s) SMF_CARD_ATTACHED\<rparr>) }
      else ret ()) }"

definition sdmmc_card_detach ::
    "('h, 'z) slot_chip \<Rightarrow> ('h, 'z) slot_drivers \<Rightarrow> (('h, 'z) sdmmc_scheme, unit) state" where
  "sdmmc_card_detach T D = do {
     detach_drivers D;
     sdmmc_disable T;
     ps \<leftarrow> fetch sf_head;
     run_all (map sdmmc_function_free ps);
     modify (\<lambda>s. s\<lparr>sf_head := []\<rparr>);
     modify (\<lambda>s. s\<lparr>sc_function_count := 0\<rparr>);
     modify (\<lambda>s. s\<lparr>sc_fn0 := None\<rparr>) }"

definition sdmmc_card_attach ::
    "nat \<Rightarrow> 'h platform \<Rightarrow> ('h, 'z) slot_chip \<Rightarrow> ('h, 'z) slot_drivers
       \<Rightarrow> (('h, 'z) sdmmc_scheme, unit option) state" where
  "sdmmc_card_attach n P T D = do {
     rw_enter_write;
     modify (\<lambda>s. s\<lparr>sc_flags := clrf (sc_flags s) SMF_CARD_ATTACHED\<rparr>);
     e1 \<leftarrow> sdmmc_enable P T;
     e2 \<leftarrow> (if e1 \<noteq> OK then ret e1 else sdmmc_scan T);
     obind (if e2 \<noteq> OK then ret (Some e2) else sdmmc_init n P T) (\<lambda>e3.
       if e3 \<noteq> OK then do {
         sdmmc_card_detach T D;
         rw_exit;
         ret (Some ()) }
       else do {
         fl \<leftarrow> fetch sc_flags;
         (if isset fl SMF_MEM_MODE then scsi_attach D else ret ());
         fl2 \<leftarrow> fetch sc_flags;
         (if isset fl2 SMF_IO_MODE then sdmmc_io_attach (io_found D) else ret ());
         modify (\<lambda>s. s\<lparr>sc_flags := setf (sc_flags s) SMF_CARD_ATTACHED\<rparr>);
         rw_exit;
         ret (Some ()) }) }"

section \<open>The discovery task and the task thread\<close>

definition locked_detach ::
    "('h, 'z) slot_chip \<Rightarrow> ('h, 'z) slot_drivers \<Rightarrow> (('h, 'z) sdmmc_scheme, unit) state" where
  "locked_detach T D = do { rw_enter_write; sdmmc_card_detach T D; rw_exit }"

definition sdmmc_discover_task ::
    "nat \<Rightarrow> 'h platform \<Rightarrow> ('h, 'z) slot_chip \<Rightarrow> ('h, 'z) slot_drivers
       \<Rightarrow> (('h, 'z) sdmmc_scheme, unit option) state" where
  "sdmmc_discover_task n P T D = do {
     d \<leftarrow> chip_card_detect T;
     fl \<leftarrow> fetch sc_flags;
     obind
       (if d then
          if \<not> isset fl SMF_CARD_PRESENT then do {
            modify (\<lambda>s. s\<lparr>sc_flags := setf (sc_flags s) SMF_CARD_PRESENT\<rparr>);
            sdmmc_card_attach n P T D }
          else ret (Some ())
        else if isset fl SMF_CARD_PRESENT then do {
          modify (\<lambda>s. s\<lparr>sc_flags := clrf (sc_flags s) SMF_CARD_PRESENT\<rparr>);
          osome (locked_detach T D) }
        else ret (Some ()))
       (\<lambda>_. do {
         modify (\<lambda>s. if isset (sc_flags s) SMF_CONFIG_PENDING
                      then s\<lparr>sc_flags := clrf (sc_flags s) SMF_CONFIG_PENDING\<rparr> else s);
         ret (Some ()) }) }"

text \<open>The inner loop of the thread, at most \<open>n\<close> tasks; \<open>run\<close> is the function of a task.\<close>

fun run_tasks ::
    "nat \<Rightarrow> (task \<Rightarrow> (('h, 'z) sdmmc_scheme, unit option) state) \<Rightarrow> (('h, 'z) sdmmc_scheme, unit option) state" where
  "run_tasks 0 run = ret None"
| "run_tasks (Suc n) run = do {
     q \<leftarrow> fetch tskq;
     (case q of
        [] \<Rightarrow> ret (Some ())
      | t # _ \<Rightarrow> do {
          splx;
          sdmmc_del_task t;
          obind (run t) (\<lambda>_. do { splbio; run_tasks n run }) }) }"

text \<open>
  The outer loop, at most \<open>n\<close> rounds. \<open>other\<close> is what the rest of the system does while the
  thread sleeps in \<open>tsleep_nsec(\&sc->sc_tskq, ..., INFSLP)\<close>.
\<close>

fun thread_loop ::
    "nat \<Rightarrow> (task \<Rightarrow> (('h, 'z) sdmmc_scheme, unit option) state) \<Rightarrow> (('h, 'z) sdmmc_scheme, unit) state
       \<Rightarrow> (('h, 'z) sdmmc_scheme, unit option) state" where
  "thread_loop 0 run other = ret None"
| "thread_loop (Suc n) run other = do {
     d \<leftarrow> fetch sc_dying;
     if d \<noteq> 0 then ret (Some ())
     else obind (run_tasks n run) (\<lambda>_. do {
       splx;
       other;
       splbio;
       thread_loop n run other }) }"

text \<open>What follows the loop: the card is detached; True when the thread starts over.\<close>

definition thread_tail ::
    "('h, 'z) slot_chip \<Rightarrow> ('h, 'z) slot_drivers \<Rightarrow> (('h, 'z) sdmmc_scheme, bool) state" where
  "thread_tail T D = do {
     fl \<leftarrow> fetch sc_flags;
     (if isset fl SMF_CARD_PRESENT then locked_detach T D else ret ());
     d \<leftarrow> fetch sc_dying;
     if d = - 1 then do {
       modify (\<lambda>s. s\<lparr>sc_flags := clrf (sc_flags s) SMF_CARD_PRESENT\<rparr>);
       modify (\<lambda>s. s\<lparr>sc_dying := 0\<rparr>);
       ret True }
     else do {
       modify (\<lambda>s. s\<lparr>sc_task_thread := False\<rparr>);
       ret False } }"

fun sdmmc_task_thread ::
    "nat \<Rightarrow> ('h, 'z) slot_chip \<Rightarrow> ('h, 'z) slot_drivers
       \<Rightarrow> (task \<Rightarrow> (('h, 'z) sdmmc_scheme, unit option) state) \<Rightarrow> (('h, 'z) sdmmc_scheme, unit) state
       \<Rightarrow> (('h, 'z) sdmmc_scheme, unit option) state" where
  "sdmmc_task_thread 0 T D run other = ret None"
| "sdmmc_task_thread (Suc n) T D run other = do {
     sdmmc_needs_discover;
     splbio;
     obind (thread_loop n run other) (\<lambda>_. do {
       splx;
       again \<leftarrow> thread_tail T D;
       if again then sdmmc_task_thread n T D run other else ret (Some ()) }) }"

section \<open>The slot as a device\<close>

text \<open>
  kthread.cpp. \<open>start\<close> is \<open>kernel_thread_start\<close> with its status, 0 on success; the structure with
  the function and the argument of the thread is allocated first, and freed by the thread or, when
  it cannot be started, by the creator. \<open>newpp\<close> is the store through the pointer of that name.
\<close>

definition kthread_create ::
    "'h platform \<Rightarrow> ('h \<Rightarrow> int \<times> 'h) \<Rightarrow> (('h, 'z) sdmmc_scheme \<Rightarrow> ('h, 'z) sdmmc_scheme)
       \<Rightarrow> (('h, 'z) sdmmc_scheme, unit res) state" where
  "kthread_create P start newpp = do {
     myArg \<leftarrow> call_hw (\<lambda>h. km_alloc P h 16);
     if myArg = 0 then ret (Inl ENOMEM) else do {
       r \<leftarrow> call_hw start;
       if r \<noteq> 0 then do { exec_hw (\<lambda>h. km_free P h myArg 16); ret (Inl (EKern r)) }
       else do { modify newpp; ret OK } } }"

text \<open>The body of the new thread: \<open>func\<close> is its function applied to its argument.\<close>

definition my_thread_continue ::
    "'h platform \<Rightarrow> u64 \<Rightarrow> (('h, 'z) sdmmc_scheme, unit option) state \<Rightarrow> (('h, 'z) sdmmc_scheme, unit option) state" where
  "my_thread_continue P myArg func =
     (if myArg = 0 then ret (Some ()) else do { exec_hw (\<lambda>h. km_free P h myArg 16); func })"

definition kthread_create_deferred :: "('s, unit) state \<Rightarrow> ('s, unit) state" where
  "kthread_create_deferred func = func"

definition sdmmc_create_thread ::
    "'h platform \<Rightarrow> ('h \<Rightarrow> int \<times> 'h) \<Rightarrow> (('h, 'z) sdmmc_scheme, unit) state" where
  "sdmmc_create_thread P start = do {
     _ \<leftarrow> kthread_create P start (\<lambda>s. s\<lparr>sc_task_thread := True\<rparr>);
     ret () }"

definition sdmmc_attach ::
    "'h platform \<Rightarrow> ('h \<Rightarrow> int \<times> 'h) \<Rightarrow> u64 \<Rightarrow> u32 \<Rightarrow> u32 \<Rightarrow> int \<Rightarrow> int
       \<Rightarrow> (('h, 'z) sdmmc_scheme, unit) state" where
  "sdmmc_attach P start dmap flags caps max_seg max_xfer = do {
     modify (\<lambda>s. s\<lparr>sc_dmap := dmap, sc_flags := flags, sc_caps := caps,
       sc_max_seg := (if max_seg \<noteq> 0 then max_seg else MAXPHYS P), sc_max_xfer := max_xfer\<rparr>);
     ms \<leftarrow> fetch sc_max_seg;
     r \<leftarrow> (if isset caps SMC_CAPS_DMA \<and> dmap = 0
           then bus_dmamap_create P (word_of_int (MAXPHYS P)) (SDMMC_MAXNSEGS P) (word_of_int ms) 0 1
           else ret (Inr dmap));
     (case r of
        Inl _ \<Rightarrow> ret ()
      | Inr p \<Rightarrow> do {
          modify (\<lambda>s. s\<lparr>sc_dmap := p\<rparr>);
          modify (\<lambda>s. s\<lparr>sf_head := [], tskq := [], sc_intrq := []\<rparr>);
          sdmmc_init_task DiscoverTask;
          sdmmc_init_task IntrTask;
          modify (\<lambda>s. s\<lparr>sc_lock := 0\<rparr>);
          modify (\<lambda>s. s\<lparr>sc_flags := setf (sc_flags s) SMF_CONFIG_PENDING\<rparr>);
          kthread_create_deferred (sdmmc_create_thread P start) }) }"

text \<open>
  \<open>sdmmc_detach\<close>: every round wakes the thread up and sleeps; \<open>other\<close> is what happens
  during the sleep.
\<close>

fun detach_wait ::
    "nat \<Rightarrow> (('h, 'z) sdmmc_scheme, unit) state \<Rightarrow> (('h, 'z) sdmmc_scheme, unit option) state" where
  "detach_wait 0 other = ret None"
| "detach_wait (Suc n) other = do {
     t \<leftarrow> fetch sc_task_thread;
     if \<not> t then ret (Some ()) else do {
       modify (\<lambda>s. s\<lparr>tskq_wakeups := Suc (tskq_wakeups s)\<rparr>);
       other;
       detach_wait n other } }"

definition sdmmc_detach ::
    "nat \<Rightarrow> 'h platform \<Rightarrow> (('h, 'z) sdmmc_scheme, unit) state \<Rightarrow> (('h, 'z) sdmmc_scheme, unit res option) state" where
  "sdmmc_detach n P other = do {
     modify (\<lambda>s. s\<lparr>sc_dying := 1\<rparr>);
     obind (detach_wait n other) (\<lambda>_. do {
       dm \<leftarrow> fetch sc_dmap;
       (if dm \<noteq> 0 then bus_dmamap_destroy P dm else ret ());
       ret (Some OK) }) }"

text \<open>\<open>sdmmc_activate\<close>; \<open>config_activate_children\<close> does nothing for the slot and returns 0.\<close>

definition sdmmc_activate :: "dvact \<Rightarrow> (('h, 'z) sdmmc_scheme, unit res) state" where
  "sdmmc_activate act = do {
     (case act of
        DVACT_SUSPEND \<Rightarrow> modify (\<lambda>s.
          if isset (sc_flags s) SMF_CARD_PRESENT \<and> \<not> isset (sc_caps s) SMC_CAPS_NONREMOVABLE
          then s\<lparr>sc_dying := - 1\<rparr> else s)
      | DVACT_RESUME \<Rightarrow> modify (\<lambda>s. s\<lparr>tskq_wakeups := Suc (tskq_wakeups s)\<rparr>)
      | _ \<Rightarrow> ret ());
     ret OK }"

end
