(* ===== verification/SlotFrame.thy ===== *)
theory SlotFrame
  imports Slot
begin

text \<open>
  What the operations of the slot leave alone. \<open>mem_frame\<close> is a view of the state that is
  not affected by the contents of function structures, \<open>sel_frame\<close> one that is not affected
  by the selection of a card either; the
  lemmas, proved once for every host controller inside \<open>sdmmc_chip\<close>, show that the
  operations on memory cards keep every such view.
\<close>

section \<open>Views\<close>

lemma slot_partD: "slot_part f \<Longrightarrow> outer s = outer s' \<Longrightarrow> f s = f s'"
  unfolding slot_part_def by blast

definition mem_frame :: "(('h, 'z) sdmmc_scheme \<Rightarrow> 'b) \<Rightarrow> bool" where
  "mem_frame f \<longleftrightarrow> slot_part f
     \<and> (\<forall>s g p. f (s\<lparr>sfs := (sfs s)(p := map_option g (sfs s p))\<rparr>) = f s)
     \<and> (\<forall>s x. f (s\<lparr>sc_panic := x\<rparr>) = f s)"

definition sel_frame :: "(('h, 'z) sdmmc_scheme \<Rightarrow> 'b) \<Rightarrow> bool" where
  "sel_frame f \<longleftrightarrow> mem_frame f \<and> (\<forall>s x. f (s\<lparr>sc_card := x\<rparr>) = f s)"

text \<open>What the transfer of blocks leaves alone: everything but the selected card.\<close>

definition card_frame :: "(('h, 'z) sdmmc_scheme \<Rightarrow> 'b) \<Rightarrow> bool" where
  "card_frame f \<longleftrightarrow> slot_part f \<and> (\<forall>s x. f (s\<lparr>sc_card := x\<rparr>) = f s) \<and> (\<forall>s x. f (s\<lparr>sc_panic := x\<rparr>) = f s)"

lemma card_frameD:
  assumes "card_frame f"
  shows "slot_part f" "f (s\<lparr>sc_card := x\<rparr>) = f s" "f (s\<lparr>sc_panic := y\<rparr>) = f s"
  using assms unfolding card_frame_def by blast+

lemma mem_frame_slot [simp]: "mem_frame f \<Longrightarrow> slot_part f"
  unfolding mem_frame_def by blast

lemma mem_frameD:
  assumes "mem_frame f"
  shows "f (s\<lparr>sfs := (sfs s)(p := map_option g (sfs s p))\<rparr>) = f s"
    "f (s\<lparr>sc_panic := y\<rparr>) = f s"
  using assms unfolding mem_frame_def by blast+

lemma sel_frameD:
  assumes "sel_frame f"
  shows "mem_frame f" "slot_part f" "f (s\<lparr>sc_card := x\<rparr>) = f s" "card_frame f"
  using assms unfolding sel_frame_def card_frame_def mem_frame_def by blast+

lemma sel_card_frame [simp]: "sel_frame f \<Longrightarrow> card_frame f"
  by (rule sel_frameD)

text \<open>The objects of the slot without their contents.\<close>

definition skel :: "('h, 'z) sdmmc_scheme \<Rightarrow> nat list \<times> nat option \<times> nat \<times> nat set" where
  "skel s = (sf_head s, sc_fn0 s, sf_next s, dom (sfs s))"

lemma slot_part_fields [simp]:
  "slot_part sc_flags" "slot_part sc_caps" "slot_part sc_card" "slot_part sc_fn0" "slot_part sf_head"
  "slot_part sfs" "slot_part sf_next" "slot_part sc_lock" "slot_part sc_dying" "slot_part sc_panic"
  "slot_part sc_dmap" "slot_part sdmmc.more"
  unfolding slot_part_def by (intro allI impI; erule slot_fields)+

lemma slot_part_skel [simp]: "slot_part skel"
  unfolding slot_part_def
proof (intro allI impI)
  fix s s' :: "('h, 'z) sdmmc_scheme"
  assume "outer s = outer s'"
  note slot_fields [OF this]
  then show "skel s = skel s'" by (simp add: skel_def)
qed

lemma dom_upd_option [simp]: "dom (m(p := map_option g (m p))) = dom m"
  by (auto simp: dom_def)

lemma mem_frame_fields [simp]:
  "mem_frame sc_flags" "mem_frame sc_caps" "mem_frame sc_fn0" "mem_frame sf_head" "mem_frame sf_next"
  "mem_frame sc_lock" "mem_frame sc_dying" "mem_frame sc_dmap" "mem_frame skel" "mem_frame sc_card"
  unfolding mem_frame_def by (intro conjI allI; auto simp: skel_def)+

lemma sel_frame_fields [simp]:
  "sel_frame sc_flags" "sel_frame sc_caps" "sel_frame sc_fn0" "sel_frame sf_head" "sel_frame sf_next"
  "sel_frame sc_lock" "sel_frame sc_dying" "sel_frame sc_dmap" "sel_frame skel"
  unfolding sel_frame_def by (intro conjI allI; simp add: skel_def)+

text \<open>The operations below the slot keep every part of it.\<close>

lemma slot_hw [keeps]:
  assumes "slot_part f"
  shows "keeps f (exec_hw g)" "keeps f (call_hw k)" "keeps f (delay P n)" "keeps f (IOSleep P n)"
    "keeps f splbio" "keeps f splhigh" "keeps f splx"
  by (rule keeps_slot_part [OF _ assms], intro keeps, simp?)+

lemma slot_dma [keeps]:
  assumes "slot_part f"
  shows "keeps f (bus_dmamap_load P p buf len)" "keeps f (bus_dmamap_unload P p)" "keeps f bus_dmamap_sync"
    "keeps f (bus_dmamap_create P sz n ms b fl)" "keeps f (bus_dmamap_destroy P p)"
  by (rule keeps_slot_part [OF more_dmamap(3) assms] keeps_slot_part [OF more_dmamap(4) assms]
      keeps_slot_part [OF more_dmamap(5) assms] keeps_slot_part [OF more_dmamap(1) assms]
      keeps_slot_part [OF more_dmamap(2) assms])+

lemma slot_needs_discover [keeps]: "slot_part f \<Longrightarrow> keeps f sdmmc_needs_discover"
  by (rule keeps_slot_part [OF more_needs_discover])

lemma keeps_upd_fn [keeps]: "mem_frame f \<Longrightarrow> keeps f (upd_fn p g)"
  unfolding upd_fn_def by (intro keeps_modify) (rule mem_frameD)

lemma keeps_panic [keeps]: "mem_frame f \<Longrightarrow> keeps f (modify (\<lambda>s. s\<lparr>sc_panic := y\<rparr>))"
  by (intro keeps_modify mem_frameD)

lemma keeps_card_panic: "card_frame f \<Longrightarrow> keeps f (modify (\<lambda>s. s\<lparr>sc_panic := y\<rparr>))"
  by (intro keeps_modify card_frameD)

lemma keeps_set_card [keeps]: "card_frame f \<Longrightarrow> keeps f (modify (\<lambda>s. s\<lparr>sc_card := x\<rparr>))"
  by (intro keeps_modify card_frameD)

lemma keeps_upd_csd [keeps]:
  assumes "mem_frame f"
  shows "keeps f (upd_csd p g)" "keeps f (upd_cid p k)"
  unfolding upd_csd_def upd_cid_def by (intro keeps assms)+

lemma keeps_c_div [keeps]: "card_frame f \<Longrightarrow> keeps f (c_div a b)"
  unfolding c_div_def by (intro keeps_bind keeps_if keeps_card_panic keeps_return)

lemma keeps_decode_cid [keeps]: "mem_frame f \<Longrightarrow> keeps f (sdmmc_decode_cid resp p)"
  unfolding sdmmc_decode_cid_def by (intro keeps)

lemma keeps_decode_scr [keeps]: "mem_frame f \<Longrightarrow> keeps f (sdmmc_mem_decode_scr raw p)"
  unfolding sdmmc_mem_decode_scr_def by (intro keeps)

section \<open>Commands\<close>

context sdmmc_chip begin

lemma slot_chip [keeps]:
  assumes "slot_part f"
  shows "keeps f (chip_host_ocr T)" "keeps f (chip_card_detect T)" "keeps f (chip_bus_power T ocr)"
    "keeps f (chip_bus_clock T fr tm)" "keeps f (chip_bus_width T w)" "keeps f (chip_exec_command T cmd)"
  using assms by (auto intro: keeps_slot_part more_ocr more_detect more_power more_clock more_width more_exec)

lemma keeps_maxblklen [keeps]: "keeps f (chip_host_maxblklen T)"
  by (simp add: keeps_def maxblklen)

lemma keeps_get_status [keeps]: "slot_part f \<Longrightarrow> keeps f (get_status T)"
  unfolding get_status_def by (intro keeps)

lemma keeps_mmc_command [keeps]: "slot_part f \<Longrightarrow> keeps f (sdmmc_mmc_command T cmd)"
  unfolding sdmmc_mmc_command_def sdmmc_dump_command_def by (intro keeps)

lemma keeps_app_command [keeps]: "slot_part f \<Longrightarrow> keeps f (sdmmc_app_command T cmd)"
  unfolding sdmmc_app_command_def by (intro keeps)

lemma keeps_go_idle [keeps]: "slot_part f \<Longrightarrow> keeps f (sdmmc_go_idle_state P T)"
  unfolding sdmmc_go_idle_state_def by (intro keeps)

lemma keeps_send_if_cond [keeps]: "slot_part f \<Longrightarrow> keeps f (sdmmc_send_if_cond T ocr)"
  unfolding sdmmc_send_if_cond_def by (intro keeps)

lemma keeps_set_bus_power [keeps]: "slot_part f \<Longrightarrow> keeps f (sdmmc_set_bus_power T a b)"
  unfolding sdmmc_set_bus_power_def by (intro keeps)

lemma keeps_set_relative_addr [keeps]: "mem_frame f \<Longrightarrow> keeps f (sdmmc_set_relative_addr T p)"
  unfolding sdmmc_set_relative_addr_def by (intro keeps; simp)

lemma keeps_select_card [keeps]: "card_frame f \<Longrightarrow> keeps f (sdmmc_select_card T sf)"
  unfolding sdmmc_select_card_def by (intro keeps card_frameD(1); assumption)

section \<open>Memory cards\<close>

lemma keeps_op_cond [keeps]: "slot_part f \<Longrightarrow> keeps f (sdmmc_mem_send_op_cond P T ocr)"
proof -
  assume f: "slot_part f"
  have "keeps f (op_cond_loop n P T ocr)" for n
  proof (induction n)
    case (Suc n)
    then show ?case unfolding op_cond_loop.simps op_cond_round_def using f by (intro keeps)
  qed (simp add: keeps_return)
  then show ?thesis by (simp add: sdmmc_mem_send_op_cond_def)
qed

lemma keeps_decode_csd [keeps]: "mem_frame f \<Longrightarrow> keeps f (sdmmc_decode_csd T resp p)"
  unfolding sdmmc_decode_csd_def by (intro keeps)

lemma keeps_read_csd [keeps]: "mem_frame f \<Longrightarrow> keeps f (read_csd T p)"
  unfolding read_csd_def by (intro keeps; simp)

lemma keeps_mem_data [keeps]:
  assumes "slot_part f"
  shows "keeps f (sdmmc_mem_send_scr P T scr)"
  "keeps f (sdmmc_mem_send_cxd_data P T opcode n)"
  "keeps f (sdmmc_mem_sd_switch P T p mode grp func status)"
  "keeps f (sdmmc_mem_set_bus_width T w)"
  "keeps f (sdmmc_mem_mmc_switch T a b c)"
  "keeps f (sdmmc_mem_set_blocklen T p)"
  unfolding sdmmc_mem_send_scr_def sdmmc_mem_send_cxd_data_def sdmmc_mem_sd_switch_def
    sdmmc_mem_set_bus_width_def sdmmc_mem_mmc_switch_def sdmmc_mem_set_blocklen_def
  by (intro keeps assms)+

lemma keeps_sd_init [keeps]: "mem_frame f \<Longrightarrow> keeps f (sdmmc_mem_sd_init P T p)"
  unfolding sdmmc_mem_sd_init_def sd_high_speed_def by (intro keeps; simp)

lemma keeps_signal_voltage [keeps]:
  "mem_frame f \<Longrightarrow> chip_signal_voltage T = None \<Longrightarrow> keeps f (signal_voltage T v)"
  unfolding signal_voltage_def by (simp, intro keeps)

lemma keeps_mmc_init [keeps]:
  "mem_frame f \<Longrightarrow> chip_signal_voltage T = None \<Longrightarrow> keeps f (sdmmc_mem_mmc_init P T p)"
  unfolding sdmmc_mem_mmc_init_def mmc_init_ext_def mmc_ddr_def by (intro keeps; simp)

lemma keeps_mem_init [keeps]:
  "sel_frame f \<Longrightarrow> chip_signal_voltage T = None \<Longrightarrow> keeps f (sdmmc_mem_init P T p)"
  unfolding sdmmc_mem_init_def by (intro keeps sel_frameD(1,2,4); assumption)

section \<open>Transfers\<close>

lemma keeps_poll_ready [keeps]: "slot_part f \<Longrightarrow> keeps f (poll_ready n T rca)"
proof (induction n)
  case (Suc n)
  then show ?case unfolding poll_ready.simps by (intro keeps)
qed (simp add: keeps_return)

lemma keeps_data_command [keeps]: "card_frame f \<Longrightarrow> keeps f (data_command wr T p dm b a len)"
  unfolding data_command_def by (intro keeps card_frameD(1); assumption)

lemma keeps_stop [keeps]: "slot_part f \<Longrightarrow> keeps f (stop_multiple T m a)"
  unfolding stop_multiple_def by (intro keeps)

lemma keeps_read_subr [keeps]: "card_frame f \<Longrightarrow> keeps f (sdmmc_mem_read_block_subr n T p dm b a len)"
  unfolding sdmmc_mem_read_block_subr_def finish_read_def by (intro keeps card_frameD(1); assumption)

lemma keeps_write_subr [keeps]: "card_frame f \<Longrightarrow> keeps f (sdmmc_mem_write_block_subr n T p dm b a len)"
  unfolding sdmmc_mem_write_block_subr_def by (intro keeps card_frameD(1); assumption)

lemma keeps_single_blocks:
  assumes "\<And>b a l. keeps f (io b a l)"
  shows "keeps f (single_blocks k io p i b a)"
proof (induction k arbitrary: i)
  case (Suc k)
  then show ?case unfolding single_blocks.simps by (intro keeps assms)
qed (simp add: keeps_return)

lemma keeps_single [keeps]:
  assumes "card_frame f"
  shows "keeps f (sdmmc_mem_single_read_block n T p b a len)"
    "keeps f (sdmmc_mem_single_write_block n T p b a len)"
  unfolding sdmmc_mem_single_read_block_def sdmmc_mem_single_write_block_def
  by (intro keeps keeps_single_blocks card_frameD(1) [OF assms] assms)+

lemma keeps_with_dma:
  assumes "card_frame f" and "\<And>dm. keeps f (io dm)"
  shows "keeps f (with_dma P a len io)"
  unfolding with_dma_def by (intro keeps assms card_frameD(1) [OF assms(1)])

section \<open>Enabling and disabling\<close>

lemma keeps_disable [keeps]: "card_frame f \<Longrightarrow> keeps f (sdmmc_disable T)"
  unfolding sdmmc_disable_def by (intro keeps card_frameD(1); assumption)

lemma keeps_mem_read_ocr:
  assumes "slot_part f" and "\<And>s x. f (s\<lparr>sc_flags := x\<rparr>) = f s"
  shows "keeps f (mem_read_ocr n P T)"
proof (induction n)
  case 0
  show ?case
    by (subst mem_read_ocr.simps, simp only: less_nat_zero_code simp_thms if_False, intro keeps assms)
next
  case (Suc n)
  then show ?case by (subst mem_read_ocr.simps, simp only: diff_Suc_1, intro keeps assms)
qed

lemma keeps_mem_enable:
  assumes "slot_part f" and "\<And>s x. f (s\<lparr>sc_flags := x\<rparr>) = f s"
  shows "keeps f (sdmmc_mem_enable P T)"
  unfolding sdmmc_mem_enable_def by (intro keeps keeps_mem_read_ocr assms)

lemma keeps_enable:
  assumes "sel_frame f" and "\<And>s x. f (s\<lparr>sc_flags := x\<rparr>) = f s"
  shows "keeps f (sdmmc_enable P T)"
  unfolding sdmmc_enable_def by (intro keeps keeps_mem_enable sel_frameD(1,2,4) [OF assms(1)] assms)

end

end
