(* ===== verification/SlotInv.thy ===== *)
theory SlotInv
  imports SlotFrame
begin

text \<open>
  The invariant of a card slot: which function structures are allocated, what the pointers
  of the slot point to, and how the flags of the slot relate to them. It is kept by the
  discovery task and the task thread for every host controller and block driver that keep
  their contracts.
\<close>

section \<open>Well-formed slots\<close>

definition io_mode :: "('h, 'z) sdmmc_scheme \<Rightarrow> bool" where
  "io_mode s = isset (sc_flags s) SMF_IO_MODE"

definition slot_wf :: "('h, 'z) sdmmc_scheme \<Rightarrow> bool" where
  "slot_wf s \<longleftrightarrow> distinct (sf_head s) \<and> dom (sfs s) = set (sf_head s)
     \<and> (\<forall>p\<in>set (sf_head s). p < sf_next s)
     \<and> set_option (sc_fn0 s) \<subseteq> set (sf_head s) \<and> set_option (sc_card s) \<subseteq> set (sf_head s)
     \<and> \<not> io_mode s"

definition wf_at :: "nat list \<Rightarrow> ('h, 'z) sdmmc_scheme \<Rightarrow> bool" where
  "wf_at hs s \<longleftrightarrow> slot_wf s \<and> sf_head s = hs"

lemma wf_at_skel:
  "wf_at hs s \<longleftrightarrow> (\<exists>f0 nx. skel s = (hs, f0, nx, set hs) \<and> distinct hs \<and> (\<forall>p\<in>set hs. p < nx)
     \<and> set_option f0 \<subseteq> set hs) \<and> set_option (sc_card s) \<subseteq> set hs \<and> \<not> io_mode s"
  by (auto simp: wf_at_def slot_wf_def skel_def)

lemma sel_frame_io_mode [simp]: "sel_frame io_mode"
proof -
  have "slot_part io_mode"
    unfolding slot_part_def io_mode_def by (metis slot_fields(2))
  then show ?thesis by (simp add: sel_frame_def mem_frame_def io_mode_def)
qed

lemma mem_frame_io_mode [simp]: "mem_frame io_mode"
  using sel_frame_io_mode unfolding sel_frame_def by blast

lemma wf_frame: "keeps skel m \<Longrightarrow> keeps sc_card m \<Longrightarrow> keeps io_mode m \<Longrightarrow> preserves (wf_at hs) m"
  by (simp add: preserves_def keeps_def wf_at_skel)

text \<open>Changing flags of the slot other than the I/O mode.\<close>

lemma wf_flags:
  assumes "isset fl SMF_IO_MODE = isset (sc_flags s) SMF_IO_MODE"
  shows "wf_at hs (s\<lparr>sc_flags := fl\<rparr>) = wf_at hs s"
  using assms by (simp add: wf_at_skel skel_def io_mode_def)

lemma slot_wf_flags:
  "isset fl SMF_IO_MODE = isset (sc_flags s) SMF_IO_MODE \<Longrightarrow> slot_wf (s\<lparr>sc_flags := fl\<rparr>) = slot_wf s"
  by (simp add: slot_wf_def io_mode_def)

lemma wf_flags_change [preserves]:
  "a AND SMF_IO_MODE = 0 \<Longrightarrow> preserves (wf_at hs) (modify (\<lambda>s. s\<lparr>sc_flags := clrf (sc_flags s) a\<rparr>))"
  "a AND SMF_IO_MODE = 0 \<Longrightarrow> preserves (wf_at hs) (modify (\<lambda>s. s\<lparr>sc_flags := setf (sc_flags s) a\<rparr>))"
  by (intro preserves_modify; simp add: wf_flags isset_clrf_other isset_setf)+

lemma wf_frame_mem:
  assumes "\<And>f :: ('h, 'z) sdmmc_scheme \<Rightarrow> nat list \<times> nat option \<times> nat \<times> nat set. mem_frame f \<Longrightarrow> keeps f m"
    and "\<And>f :: ('h, 'z) sdmmc_scheme \<Rightarrow> nat option. mem_frame f \<Longrightarrow> keeps f m"
    and "\<And>f :: ('h, 'z) sdmmc_scheme \<Rightarrow> bool. mem_frame f \<Longrightarrow> keeps f m"
  shows "preserves (wf_at hs) (m :: (('h, 'z) sdmmc_scheme, 'a) state)"
  by (rule wf_frame) (simp_all add: assms)

text \<open>
  The part of the slot that decides what happens next: the lock, the thread and the flags
  that enabling, scanning and initialising a card do not touch.
\<close>

definition ctl :: "('h, 'z) sdmmc_scheme \<Rightarrow> int \<times> int \<times> bool \<times> bool \<times> bool \<times> bool \<times> bool" where
  "ctl s = (sc_lock s, sc_dying s, sc_task_thread s, isset (sc_flags s) SMF_CARD_PRESENT,
     isset (sc_flags s) SMF_CARD_ATTACHED, isset (sc_flags s) SMF_IO_MODE, isset (sc_flags s) SMF_CONFIG_PENDING)"

lemma sel_frame_ctl [simp]: "sel_frame ctl"
proof -
  have "slot_part ctl"
    unfolding slot_part_def
  proof (intro allI impI)
    fix s s' :: "('h, 'z) sdmmc_scheme"
    assume "outer s = outer s'"
    note slot_fields [OF this]
    then show "ctl s = ctl s'" by (simp add: ctl_def)
  qed
  then show ?thesis by (simp add: sel_frame_def mem_frame_def ctl_def)
qed

lemma mem_frame_ctl [simp]: "mem_frame ctl"
  using sel_frame_ctl unfolding sel_frame_def by blast

lemma ctl_simps [simp]:
  "ctl (s\<lparr>sfs := a\<rparr>) = ctl s" "ctl (s\<lparr>sf_next := b\<rparr>) = ctl s" "ctl (s\<lparr>sf_next := b, sfs := a\<rparr>) = ctl s" "ctl (s\<lparr>sf_head := c\<rparr>) = ctl s"
  "ctl (s\<lparr>sc_fn0 := d\<rparr>) = ctl s" "ctl (s\<lparr>sc_card := d\<rparr>) = ctl s" "ctl (s\<lparr>sc_function_count := k\<rparr>) = ctl s"
  by (simp_all add: ctl_def)

lemma ctl_flags:
  assumes "a AND SMF_CARD_PRESENT = 0" and "a AND SMF_CARD_ATTACHED = 0" and "a AND SMF_IO_MODE = 0" and "a AND SMF_CONFIG_PENDING = 0"
  shows "keeps ctl (modify (\<lambda>s. s\<lparr>sc_flags := clrf (sc_flags s) a\<rparr>))"
    "keeps ctl (modify (\<lambda>s. s\<lparr>sc_flags := setf (sc_flags s) a\<rparr>))"
  using assms by (auto intro!: keeps_modify simp: ctl_def isset_clrf_other isset_setf)

text \<open>A slot with one more structure \<open>p\<close> that is not on the list yet.\<close>

definition wf_plus :: "nat list \<Rightarrow> nat \<Rightarrow> ('h, 'z) sdmmc_scheme \<Rightarrow> bool" where
  "wf_plus hs p s \<longleftrightarrow> (\<exists>f0 nx. skel s = (hs, f0, nx, insert p (set hs)) \<and> p \<notin> set hs \<and> distinct hs
     \<and> (\<forall>q\<in>insert p (set hs). q < nx) \<and> set_option f0 \<subseteq> set hs)
     \<and> set_option (sc_card s) \<subseteq> set hs \<and> \<not> io_mode s"

lemma plus_frame: "keeps skel m \<Longrightarrow> keeps sc_card m \<Longrightarrow> keeps io_mode m \<Longrightarrow> preserves (wf_plus hs p) m"
  by (simp add: preserves_def keeps_def wf_plus_def)

lemma wf_free: "valid (wf_plus hs p) (sdmmc_function_free p) (\<lambda>_. wf_at hs)"
  unfolding sdmmc_function_free_def
  by (rule valid_modify) (auto simp: wf_plus_def wf_at_skel skel_def io_mode_def)

lemma wf_first: "valid (wf_plus hs p) (modify (\<lambda>s. s\<lparr>sc_fn0 := (if sc_fn0 s = None then Some p else sc_fn0 s)\<rparr>))
  (\<lambda>_ s. wf_at (hs @ [p]) (s\<lparr>sf_head := sf_head s @ [p]\<rparr>))"
  by (rule valid_modify) (auto simp: wf_plus_def wf_at_skel skel_def io_mode_def)

lemma slot_wf_at: "slot_wf s \<longleftrightarrow> wf_at (sf_head s) s"
  by (simp add: wf_at_def)

lemma preserves_slot_wf: "(\<And>hs. preserves (wf_at hs) m) \<Longrightarrow> preserves slot_wf m"
  unfolding preserves_def wf_at_def by blast

section \<open>The operations keep well-formed slots\<close>

context sdmmc_chip begin

lemma wf_select:
  assumes "set_option sf \<subseteq> set hs"
  shows "preserves (wf_at hs) (sdmmc_select_card T sf)"
proof (rule preservesI)
  fix s :: "('h, 'z) sdmmc_scheme" assume wf: "wf_at hs s"
  let ?s' = "snd (run_state (sdmmc_select_card T sf) s)"
  have "skel ?s' = skel s" "io_mode ?s' = io_mode s"
    by (rule keepsD [OF keeps_select_card], simp)+
  moreover have "sc_card ?s' = sf \<or> sc_card ?s' = sc_card s"
    unfolding sdmmc_select_card_def
    by (auto split: prod.split dest: keeps_run [OF keeps_mmc_command [OF slot_part_fields(3)]])
  ultimately show "wf_at hs ?s'" using wf assms by (auto simp: wf_at_skel)
qed

lemma wf_basic [preserves]:
  "preserves (wf_at hs) (chip_host_ocr T)" "preserves (wf_at hs) (chip_bus_power T ocr)"
  "preserves (wf_at hs) (chip_bus_clock T fr tm)" "preserves (wf_at hs) (chip_bus_width T w)"
  "preserves (wf_at hs) (chip_host_maxblklen T)" "preserves (wf_at hs) (sdmmc_mmc_command T cmd)"
  "preserves (wf_at hs) (delay P n)" "preserves (wf_at hs) (upd_fn p g)"
  by (rule wf_frame; intro keeps; simp)+

lemma wf_read_ocr: "preserves (wf_at hs) (mem_read_ocr n P T)"
proof (induction n)
  case 0
  have "preserves (wf_at hs) (sdmmc_mem_send_op_cond P T 0)" by (rule wf_frame; intro keeps; simp)
  then show ?case
    by (subst mem_read_ocr.simps, simp only: less_nat_zero_code simp_thms if_False, intro preserves; simp)
next
  case (Suc n)
  have "preserves (wf_at hs) (sdmmc_mem_send_op_cond P T 0)" by (rule wf_frame; intro keeps; simp)
  with Suc show ?case
    by (subst mem_read_ocr.simps, simp only: diff_Suc_1, intro preserves; simp)
qed

lemma wf_mem_enable [preserves]: "preserves (wf_at hs) (sdmmc_mem_enable P T)"
proof -
  have "preserves (wf_at hs) (sdmmc_mem_send_op_cond P T ocr)" "preserves (wf_at hs) (sdmmc_go_idle_state P T)"
    "preserves (wf_at hs) (sdmmc_set_bus_power T a b)" "preserves (wf_at hs) (sdmmc_send_if_cond T ocr)"
    "preserves (wf_at hs) (IOSleep P k)" for ocr a b k
    by (rule wf_frame; intro keeps; simp)+
  then show ?thesis
    unfolding sdmmc_mem_enable_def by (intro preserves wf_read_ocr; simp)
qed

lemma wf_disable [preserves]: "preserves (wf_at hs) (sdmmc_disable T)"
  unfolding sdmmc_disable_def by (intro preserves wf_select) simp

lemma wf_enable [preserves]: "preserves (wf_at hs) (sdmmc_enable P T)"
  unfolding sdmmc_enable_def by (intro preserves; simp)

lemma wf_mem_init:
  assumes "p \<in> set hs" and sv: "chip_signal_voltage T = None"
  shows "preserves (wf_at hs) (sdmmc_mem_init P T p)"
proof -
  have "preserves (wf_at hs) (sdmmc_mem_set_blocklen T p)" "preserves (wf_at hs) (sdmmc_mem_sd_init P T p)"
    by (rule wf_frame; intro keeps; simp)+
  moreover have "preserves (wf_at hs) (sdmmc_mem_mmc_init P T p)"
    by (rule wf_frame; rule keeps_mmc_init [OF _ sv]; simp)
  moreover have "preserves (wf_at hs) (sdmmc_select_card T (Some p))"
    using assms(1) by (intro wf_select) simp
  ultimately show ?thesis unfolding sdmmc_mem_init_def by (intro preserves)
qed

text \<open>Identification of the cards.\<close>

lemma wf_alloc: "valid (wf_at hs) (sdmmc_function_alloc T) (wf_plus hs)"
proof (rule validI)
  fix s p and s' :: "('h, 'z) sdmmc_scheme"
  assume wf: "wf_at hs s" and run: "run_state (sdmmc_function_alloc T) s = (p, s')"
  from run maxblklen have "p = sf_next s" "skel s' = (sf_head s, sc_fn0 s, Suc p, insert p (dom (sfs s)))"
    "sc_card s' = sc_card s" "io_mode s' = io_mode s"
    by (auto simp: sdmmc_function_alloc_def upd_fn_def skel_def io_mode_def)
  with wf show "wf_plus hs p s'" by (auto simp: wf_plus_def wf_at_skel skel_def)
qed

lemma wf_scan_loop: "valid (wf_at hs) (scan_loop n T) (\<lambda>_. slot_wf)"
proof (induction n arbitrary: hs)
  case 0
  then show ?case by (auto simp: valid_def wf_at_def)
next
  case (Suc n)
  have plus: "preserves (wf_plus hs p) (upd_fn p g)" "preserves (wf_plus hs p) (sdmmc_set_relative_addr T p)" for p g
    by (rule plus_frame; intro keeps; simp)+
  have free: "valid (wf_plus hs p) (sdmmc_function_free p) (\<lambda>_. slot_wf)" for p
    by (rule valid_post [OF wf_free]) (simp add: wf_at_def)
  have next_fn: "valid (\<lambda>s. wf_at (hs @ [p]) (s\<lparr>sf_head := sf_head s @ [p]\<rparr>))
    (do { modify (\<lambda>s. s\<lparr>sf_head := sf_head s @ [p]\<rparr>); scan_loop n T }) (\<lambda>_. slot_wf)" for p
    by (rule valid_bind [OF valid_modify Suc.IH])
  have stop: "valid (wf_at hs) (ret ()) (\<lambda>_. slot_wf)"
    by (rule valid_return) (simp add: wf_at_def)
  show ?case
    unfolding scan_loop.simps
    by (rule valid_bind [OF preserves_valid [OF wf_basic(6)]], rule valid_if [OF stop],
        rule valid_bind [OF valid_look],
        rule valid_bind [OF wf_alloc], rule valid_bind [OF preserves_valid [OF plus(1)]],
        rule valid_bind [OF preserves_valid [OF plus(1)]], rule valid_bind [OF preserves_valid [OF plus(2)]],
        rule valid_if [OF free], rule valid_bind [OF wf_first next_fn])
qed

text \<open>The rest of attaching a card.\<close>

lemma ctl_read_ocr: "keeps ctl (mem_read_ocr n P T)"
proof (induction n)
  case 0
  show ?case
    by (subst mem_read_ocr.simps, simp only: less_nat_zero_code simp_thms if_False,
        intro keeps ctl_flags; simp)
next
  case (Suc n)
  then show ?case by (subst mem_read_ocr.simps, simp only: diff_Suc_1, intro keeps ctl_flags; simp)
qed

lemma ctl_enable: "keeps ctl (sdmmc_enable P T)"
proof -
  have "keeps ctl (sdmmc_mem_enable P T)"
    unfolding sdmmc_mem_enable_def by (intro keeps ctl_flags ctl_read_ocr; simp)
  then show ?thesis
    unfolding sdmmc_enable_def by (intro keeps ctl_flags; simp)
qed

lemma ctl_alloc: "keeps ctl (sdmmc_function_alloc T)"
  unfolding sdmmc_function_alloc_def by (intro keeps; simp)

lemma ctl_scan_loop: "keeps ctl (scan_loop n T)"
proof (induction n)
  case (Suc n)
  then show ?case
    unfolding scan_loop.simps sdmmc_function_free_def
    by (intro keeps ctl_alloc; simp)
qed (simp add: keeps_return)

lemma wf_mem_scan: "valid (wf_at hs) (sdmmc_mem_scan T) (\<lambda>_. slot_wf)"
proof -
  have "preserves (wf_at hs') (run_all (map (read_csd T) ps))" for hs' ps
    by (intro preserves, clarsimp) (rule wf_frame; intro keeps; simp)
  then have "preserves slot_wf (run_all (map (read_csd T) ps))" for ps
    by (intro preserves_slot_wf)
  then show ?thesis
    unfolding sdmmc_mem_scan_def
    by (intro valid_bind [OF wf_scan_loop] valid_bind [OF valid_look] preserves_valid)
qed

lemma ctl_mem_scan: "keeps ctl (sdmmc_mem_scan T)"
  unfolding sdmmc_mem_scan_def by (intro keeps ctl_scan_loop; auto intro: keeps_read_csd)

end

text \<open>A slot without a card.\<close>

definition slot_clean :: "('h, 'z) sdmmc_scheme \<Rightarrow> bool" where
  "slot_clean s \<longleftrightarrow> sf_head s = [] \<and> sfs s = Map.empty \<and> sc_fn0 s = None \<and> sc_card s = None
     \<and> \<not> isset (sc_flags s) SMF_CARD_ATTACHED"

fun ctl_detached :: "int \<times> int \<times> bool \<times> bool \<times> bool \<times> bool \<times> bool \<Rightarrow> int \<times> int \<times> bool \<times> bool \<times> bool \<times> bool \<times> bool" where
  "ctl_detached (l, d, t, p, a, i, c) = (l, d, t, p, False, i, c)"

fun ctl_attached :: "int \<times> int \<times> bool \<times> bool \<times> bool \<times> bool \<times> bool \<Rightarrow> int \<times> int \<times> bool \<times> bool \<times> bool \<times> bool \<times> bool" where
  "ctl_attached (l, d, t, p, a, i, c) = (l, d, t, p, True, i, c)"

fun ctl_lock :: "int \<Rightarrow> int \<times> int \<times> bool \<times> bool \<times> bool \<times> bool \<times> bool \<Rightarrow> int \<times> int \<times> bool \<times> bool \<times> bool \<times> bool \<times> bool" where
  "ctl_lock k (l, d, t, p, a, i, c) = (l + k, d, t, p, a, i, c)"

lemma wf_lock: "slot_wf (s\<lparr>sc_lock := l\<rparr>) = slot_wf s" "slot_clean (s\<lparr>sc_lock := l\<rparr>) = slot_clean s"
  "usable (s\<lparr>sc_lock := l\<rparr>) = usable s"
  by (auto simp: slot_wf_def slot_clean_def io_mode_def usable_def fn_at_def)

lemma clean_wf: "slot_clean s \<Longrightarrow> \<not> io_mode s \<Longrightarrow> slot_wf s"
  by (simp add: slot_clean_def slot_wf_def)

lemma sfs_free_all:
  "run_state (run_all (map sdmmc_function_free ps)) s
    = ((), s\<lparr>sfs := (\<lambda>p. if p \<in> set ps then None else sfs s p)\<rparr>)"
  by (induction ps arbitrary: s) (auto simp: sdmmc_function_free_def fun_eq_iff intro!: arg_cong [where f = "\<lambda>m. _\<lparr>sfs := m\<rparr>"])

text \<open>
  The invariant between two tasks: the slot is well-formed and either a card with a usable
  function is attached and marked as present, or the slot is clean.
\<close>

definition slot_inv :: "('h, 'z) sdmmc_scheme \<Rightarrow> bool" where
  "slot_inv s \<longleftrightarrow> slot_wf s \<and>
     (if isset (sc_flags s) SMF_CARD_ATTACHED
      then isset (sc_flags s) SMF_CARD_PRESENT \<and> list_ex (usable s) (sf_head s) else slot_clean s)"

lemma slot_part_inv [simp]: "slot_part slot_inv"
  unfolding slot_part_def
proof (intro allI impI)
  fix s s' :: "('h, 'z) sdmmc_scheme"
  assume "outer s = outer s'"
  note slot_fields [OF this]
  then show "slot_inv s = slot_inv s'"
    by (simp add: slot_inv_def slot_wf_def slot_clean_def io_mode_def usable_def [abs_def] fn_at_def)
qed

lemma inv_lock: "slot_inv (s\<lparr>sc_lock := l\<rparr>) = slot_inv s"
  by (simp add: slot_inv_def wf_lock)

lemma inv_pending: "slot_inv (s\<lparr>sc_flags := clrf (sc_flags s) SMF_CONFIG_PENDING\<rparr>) = slot_inv s"
  by (simp add: slot_inv_def slot_wf_flags slot_clean_def isset_clrf_other usable_def [abs_def] fn_at_def)

lemma ctl_present_flag: "ctl s = ctl s' \<Longrightarrow> isset (sc_flags s) SMF_CARD_PRESENT = isset (sc_flags s') SMF_CARD_PRESENT"
  by (simp add: ctl_def)

lemma inv_hw:
  "preserves slot_inv (splbio :: (('h, 'z) sdmmc_scheme, unit) state)"
  "preserves slot_inv (splx :: (('h, 'z) sdmmc_scheme, unit) state)"
  "preserves slot_inv (sdmmc_del_task t :: (('h, 'z) sdmmc_scheme, unit) state)"
  "preserves slot_inv (sdmmc_needs_discover :: (('h, 'z) sdmmc_scheme, unit) state)"
proof -
  have "slot_inv (s\<lparr>tskq := q\<rparr>) = slot_inv s" for s :: "('h, 'z) sdmmc_scheme" and q
    by (simp add: slot_inv_def slot_wf_def slot_clean_def io_mode_def usable_def [abs_def] fn_at_def)
  moreover have "slot_inv (s\<lparr>onqueue := x\<rparr>) = slot_inv s" "slot_inv (s\<lparr>task_sc := x\<rparr>) = slot_inv s"
    for s :: "('h, 'z) sdmmc_scheme" and x
    by (simp_all add: slot_inv_def slot_wf_def slot_clean_def io_mode_def usable_def [abs_def] fn_at_def)
  ultimately have "keeps slot_inv (sdmmc_del_task t :: (('h, 'z) sdmmc_scheme, unit) state)"
    unfolding sdmmc_del_task_def by (intro keeps slot_hw slot_part_inv) simp_all
  then show "preserves slot_inv (sdmmc_del_task t :: (('h, 'z) sdmmc_scheme, unit) state)"
    by (rule keeps_pred)
  show "preserves slot_inv (splbio :: (('h, 'z) sdmmc_scheme, unit) state)"
    "preserves slot_inv (splx :: (('h, 'z) sdmmc_scheme, unit) state)"
    "preserves slot_inv (sdmmc_needs_discover :: (('h, 'z) sdmmc_scheme, unit) state)"
    by (rule keeps_pred, intro slot_hw slot_needs_discover slot_part_inv)+
qed

section \<open>The drivers below the slot\<close>

text \<open>
  The contract of the block driver: it changes neither the slot nor what its structures
  hold. Everything it owns lies beyond the fields of the slot.
\<close>

definition slot_view :: "('h, 'z) sdmmc_scheme
    \<Rightarrow> (nat list \<times> nat option \<times> nat option \<times> (nat \<Rightarrow> sdmmc_function option) \<times> nat) \<times> u32
      \<times> (int \<times> int \<times> bool \<times> bool \<times> bool \<times> bool \<times> bool)" where
  "slot_view s = ((sf_head s, sc_fn0 s, sc_card s, sfs s, sf_next s), sc_flags s, ctl s)"

locale slot_system = sdmmc_chip T maxblk
    for T :: "('h, 'z) sdmmc_scheme chip" and maxblk :: int +
  fixes D :: "('h, 'z) slot_drivers"
  assumes no_voltage: "chip_signal_voltage T = None"
    and attach_view: "keeps slot_view (scsi_attach D)"
    and detach_view: "keeps slot_view (scsi_detach D)"
begin

lemma view_slot:
  "slot_view s = slot_view s' \<Longrightarrow> slot_wf s = slot_wf s' \<and> ctl s = ctl s' \<and> sc_flags s = sc_flags s'
    \<and> sf_head s = sf_head s' \<and> usable s = usable s'"
  by (auto simp: slot_view_def slot_wf_def io_mode_def usable_def fn_at_def)

lemma wf_scan:
  assumes "run_state (sdmmc_scan T) s = (r, s')" and "slot_wf s"
  shows "slot_wf s' \<and> ctl s' = ctl s \<and> (r = OK \<longrightarrow> sf_head s' \<noteq> [])"
proof -
  have io: "\<not> isset (sc_flags s) SMF_IO_MODE" using assms(2) by (simp add: slot_wf_def io_mode_def)
  obtain u s1 where u: "run_state (sdmmc_mem_scan T) s = (u, s1)" by (cases "run_state (sdmmc_mem_scan T) s")
  have "slot_wf s1" using validD [OF wf_mem_scan u] assms(2) by (simp add: slot_wf_at)
  moreover have "ctl s1 = ctl s" by (rule keeps_run [OF ctl_mem_scan u])
  ultimately show ?thesis
    using assms io u by (auto simp: sdmmc_scan_def split: if_splits)
qed

lemma wf_init_loop:
  assumes "set ps \<subseteq> set hs"
  shows "valid (wf_at hs) (init_loop n P T ps) (\<lambda>r s. wf_at hs s \<and> r = Some ())"
  using assms
proof (induction ps)
  case Nil
  then show ?case by (auto simp: valid_def)
next
  case (Cons p ps)
  show ?case
  proof (rule validI)
    fix s r and s' :: "('h, 'z) sdmmc_scheme"
    assume wf: "wf_at hs s" and run: "run_state (init_loop n P T (p # ps)) s = (r, s')"
    let ?m = "if isset (sc_flags s) SMF_MEM_MODE then sdmmc_mem_init P T p else ret OK"
    obtain e s1 where e: "run_state ?m s = (e, s1)" by (cases "run_state ?m s")
    have io: "\<not> isset (sc_flags s) SMF_IO_MODE" using wf by (simp add: wf_at_def slot_wf_def io_mode_def)
    have "preserves (wf_at hs) ?m"
      using Cons.prems by (intro preserves wf_mem_init no_voltage) simp
    from preserves_run [OF this e wf] have "wf_at hs s1" .
    moreover have "run_state (init_loop n P T ps) s1 = (r, s')"
      using run e io by (simp add: obind_def)
    moreover have "set ps \<subseteq> set hs" using Cons.prems by simp
    ultimately show "wf_at hs s' \<and> r = Some ()" by (blast dest: validD [OF Cons.IH])
  qed
qed

lemma ctl_mem_init: "keeps ctl (sdmmc_mem_init P T p)"
  by (rule keeps_mem_init [OF sel_frame_ctl no_voltage])

lemma ctl_init_loop:
  assumes "\<not> io_mode s" and "run_state (init_loop n P T ps) s = (r, s')"
  shows "ctl s' = ctl s"
  using assms
proof (induction ps arbitrary: s)
  case (Cons p ps)
  let ?m = "if isset (sc_flags s) SMF_MEM_MODE then sdmmc_mem_init P T p else ret OK"
  obtain e s1 where e: "run_state ?m s = (e, s1)" by (cases "run_state ?m s")
  have "keeps ctl ?m" by (intro keeps ctl_mem_init)
  from keeps_run [OF this e] have c: "ctl s1 = ctl s" .
  moreover from c Cons.prems(1) have "\<not> io_mode s1" by (simp add: ctl_def io_mode_def)
  moreover have "run_state (init_loop n P T ps) s1 = (r, s')"
    using Cons.prems e by (simp add: obind_def io_mode_def)
  ultimately show ?case using Cons.IH by simp
qed simp

lemma wf_init:
  assumes "run_state (sdmmc_init n P T) s = (r, s')" and "slot_wf s"
  shows "slot_wf s' \<and> ctl s' = ctl s \<and> (r = Some OK \<and> list_ex (usable s') (sf_head s') \<or> r = Some (Inl E1))"
proof -
  obtain x s1 where x: "run_state (init_loop n P T (sf_head s)) s = (x, s1)"
    by (cases "run_state (init_loop n P T (sf_head s)) s")
  have "wf_at (sf_head s) s1 \<and> x = Some ()"
    using assms(2) by (intro validD [OF wf_init_loop [OF order_refl] x]) (simp add: slot_wf_at)
  moreover have "ctl s1 = ctl s"
    using assms(2) by (intro ctl_init_loop [OF _ x]) (simp add: slot_wf_def)
  ultimately show ?thesis
    using assms(1) x by (auto simp: sdmmc_init_def obind_def wf_at_def split: if_splits)
qed

lemma disable_deselects:
  assumes "run_state (sdmmc_disable T) s = (u, s')"
  shows "sc_card s' = None"
proof -
  obtain e s1 where e: "run_state (sdmmc_select_card T None) s = (e, s1)"
    by (cases "run_state (sdmmc_select_card T None) s")
  have "sc_card s1 = None" using e by (auto simp: sdmmc_select_card_def split: prod.splits if_splits)
  moreover let ?m = "do { _ \<leftarrow> chip_bus_clock T SDMMC_SDCLK_OFF SDMMC_TIMING_LEGACY;
      _ \<leftarrow> chip_bus_power T 0; ret () }"
  have "keeps sc_card ?m" by (intro keeps) simp_all
  moreover have "run_state ?m s1 = (u, s')" using assms e by (simp add: sdmmc_disable_def)
  ultimately show ?thesis using keeps_run [of sc_card ?m s1 u s'] by simp
qed

lemma detach_drivers_run:
  assumes "slot_wf s" and "run_state (detach_drivers D) s = (u, s')"
  shows "wf_at (sf_head s) s' \<and> ctl s' = ctl_detached (ctl s)"
proof (cases "isset (sc_flags s) SMF_CARD_ATTACHED")
  case False
  with assms show ?thesis by (auto simp: detach_drivers_def slot_wf_at ctl_def)
next
  case True
  let ?d = "if isset (sc_flags s) SMF_MEM_MODE then scsi_detach D else ret ()"
  obtain v s1 where v: "run_state ?d s = (v, s1)" by (cases "run_state ?d s")
  have "keeps slot_view ?d" by (intro keeps detach_view)
  from keeps_run [OF this v] have eq: "slot_view s1 = slot_view s" .
  have s': "s' = s1\<lparr>sc_flags := clrf (sc_flags s1) SMF_CARD_ATTACHED\<rparr>"
    using assms True v by (auto simp: detach_drivers_def slot_wf_def io_mode_def)
  have "wf_at (sf_head s) s1" using view_slot [OF eq] assms(1) by (simp add: wf_at_def)
  then have "wf_at (sf_head s) s'" unfolding s' by (simp add: wf_flags isset_clrf_other)
  moreover have "ctl s' = ctl_detached (ctl s1)"
    by (simp add: s' ctl_def isset_clrf_other isset_clrf_same)
  ultimately show ?thesis using view_slot [OF eq] by simp
qed

lemma card_detach_clean:
  assumes "run_state (sdmmc_card_detach T D) s = (u, s')" and "slot_wf s"
  shows "slot_clean s' \<and> slot_wf s' \<and> ctl s' = ctl_detached (ctl s)"
proof -
  obtain v s1 where v: "run_state (detach_drivers D) s = (v, s1)" by (cases "run_state (detach_drivers D) s")
  note d = detach_drivers_run [OF assms(2) v]
  obtain w s2 where w: "run_state (sdmmc_disable T) s1 = (w, s2)" by (cases "run_state (sdmmc_disable T) s1")
  have wf2: "wf_at (sf_head s) s2" using preserves_run [OF wf_disable w] d by blast
  have c2: "ctl s2 = ctl_detached (ctl s)" using keeps_run [OF keeps_disable [OF sel_card_frame [OF sel_frame_ctl]] w] d by simp
  let ?sfs = "\<lambda>p. if p \<in> set (sf_head s) then None else sfs s2 p"
  have s': "s' = s2\<lparr>sfs := ?sfs, sf_head := [], sc_function_count := 0, sc_fn0 := None\<rparr>"
    using assms(1) v w wf2 unfolding sdmmc_card_detach_def
    by (auto simp: sfs_free_all wf_at_def)
  have "?sfs = Map.empty" using wf2 by (auto simp: wf_at_def slot_wf_def dom_def fun_eq_iff)
  moreover have "ctl s' = ctl s2" by (simp add: s' ctl_def)
  moreover have "\<not> isset (sc_flags s2) SMF_CARD_ATTACHED" using c2 by (simp add: ctl_def)
  moreover have "\<not> io_mode s2" using wf2 by (simp add: wf_at_def slot_wf_def)
  ultimately show ?thesis
    using c2 disable_deselects [OF w] by (auto simp: s' slot_clean_def io_mode_def slot_wf_def)
qed

lemma try_card:
  assumes "slot_wf s"
    and "run_state (sdmmc_enable P T) s = (e1, s1)"
    and "run_state (if e1 \<noteq> OK then ret e1 else sdmmc_scan T) s1 = (e2, s2)"
    and "run_state (if e2 \<noteq> OK then ret (Some e2) else sdmmc_init n P T) s2 = (e3, s3)"
  shows "slot_wf s3 \<and> ctl s3 = ctl s \<and> (\<exists>e. e3 = Some e \<and> (e = OK \<longrightarrow> list_ex (usable s3) (sf_head s3)))"
proof -
  have 1: "slot_wf s1" "ctl s1 = ctl s"
    using preserves_run [OF preserves_slot_wf [OF wf_enable] assms(2)] assms(1)
      keeps_run [OF ctl_enable assms(2)] by blast+
  then have 2: "slot_wf s2" "ctl s2 = ctl s"
    using assms(3) wf_scan by (fastforce split: if_splits)+
  show ?thesis
  proof (cases "e2 = OK")
    case True
    with assms(4) have "run_state (sdmmc_init n P T) s2 = (e3, s3)" by simp
    from wf_init [OF this 2(1)] 2 show ?thesis by auto
  next
    case False
    with assms(4) 2 show ?thesis by auto
  qed
qed

lemma card_attach_outcome:
  assumes "run_state (sdmmc_card_attach n P T D) s = (r, s')" and "slot_wf s"
  shows "r = Some () \<and> slot_wf s' \<and> (slot_clean s' \<and> ctl s' = ctl_detached (ctl s)
    \<or> list_ex (usable s') (sf_head s') \<and> ctl s' = ctl_attached (ctl s))"
proof -
  let ?s0 = "s\<lparr>sc_lock := sc_lock s + 1, sc_flags := clrf (sc_flags s) SMF_CARD_ATTACHED\<rparr>"
  have wf0: "slot_wf ?s0"
    using assms(2) slot_wf_flags [of "clrf (sc_flags s) SMF_CARD_ATTACHED" "s\<lparr>sc_lock := sc_lock s + 1\<rparr>"]
    by (simp add: wf_lock isset_clrf_other)
  have c0: "ctl ?s0 = ctl_lock 1 (ctl_detached (ctl s))"
    by (simp add: ctl_def isset_clrf_other isset_clrf_same)
  obtain e1 s1 where 1: "run_state (sdmmc_enable P T) ?s0 = (e1, s1)" by fastforce
  obtain e2 s2 where 2: "run_state (if e1 \<noteq> OK then ret e1 else sdmmc_scan T) s1 = (e2, s2)" by fastforce
  obtain e3 s3 where 3: "run_state (if e2 \<noteq> OK then ret (Some e2) else sdmmc_init n P T) s2 = (e3, s3)" by fastforce
  from try_card [OF wf0 1 2 3] obtain e where
    t: "slot_wf s3" "ctl s3 = ctl_lock 1 (ctl_detached (ctl s))" "e3 = Some e"
    "e = OK \<Longrightarrow> list_ex (usable s3) (sf_head s3)" using c0 by auto
  let ?fail = "do { sdmmc_card_detach T D; rw_exit; ret (Some ()) }"
  let ?good = "do { fl \<leftarrow> fetch sc_flags;
         (if isset fl SMF_MEM_MODE then scsi_attach D else ret ());
         fl2 \<leftarrow> fetch sc_flags;
         (if isset fl2 SMF_IO_MODE then sdmmc_io_attach (io_found D) else ret ());
         modify (\<lambda>s. s\<lparr>sc_flags := setf (sc_flags s) SMF_CARD_ATTACHED\<rparr>);
         rw_exit;
         ret (Some ()) }"
  have run: "run_state (if e \<noteq> OK then ?fail else ?good) s3 = (r, s')"
    using assms(1) 1 2 3 t(3) by (simp add: sdmmc_card_attach_def rw_enter_write_def obind_def)
  show ?thesis
  proof (cases "e = OK")
    case False
    obtain u s4 where u: "run_state (sdmmc_card_detach T D) s3 = (u, s4)"
      by (cases "run_state (sdmmc_card_detach T D) s3")
    have "r = Some ()" "s' = s4\<lparr>sc_lock := sc_lock s4 - 1\<rparr>"
      using run False u by (auto simp: rw_exit_def)
    with card_detach_clean [OF u t(1)] t(2) show ?thesis
      by (auto simp: wf_lock ctl_def)
  next
    case True
    let ?d = "if isset (sc_flags s3) SMF_MEM_MODE then scsi_attach D else ret ()"
    obtain v s4 where v: "run_state ?d s3 = (v, s4)" by (cases "run_state ?d s3")
    have "keeps slot_view ?d" by (intro keeps attach_view)
    note eq = view_slot [OF keeps_run [OF this v]]
    have io: "\<not> isset (sc_flags s4) SMF_IO_MODE" using eq t(1) by (auto simp: slot_wf_def io_mode_def)
    let ?s5 = "s4\<lparr>sc_flags := setf (sc_flags s4) SMF_CARD_ATTACHED\<rparr>"
    have s': "r = Some ()" "s' = ?s5\<lparr>sc_lock := sc_lock s4 - 1\<rparr>"
      using run True v io by (auto simp: rw_exit_def)
    have "slot_wf ?s5" using eq t(1) by (simp add: slot_wf_flags isset_setf)
    moreover have "list_ex (usable s') (sf_head s')"
      using eq t(4) True by (simp add: s' usable_def [abs_def] fn_at_def)
    moreover have "ctl s' = ctl_attached (ctl s)"
      using eq t(2) by (auto simp: s' ctl_def isset_setf)
    ultimately show ?thesis by (simp add: s' wf_lock)
  qed
qed

lemma locked_detach_inv:
  assumes "run_state (locked_detach T D) s = (u, s')" and "slot_wf s"
  shows "slot_clean s' \<and> slot_inv s' \<and> ctl s' = ctl_detached (ctl s)"
proof -
  let ?s0 = "s\<lparr>sc_lock := sc_lock s + 1\<rparr>"
  obtain v s1 where v: "run_state (sdmmc_card_detach T D) ?s0 = (v, s1)"
    by (cases "run_state (sdmmc_card_detach T D) ?s0")
  have s': "s' = s1\<lparr>sc_lock := sc_lock s1 - 1\<rparr>"
    using assms(1) v by (auto simp: locked_detach_def rw_enter_write_def rw_exit_def)
  have "slot_clean s1 \<and> slot_wf s1 \<and> ctl s1 = ctl_lock 1 (ctl_detached (ctl s))"
    using card_detach_clean [OF v] assms(2) by (simp add: wf_lock ctl_def)
  then show ?thesis
    by (auto simp: s' slot_inv_def wf_lock ctl_def)
qed

lemma discover_inv:
  assumes "run_state (sdmmc_discover_task n P T D) s = (r, s')" and "slot_inv s"
    and "run_state (chip_card_detect T) s = (present, s0)"
  shows "r = Some () \<and> slot_inv s' \<and> isset (sc_flags s') SMF_CARD_PRESENT = present
    \<and> \<not> isset (sc_flags s') SMF_CONFIG_PENDING \<and> sc_lock s' = sc_lock s \<and> sc_dying s' = sc_dying s"
proof -
  let ?m = "\<lambda>fl. if present then
          if \<not> isset fl SMF_CARD_PRESENT then do {
            modify (\<lambda>s. s\<lparr>sc_flags := setf (sc_flags s) SMF_CARD_PRESENT\<rparr>);
            sdmmc_card_attach n P T D }
          else ret (Some ())
        else if isset fl SMF_CARD_PRESENT then do {
          modify (\<lambda>s. s\<lparr>sc_flags := clrf (sc_flags s) SMF_CARD_PRESENT\<rparr>);
          osome (locked_detach T D) }
        else ret (Some ())"
  have inv0: "slot_inv s0" and c0: "ctl s0 = ctl s"
    using keeps_run [OF slot_chip(2) [OF slot_part_inv] assms(3)] assms(2)
      keeps_run [OF slot_chip(2) [OF sel_frameD(2) [OF sel_frame_ctl]] assms(3)] by auto
  obtain x s1 where x: "run_state (?m (sc_flags s0)) s0 = (x, s1)"
    by (cases "run_state (?m (sc_flags s0)) s0")
  have main: "x = Some () \<and> slot_inv s1 \<and> isset (sc_flags s1) SMF_CARD_PRESENT = present
    \<and> sc_lock s1 = sc_lock s0 \<and> sc_dying s1 = sc_dying s0"
  proof (cases "isset (sc_flags s0) SMF_CARD_PRESENT = present")
    case True
    with x inv0 show ?thesis by (auto split: if_splits)
  next
    case False
    show ?thesis
    proof (cases present)
      case True
      let ?s = "s0\<lparr>sc_flags := setf (sc_flags s0) SMF_CARD_PRESENT\<rparr>"
      have run: "run_state (sdmmc_card_attach n P T D) ?s = (x, s1)" using x False True by simp
      have "slot_wf ?s" using inv0 by (simp add: slot_inv_def slot_wf_flags isset_setf)
      note o = card_attach_outcome [OF run this]
      have "isset (sc_flags ?s) SMF_CARD_PRESENT" by (simp add: isset_setf)
      with o True show ?thesis
        by (auto simp: slot_inv_def ctl_def)
    next
      case absent: False
      let ?s = "s0\<lparr>sc_flags := clrf (sc_flags s0) SMF_CARD_PRESENT\<rparr>"
      obtain u where run: "run_state (locked_detach T D) ?s = (u, s1)" and u: "x = Some u"
        using x False absent by (auto simp: osome_def split: prod.splits)
      have "slot_wf ?s" using inv0 by (simp add: slot_inv_def slot_wf_flags isset_clrf_other)
      note o = locked_detach_inv [OF run this]
      have "\<not> isset (sc_flags ?s) SMF_CARD_PRESENT" by (simp add: isset_clrf_same)
      with o absent u show ?thesis by (auto simp: ctl_def)
    qed
  qed
  have s': "r = Some () \<and> s' = (if isset (sc_flags s1) SMF_CONFIG_PENDING
      then s1\<lparr>sc_flags := clrf (sc_flags s1) SMF_CONFIG_PENDING\<rparr> else s1)"
    using assms(1,3) x main by (auto simp: sdmmc_discover_task_def obind_def)
  then show ?thesis
    using main c0 by (auto simp: inv_pending isset_clrf_other isset_clrf_same ctl_def)
qed

text \<open>The task thread, for tasks and other threads that keep the invariant.\<close>

lemma run_tasks_inv: "(\<And>t. preserves slot_inv (run t)) \<Longrightarrow> preserves slot_inv (run_tasks n run)"
proof (induction n)
  case (Suc n)
  show ?case unfolding run_tasks.simps
    by (intro preserves_bind preserves_get preserves_return)
       (auto split: list.split intro!: preserves inv_hw Suc)
qed (simp add: preserves_return)

lemma thread_loop_inv:
  assumes "\<And>t. preserves slot_inv (run t)" and "preserves slot_inv other"
  shows "preserves slot_inv (thread_loop n run other)"
proof (induction n)
  case (Suc n)
  then show ?case unfolding thread_loop.simps by (intro preserves inv_hw run_tasks_inv assms)
qed (simp add: preserves_return)

lemma thread_tail_clean:
  assumes "run_state (thread_tail T D) s = (again, s')" and "slot_inv s"
  shows "slot_clean s' \<and> slot_inv s' \<and> (again \<or> \<not> sc_task_thread s')"
proof -
  let ?m = "if isset (sc_flags s) SMF_CARD_PRESENT then locked_detach T D else ret ()"
  obtain u s1 where u: "run_state ?m s = (u, s1)" by (cases "run_state ?m s")
  have c: "slot_clean s1 \<and> slot_inv s1"
  proof (cases "isset (sc_flags s) SMF_CARD_PRESENT")
    case True
    with u locked_detach_inv assms(2) show ?thesis by (auto simp: slot_inv_def)
  next
    case False
    with u assms(2) show ?thesis by (auto simp: slot_inv_def split: if_splits)
  qed
  have "s' = (if sc_dying s1 = - 1 then s1\<lparr>sc_flags := clrf (sc_flags s1) SMF_CARD_PRESENT, sc_dying := 0\<rparr>
      else s1\<lparr>sc_task_thread := False\<rparr>)" and "again = (sc_dying s1 = - 1)"
    using assms(1) u by (auto simp: thread_tail_def split: if_splits)
  with c show ?thesis
    by (auto simp: slot_inv_def slot_clean_def slot_wf_def io_mode_def isset_clrf_other)
qed

lemma task_thread_clean:
  assumes "\<And>t. preserves slot_inv (run t)" and "preserves slot_inv other"
    and "run_state (sdmmc_task_thread n T D run other) s = (Some (), s')" and "slot_inv s"
  shows "slot_clean s' \<and> slot_inv s' \<and> \<not> sc_task_thread s'"
  using assms(3,4)
proof (induction n arbitrary: s)
  case (Suc n)
  let ?m = "do { sdmmc_needs_discover; splbio; thread_loop n run other }"
  obtain x s1 where x: "run_state ?m s = (x, s1)" by (cases "run_state ?m s")
  have "preserves slot_inv ?m" by (intro preserves inv_hw thread_loop_inv assms(1,2))
  from preserves_run [OF this x] have 1: "slot_inv s1" using Suc.prems by simp
  have some: "x = Some ()"
    using Suc.prems(1) x by (cases x) (auto simp: obind_def split: prod.splits)
  obtain u s2 where u: "run_state splx s1 = (u, s2)" by (cases "run_state splx s1")
  have 2: "slot_inv s2" using preserves_run [OF inv_hw(2) u 1] .
  obtain again s3 where a: "run_state (thread_tail T D) s2 = (again, s3)" by (cases "run_state (thread_tail T D) s2")
  note c = thread_tail_clean [OF a 2]
  have "run_state (if again then sdmmc_task_thread n T D run other else ret (Some ())) s3 = (Some (), s')"
    using Suc.prems(1) x some u a by (auto simp: obind_def split: prod.splits)
  with c Suc.IH show ?case by (auto split: if_splits)
qed simp

end

end
