(* ===== verification/Config.thy ===== *)
theory Config
  imports SlotInv
begin

text \<open>
  The autoconfiguration emulation (compat/openbsd/config.cpp) as far as this driver uses it:
  the only device that is ever attached is the card slot below the controller.
\<close>

section \<open>State\<close>

text \<open>
  The slot as a device: the address of its memory, whether that memory is allocated, and
  \<open>DVF_ACTIVE\<close> of its \<open>dv_flags\<close>. The controller's pointer to it is \<open>sdmmc_attached\<close>, which
  stays set when the memory is freed.
\<close>

record 'h devtree = "'h sdmmc" +
  dev_mem :: u64
  dev_live :: bool
  dev_active :: bool

text \<open>The memory of a new slot is cleared.\<close>

definition zero_slot :: "('h, 'z) sdmmc_scheme \<Rightarrow> ('h, 'z) sdmmc_scheme" where
  "zero_slot s = s\<lparr>sc_dmap := 0, sc_flags := 0, sc_caps := 0, sc_function_count := 0, sc_card := None,
     sc_fn0 := None, sf_head := [], sc_dying := 0, sc_task_thread := False, sc_lock := 0, sc_max_seg := 0,
     sc_max_xfer := 0, sc_intrq := []\<rparr>"

section \<open>Finding a driver\<close>

text \<open>\<open>my_cfdata\<close>: the driver name of each entry, None for a null \<open>cf_attach\<close>.\<close>

definition my_cfdata :: "string option list" where
  "my_cfdata = [Some ''sdmmc'', None]"

definition sdmmc_match :: "string \<Rightarrow> string \<Rightarrow> bool" where
  "sdmmc_match cd_name saa_busname \<longleftrightarrow> saa_busname = cd_name"

fun search_from :: "nat \<Rightarrow> string option list \<Rightarrow> string \<Rightarrow> nat option" where
  "search_from i [] busname = None"
| "search_from i (None # es) busname = search_from (Suc i) es busname"
| "search_from i (Some name # es) busname =
     (if sdmmc_match name busname then Some i else search_from (Suc i) es busname)"

definition config_search :: "string \<Rightarrow> nat option" where
  "config_search busname = search_from 0 my_cfdata busname"

section \<open>Attaching and detaching\<close>

text \<open>
  \<open>config_attach\<close>, True when a device is returned; \<open>devsize\<close> is \<open>ca_devsize\<close> and \<open>attach\<close> the
  attach function with its arguments. What the attach function does cannot fail visibly.
\<close>

definition config_attach ::
    "'h platform \<Rightarrow> nat \<Rightarrow> (('h, 'z) devtree_scheme, unit) state \<Rightarrow> (('h, 'z) devtree_scheme, bool) state" where
  "config_attach P devsize attach = do {
     a \<leftarrow> call_hw (\<lambda>h. km_alloc P h devsize);
     if a = 0 then ret False else do {
       modify zero_slot;
       modify (\<lambda>s. s\<lparr>dev_mem := a, dev_live := True\<rparr>);
       modify (\<lambda>s. s\<lparr>dev_active := True\<rparr>);
       attach;
       ret True } }"

definition config_found_sm ::
    "'h platform \<Rightarrow> nat \<Rightarrow> (('h, 'z) devtree_scheme, unit) state \<Rightarrow> string
       \<Rightarrow> (('h, 'z) devtree_scheme, bool) state" where
  "config_found_sm P devsize attach busname =
     (case config_search busname of
        None \<Rightarrow> ret False
      | Some _ \<Rightarrow> config_attach P devsize attach)"

definition config_suspend :: "dvact \<Rightarrow> (('h, 'z) devtree_scheme, unit res) state" where
  "config_suspend act = sdmmc_activate act"

definition config_deactivate :: "(('h, 'z) devtree_scheme, unit res) state" where
  "config_deactivate = do {
     oflags \<leftarrow> fetch dev_active;
     if oflags then do {
       modify (\<lambda>s. s\<lparr>dev_active := False\<rparr>);
       rv \<leftarrow> config_suspend DVACT_DEACTIVATE;
       (if rv \<noteq> OK then modify (\<lambda>s. s\<lparr>dev_active := oflags\<rparr>) else ret ());
       ret rv }
     else ret OK }"

text \<open>
  \<open>config_detach\<close> of the slot; \<open>detach\<close> is its detach function, None when it does not return.
  The memory is freed whatever the result.
\<close>

definition config_detach ::
    "'h platform \<Rightarrow> nat \<Rightarrow> (('h, 'z) devtree_scheme, unit res option) state
       \<Rightarrow> (('h, 'z) devtree_scheme, unit res option) state" where
  "config_detach P devsize detach = do {
     dev \<leftarrow> fetch sdmmc_attached;
     if \<not> dev then ret (Some (Inl EINVAL)) else do {
       r \<leftarrow> config_deactivate;
       obind (if r = OK then detach else ret (Some r)) (\<lambda>rv. do {
         a \<leftarrow> fetch dev_mem;
         exec_hw (\<lambda>h. km_free P h a devsize);
         modify (\<lambda>s. s\<lparr>dev_live := False\<rparr>);
         ret (Some rv) }) } }"

text \<open>
  \<open>config_activate_children\<close> of the controller: the result of the slot is dropped. For the
  slot itself it does nothing.
\<close>

definition config_activate_children :: "dvact \<Rightarrow> (('h, 'z) devtree_scheme, unit res) state" where
  "config_activate_children act = do {
     a \<leftarrow> fetch sdmmc_attached;
     if \<not> a then ret (Inl ENOTSUP) else do {
       _ \<leftarrow> sdmmc_activate act;
       ret OK } }"

section \<open>Facts\<close>

lemma config_search_slot: "config_search ''sdmmc'' = Some 0"
  by (simp add: config_search_def my_cfdata_def sdmmc_match_def)

lemma config_search_other: "busname \<noteq> ''sdmmc'' \<Longrightarrow> config_search busname = None"
  by (simp add: config_search_def my_cfdata_def sdmmc_match_def)

lemma sdmmc_activate_ok: "fst (run_state (sdmmc_activate act) s) = OK"
  by (cases act) (simp_all add: sdmmc_activate_def)

end
