(* ===== verification/Disk.thy ===== *)
theory Disk
  imports Config
begin

text \<open>
  The block device of a card (SDDisk.cpp): its geometry, the queries of the storage stack,
  the asynchronous read and write requests and the task that serves them.
\<close>

section \<open>State\<close>

datatype io_direction = kIODirectionNone | kIODirectionIn | kIODirectionOut | kIODirectionInOut

datatype io_return =
    kIOReturnSuccess | kIOReturnNoMemory | kIOReturnIOError | kIOReturnBadArgument
  | kIOReturnNotAttached | kIOReturnNotWritable | kIOReturnUnsupported

text \<open>
  What the storage stack provides, a parameter of the model: the buffer descriptors, and
  whether the device has been terminated. The last field is the address of \<open>static_buffer\<close>.
\<close>

record 'h storage =
  st_inactive :: "'h \<Rightarrow> bool"                                 \<comment> \<open>IOService::isInactive\<close>
  st_direction :: "'h \<Rightarrow> u64 \<Rightarrow> io_direction"                 \<comment> \<open>getDirection\<close>
  st_write_bytes :: "'h \<Rightarrow> u64 \<Rightarrow> u64 \<Rightarrow> u64 \<Rightarrow> u64 \<Rightarrow> u64 \<times> 'h"  \<comment> \<open>writeBytes: descriptor, offset, buffer, length\<close>
  st_read_bytes :: "'h \<Rightarrow> u64 \<Rightarrow> u64 \<Rightarrow> u64 \<Rightarrow> u64 \<Rightarrow> u64 \<times> 'h"   \<comment> \<open>readBytes\<close>
  st_static_buffer :: u64

text \<open>
  \<open>struct BioArgs\<close>. The completion is the number of its target, None when it has no action;
  the storage stack always passes a completion structure.
\<close>

record bio =
  bio_buffer :: u64
  bio_direction :: io_direction
  bio_block :: u64
  bio_nblks :: u64
  bio_completion :: "nat option"

text \<open>
  The members of \<open>SDDisk\<close> and \<open>Sinetek_rtsx\<close>. \<open>bios\<close> holds the arguments of the requests
  whose task is \<open>DiskTask i\<close>, \<open>task_mem\<close> the requests whose task structure is allocated, and
  \<open>completions\<close> the calls of completion actions, latest last.
\<close>

record 'h disk = "'h devtree" +
  num_blocks :: u32
  blk_size :: u32
  card_is_write_protected :: bool
  disk_softc :: bool                   \<comment> \<open>\<open>sdmmc_softc_\<close> is not null\<close>
  disk_provider :: bool                \<comment> \<open>\<open>provider_\<close> is not null\<close>
  write_enabled :: bool
  sddisk :: "bool option"              \<comment> \<open>\<open>sddisk_\<close>: None is null, True when it is registered\<close>
  bios :: "nat \<Rightarrow> bio option"
  task_mem :: "nat set"
  next_task :: nat
  completions :: "(nat \<times> io_return \<times> u64) list"

section \<open>Buffers\<close>

abbreviation (input) disk_segs :: u64 where "disk_segs \<equiv> 4"

definition dma_alloc :: "'h platform \<Rightarrow> u64 \<Rightarrow> nat \<Rightarrow> (('h, 'z) disk_scheme, u64) state" where
  "dma_alloc P sz nsegs = do {
     r \<leftarrow> bus_dmamem_alloc P sz disk_segs nsegs;
     (case r of
        Inl _ \<Rightarrow> ret 0
      | Inr _ \<Rightarrow> do {
          m \<leftarrow> bus_dmamem_map P disk_segs;
          (case m of
             Inl _ \<Rightarrow> do { bus_dmamem_free P disk_segs; ret 0 }
           | Inr kva \<Rightarrow> ret kva) }) }"

definition dma_free :: "'h platform \<Rightarrow> u64 \<Rightarrow> (('h, 'z) disk_scheme, unit) state" where
  "dma_free P kva = do { bus_dmamem_unmap P kva; bus_dmamem_free P disk_segs }"

section \<open>Life of the device\<close>

definition SDDisk_init :: "bool \<Rightarrow> (('h, 'z) disk_scheme, unit) state" where
  "SDDisk_init sc_sdmmc = do {
     modify (\<lambda>s. s\<lparr>card_is_write_protected := True\<rparr>);
     modify (\<lambda>s. s\<lparr>disk_softc := sc_sdmmc\<rparr>) }"

text \<open>\<open>SDDisk::attach\<close>; \<open>wp\<close> is \<open>cardIsWriteProtected\<close> of the provider.\<close>

definition SDDisk_attach :: "(('h, 'z) disk_scheme, bool) state \<Rightarrow> (('h, 'z) disk_scheme, bool) state" where
  "SDDisk_attach wp = do {
     modify (\<lambda>s. s\<lparr>disk_provider := True\<rparr>);
     a \<leftarrow> fetch disk_softc;
     f0 \<leftarrow> fetch sc_fn0;
     (case f0 of
        None \<Rightarrow> ret False
      | Some p \<Rightarrow>
          if \<not> a then ret False else do {
            modify (\<lambda>s. s\<lparr>num_blocks := word_of_int (capacity (sf_csd (fn_at s p)))\<rparr>);
            modify (\<lambda>s. s\<lparr>blk_size := word_of_int (sector_size (sf_csd (fn_at s p)))\<rparr>);
            w \<leftarrow> wp;
            modify (\<lambda>s. s\<lparr>card_is_write_protected := w\<rparr>);
            ret True }) }"

definition SDDisk_detach :: "(('h, 'z) disk_scheme, unit) state" where
  "SDDisk_detach = modify (\<lambda>s. s\<lparr>disk_provider := False\<rparr>)"

section \<open>Queries\<close>

definition doEjectMedia :: "'h platform \<Rightarrow> (('h, 'z) disk_scheme, io_return) state" where
  "doEjectMedia P = do { rtsx_card_eject P; ret kIOReturnSuccess }"

definition doFormatMedia :: "u64 \<Rightarrow> io_return" where
  "doFormatMedia byteCapacity = kIOReturnSuccess"

definition GetBlockCount :: "('h, 'z) disk_scheme \<Rightarrow> u32" where
  "GetBlockCount s = num_blocks s"

text \<open>
  The number of formats and what is stored through \<open>capacities\<close>, None for nothing. The
  product is taken on 32 bits before it is widened.
\<close>

definition doGetFormatCapacities :: "bool \<Rightarrow> u32 \<Rightarrow> ('h, 'z) disk_scheme \<Rightarrow> u32 \<times> u64 option" where
  "doGetFormatCapacities given maxCount s =
     (if given \<and> maxCount < 1 then (0, None)
      else (1, if given then Some (ucast (GetBlockCount s * blk_size s)) else None))"

definition doLockUnlockMedia :: "bool \<Rightarrow> io_return" where
  "doLockUnlockMedia doLock = kIOReturnUnsupported"

definition doSynchronizeCache :: io_return where
  "doSynchronizeCache = kIOReturnSuccess"

definition reportBlockSize :: "('h, 'z) disk_scheme \<Rightarrow> io_return \<times> u64" where
  "reportBlockSize s = (kIOReturnSuccess, ucast (blk_size s))"

definition reportEjectability :: "io_return \<times> bool" where
  "reportEjectability = (kIOReturnSuccess, True)"

definition reportMaxValidBlock :: "('h, 'z) disk_scheme \<Rightarrow> io_return \<times> u64" where
  "reportMaxValidBlock s = (kIOReturnSuccess, ucast (num_blocks s - 1))"

definition reportMediaState :: "io_return \<times> bool \<times> bool" where
  "reportMediaState = (kIOReturnSuccess, True, False)"

definition reportPollRequirements :: "io_return \<times> bool \<times> bool" where
  "reportPollRequirements = (kIOReturnSuccess, False, False)"

definition reportRemovability :: "io_return \<times> bool" where
  "reportRemovability = (kIOReturnSuccess, True)"

definition reportWriteProtection :: "('h, 'z) disk_scheme \<Rightarrow> io_return \<times> bool" where
  "reportWriteProtection s = (kIOReturnSuccess, \<not> write_enabled s \<or> card_is_write_protected s)"

definition getWriteCacheState :: io_return where
  "getWriteCacheState = kIOReturnUnsupported"

definition setWriteCacheState :: "bool \<Rightarrow> io_return" where
  "setWriteCacheState enabled = kIOReturnUnsupported"

section \<open>Serving a request\<close>

abbreviation (input) maxSendBytes :: u64 where "maxSendBytes \<equiv> 131072"

type_synonym ('h, 'z) disk_chip = "('h, 'z) disk_scheme chip"

text \<open>
  One round of the loop: \<open>len\<close> bytes from or to the card, at most four attempts, through
  \<open>buf\<close>. Without function 0 the code would use a null pointer.
\<close>

definition send_chunk ::
    "nat \<Rightarrow> 'h platform \<Rightarrow> 'h storage \<Rightarrow> ('h, 'z) disk_chip \<Rightarrow> bio \<Rightarrow> u64 \<Rightarrow> int \<Rightarrow> u64 \<Rightarrow> u64
       \<Rightarrow> (('h, 'z) disk_scheme, unit res option) state" where
  "send_chunk n P S T args buf blocks len sent = do {
     f0 \<leftarrow> fetch sc_fn0;
     (case f0 of
        None \<Rightarrow> do { modify (\<lambda>s. s\<lparr>sc_panic := True\<rparr>); ret None }
      | Some p \<Rightarrow>
          if bio_direction args = kIODirectionIn then
            obind (run_with_retry (sdmmc_mem_read_block n P T p blocks buf (uint len)) 3) (\<lambda>e.
              if e \<noteq> OK then ret (Some e) else do {
                c \<leftarrow> call_hw (\<lambda>h. st_write_bytes S h (bio_buffer args) sent buf len);
                ret (Some (if c = 0 then Inl EIO else OK)) })
          else do {
            c \<leftarrow> call_hw (\<lambda>h. st_read_bytes S h (bio_buffer args) sent buf len);
            if c = 0 then ret (Some (Inl EIO))
            else run_with_retry (sdmmc_mem_write_block n P T p blocks buf (uint len)) 3 }) }"

lemma chunk_smaller:
  assumes "remaining \<noteq> (0 :: u64)"
  shows "unat (remaining - (if remaining > maxSendBytes then maxSendBytes else remaining)) < unat remaining"
proof (cases "remaining > maxSendBytes")
  case True
  then have "maxSendBytes \<le> remaining" by simp
  then show ?thesis using True by (simp add: unat_sub word_less_nat_alt)
next
  case False
  then show ?thesis using assms by (simp add: unat_gt_0)
qed

text \<open>The loop over the bytes that remain.\<close>

function send_loop ::
    "nat \<Rightarrow> 'h platform \<Rightarrow> 'h storage \<Rightarrow> ('h, 'z) disk_chip \<Rightarrow> bio \<Rightarrow> u64 \<Rightarrow> int \<Rightarrow> u64 \<Rightarrow> u64
       \<Rightarrow> (('h, 'z) disk_scheme, unit res option) state" where
  "send_loop n P S T args buf blocks remaining sent =
     (if remaining = 0 then ret (Some OK) else
      let len = (if remaining > maxSendBytes then maxSendBytes else remaining) in
      obind (send_chunk n P S T args buf blocks len sent) (\<lambda>e.
        if e \<noteq> OK then ret (Some e)
        else send_loop n P S T args buf (c_int (blocks + uint (len div 512))) (remaining - len) (sent + len)))"
  by pat_completeness auto

termination send_loop
  by (relation "measure (\<lambda>(n, P, S, T, args, buf, blocks, remaining, sent). unat remaining)")
     (use chunk_smaller in auto)

declare send_loop.simps [simp del]

text \<open>The end of the task: the completion action is called and the arguments are deleted.\<close>

definition complete_bio :: "nat \<Rightarrow> bio \<Rightarrow> u64 \<Rightarrow> unit res \<Rightarrow> (('h, 'z) disk_scheme, unit) state" where
  "complete_bio i args actual error = do {
     (case bio_completion args of
        None \<Rightarrow> ret ()
      | Some c \<Rightarrow> modify (\<lambda>s. s\<lparr>completions := completions s @
          [case error of
             Inr _ \<Rightarrow> (c, kIOReturnSuccess, actual)
           | Inl e \<Rightarrow> (c, if e = ENOMEM then kIOReturnNoMemory else kIOReturnIOError, 0)]\<rparr>));
     modify (\<lambda>s. s\<lparr>bios := (bios s)(i := None)\<rparr>) }"

text \<open>
  \<open>read_task_impl_\<close> on request \<open>i\<close>. The checks of the pointers return without completing the
  request; None when a command that waits for the card does not return.
\<close>

definition read_task_impl ::
    "nat \<Rightarrow> 'h platform \<Rightarrow> 'h storage \<Rightarrow> ('h, 'z) disk_chip \<Rightarrow> nat
       \<Rightarrow> (('h, 'z) disk_scheme, unit option) state" where
  "read_task_impl n P S T i = do {
     a \<leftarrow> fetch (\<lambda>s. bios s i);
     pr \<leftarrow> fetch (\<lambda>s. disk_provider s \<and> sdmmc_attached s \<and> sc_fn0 s \<noteq> None);
     (case a of
        None \<Rightarrow> ret (Some ())
      | Some args \<Rightarrow>
          if bio_buffer args = 0 \<or> \<not> pr then ret (Some ()) else do {
            bs \<leftarrow> fetch blk_size;
            na \<leftarrow> fetch no_adma;
            let actual = bio_nblks args * ucast bs in do {
            buf \<leftarrow> (if \<not> na then do {
                      modify (\<lambda>s. s\<lparr>seg_arrays := (seg_arrays s)(disk_segs := replicate (SDMMC_MAXNSEGS P) zero_segment)\<rparr>);
                      dma_alloc P (if actual > maxSendBytes then maxSendBytes else actual) (SDMMC_MAXNSEGS P) }
                    else ret (st_static_buffer S));
            if buf = 0 then osome (complete_bio i args actual (Inl ENOMEM))
            else obind (send_loop n P S T args buf (sint (ucast (bio_block args) :: u32)) (bio_nblks args * 512) 0)
              (\<lambda>error. do {
                (if \<not> na then dma_free P buf else ret ());
                osome (complete_bio i args actual error) }) } }) }"

section \<open>Requests\<close>

definition doAsyncReadWrite ::
    "'h platform \<Rightarrow> 'h storage \<Rightarrow> u64 \<Rightarrow> u64 \<Rightarrow> u64 \<Rightarrow> nat option \<Rightarrow> (('h, 'z) disk_scheme, io_return) state" where
  "doAsyncReadWrite P S buffer block nblks completion = do {
     inactive \<leftarrow> fetch (\<lambda>s. st_inactive S (hw s));
     direction \<leftarrow> fetch (\<lambda>s. st_direction S (hw s) buffer);
     we \<leftarrow> fetch write_enabled;
     nb \<leftarrow> fetch num_blocks;
     if inactive then ret kIOReturnNotAttached
     else if direction \<noteq> kIODirectionIn \<and> direction \<noteq> kIODirectionOut then ret kIOReturnBadArgument
     else if \<not> we \<and> direction = kIODirectionOut then ret kIOReturnNotWritable
     else if block + nblks > ucast nb then ret kIOReturnBadArgument
     else do {
       i \<leftarrow> fetch next_task;
       modify (\<lambda>s. s\<lparr>bios := (bios s)(i \<mapsto> \<lparr>bio_buffer = buffer, bio_direction = direction,
         bio_block = block, bio_nblks = nblks, bio_completion = completion\<rparr>), next_task := Suc i\<rparr>);
       a \<leftarrow> call_hw (\<lambda>h. km_alloc P h 48);
       if a = 0 then ret kIOReturnNoMemory else do {
         modify (\<lambda>s. s\<lparr>task_mem := insert i (task_mem s)\<rparr>);
         sdmmc_init_task (DiskTask i);
         sdmmc_add_task (DiskTask i);
         ret kIOReturnSuccess } } }"

end
