(* ===== verification/Driver.thy ===== *)
theory Driver
  imports Disk
begin

text \<open>
  The IOService of the driver (Sinetek_rtsx.cpp) and its connection to the OpenBSD code
  (compat/openbsd.cpp): attaching to the PCI device, interrupts, power states, the block
  device of a card, and the end of the driver.
\<close>

section \<open>State\<close>

abbreviation (input) RTSX_PCI_BAR :: u32 where "RTSX_PCI_BAR \<equiv> 0x10"
abbreviation (input) RTSX_PCI_BAR_525A :: u32 where "RTSX_PCI_BAR_525A \<equiv> 0x14"
abbreviation (input) PCI_PRODUCT_REALTEK_RTS5209 :: u16 where "PCI_PRODUCT_REALTEK_RTS5209 \<equiv> 0x5209"
abbreviation (input) PCI_PRODUCT_REALTEK_RTS5229 :: u16 where "PCI_PRODUCT_REALTEK_RTS5229 \<equiv> 0x5229"
abbreviation (input) PCI_PRODUCT_REALTEK_RTS5249 :: u16 where "PCI_PRODUCT_REALTEK_RTS5249 \<equiv> 0x5249"
abbreviation (input) PCI_PRODUCT_REALTEK_RTS525A :: u16 where "PCI_PRODUCT_REALTEK_RTS525A \<equiv> 0x525A"
abbreviation (input) RTSX_CFG_PCI :: u16 where "RTSX_CFG_PCI \<equiv> 0x1C"
abbreviation (input) RTSX_CFG_ASIC :: u16 where "RTSX_CFG_ASIC \<equiv> 0x10"

text \<open>The constants of the system: the offset of the device identifier and the type of a message interrupt.\<close>

abbreviation (input) kIOPCIConfigDeviceID :: u16 where "kIOPCIConfigDeviceID \<equiv> 0x02"
abbreviation (input) kIOInterruptTypePCIMessaged :: u32 where "kIOInterruptTypePCIMessaged \<equiv> 0x10000"

text \<open>
  What IOKit provides to the service, a parameter of the model: the PCI device, its
  interrupts, the boot arguments, and the start of a thread.
\<close>

record 'h pci =
  pci_config16 :: "'h \<Rightarrow> u16 \<Rightarrow> u16"              \<comment> \<open>extendedConfigRead16\<close>
  pci_bus_master :: "'h \<Rightarrow> 'h"                     \<comment> \<open>setBusMasterEnable(true)\<close>
  pci_map :: "'h \<Rightarrow> u32 \<Rightarrow> u64 \<times> 'h"               \<comment> \<open>mapDeviceMemoryWithRegister\<close>
  pci_descriptor :: "'h \<Rightarrow> u64 \<Rightarrow> u64"             \<comment> \<open>getMemoryDescriptor\<close>
  pci_intr_type :: "'h \<Rightarrow> nat \<Rightarrow> u32 option"       \<comment> \<open>getInterruptType\<close>
  pci_intr_source :: "'h \<Rightarrow> nat \<Rightarrow> bool \<times> 'h"      \<comment> \<open>filterInterruptEventSource\<close>
  boot_argn :: "string \<Rightarrow> u32 option"             \<comment> \<open>PE\_parse\_boot\_argn\<close>
  thread_start :: "'h \<Rightarrow> int \<times> 'h"                \<comment> \<open>kernel\_thread\_start: its status\<close>
  disk_alloc :: "'h \<Rightarrow> bool \<times> 'h"                 \<comment> \<open>OSTypeAlloc and init of the superclass\<close>
  softc_size :: nat                               \<comment> \<open>sizeof(struct sdmmc\_softc)\<close>

record 'h driver = "'h disk" +
  workloop :: bool
  pci_memory_map :: u64
  memory_descriptor :: u64
  intr_source :: bool
  compat_owner :: bool
  task_loop :: bool                    \<comment> \<open>the work loop of the tasks exists\<close>
  task_timer :: bool                   \<comment> \<open>\<open>task_execute_one_\<close>, its timer\<close>

section \<open>Starting\<close>

text \<open>
  \<open>Sinetek_rtsx::init\<close>: the boot arguments; an argument that is not given leaves the variable
  it is parsed into as it was.
\<close>

definition Sinetek_init :: "'h platform \<Rightarrow> 'h pci \<Rightarrow> (('h, 'z) driver_scheme, bool) state" where
  "Sinetek_init P I = do {
     a \<leftarrow> call_hw (\<lambda>h. km_alloc P h 1);
     if a = 0 then ret False else do {
       modify (\<lambda>s. s\<lparr>write_enabled := (boot_argn I ''-rtsx_ro'' = None)\<rparr>);
       modify (\<lambda>s. s\<lparr>mimic_linux := (boot_argn I ''-rtsx_mimic_linux'' \<noteq> None)\<rparr>);
       modify (\<lambda>s. s\<lparr>no_adma := (boot_argn I ''-rtsx_no_adma'' \<noteq> None)\<rparr>);
       modify (\<lambda>s. case boot_argn I ''rtsx_timeout_shift'' of
                     None \<Rightarrow> s | Some v \<Rightarrow> s\<lparr>timeout_shift := sint v\<rparr>);
       modify (\<lambda>s. case boot_argn I ''rtsx_sleep_wake_delay_ms'' of
                     None \<Rightarrow> s | Some v \<Rightarrow> s\<lparr>sleep_wake_delay_ms := unat v\<rparr>);
       ret True } }"

definition openbsd_compat_start :: "(('h, 'z) driver_scheme, unit res) state" where
  "openbsd_compat_start = do {
     o1 \<leftarrow> fetch compat_owner;
     if o1 then ret (Inl ENOTSUP) else do {
       modify (\<lambda>s. s\<lparr>compat_owner := True\<rparr>);
       ret OK } }"

definition openbsd_compat_stop :: "(('h, 'z) driver_scheme, unit) state" where
  "openbsd_compat_stop = modify (\<lambda>s. s\<lparr>compat_owner := False\<rparr>)"

text \<open>
  \<open>findMSI\<close>: the index of the first message interrupt, -1 at the first index without an
  interrupt; None when \<open>n\<close> indices did not decide.
\<close>

fun find_msi :: "nat \<Rightarrow> 'h pci \<Rightarrow> 'h \<Rightarrow> nat \<Rightarrow> int option" where
  "find_msi 0 I h index = None"
| "find_msi (Suc n) I h index =
     (case pci_intr_type I h index of
        None \<Rightarrow> Some (- 1)
      | Some ty \<Rightarrow> if isset ty kIOInterruptTypePCIMessaged then Some (int index) else find_msi n I h (Suc index))"

text \<open>The chip generation of a device.\<close>

definition device_flags :: "u16 \<Rightarrow> u32" where
  "device_flags device_id =
     (if device_id = PCI_PRODUCT_REALTEK_RTS5209 then RTSX_F_5209
      else if device_id = PCI_PRODUCT_REALTEK_RTS5229 \<or> device_id = PCI_PRODUCT_REALTEK_RTS5249 then RTSX_F_5229
      else if device_id = PCI_PRODUCT_REALTEK_RTS525A then RTSX_F_525A
      else 0)"

text \<open>The slot is found below the controller: attach arguments of \<open>rtsx_attach\<close>, the rest zero.\<close>

definition found_slot :: "'h platform \<Rightarrow> 'h pci \<Rightarrow> u32 \<Rightarrow> u32 \<Rightarrow> (('h, 'z) driver_scheme, bool) state" where
  "found_slot P I flags caps =
     config_found_sm P (softc_size I) (sdmmc_attach P (thread_start I) 0 flags caps 0 0) ''sdmmc''"

definition rtsx_pci_attach ::
    "nat \<Rightarrow> 'h platform \<Rightarrow> 'h pci \<Rightarrow> (('h, 'z) driver_scheme, unit option) state" where
  "rtsx_pci_attach n P I = do {
     c \<leftarrow> fetch (\<lambda>s. pci_config16 I (hw s) RTSX_CFG_PCI);
     if c AND RTSX_CFG_ASIC \<noteq> 0 then ret (Some ()) else do {
       exec_hw (pci_bus_master I);
       device_id \<leftarrow> fetch (\<lambda>s. pci_config16 I (hw s) kIOPCIConfigDeviceID);
       m \<leftarrow> call_hw (\<lambda>h. pci_map I h
              (if device_id = PCI_PRODUCT_REALTEK_RTS525A then RTSX_PCI_BAR_525A else RTSX_PCI_BAR));
       modify (\<lambda>s. s\<lparr>pci_memory_map := m\<rparr>);
       if m = 0 then ret (Some ()) else do {
         d \<leftarrow> fetch (\<lambda>s. pci_descriptor I (hw s) m);
         modify (\<lambda>s. s\<lparr>memory_descriptor := d\<rparr>);
         if d = 0 then ret (Some ()) else do {
           index \<leftarrow> fetch (\<lambda>s. find_msi n I (hw s) 0);
           (case index of
              None \<Rightarrow> ret None
            | Some k \<Rightarrow> do {
                src \<leftarrow> call_hw (\<lambda>h. pci_intr_source I h (if k < 0 then 0 else nat k));
                modify (\<lambda>s. s\<lparr>intr_source := src\<rparr>);
                if \<not> src then ret (Some ()) else do {
                  _ \<leftarrow> rtsx_attach P (found_slot P I) d (device_flags device_id);
                  ret (Some ()) } }) } } } }"

section \<open>Interrupts\<close>

definition Sinetek_READ4 :: "'h platform \<Rightarrow> u32 \<Rightarrow> (('h, 'z) driver_scheme, u32) state" where
  "Sinetek_READ4 P offset = do { d \<leftarrow> fetch memory_descriptor; bus_space_read_4 P d offset }"

text \<open>\<open>InterruptFilter\<close> decides in interrupt context whether the handler runs.\<close>

definition InterruptFilter :: "'h platform \<Rightarrow> (('h, 'z) driver_scheme, bool) state" where
  "InterruptFilter P = do {
     status \<leftarrow> Sinetek_READ4 P RTSX_BIPR;
     if status = 0 then ret False else do {
       bier \<leftarrow> Sinetek_READ4 P RTSX_BIER;
       ret (status AND bier \<noteq> 0) } }"

definition InterruptHandler :: "'h platform \<Rightarrow> (('h, 'z) driver_scheme, unit) state" where
  "InterruptHandler P = do { _ \<leftarrow> rtsx_intr P; ret () }"

section \<open>The block device of a card\<close>

definition cardEject :: "'h platform \<Rightarrow> (('h, 'z) driver_scheme, unit) state" where
  "cardEject P = rtsx_card_eject P"

definition cardIsWriteProtected :: "'h platform \<Rightarrow> (('h, 'z) driver_scheme, bool) state" where
  "cardIsWriteProtected P = do {
     d \<leftarrow> fetch memory_descriptor;
     bipr \<leftarrow> bus_space_read_4 P d RTSX_BIPR;
     ret (isset bipr RTSX_SD_WRITE_PROTECT) }"

definition writeEnabled :: "('h, 'z) driver_scheme \<Rightarrow> bool" where
  "writeEnabled s = write_enabled s"

text \<open>
  \<open>blk_attach\<close>: the new block device is registered even when its \<open>attach\<close> fails.
\<close>

definition blk_attach :: "'h platform \<Rightarrow> 'h pci \<Rightarrow> (('h, 'z) driver_scheme, unit) state" where
  "blk_attach P I = do {
     b \<leftarrow> call_hw (disk_alloc I);
     if \<not> b then modify (\<lambda>s. s\<lparr>sddisk := None\<rparr>) else do {
       modify (\<lambda>s. s\<lparr>sddisk := Some False\<rparr>);
       a \<leftarrow> fetch sdmmc_attached;
       SDDisk_init a;
       _ \<leftarrow> SDDisk_attach (cardIsWriteProtected P);
       modify (\<lambda>s. s\<lparr>sddisk := Some True\<rparr>) } }"

text \<open>\<open>blk_detach\<close>: termination detaches the block device from its provider.\<close>

definition blk_detach :: "(('h, 'z) driver_scheme, unit) state" where
  "blk_detach = do {
     d \<leftarrow> fetch sddisk;
     (case d of
        None \<Rightarrow> ret ()
      | Some _ \<Rightarrow> do { SDDisk_detach; modify (\<lambda>s. s\<lparr>sddisk := None\<rparr>) }) }"

definition sdmmc_scsi_attach :: "'h platform \<Rightarrow> 'h pci \<Rightarrow> (('h, 'z) driver_scheme, unit) state" where
  "sdmmc_scsi_attach P I = blk_attach P I"

definition sdmmc_scsi_detach :: "(('h, 'z) driver_scheme, unit) state" where
  "sdmmc_scsi_detach = blk_detach"

text \<open>The drivers of a card: the block device, and none for I/O functions.\<close>

definition card_drivers :: "'h platform \<Rightarrow> 'h pci \<Rightarrow> ('h, 'z) driver_scheme drivers" where
  "card_drivers P I = \<lparr>scsi_attach = sdmmc_scsi_attach P I, scsi_detach = sdmmc_scsi_detach,
     io_found = (\<lambda>_. ret False), io_release = (\<lambda>_. ret OK)\<rparr>"

section \<open>Running tasks\<close>

text \<open>
  The function of a task, as the slot's thread calls it. No driver establishes a handler of
  card interrupts.
\<close>

definition run_task ::
    "nat \<Rightarrow> 'h platform \<Rightarrow> 'h storage \<Rightarrow> 'h pci \<Rightarrow> task \<Rightarrow> (('h, 'z) driver_scheme, unit option) state" where
  "run_task n P S I t =
     (case t of
        DiscoverTask \<Rightarrow> sdmmc_discover_task n P (rtsx_functions P) (card_drivers P I)
      | IntrTask \<Rightarrow> osome (sdmmc_intr_task (rtsx_functions P) (\<lambda>_. ret ()))
      | DiskTask i \<Rightarrow> read_task_impl n P S (rtsx_functions P) i)"

text \<open>
  \<open>task_execute_one_impl_\<close>, at most \<open>k\<close> tasks. Unlike the thread of the slot it frees the
  task structure of a request.
\<close>

fun task_execute_one ::
    "nat \<Rightarrow> nat \<Rightarrow> 'h platform \<Rightarrow> 'h storage \<Rightarrow> 'h pci \<Rightarrow> (('h, 'z) driver_scheme, unit option) state" where
  "task_execute_one 0 n P S I = ret None"
| "task_execute_one (Suc k) n P S I = do {
     q \<leftarrow> fetch tskq;
     (case q of
        [] \<Rightarrow> ret (Some ())
      | t # _ \<Rightarrow> do {
          sdmmc_del_task t;
          obind (run_task n P S I t) (\<lambda>_. do {
            (case t of
               DiskTask i \<Rightarrow> modify (\<lambda>s. s\<lparr>task_mem := task_mem s - {i}\<rparr>)
             | _ \<Rightarrow> ret ());
            task_execute_one k n P S I }) }) }"

section \<open>Power states\<close>

datatype power_state = kPowerStateSleep | kPowerStateNormal | OtherPowerState

definition setPowerState :: "'h platform \<Rightarrow> power_state \<Rightarrow> (('h, 'z) driver_scheme, unit) state" where
  "setPowerState P ordinal = do {
     ms \<leftarrow> fetch sleep_wake_delay_ms;
     (case ordinal of
        kPowerStateSleep \<Rightarrow> do {
          IOSleep P ms;
          _ \<leftarrow> rtsx_activate P config_activate_children DVACT_SUSPEND;
          IOSleep P ms }
      | kPowerStateNormal \<Rightarrow> do {
          IOSleep P ms;
          _ \<leftarrow> rtsx_init P True;
          IOSleep P ms;
          _ \<leftarrow> rtsx_activate P config_activate_children DVACT_RESUME;
          ret () }
      | OtherPowerState \<Rightarrow> ret ()) }"

section \<open>Stopping\<close>

text \<open>
  \<open>rtsx_pci_detach\<close>: \<open>other\<close> is what happens while \<open>sdmmc_detach\<close> sleeps. The slot is freed
  before the interrupt source is removed.
\<close>

definition rtsx_pci_detach ::
    "nat \<Rightarrow> 'h platform \<Rightarrow> 'h pci \<Rightarrow> (('h, 'z) driver_scheme, unit) state \<Rightarrow> (('h, 'z) driver_scheme, unit option) state" where
  "rtsx_pci_detach n P I other =
     obind (config_detach P (softc_size I) (sdmmc_detach n P other)) (\<lambda>_. do {
       w \<leftarrow> fetch workloop;
       src \<leftarrow> fetch intr_source;
       (if \<not> w \<or> \<not> src then ret () else do {
          modify (\<lambda>s. s\<lparr>intr_source := False\<rparr>);
          modify (\<lambda>s. s\<lparr>pci_memory_map := 0\<rparr>) });
       ret (Some ()) })"

text \<open>The work loop and the timer for \<open>task_execute_one_impl_\<close>; nothing arms the timer in this build.\<close>

definition prepare_task_loop :: "(('h, 'z) driver_scheme, unit) state" where
  "prepare_task_loop = do {
     w \<leftarrow> fetch workloop;
     if \<not> w then ret () else do {
       modify (\<lambda>s. s\<lparr>task_loop := True\<rparr>);
       modify (\<lambda>s. s\<lparr>task_timer := True\<rparr>) } }"

definition destroy_task_loop :: "(('h, 'z) driver_scheme, unit) state" where
  "destroy_task_loop = do {
     timer \<leftarrow> fetch task_timer;
     l \<leftarrow> fetch task_loop;
     if \<not> timer \<or> \<not> l then ret () else do {
       modify (\<lambda>s. s\<lparr>task_timer := False\<rparr>);
       modify (\<lambda>s. s\<lparr>task_loop := False\<rparr>) } }"

text \<open>The work loop of the tasks stays behind when another instance owns the compatibility layer.\<close>

definition Sinetek_start ::
    "nat \<Rightarrow> 'h platform \<Rightarrow> 'h pci \<Rightarrow> bool \<Rightarrow> (('h, 'z) driver_scheme, bool option) state" where
  "Sinetek_start n P I getWorkLoop =
     (if \<not> getWorkLoop then do { modify (\<lambda>s. s\<lparr>workloop := False\<rparr>); ret (Some False) }
      else do {
        modify (\<lambda>s. s\<lparr>workloop := True\<rparr>);
        prepare_task_loop;
        c \<leftarrow> openbsd_compat_start;
        if c \<noteq> OK then do { modify (\<lambda>s. s\<lparr>workloop := False\<rparr>); ret (Some False) }
        else obind (rtsx_pci_attach n P I) (\<lambda>_. ret (Some True)) })"

definition Sinetek_stop ::
    "nat \<Rightarrow> 'h platform \<Rightarrow> 'h pci \<Rightarrow> (('h, 'z) driver_scheme, unit) state \<Rightarrow> (('h, 'z) driver_scheme, unit option) state" where
  "Sinetek_stop n P I other =
     obind (rtsx_pci_detach n P I other) (\<lambda>_. do {
       openbsd_compat_stop;
       destroy_task_loop;
       modify (\<lambda>s. s\<lparr>workloop := False\<rparr>);
       IOSleep P 1000;
       ret (Some ()) })"


section \<open>A fresh driver\<close>

text \<open>
  The state of a driver that has been started without a card, over the outside world \<open>h\<close>. The
  applications of theorems to concrete inputs start from it.
\<close>

definition driver_boot :: "'h \<Rightarrow> 'h driver" where
  "driver_boot h = \<lparr>hw = h, spl_depth = 0, sched = [], slept = [], mimic_linux = False, no_adma = False,
     timeout_shift = 0, sleep_wake_delay_ms = 0,
     va_list = dict_init 10, seg_arrays = (\<lambda>_. []), seg_oob = False, dmamaps = Map.empty,
     tskq = [], onqueue = (\<lambda>_. False), task_sc = (\<lambda>_. False), tskq_wakeups = 0,
     ioh = 1, rflags = 0, intr_status = 0, regs = replicate RTSX_NREG 0, regs4 = replicate 6 0,
     dmap_cmd = 0, dmap_data = 0, dmap_adma = 0, admabuf = 0, adma_segs = 0, sdmmc_attached = True,
     init_read = False, aspm_en = 0, sd30_drive_sel_1v8 = 0, card_drive_sel = 0x41,
     sd30_drive_sel_3v3 = 0, reverse_socket = False, stack_junk = 0,
     sc_dmap = 0, sc_flags = SMF_STOP_AFTER_MULTIPLE, sc_caps = SMC_CAPS_4BIT_MODE OR SMC_CAPS_DMA, sc_function_count = 0, sc_card = None, sc_fn0 = None,
     sf_head = [], sfs = Map.empty, sf_next = 0, sc_dying = 0, sc_task_thread = True, sc_lock = 0,
     sc_max_seg = 0, sc_max_xfer = 0, sc_intrq = [], sc_panic = False,
     dev_mem = 1, dev_live = True, dev_active = True,
     num_blocks = 0, blk_size = 0, card_is_write_protected = False, disk_softc = False, disk_provider = False,
     write_enabled = True, sddisk = None, bios = Map.empty, task_mem = {}, next_task = 0, completions = [],
     workloop = True, pci_memory_map = 1, memory_descriptor = 1, intr_source = True, compat_owner = True,
     task_loop = True, task_timer = True\<rparr>"

text \<open>A driver whose slot holds one card with the given function structure.\<close>

definition with_card :: "sdmmc_function \<Rightarrow> 'h driver \<Rightarrow> 'h driver" where
  "with_card f s = s\<lparr>sfs := [0 \<mapsto> f], sf_next := 1, sf_head := [0], sc_fn0 := Some 0, sc_card := Some 0,
     sc_function_count := 1,
     sc_flags := setf (sc_flags s) (SMF_SD_MODE OR SMF_MEM_MODE OR SMF_CARD_PRESENT OR SMF_CARD_ATTACHED)\<rparr>"

lemma boot_fields [simp]:
  "hw (driver_boot h) = h" "spl_depth (driver_boot h) = 0" "sched (driver_boot h) = []" "slept (driver_boot h) = []"
  "mimic_linux (driver_boot h) = False" "no_adma (driver_boot h) = False" "timeout_shift (driver_boot h) = 0"
  "sleep_wake_delay_ms (driver_boot h) = 0" "va_list (driver_boot h) = dict_init 10"
  "seg_arrays (driver_boot h) = (\<lambda>_. [])" "seg_oob (driver_boot h) = False"
  "dmamaps (driver_boot h) = Map.empty" "tskq (driver_boot h) = []" "onqueue (driver_boot h) = (\<lambda>_. False)"
  "task_sc (driver_boot h) = (\<lambda>_. False)" "tskq_wakeups (driver_boot h) = 0" "ioh (driver_boot h) = 1"
  "rflags (driver_boot h) = 0" "intr_status (driver_boot h) = 0" "regs (driver_boot h) = replicate RTSX_NREG 0"
  "regs4 (driver_boot h) = replicate 6 0" "dmap_cmd (driver_boot h) = 0" "dmap_data (driver_boot h) = 0"
  "dmap_adma (driver_boot h) = 0" "admabuf (driver_boot h) = 0" "adma_segs (driver_boot h) = 0"
  "sdmmc_attached (driver_boot h) = True" "init_read (driver_boot h) = False" "aspm_en (driver_boot h) = 0"
  "sd30_drive_sel_1v8 (driver_boot h) = 0" "card_drive_sel (driver_boot h) = 0x41"
  "sd30_drive_sel_3v3 (driver_boot h) = 0" "reverse_socket (driver_boot h) = False" "stack_junk (driver_boot h) = 0"
  "sc_dmap (driver_boot h) = 0" "sc_flags (driver_boot h) = SMF_STOP_AFTER_MULTIPLE"
  "sc_caps (driver_boot h) = SMC_CAPS_4BIT_MODE OR SMC_CAPS_DMA" "sc_function_count (driver_boot h) = 0"
  "sc_card (driver_boot h) = None" "sc_fn0 (driver_boot h) = None" "sf_head (driver_boot h) = []"
  "sfs (driver_boot h) = Map.empty" "sf_next (driver_boot h) = 0" "sc_dying (driver_boot h) = 0"
  "sc_task_thread (driver_boot h) = True" "sc_lock (driver_boot h) = 0" "sc_max_seg (driver_boot h) = 0"
  "sc_max_xfer (driver_boot h) = 0" "sc_intrq (driver_boot h) = []" "sc_panic (driver_boot h) = False"
  "dev_mem (driver_boot h) = 1" "dev_live (driver_boot h) = True" "dev_active (driver_boot h) = True"
  "num_blocks (driver_boot h) = 0" "blk_size (driver_boot h) = 0" "card_is_write_protected (driver_boot h) = False"
  "disk_softc (driver_boot h) = False" "disk_provider (driver_boot h) = False" "write_enabled (driver_boot h) = True"
  "sddisk (driver_boot h) = None" "bios (driver_boot h) = Map.empty" "task_mem (driver_boot h) = {}"
  "next_task (driver_boot h) = 0" "completions (driver_boot h) = []" "workloop (driver_boot h) = True"
  "pci_memory_map (driver_boot h) = 1" "memory_descriptor (driver_boot h) = 1" "intr_source (driver_boot h) = True"
  "compat_owner (driver_boot h) = True" "task_loop (driver_boot h) = True" "task_timer (driver_boot h) = True"
  by (simp_all add: driver_boot_def)

lemma card_fields [simp]:
  "sfs (with_card f s) = [0 \<mapsto> f]" "sf_next (with_card f s) = 1" "sf_head (with_card f s) = [0]"
  "sc_fn0 (with_card f s) = Some 0" "sc_card (with_card f s) = Some 0"
  "sc_flags (with_card f s) = setf (sc_flags s) (SMF_SD_MODE OR SMF_MEM_MODE OR SMF_CARD_PRESENT OR SMF_CARD_ATTACHED)"
  "mimic_linux (with_card f s) = mimic_linux s" "hw (with_card f s) = hw s" "no_adma (with_card f s) = no_adma s"
  "disk_provider (with_card f s) = disk_provider s" "sdmmc_attached (with_card f s) = sdmmc_attached s"
  "blk_size (with_card f s) = blk_size s" "bios (with_card f s) = bios s" "sc_caps (with_card f s) = sc_caps s"
  "completions (with_card f s) = completions s" "tskq (with_card f s) = tskq s" "sc_lock (with_card f s) = sc_lock s"
  "sc_dying (with_card f s) = sc_dying s" "rflags (with_card f s) = rflags s" "sc_task_thread (with_card f s) = sc_task_thread s"
  by (simp_all add: with_card_def)

text \<open>A storage stack and a PCI device with nothing behind them.\<close>

definition bare_storage :: "'h storage" where
  "bare_storage = \<lparr>st_inactive = (\<lambda>_. False), st_direction = (\<lambda>_ _. kIODirectionIn),
     st_write_bytes = (\<lambda>h _ _ _ n. (n, h)), st_read_bytes = (\<lambda>h _ _ _ n. (n, h)), st_static_buffer = 4096\<rparr>"

definition bare_pci :: "'h pci" where
  "bare_pci = \<lparr>pci_config16 = (\<lambda>_ _. 0), pci_bus_master = (\<lambda>h. h), pci_map = (\<lambda>h _. (0, h)),
     pci_descriptor = (\<lambda>_ _. 0), pci_intr_type = (\<lambda>_ _. None), pci_intr_source = (\<lambda>h _. (False, h)),
     boot_argn = (\<lambda>_. None), thread_start = (\<lambda>h. (0, h)), disk_alloc = (\<lambda>h. (False, h)), softc_size = 1\<rparr>"

end
