(* ===== verification/BlockIo.thy ===== *)
theory BlockIo
  imports Driver
begin

text \<open>
  What the transfer of blocks (sdmmc_mem.c) changes and what it reports: it touches nothing of
  the slot but the selected card, it returns the lock, and a failed command is, or is not,
  reported to the caller.
\<close>

section \<open>Invariants of a transfer\<close>

text \<open>
  An invariant that a transfer from or to the function \<open>p\<close> cannot break: it speaks of the slot
  only, not of the lock, and it allows \<open>p\<close> to be the selected card.
\<close>

definition transfer_inv :: "nat \<Rightarrow> (('h, 'z) sdmmc_scheme \<Rightarrow> bool) \<Rightarrow> bool" where
  "transfer_inv p I \<longleftrightarrow> slot_part I \<and> (\<forall>s x. I (s\<lparr>sc_panic := x\<rparr>) = I s)
     \<and> (\<forall>s x. I (s\<lparr>sc_lock := x\<rparr>) = I s) \<and> (\<forall>s. I s \<longrightarrow> I (s\<lparr>sc_card := Some p\<rparr>))"

lemma transfer_invD:
  assumes "transfer_inv p I"
  shows "slot_part I" "I (s\<lparr>sc_panic := x\<rparr>) = I s" "I (s\<lparr>sc_lock := l\<rparr>) = I s"
    "I s \<Longrightarrow> I (s\<lparr>sc_card := Some p\<rparr>)"
  using assms unfolding transfer_inv_def by blast+

lemma transfer_dma:
  assumes "transfer_inv p I"
  shows "preserves I (bus_dmamap_load P a buf len)" "preserves I (bus_dmamap_unload P a)"
    "preserves I bus_dmamap_sync" "preserves I (call_hw k)" "preserves I (exec_hw g)"
  by (rule keeps_pred, intro slot_dma slot_hw transfer_invD(1) [OF assms])+

lemma transfer_lock:
  assumes "transfer_inv p I"
  shows "preserves I rw_enter_write" "preserves I rw_exit"
  unfolding rw_enter_write_def rw_exit_def
  by (intro preserves_modify; simp add: transfer_invD [OF assms])+

lemma transfer_c_div: "transfer_inv p I \<Longrightarrow> preserves I (c_div a b)"
  unfolding c_div_def by (intro preserves; simp add: transfer_invD)

context sdmmc_chip begin

lemma transfer_command: "transfer_inv p I \<Longrightarrow> preserves I (sdmmc_mmc_command T cmd)"
  by (rule keeps_pred, intro keeps, rule transfer_invD)

lemma transfer_select: "transfer_inv p I \<Longrightarrow> preserves I (sdmmc_select_card T (Some p))"
  unfolding sdmmc_select_card_def by (intro preserves transfer_command; simp add: transfer_invD)

lemma transfer_poll: "transfer_inv p I \<Longrightarrow> preserves I (poll_ready n T rca)"
  by (rule keeps_pred, intro keeps, rule transfer_invD)

lemmas transfer_rules = transfer_command transfer_select transfer_poll transfer_c_div transfer_dma transfer_lock

lemma transfer_subr:
  assumes "transfer_inv p I"
  shows "preserves I (sdmmc_mem_read_block_subr n T p dm b a len)"
    "preserves I (sdmmc_mem_write_block_subr n T p dm b a len)"
  unfolding sdmmc_mem_read_block_subr_def sdmmc_mem_write_block_subr_def finish_read_def
    data_command_def stop_multiple_def
  by (intro preserves transfer_rules [OF assms])+

lemma transfer_single:
  assumes "\<And>b a l. preserves I (io b a l)"
  shows "preserves I (single_blocks k io p i b a)"
proof (induction k arbitrary: i)
  case (Suc k)
  then show ?case unfolding single_blocks.simps by (intro preserves assms)
qed (simp add: preserves_return)

lemma transfer_block:
  assumes "transfer_inv p I"
  shows "preserves I (sdmmc_mem_read_block n P T p b a len)"
    "preserves I (sdmmc_mem_write_block n P T p b a len)"
  unfolding sdmmc_mem_read_block_def sdmmc_mem_write_block_def sdmmc_mem_single_read_block_def
    sdmmc_mem_single_write_block_def with_dma_def
  by (intro preserves transfer_single transfer_rules [OF assms] transfer_subr [OF assms])+

end

text \<open>The views of the slot that are fixed while a card may be selected.\<close>

lemma transfer_inv_view:
  assumes "card_frame f" and "\<And>s x. f (s\<lparr>sc_lock := x\<rparr>) = f s"
  shows "transfer_inv p (\<lambda>s. f s = c \<and> (sc_card s = d \<or> sc_card s = Some p))"
proof -
  have "slot_part (\<lambda>s. f s = c \<and> (sc_card s = d \<or> sc_card s = Some p))"
    unfolding slot_part_def
  proof (intro allI impI)
    fix s s' :: "('a, 'b) sdmmc_scheme"
    assume eq: "outer s = outer s'"
    have "f s = f s'" "sc_card s = sc_card s'"
      using slot_partD [OF card_frameD(1) [OF assms(1)] eq] slot_fields [OF eq] by auto
    then show "(f s = c \<and> (sc_card s = d \<or> sc_card s = Some p)) = (f s' = c \<and> (sc_card s' = d \<or> sc_card s' = Some p))"
      by simp
  qed
  then show ?thesis by (simp add: transfer_inv_def assms card_frameD [OF assms(1)])
qed

section \<open>The lock\<close>

text \<open>A computation that takes the lock first and gives it back when it returns.\<close>

lemma locked_run:
  assumes "\<And>s. keeps sc_lock (m s)"
    and "run_state (do { rw_enter_write; c \<leftarrow> fetch g; obind (m c) (\<lambda>e. do { rw_exit; ret (Some e) }) }) s = (Some r, s')"
  shows "sc_lock s' = sc_lock s"
proof -
  let ?s = "s\<lparr>sc_lock := sc_lock s + 1\<rparr>"
  obtain x s1 where x: "run_state (m (g ?s)) ?s = (x, s1)" by (cases "run_state (m (g ?s)) ?s")
  have "sc_lock s1 = sc_lock s + 1" using keeps_run [OF assms(1) x] by simp
  with assms(2) x show ?thesis
    by (cases x) (auto simp: obind_def rw_enter_write_def rw_exit_def split: prod.splits)
qed

context sdmmc_chip begin

lemma lock_block:
  "run_state (sdmmc_mem_read_block n P T p b a len) s = (Some r, s') \<Longrightarrow> sc_lock s' = sc_lock s"
  "run_state (sdmmc_mem_write_block n P T p b a len) s = (Some r, s') \<Longrightarrow> sc_lock s' = sc_lock s"
  unfolding sdmmc_mem_read_block_def sdmmc_mem_write_block_def
  by (erule locked_run [rotated]; intro keeps keeps_with_dma; simp)+

end

section \<open>Errors\<close>

text \<open>
  C21: a block write reports success only when the card could be selected and the command that
  wrote the data succeeded, whatever the commands that follow it return.
\<close>

theorem write_success_is_real:
  assumes "run_state (sdmmc_mem_write_block_subr n T p dm b a len) s = (Some OK, s')"
  shows "\<exists>s1 c s2. run_state (sdmmc_select_card T (Some p)) s = (OK, s1)
    \<and> run_state (data_command True T p dm b a len) s1 = (c, s2) \<and> c_error c = OK"
proof -
  obtain e s1 where e: "run_state (sdmmc_select_card T (Some p)) s = (e, s1)" by fastforce
  obtain c s2 where c: "run_state (data_command True T p dm b a len) s1 = (c, s2)" by fastforce
  have "e = OK" using assms e by (auto simp: sdmmc_mem_write_block_subr_def split: if_splits)
  moreover have "c_error c = OK"
  proof (rule ccontr)
    assume "c_error c \<noteq> OK"
    with assms e c \<open>e = OK\<close> show False
      by (auto simp: sdmmc_mem_write_block_subr_def obind_def Let_def split: prod.splits option.splits if_splits)
  qed
  ultimately show ?thesis using e c by blast
qed

text \<open>
  C22: a block read reports a failed command, unless the driver imitates Linux: then the error is
  dropped, and the result is that of stopping the transfer and waiting for the card, so that a
  read that failed is reported as a success when the card is ready afterwards.
\<close>

theorem read_error_dropped:
  assumes "run_state (sdmmc_select_card T (Some p)) s = (OK, s1)"
    and "run_state (data_command False T p dm b a len) s1 = (c, s2)" and "c_error c = Inl e"
  shows "run_state (sdmmc_mem_read_block_subr n T p dm b a len) s =
    (if mimic_linux s2 then run_state (finish_read n T p (c_opcode c = MMC_READ_BLOCK_MULTIPLE)) s2
     else (Some (Inl e), s2))"
  using assms by (simp add: sdmmc_mem_read_block_subr_def)

text \<open>A card reader whose card is ready but rejects every transfer.\<close>

definition failing_chip :: "('h, 'z) slot_chip" where
  "failing_chip = \<lparr>chip_host_reset = ret OK, chip_host_ocr = ret 0, chip_host_maxblklen = ret 512,
     chip_card_detect = ret True, chip_bus_power = (\<lambda>_. ret OK), chip_bus_clock = (\<lambda>_ _. ret OK),
     chip_bus_width = (\<lambda>_. ret OK),
     chip_exec_command = (\<lambda>cmd. ret (cmd\<lparr>c_resp := [MMC_R1_READY_FOR_DATA, 0, 0, 0],
       c_error := (if c_opcode cmd = MMC_SEND_STATUS then OK else Inl EIO)\<rparr>)),
     chip_card_intr_mask = None, chip_card_intr_ack = None, chip_signal_voltage = None\<rparr>"

definition ready_chip :: "('h, 'z) slot_chip" where
  "ready_chip = failing_chip\<lparr>chip_exec_command :=
     (\<lambda>cmd. ret (cmd\<lparr>c_resp := [MMC_R1_READY_FOR_DATA, 0, 0, 0], c_error := OK\<rparr>))\<rparr>"

definition one_card :: "unit driver" where
  "one_card = with_card (zero_function\<lparr>sf_csd := zero_csd\<lparr>sector_size := 512, capacity := 100000\<rparr>\<rparr>) (driver_boot ())"

theorem read_error_dropped_witness:
  "fst (run_state (sdmmc_mem_read_block_subr (Suc 0) failing_chip 0 0 7 4096 512) (one_card\<lparr>mimic_linux := True\<rparr>)) = Some OK"
proof -
  let ?s = "one_card\<lparr>mimic_linux := True\<rparr>"
  note cons = sdmmc_mmc_command_def failing_chip_def one_card_def
  have sel: "run_state (sdmmc_select_card failing_chip (Some 0)) ?s = (OK, ?s)"
    by (simp add: sdmmc_select_card_def same_card_def one_card_def)
  obtain c s2 where c: "run_state (data_command False failing_chip 0 0 7 4096 512) ?s = (c, s2)" by fastforce
  then have "c_error c = Inl EIO" "s2 = ?s" "c_opcode c = MMC_READ_BLOCK_SINGLE"
    by (auto simp: data_command_def c_div_def sdmmc_mmc_command_def failing_chip_def sdmmc_dump_command_def
        get_status_def fn_at_def one_card_def zero_command_def zero_function_def zero_csd_def)
  with read_error_dropped [OF sel c] show ?thesis
    by (simp add: finish_read_def stop_multiple_def poll_ready.simps(2) sdmmc_mmc_command_def failing_chip_def
        isset_def one_card_def)
qed

lemma one_card_selected: "run_state (sdmmc_select_card T (Some 0)) one_card = (OK, one_card)"
  by (simp add: sdmmc_select_card_def same_card_def one_card_def with_card_def)

lemma ready_command:
  "run_state (sdmmc_mmc_command ready_chip cmd) s = (cmd\<lparr>c_resp := [MMC_R1_READY_FOR_DATA, 0, 0, 0], c_error := OK\<rparr>, s)"
  by (simp add: sdmmc_mmc_command_def ready_chip_def failing_chip_def)

theorem write_success_is_real_witness:
  "c_error (fst (run_state (data_command True ready_chip 0 0 7 4096 512) one_card)) = OK"
proof -
  have dc: "run_state (data_command True ready_chip 0 0 7 4096 512) one_card
    = (zero_command\<lparr>c_data := 4096, c_datalen := 512, c_blklen := 512, c_opcode := MMC_WRITE_BLOCK_SINGLE,
         c_arg := 3584, c_flags := SCF_CMD_ADTC OR SCF_RSP_R1, c_dmamap := 0,
         c_resp := [MMC_R1_READY_FOR_DATA, 0, 0, 0], c_error := OK\<rparr>, one_card)"
    by (simp add: data_command_def c_div_def fn_at_def one_card_def ready_command block_arg_def zero_function_def isset_def)
  have "run_state (sdmmc_mem_write_block_subr (Suc 0) ready_chip 0 0 7 4096 512) one_card = (Some OK, one_card)"
    by (simp add: sdmmc_mem_write_block_subr_def one_card_selected dc stop_multiple_def ready_command
        poll_ready.simps(2) obind_def isset_def Let_def)
  from write_success_is_real [OF this] show ?thesis by (auto simp: one_card_selected)
qed

end
