(* ===== verification/System.thy ===== *)
theory System
  imports BlockIo
begin

text \<open>
  The slot, the controller and the block device put together: the controller of rtsx.c and the
  block device of SDDisk.cpp satisfy the contracts of the slot, and every task that the driver
  queues keeps the slot's invariant.
\<close>

section \<open>The parts fit\<close>

lemma slot_part_view [simp]: "slot_part slot_view"
  unfolding slot_part_def
proof (intro allI impI)
  fix s s' :: "('h, 'z) sdmmc_scheme"
  assume eq: "outer s = outer s'"
  then show "slot_view s = slot_view s'"
    using slot_fields [OF eq] slot_partD [OF sel_frameD(2) [OF sel_frame_ctl] eq]
    by (simp add: slot_view_def)
qed

lemma slot_view_update:
  "slot_view (s\<lparr>sddisk := a\<rparr>) = slot_view s" "slot_view (s\<lparr>disk_provider := b\<rparr>) = slot_view s"
  "slot_view (s\<lparr>disk_softc := b\<rparr>) = slot_view s" "slot_view (s\<lparr>card_is_write_protected := b\<rparr>) = slot_view s"
  "slot_view (s\<lparr>num_blocks := k\<rparr>) = slot_view s" "slot_view (s\<lparr>blk_size := k\<rparr>) = slot_view s"
  by (simp_all add: slot_view_def ctl_def)

lemma slot_bus_read: "slot_part f \<Longrightarrow> keeps f (bus_space_read_4 P d off)"
  by (rule keeps_slot_part [rotated]) (auto intro!: keeps)

lemma view_attach: "keeps slot_view (blk_attach P I)"
  unfolding blk_attach_def SDDisk_init_def SDDisk_attach_def cardIsWriteProtected_def
  by (intro keeps slot_bus_read slot_part_view; simp add: slot_view_update)

lemma view_detach: "keeps slot_view blk_detach"
  unfolding blk_detach_def SDDisk_detach_def by (intro keeps; simp add: slot_view_update)

text \<open>
  The controller of this driver and its block device satisfy the contract of the slot's
  surroundings.
\<close>

interpretation rtsx_slot: slot_system "rtsx_functions P" 512 "card_drivers P I" for P I
  by unfold_locales
     (simp_all add: rtsx_functions_def card_drivers_def sdmmc_scsi_attach_def sdmmc_scsi_detach_def
       view_attach view_detach)

section \<open>Cards come and go\<close>

text \<open>
  C19: detaching a card, whatever state its initialisation reached, tells the block device,
  deselects the card, frees every function structure and clears every pointer to them.
\<close>

theorem card_detach_frees_all:
  assumes "slot_wf s" and "run_state (sdmmc_card_detach (rtsx_functions P) (card_drivers P I)) s = (u, s')"
  shows "sf_head s' = [] \<and> sfs s' = Map.empty \<and> sc_fn0 s' = None \<and> sc_card s' = None
    \<and> \<not> isset (sc_flags s') SMF_CARD_ATTACHED \<and> sc_lock s' = sc_lock s"
  using rtsx_slot.card_detach_clean [OF assms(2,1)] by (simp add: slot_clean_def ctl_def)

lemma rtsx_discover:
  assumes "slot_inv s" and "run_state (sdmmc_discover_task n P (rtsx_functions P) (card_drivers P I)) s = (r, s')"
  shows "r = Some () \<and> slot_inv s' \<and> isset (sc_flags s') SMF_CARD_PRESENT = isset (rflags s) RTSX_F_CARD_PRESENT
    \<and> \<not> isset (sc_flags s') SMF_CONFIG_PENDING \<and> sc_lock s' = sc_lock s \<and> sc_dying s' = sc_dying s"
proof -
  have "run_state (chip_card_detect (rtsx_functions P)) s = (isset (rflags s) RTSX_F_CARD_PRESENT, s)"
    by (simp add: rtsx_functions_def rtsx_card_detect_def)
  from rtsx_slot.discover_inv [OF assms(2,1) this] show ?thesis .
qed

text \<open>
  C10: the discovery task ends, whatever the card does: afterwards the slot's flag says what the
  controller's card detection said, no discovery is pending, the lock is as it was, and the slot
  either holds an attached card with a usable function or nothing at all.
\<close>

theorem discover_settles:
  assumes "slot_inv s" and "run_state (sdmmc_discover_task n P (rtsx_functions P) (card_drivers P I)) s = (r, s')"
  shows "r = Some () \<and> slot_inv s' \<and> isset (sc_flags s') SMF_CARD_PRESENT = isset (rflags s) RTSX_F_CARD_PRESENT
    \<and> \<not> isset (sc_flags s') SMF_CONFIG_PENDING \<and> sc_lock s' = sc_lock s \<and> sc_dying s' = sc_dying s"
  using assms by (rule rtsx_discover)

text \<open>A slot that holds one memory card.\<close>

lemma one_card_inv: "slot_inv one_card" "slot_wf one_card"
  by (simp_all add: slot_inv_def slot_wf_def io_mode_def one_card_def usable_def fn_at_def isset_def setf_def
      zero_function_def)

theorem card_detach_frees_all_witness:
  "sfs (snd (run_state (sdmmc_card_detach (rtsx_functions bare_platform) (card_drivers bare_platform bare_pci)) one_card))
    = Map.empty"
  using card_detach_frees_all [OF one_card_inv(2) surjective_pairing] by blast

theorem discover_settles_witness:
  "\<not> isset (sc_flags (snd (run_state (sdmmc_discover_task 0 bare_platform (rtsx_functions bare_platform)
      (card_drivers bare_platform bare_pci)) one_card))) SMF_CARD_PRESENT"
  using discover_settles [OF one_card_inv(1) surjective_pairing] by (simp add: one_card_def isset_def)

section \<open>Tasks\<close>

lemma slot_inv_panic [simp]: "slot_inv (s\<lparr>sc_panic := x\<rparr>) = slot_inv s"
  by (simp add: slot_inv_def slot_wf_def slot_clean_def io_mode_def usable_def [abs_def] fn_at_def)

lemma slot_inv_segs [simp]: "slot_inv (s\<lparr>seg_arrays := a\<rparr>) = slot_inv s"
  by (rule slot_partD [OF slot_part_inv]) simp

lemma slot_inv_disk [simp]:
  "slot_inv (s\<lparr>completions := c\<rparr>) = slot_inv s" "slot_inv (s\<lparr>bios := b\<rparr>) = slot_inv s"
  "slot_inv (s\<lparr>bios := b, next_task := k\<rparr>) = slot_inv s" "slot_inv (s\<lparr>task_mem := m\<rparr>) = slot_inv s"
  by (simp_all add: slot_inv_def slot_wf_def slot_clean_def io_mode_def usable_def [abs_def] fn_at_def)

text \<open>A transfer to function 0 is one to a card of the slot.\<close>

lemma inv_transfer: "transfer_inv p (\<lambda>s :: ('h, 'z) sdmmc_scheme. slot_inv s \<and> sc_fn0 s = Some p)"
proof -
  have "slot_part (\<lambda>s :: ('h, 'z) sdmmc_scheme. slot_inv s \<and> sc_fn0 s = Some p)"
    unfolding slot_part_def
  proof (intro allI impI)
    fix s s' :: "('h, 'z) sdmmc_scheme"
    assume eq: "outer s = outer s'"
    show "(slot_inv s \<and> sc_fn0 s = Some p) = (slot_inv s' \<and> sc_fn0 s' = Some p)"
      using slot_fields [OF eq] slot_partD [OF slot_part_inv eq] by simp
  qed
  moreover have "slot_inv (s\<lparr>sc_card := Some p\<rparr>)" if "slot_inv s \<and> sc_fn0 s = Some p" for s :: "('h, 'z) sdmmc_scheme"
    using that by (auto simp: slot_inv_def slot_clean_def slot_wf_def io_mode_def usable_def [abs_def] fn_at_def split: if_splits)
  ultimately show ?thesis by (simp add: transfer_inv_def inv_lock)
qed

lemma inv_chunk:
  "preserves slot_inv (send_chunk n P S (rtsx_functions P) args buf blocks len sent
    :: (('h, 'z) disk_scheme, unit res option) state)"
proof (rule preservesI)
  fix s :: "('h, 'z) disk_scheme"
  assume inv: "slot_inv s"
  let ?m = "send_chunk n P S (rtsx_functions P) args buf blocks len sent :: (('h, 'z) disk_scheme, unit res option) state"
  show "slot_inv (snd (run_state ?m s))"
  proof (cases "sc_fn0 s")
    case None
    with inv show ?thesis by (simp add: send_chunk_def)
  next
    case (Some p)
    let ?I = "\<lambda>s :: ('h, 'z) disk_scheme. slot_inv s \<and> sc_fn0 s = Some p"
    define m where "m = (if bio_direction args = kIODirectionIn then
        obind (run_with_retry (sdmmc_mem_read_block n P (rtsx_functions P) p blocks buf (uint len)) 3) (\<lambda>e.
          if e \<noteq> OK then ret (Some e) else do {
            c \<leftarrow> call_hw (\<lambda>h. st_write_bytes S h (bio_buffer args) sent buf len);
            ret (Some (if c = 0 then Inl EIO else OK)) })
      else do {
        c \<leftarrow> call_hw (\<lambda>h. st_read_bytes S h (bio_buffer args) sent buf len);
        if c = 0 then ret (Some (Inl EIO))
        else run_with_retry (sdmmc_mem_write_block n P (rtsx_functions P) p blocks buf (uint len)) 3 }
      :: (('h, 'z) disk_scheme, unit res option) state)"
    have "preserves ?I m"
      unfolding m_def
      by (intro preserves rtsx_chip.transfer_block [OF inv_transfer] transfer_dma(4) [OF inv_transfer])
    moreover have "run_state ?m s = run_state m s" using Some by (simp add: send_chunk_def m_def)
    ultimately show ?thesis using inv Some by (simp add: preserves_def)
  qed
qed

lemma inv_send_loop:
  "preserves slot_inv (send_loop n P S (rtsx_functions P) args buf blocks remaining sent
    :: (('h, 'z) disk_scheme, unit res option) state)"
proof (induction n P S "rtsx_functions P :: ('h, 'z) disk_chip" args buf blocks remaining sent rule: send_loop.induct)
  case (1 n P S args buf blocks remaining sent)
  show ?case
    by (subst send_loop.simps) (auto simp: Let_def intro!: preserves inv_chunk 1)
qed

lemma inv_slot_part: "keeps outer m \<Longrightarrow> preserves slot_inv m"
  by (rule keeps_pred, rule keeps_slot_part) simp_all

lemma inv_disk_dma: "preserves slot_inv (dma_alloc P sz k)" "preserves slot_inv (dma_free P kva)"
  unfolding dma_alloc_def dma_free_def by (intro preserves inv_slot_part more_dmamem)+

lemma inv_complete: "preserves slot_inv (complete_bio i args actual e)"
  unfolding complete_bio_def by (intro preserves) simp_all

lemma inv_read_task: "preserves slot_inv (read_task_impl n P S (rtsx_functions P) i)"
  unfolding read_task_impl_def
  by (intro preserves inv_send_loop inv_disk_dma inv_complete) simp_all

lemma inv_run_task: "preserves slot_inv (run_task n P S I t)"
proof (cases t)
  case DiscoverTask
  show ?thesis
    unfolding run_task_def DiscoverTask by (rule preservesI) (simp add: rtsx_discover [OF _ surjective_pairing])
next
  case IntrTask
  note spl = inv_slot_part [OF more_spl(2)] inv_slot_part [OF more_spl(3)]
  show ?thesis
    unfolding run_task_def IntrTask sdmmc_intr_task_def
    by (auto simp: rtsx_functions_def intro!: preserves spl)
next
  case (DiskTask i)
  then show ?thesis by (simp add: run_task_def inv_read_task)
qed

text \<open>
  C13: the thread of the slot, running the tasks of this driver while other threads do anything
  that keeps the invariant, ends with no card: nothing is left of the one it served.
\<close>

theorem task_thread_ends_clean:
  assumes "slot_inv s" and "preserves slot_inv other"
    and "run_state (sdmmc_task_thread n (rtsx_functions P) (card_drivers P I) (run_task m P S I) other) s = (Some (), s')"
  shows "sf_head s' = [] \<and> sfs s' = Map.empty \<and> sc_fn0 s' = None \<and> sc_card s' = None \<and> \<not> sc_task_thread s'"
  using rtsx_slot.task_thread_clean [OF inv_run_task assms(2,3,1)] by (simp add: slot_clean_def)

theorem task_thread_ends_clean_witness:
  "\<not> sc_task_thread (snd (run_state (sdmmc_task_thread 2 (rtsx_functions bare_platform)
     (card_drivers bare_platform bare_pci) (run_task 1 bare_platform bare_storage bare_pci) (ret ()))
     ((driver_boot ())\<lparr>sc_dying := 1\<rparr>)))"
proof -
  let ?s = "(driver_boot ())\<lparr>sc_dying := 1\<rparr>"
  let ?m = "sdmmc_task_thread 2 (rtsx_functions bare_platform) (card_drivers bare_platform bare_pci)
    (run_task 1 bare_platform bare_storage bare_pci) (ret ())"
  have inv: "slot_inv ?s" by (simp add: slot_inv_def slot_wf_def slot_clean_def io_mode_def isset_def)
  obtain r s' where run: "run_state ?m ?s = (r, s')" by fastforce
  then have "r = Some ()"
    by (auto simp: numeral_2_eq_2 thread_tail_def obind_def sdmmc_needs_discover_def sdmmc_task_pending_def
        sdmmc_add_task_def isset_def)
  with run have "run_state ?m ?s = (Some (), s')" by simp
  from task_thread_ends_clean [OF inv preserves_return this] show ?thesis using run by simp
qed

section \<open>Transfers\<close>

lemma card_frame_slot:
  "card_frame (\<lambda>s :: ('h, 'z) sdmmc_scheme. (sf_head s, sfs s, sc_fn0 s, sc_flags s))"
  unfolding card_frame_def slot_part_def
proof (intro conjI allI impI)
  fix s s' :: "('h, 'z) sdmmc_scheme"
  assume "outer s = outer s'"
  from slot_fields [OF this]
  show "(sf_head s, sfs s, sc_fn0 s, sc_flags s) = (sf_head s', sfs s', sc_fn0 s', sc_flags s')" by simp
qed simp_all

text \<open>
  C20: reading or writing blocks returns the lock it takes and changes nothing of the slot but
  the selected card, whatever the transfer does: no function structure, no flag, no pointer.
\<close>

theorem block_io_keeps_slot:
  assumes "run_state (if wr then sdmmc_mem_write_block n P (rtsx_functions P) p b a len
      else sdmmc_mem_read_block n P (rtsx_functions P) p b a len) s = (Some r, s')"
  shows "sc_lock s' = sc_lock s \<and> sf_head s' = sf_head s \<and> sfs s' = sfs s \<and> sc_fn0 s' = sc_fn0 s
    \<and> sc_flags s' = sc_flags s \<and> (sc_card s' = sc_card s \<or> sc_card s' = Some p)"
proof -
  have "sc_lock s' = sc_lock s" using assms rtsx_chip.lock_block by (cases wr) auto
  moreover let ?I = "\<lambda>t. (sf_head t, sfs t, sc_fn0 t, sc_flags t) = (sf_head s, sfs s, sc_fn0 s, sc_flags s)
    \<and> (sc_card t = sc_card s \<or> sc_card t = Some p)"
  have inv: "transfer_inv p ?I" by (rule transfer_inv_view [OF card_frame_slot]) simp
  have "preserves ?I (if wr then sdmmc_mem_write_block n P (rtsx_functions P) p b a len
      else sdmmc_mem_read_block n P (rtsx_functions P) p b a len)"
    by (intro preserves_if rtsx_chip.transfer_block [OF inv])
  from preserves_run [OF this assms] have "?I s'" by simp
  ultimately show ?thesis by simp
qed

theorem block_io_keeps_slot_witness:
  "sfs (snd (run_state (sdmmc_mem_read_block 1 bare_platform (rtsx_functions bare_platform) 0 7 4096 512) one_card)) = sfs one_card"
proof -
  let ?m = "sdmmc_mem_read_block 1 bare_platform (rtsx_functions bare_platform) 0 7 4096 512"
  obtain r s' where run: "run_state ?m one_card = (r, s')" by fastforce
  then have "r \<noteq> None"
    by (auto simp: sdmmc_mem_read_block_def one_card_def rw_enter_write_def rw_exit_def with_dma_def obind_def
        bus_dmamap_load_def isset_def with_card_def)
  then obtain x where "r = Some x" by blast
  with run have "run_state (if False then sdmmc_mem_write_block 1 bare_platform (rtsx_functions bare_platform) 0 7 4096 512
      else ?m) one_card = (Some x, s')" by simp
  from block_io_keeps_slot [OF this] run show ?thesis by simp
qed

end
