(* ===== verification/UpperFrame.thy ===== *)
theory UpperFrame
  imports SlotFrame
begin

text \<open>
  What the slot leaves alone in the layers above it: \<open>upper\<close> is the state of those layers and
  the disk requests that are queued. Every operation of the slot keeps it, those on SDIO
  functions included, for every host controller that keeps its contract.
\<close>

definition upper :: "('h, 'z) sdmmc_scheme \<Rightarrow> (task list \<times> (nat \<Rightarrow> bool) \<times> (nat \<Rightarrow> bool)) \<times> 'z" where
  "upper s = (disk_queue s, sdmmc.more s)"

lemma slot_part_upper [simp]: "slot_part upper"
  unfolding slot_part_def
proof (intro allI impI)
  fix s s' :: "('h, 'z) sdmmc_scheme"
  assume eq: "outer s = outer s'"
  then show "upper s = upper s'" using slot_fields(17) [OF eq] by (simp add: upper_def outer_def)
qed

lemma upper_update [simp]:
  "upper (s\<lparr>sc_dmap := a1\<rparr>) = upper s" "upper (s\<lparr>sc_flags := a2\<rparr>) = upper s" "upper (s\<lparr>sc_caps := a3\<rparr>) = upper s"
  "upper (s\<lparr>sc_function_count := a4\<rparr>) = upper s" "upper (s\<lparr>sc_card := a5\<rparr>) = upper s" "upper (s\<lparr>sc_fn0 := a6\<rparr>) = upper s"
  "upper (s\<lparr>sf_head := a7\<rparr>) = upper s" "upper (s\<lparr>sfs := a8\<rparr>) = upper s" "upper (s\<lparr>sf_next := a9\<rparr>) = upper s"
  "upper (s\<lparr>sc_dying := a10\<rparr>) = upper s" "upper (s\<lparr>sc_task_thread := a11\<rparr>) = upper s" "upper (s\<lparr>sc_lock := a12\<rparr>) = upper s"
  "upper (s\<lparr>sc_max_seg := a13\<rparr>) = upper s" "upper (s\<lparr>sc_max_xfer := a14\<rparr>) = upper s" "upper (s\<lparr>sc_intrq := a15\<rparr>) = upper s"
  "upper (s\<lparr>sc_panic := a16\<rparr>) = upper s"
  by (simp_all add: upper_def disk_queue_def)

definition upper_part :: "(('h, 'z) sdmmc_scheme \<Rightarrow> 'b) \<Rightarrow> bool" where
  "upper_part f \<longleftrightarrow> (\<forall>s s'. upper s = upper s' \<longrightarrow> f s = f s')"

lemma upper_partD: "upper_part f \<Longrightarrow> upper s = upper s' \<Longrightarrow> f s = f s'"
  unfolding upper_part_def by blast

lemma keeps_upper_part: "upper_part f \<Longrightarrow> keeps upper m \<Longrightarrow> keeps f m"
  unfolding keeps_def upper_part_def by blast

lemma upper_frames [simp]: "sel_frame upper" "mem_frame upper" "card_frame upper"
  unfolding sel_frame_def mem_frame_def card_frame_def by simp_all

lemma upper_lock [keeps]: "keeps upper rw_enter_write" "keeps upper rw_exit"
  unfolding rw_enter_write_def rw_exit_def by (intro keeps; simp)+

lemma upper_free [keeps]: "keeps upper (sdmmc_function_free p)"
  unfolding sdmmc_function_free_def by (intro keeps) simp

lemma upper_upd_cis [keeps]: "keeps upper (upd_cis p g)"
  unfolding upd_cis_def by (intro keeps) simp

context sdmmc_chip begin

section \<open>SDIO\<close>

lemma upper_rw_direct [keeps]: "keeps upper (sdmmc_io_rw_direct T sf reg d a)"
  unfolding sdmmc_io_rw_direct_def by (intro keeps; simp)

lemma upper_rw_1 [keeps]: "keeps upper (sdmmc_io_read_1 T sf reg)" "keeps upper (sdmmc_io_write_1 T sf reg d)"
  unfolding sdmmc_io_read_1_def sdmmc_io_write_1_def by (intro keeps)+

lemma upper_cis_info [keeps]: "keeps upper (cis_info_loop n T p f0 reg i st c)"
proof (induction n arbitrary: i st c)
  case (Suc n)
  show ?case unfolding cis_info_loop.simps by (intro keeps Suc)
qed (simp add: keeps_return)

lemma upper_cis_loop [keeps]: "keeps upper (cis_loop n T p f0 reg)"
proof (induction n arbitrary: reg)
  case (Suc n)
  show ?case unfolding cis_loop.simps cis_tuple_def by (intro keeps Suc)
qed (simp add: keeps_return)

lemma upper_io_init [keeps]: "keeps upper (sdmmc_io_init n T p)"
  unfolding sdmmc_io_init_def sdmmc_read_cis_def sdmmc_cisptr_def sdmmc_check_cis_quirks_def
    sdmmc_io_set_highspeed_def sdmmc_io_set_bus_width_def
  by (intro keeps; simp)

lemma upper_io_attach:
  "(\<And>p. keeps upper (found p)) \<Longrightarrow> keeps upper (sdmmc_io_attach found)"
  "(\<And>p. keeps upper (rel p)) \<Longrightarrow> keeps upper (sdmmc_io_detach rel)"
  unfolding sdmmc_io_attach_def sdmmc_io_detach_def by (intro keeps; auto intro!: keeps)+

lemma upper_alloc [keeps]: "keeps upper (sdmmc_function_alloc T)"
  unfolding sdmmc_function_alloc_def by (intro keeps; simp)

lemma upper_io_scan_loop [keeps]: "keeps upper (io_scan_loop n T p0 i)"
proof (induction n arbitrary: i)
  case (Suc n)
  show ?case unfolding io_scan_loop.simps by (intro keeps Suc; simp)
qed (simp add: keeps_return)

section \<open>Cards\<close>

lemma upper_scan_loop [keeps]: "keeps upper (scan_loop n T)"
proof (induction n)
  case (Suc n)
  show ?case unfolding scan_loop.simps by (intro keeps Suc; simp)
qed (simp add: keeps_return)

lemma upper_scan [keeps]: "keeps upper (sdmmc_scan T)"
  unfolding sdmmc_scan_def sdmmc_io_scan_def sdmmc_mem_scan_def
  by (intro keeps; auto intro: keeps_read_csd)

lemma upper_enable [keeps]: "keeps upper (sdmmc_enable P T)"
  by (rule keeps_enable) simp_all

lemma upper_init:
  assumes "chip_signal_voltage T = None"
  shows "keeps upper (sdmmc_init n P T)"
proof -
  have "keeps upper (init_loop n P T ps)" for ps
    by (induction ps) (auto intro!: keeps keeps_mem_init assms)
  then show ?thesis unfolding sdmmc_init_def by (intro keeps)
qed

lemma upper_block [keeps]:
  "keeps upper (sdmmc_mem_read_block n P T p b a len)" "keeps upper (sdmmc_mem_write_block n P T p b a len)"
  unfolding sdmmc_mem_read_block_def sdmmc_mem_write_block_def by (intro keeps keeps_with_dma; simp)+

text \<open>The life of a card, with drivers that keep a view \<open>f\<close> of the layers above.\<close>

end

definition drivers_keep :: "(('h, 'z) sdmmc_scheme \<Rightarrow> 'b) \<Rightarrow> ('h, 'z) slot_drivers \<Rightarrow> bool" where
  "drivers_keep f D \<longleftrightarrow> upper_part f \<and> keeps f (scsi_attach D) \<and> keeps f (scsi_detach D)
     \<and> (\<forall>p. keeps f (io_found D p)) \<and> (\<forall>p. keeps f (io_release D p))"

lemma drivers_keepD:
  assumes "drivers_keep f D"
  shows "upper_part f" "keeps f (scsi_attach D)" "keeps f (scsi_detach D)" "keeps f (io_found D p)" "keeps f (io_release D p)"
    "keeps upper m \<Longrightarrow> keeps f m"
  using assms unfolding drivers_keep_def by (auto intro: keeps_upper_part)

lemma upper_set [keeps]:
  "keeps upper (modify (\<lambda>s. s\<lparr>sf_head := a\<rparr>))" "keeps upper (modify (\<lambda>s. s\<lparr>sc_function_count := b\<rparr>))"
  "keeps upper (modify (\<lambda>s. s\<lparr>sc_fn0 := c\<rparr>))" "keeps upper (modify (\<lambda>s. s\<lparr>sc_flags := g s\<rparr>))"
  by (intro keeps_modify; simp)+

lemma drivers_io:
  assumes "drivers_keep f D"
  shows "keeps f (sdmmc_io_attach (io_found D))" "keeps f (sdmmc_io_detach (io_release D))"
proof -
  have upd: "keeps f (upd_fn p g)" for p g
    by (rule drivers_keepD(6) [OF assms]) (intro keeps, simp)
  note D = drivers_keepD(4,5) [OF assms]
  show "keeps f (sdmmc_io_attach (io_found D))" "keeps f (sdmmc_io_detach (io_release D))"
    unfolding sdmmc_io_attach_def sdmmc_io_detach_def by (intro keeps; auto intro!: keeps D upd)+
qed

lemma drivers_flags: "drivers_keep f D \<Longrightarrow> keeps f (modify (\<lambda>s. s\<lparr>sc_flags := g s\<rparr>))"
  by (erule drivers_keepD(6)) (rule upper_set)

context sdmmc_chip begin

lemma upper_detach:
  assumes "drivers_keep f D"
  shows "keeps f (sdmmc_card_detach T D)"
proof -
  note up = drivers_keepD(6) [OF assms]
  have "keeps f (detach_drivers D)"
    unfolding detach_drivers_def
    by (intro keeps_bind keeps_get keeps_return keeps_if drivers_io [OF assms] drivers_keepD(2,3) [OF assms]
      drivers_flags [OF assms])
  moreover have "keeps f (sdmmc_disable T)" "keeps f (run_all (map sdmmc_function_free ps))" for ps
    by (rule up, intro keeps, auto intro: upper_free)+
  ultimately show ?thesis
    unfolding sdmmc_card_detach_def by (intro keeps_bind keeps_get keeps_return up [OF upper_set(1)]
      up [OF upper_set(2)] up [OF upper_set(3)])
qed

lemma upper_attach:
  assumes "drivers_keep f D" and "chip_signal_voltage T = None"
  shows "keeps f (sdmmc_card_attach n P T D)"
proof -
  note up = drivers_keepD(6) [OF assms(1)]
  have "keeps f rw_enter_write" "keeps f rw_exit" "keeps f (sdmmc_enable P T)" "keeps f (sdmmc_scan T)"
    "keeps f (sdmmc_init n P T)"
    by (intro up upper_lock upper_enable upper_scan upper_init assms(2))+
  then show ?thesis
    unfolding sdmmc_card_attach_def
    by (intro keeps_bind keeps_get keeps_return keeps_if keeps_obind upper_detach [OF assms(1)]
        drivers_io [OF assms(1)] drivers_keepD(2) [OF assms(1)] drivers_flags [OF assms(1)])
qed

lemma upper_locked_detach:
  assumes "drivers_keep f D"
  shows "keeps f (locked_detach T D)"
proof -
  have "keeps f rw_enter_write" "keeps f rw_exit"
    by (intro drivers_keepD(6) [OF assms] upper_lock)+
  then show ?thesis unfolding locked_detach_def by (intro keeps_bind upper_detach assms)
qed

lemma upper_discover:
  assumes "drivers_keep f D" and "chip_signal_voltage T = None"
  shows "keeps f (sdmmc_discover_task n P T D)"
proof -
  have "keeps f (chip_card_detect T)"
    by (rule drivers_keepD(6) [OF assms(1)]) (intro keeps, simp)
  moreover have "keeps f (modify (\<lambda>s. if isset (sc_flags s) SMF_CONFIG_PENDING
      then s\<lparr>sc_flags := clrf (sc_flags s) SMF_CONFIG_PENDING\<rparr> else s))"
    by (rule drivers_keepD(6) [OF assms(1)]) (intro keeps_modify, simp)
  ultimately show ?thesis
    unfolding sdmmc_discover_task_def
    by (intro keeps_bind keeps_get keeps_return keeps_if keeps_obind keeps_osome upper_attach [OF assms]
        upper_locked_detach [OF assms(1)] drivers_flags [OF assms(1)])
qed

lemma upper_tail:
  assumes "drivers_keep f D"
  shows "keeps f (thread_tail T D)"
proof -
  have "keeps f (modify (\<lambda>s. s\<lparr>sc_dying := a\<rparr>))" "keeps f (modify (\<lambda>s. s\<lparr>sc_task_thread := b\<rparr>))" for a b
    by (rule drivers_keepD(6) [OF assms]; intro keeps_modify; simp)+
  then show ?thesis
    unfolding thread_tail_def
    by (intro keeps_bind keeps_get keeps_return keeps_if upper_locked_detach [OF assms]
        drivers_flags [OF assms])
qed

end

end
