(* ===== verification/Chunks.thy ===== *)
theory Chunks
  imports Driver
begin

text \<open>
  The rounds of a disk request: the loop of \<open>read_task_impl_\<close>, written with wrapping machine
  integers, is the sequence of its chunks of 256 blocks. Which requests are accepted, and that
  an accepted request stays on the card.
\<close>

section \<open>The loop is a sequence of chunks\<close>

text \<open>Steps that stop at the first error and may not return.\<close>

fun osteps :: "('s, unit res option) state list \<Rightarrow> ('s, unit res option) state" where
  "osteps [] = ret (Some OK)"
| "osteps (m # ms) = obind m (\<lambda>e. if e \<noteq> OK then ret (Some e) else osteps ms)"

text \<open>Chunk \<open>k\<close> of a request for \<open>bytes\<close> bytes at block \<open>b\<close>.\<close>

definition chunk_len :: "nat \<Rightarrow> nat \<Rightarrow> nat" where
  "chunk_len bytes k = min 131072 (bytes - 131072 * k)"

definition chunk_count :: "nat \<Rightarrow> nat" where
  "chunk_count bytes = (bytes + 131071) div 131072"

definition chunk ::
    "nat \<Rightarrow> 'h platform \<Rightarrow> 'h storage \<Rightarrow> ('h, 'z) disk_chip \<Rightarrow> bio \<Rightarrow> u64 \<Rightarrow> nat \<Rightarrow> nat \<Rightarrow> nat
       \<Rightarrow> (('h, 'z) disk_scheme, unit res option) state" where
  "chunk n P S T args buf b bytes k =
     send_chunk n P S T args buf (int (b + 256 * k)) (of_nat (chunk_len bytes k)) (of_nat (131072 * k))"

lemma c_int_id: "0 \<le> x \<Longrightarrow> x < 2147483648 \<Longrightarrow> c_int x = x"
  by (simp add: c_int_def signed_of_int signed_take_bit_int_eq_self)

lemma of_nat_64: "x < 2 ^ 64 \<Longrightarrow> unat (of_nat x :: u64) = x"
  by (simp add: unsigned_of_nat take_bit_nat_eq_self)

lemma chunk_count_less: "131072 * k < bytes \<longleftrightarrow> k < chunk_count bytes"
  by (auto simp: chunk_count_def)

lemma chunk_round:
  assumes "131072 * k < bytes" and "bytes < 2 ^ 64"
  shows "(of_nat (bytes - 131072 * k) :: u64) \<noteq> 0"
    and "(if (of_nat (bytes - 131072 * k) :: u64) > maxSendBytes then maxSendBytes
      else of_nat (bytes - 131072 * k)) = of_nat (chunk_len bytes k)"
    and "(of_nat (bytes - 131072 * k) :: u64) - of_nat (chunk_len bytes k) = of_nat (bytes - 131072 * Suc k)"
proof -
  let ?r = "bytes - 131072 * k"
  have u: "unat (of_nat ?r :: u64) = ?r" using assms by (intro of_nat_64) simp
  show "(of_nat ?r :: u64) \<noteq> 0" using u assms by (metis unat_0 zero_less_diff less_numeral_extra(3))
  have gt: "(of_nat ?r :: u64) > maxSendBytes \<longleftrightarrow> ?r > 131072" by (simp add: word_less_nat_alt u)
  show "(if (of_nat ?r :: u64) > maxSendBytes then maxSendBytes else of_nat ?r) = of_nat (chunk_len bytes k)"
    by (auto simp: gt chunk_len_def)
  have "(of_nat ?r :: u64) = of_nat (bytes - 131072 * Suc k + chunk_len bytes k)"
    by (rule arg_cong [where f = of_nat]) (auto simp: chunk_len_def)
  then show "(of_nat ?r :: u64) - of_nat (chunk_len bytes k) = of_nat (bytes - 131072 * Suc k)" by simp
qed

lemma send_loop_from:
  assumes "bytes < 2 ^ 64" and "b + bytes div 512 < 2 ^ 31" and "j \<le> chunk_count bytes"
  shows "send_loop n P S T args buf (int (b + 256 * j)) (of_nat (bytes - 131072 * j)) (of_nat (131072 * j))
    = osteps (map (chunk n P S T args buf b bytes) [j..<chunk_count bytes])"
  using assms(3)
proof (induction "chunk_count bytes - j" arbitrary: j)
  case 0
  then have j: "j = chunk_count bytes" by simp
  then have z: "bytes - 131072 * j = 0" using chunk_count_less [of j bytes] by simp
  have "(of_nat (bytes - 131072 * j) :: u64) = 0" unfolding z by simp
  moreover have "[j..<chunk_count bytes] = []" using j by simp
  ultimately show ?case by (subst send_loop.simps) (simp only: simp_thms if_True list.map osteps.simps)
next
  case (Suc d)
  then have j: "131072 * j < bytes" by (simp add: chunk_count_less)
  note r = chunk_round [OF j assms(1)]
  have ih: "send_loop n P S T args buf (int (b + 256 * Suc j)) (of_nat (bytes - 131072 * Suc j)) (of_nat (131072 * Suc j))
      = osteps (map (chunk n P S T args buf b bytes) [Suc j..<chunk_count bytes])"
    using Suc by (intro Suc.hyps(1)) auto
  have rest: "send_loop n P S T args buf (c_int (int (b + 256 * j) + uint (of_nat (chunk_len bytes j) div 512 :: u64)))
      (of_nat (bytes - 131072 * Suc j)) (of_nat (131072 * j) + of_nat (chunk_len bytes j))
    = osteps (map (chunk n P S T args buf b bytes) [Suc j..<chunk_count bytes])"
  proof (cases "131072 * Suc j < bytes")
    case True
    then have len: "chunk_len bytes j = 131072" by (simp add: chunk_len_def)
    have "256 * Suc j \<le> bytes div 512" using True by simp
    then have "b + 256 * Suc j < 2 ^ 31" using assms(2) by simp
    then have "c_int (int (b + 256 * j) + 256) = int (b + 256 * Suc j)" by (subst c_int_id) simp_all
    moreover have "uint ((of_nat 131072 :: u64) div 512) = 256" by simp
    moreover have "(of_nat (131072 * j) + of_nat 131072 :: u64) = of_nat (131072 * Suc j)" by simp
    ultimately show ?thesis unfolding len by (simp only: ih)
  next
    case False
    then have z: "bytes - 131072 * Suc j = 0" by simp
    have "(of_nat (bytes - 131072 * Suc j) :: u64) = 0" unfolding z by simp
    moreover have "[Suc j..<chunk_count bytes] = []" using False chunk_count_less [of "Suc j" bytes] by simp
    ultimately show ?thesis by (subst send_loop.simps) (simp only: simp_thms if_True list.map osteps.simps)
  qed
  have "[j..<chunk_count bytes] = j # [Suc j..<chunk_count bytes]"
    using Suc.prems Suc.hyps(2) by (simp add: upt_conv_Cons)
  then show ?case
    by (subst send_loop.simps) (simp only: r(1) if_False r(2) Let_def r(3) rest list.map osteps.simps chunk_def)
qed

section \<open>The chunks cover the request\<close>

lemma chunk_blocks: "chunk_len (512 * m) k div 512 = min 256 (m - 256 * k)"
proof -
  have "chunk_len (512 * m) k = 512 * min 256 (m - 256 * k)"
    by (simp add: chunk_len_def min_mult_distrib_left diff_mult_distrib2)
  then show ?thesis by simp
qed

lemma concat_blocks:
  "concat (map (\<lambda>k. [b + 256 * k..<b + 256 * k + min 256 (m - 256 * k)]) [0..<c]) = [b..<b + min (256 * c) m]"
proof (induction c)
  case (Suc c)
  have "[b..<b + min (256 * c) m] @ [b + 256 * c..<b + 256 * c + min 256 (m - 256 * c)] = [b..<b + min (256 * Suc c) m]"
  proof (cases "256 * c \<le> m")
    case True
    then have "b + min (256 * c) m = b + 256 * c" "b + min (256 * Suc c) m = b + 256 * c + min 256 (m - 256 * c)"
      by (simp_all add: min_def) arith
    then show ?thesis
      using upt_add_eq_append [of b "b + 256 * c" "min 256 (m - 256 * c)"] by (simp only: le_add1)
  next
    case False
    then show ?thesis by simp
  qed
  with Suc show ?case by simp
qed simp

lemma chunks_cover:
  "concat (map (\<lambda>k. [b + 256 * k..<b + 256 * k + chunk_len (512 * m) k div 512]) [0..<chunk_count (512 * m)])
    = [b..<b + m]"
proof -
  have "m \<le> 256 * chunk_count (512 * m)" by (simp add: chunk_count_def)
  then show ?thesis by (simp add: chunk_blocks concat_blocks min_absorb2)
qed

lemma send_loop_is_chunks:
  assumes "unat (bio_block a) + unat (bio_nblks a) < 2 ^ 31"
  shows "send_loop n P S T a buf (sint (ucast (bio_block a) :: u32)) (bio_nblks a * 512) 0
      = osteps (map (chunk n P S T a buf (unat (bio_block a)) (512 * unat (bio_nblks a)))
                 [0..<chunk_count (512 * unat (bio_nblks a))])"
proof -
  let ?b = "unat (bio_block a)" and ?m = "unat (bio_nblks a)"
  have "?b < 2147483648" using assms by simp
  then have "int ?b < 2147483648" by linarith
  then have lt: "uint (bio_block a) < 2147483648" by simp
  have "ucast (bio_block a) = (word_of_int (int ?b) :: u32)"
    by (simp add: of_nat_unat)
  then have b: "sint (ucast (bio_block a) :: u32) = int ?b"
    using c_int_id [of "int ?b"] lt by (simp add: c_int_def)
  have "bio_nblks a * 512 = of_nat (512 * ?m)" by simp
  moreover have "512 * ?m < 2 ^ 64" "?b + 512 * ?m div 512 < 2 ^ 31" using assms by simp_all
  ultimately show ?thesis
    using send_loop_from [of "512 * ?m" ?b 0 n P S T a buf] by (simp add: b mult.commute)
qed

text \<open>
  C9: a request that lies on the card is served by its chunks in order: the loop, with its
  truncated and wrapping integers, is the sequence of transfers of at most 256 blocks that cover
  the blocks of the request exactly once, and it stops at the first error.
\<close>

theorem request_is_its_chunks:
  assumes "unat (bio_block a) + unat (bio_nblks a) < 2 ^ 31"
  shows "send_loop n P S T a buf (sint (ucast (bio_block a) :: u32)) (bio_nblks a * 512) 0
      = osteps (map (chunk n P S T a buf (unat (bio_block a)) (512 * unat (bio_nblks a)))
                 [0..<chunk_count (512 * unat (bio_nblks a))])
    \<and> concat (map (\<lambda>k. [unat (bio_block a) + 256 * k..<
        unat (bio_block a) + 256 * k + chunk_len (512 * unat (bio_nblks a)) k div 512])
      [0..<chunk_count (512 * unat (bio_nblks a))]) = [unat (bio_block a)..<unat (bio_block a) + unat (bio_nblks a)]"
  using send_loop_is_chunks [OF assms] by (simp add: chunks_cover)

theorem request_is_its_chunks_witness:
  "let a = \<lparr>bio_buffer = 1, bio_direction = kIODirectionIn, bio_block = 1000, bio_nblks = 300, bio_completion = None\<rparr> in
   send_loop 1 bare_platform bare_storage (rtsx_functions bare_platform) a 4096 1000 153600 0
    = (osteps [chunk 1 bare_platform bare_storage (rtsx_functions bare_platform) a 4096 1000 153600 0,
        chunk 1 bare_platform bare_storage (rtsx_functions bare_platform) a 4096 1000 153600 1]
       :: (unit driver, unit res option) state)"
proof -
  let ?a = "\<lparr>bio_buffer = 1, bio_direction = kIODirectionIn, bio_block = 1000, bio_nblks = 300, bio_completion = None\<rparr>"
  have "chunk_count 153600 = 2" by (simp add: chunk_count_def)
  then have two: "[0..<chunk_count 153600] = [0, 1]" by (simp add: upt_rec)
  have "unat (bio_block ?a) + unat (bio_nblks ?a) < 2 ^ 31" by simp
  from request_is_its_chunks [OF this, THEN conjunct1, of 1 bare_platform bare_storage "rtsx_functions bare_platform" 4096]
  show ?thesis by (simp add: Let_def two del: osteps.simps)
qed

section \<open>Which requests are accepted\<close>

text \<open>
  C17: a request is accepted exactly when the device is alive, its direction is known and
  permitted, memory is left, and the sum of its first block and its length, taken on 64 bits,
  does not exceed the number of blocks; it is then queued exactly once, behind all others, with
  its arguments. A refused request queues nothing.
\<close>

theorem async_accepts:
  "case run_state (doAsyncReadWrite P S buffer block nblks completion) s of (r, s') \<Rightarrow>
     let dir = st_direction S (hw s) buffer;
         valid_request = (\<not> st_inactive S (hw s) \<and> (dir = kIODirectionIn \<or> dir = kIODirectionOut \<and> write_enabled s)
           \<and> (unat block + unat nblks) mod 2 ^ 64 \<le> unat (num_blocks s)) in
     if valid_request \<and> fst (km_alloc P (hw s) 48) \<noteq> 0
     then r = kIOReturnSuccess \<and> tskq s' = tskq s @ [DiskTask (next_task s)] \<and> next_task s' = Suc (next_task s)
       \<and> bios s' = (bios s)(next_task s \<mapsto> \<lparr>bio_buffer = buffer, bio_direction = dir, bio_block = block,
           bio_nblks = nblks, bio_completion = completion\<rparr>)
     else r \<noteq> kIOReturnSuccess \<and> tskq s' = tskq s"
proof -
  have range: "block + nblks > ucast (num_blocks s) \<longleftrightarrow> \<not> (unat block + unat nblks) mod 2 ^ 64 \<le> unat (num_blocks s)"
    by (simp add: word_less_nat_alt unat_word_ariths unat_ucast_up not_le)
  show ?thesis
    by (auto simp: doAsyncReadWrite_def Let_def range run_call_hw sdmmc_init_task_def sdmmc_add_task_def
        simp del: not_le)
qed

text \<open>The sum can wrap around: two blocks from the last 64 bit number on are accepted for every card.\<close>

lemma async_range_wraps:
  assumes "\<not> st_inactive S (hw s)" and "st_direction S (hw s) buffer = kIODirectionIn"
    and "fst (km_alloc P (hw s) 48) \<noteq> 0" and "1 \<le> num_blocks s"
  shows "fst (run_state (doAsyncReadWrite P S buffer (- 1) 2 completion) s) = kIOReturnSuccess"
proof -
  have "num_blocks s \<noteq> 0" using assms(4) by auto
  then have "\<not> (1 :: u64) > ucast (num_blocks s)"
    by (simp add: word_less_nat_alt unat_ucast_up unat_gt_0)
  then show ?thesis using assms by (simp add: doAsyncReadWrite_def run_call_hw split: prod.split)
qed

end
