(* ===== verification/Requests.thy ===== *)
theory Requests
  imports System UpperFrame Chunks
begin

text \<open>
  What becomes of the requests of the storage stack: a step relation of the whole driver, in
  which interrupts, tasks, new requests, power changes and the device interleave, with the
  invariant of the slot and the account of the requests in every reachable state.
\<close>

section \<open>The account of the requests\<close>

definition req_view ::
    "('h, 'z) disk_scheme \<Rightarrow> (nat \<Rightarrow> bio option) \<times> nat \<times> (nat \<times> io_return \<times> u64) list
       \<times> task list \<times> (nat \<Rightarrow> bool) \<times> (nat \<Rightarrow> bool)" where
  "req_view s = (bios s, next_task s, completions s, disk_queue s)"

lemma upper_part_req [simp]: "upper_part req_view"
  unfolding upper_part_def
proof (intro allI impI)
  fix s s' :: "('h, 'z) disk_scheme"
  assume eq: "upper s = upper s'"
  then have "sdmmc.more s = sdmmc.more s'" by (simp add: upper_def)
  then have "bios s = bios s'" "next_task s = next_task s'" "completions s = completions s'"
    by (cases s; cases s'; simp)+
  with eq show "req_view s = req_view s'" by (simp add: req_view_def upper_def)
qed

lemma upper_keeps_req: "keeps upper m \<Longrightarrow> keeps req_view m"
  by (rule keeps_upper_part) simp_all

lemma outer_keeps_req: "keeps outer m \<Longrightarrow> keeps req_view m"
  by (rule upper_keeps_req, erule keeps_slot_part) simp

lemma req_update [simp]:
  "req_view (s\<lparr>sddisk := a\<rparr>) = req_view s" "req_view (s\<lparr>disk_provider := b\<rparr>) = req_view s"
  "req_view (s\<lparr>disk_softc := b\<rparr>) = req_view s" "req_view (s\<lparr>card_is_write_protected := b\<rparr>) = req_view s"
  "req_view (s\<lparr>num_blocks := k\<rparr>) = req_view s" "req_view (s\<lparr>blk_size := k\<rparr>) = req_view s"
  "req_view (s\<lparr>seg_arrays := g\<rparr>) = req_view s" "req_view (s\<lparr>sc_panic := b\<rparr>) = req_view s"
  by (simp_all add: req_view_def disk_queue_def)

lemma outer_bus_read: "keeps outer (bus_space_read_4 P d off)"
  by (intro keeps) simp

lemma drivers_req: "drivers_keep req_view (card_drivers P I)"
proof -
  have "keeps req_view (blk_attach P I)"
    unfolding blk_attach_def SDDisk_init_def SDDisk_attach_def cardIsWriteProtected_def
    by (intro keeps outer_keeps_req [OF outer_bus_read] outer_keeps_req [OF more_hw(2)]) simp_all
  moreover have "keeps req_view blk_detach"
    unfolding blk_detach_def SDDisk_detach_def by (intro keeps) simp_all
  ultimately show ?thesis
    by (simp add: drivers_keep_def card_drivers_def sdmmc_scsi_attach_def sdmmc_scsi_detach_def keeps_return)
qed

lemma req_discover: "keeps req_view (sdmmc_discover_task n P (rtsx_functions P) (card_drivers P I))"
  by (rule rtsx_chip.upper_discover [OF drivers_req]) (simp add: rtsx_functions_def)

lemma req_tail: "keeps req_view (thread_tail (rtsx_functions P) (card_drivers P I))"
  by (rule rtsx_chip.upper_tail [OF drivers_req])

lemma req_send_loop:
  fixes T :: "('h, 'z) disk_chip"
  assumes "sdmmc_chip T mb"
  shows "keeps req_view (send_loop n P S T args buf blocks remaining sent)"
  using assms
proof (induction n P S T args buf blocks remaining sent rule: send_loop.induct)
  case (1 n P S T args buf blocks remaining sent)
  note blk = upper_keeps_req [OF sdmmc_chip.upper_block(1) [OF 1(2)]] upper_keeps_req [OF sdmmc_chip.upper_block(2) [OF 1(2)]]
  have "keeps req_view (send_chunk n P S T args buf blocks len sent)" for len
    unfolding send_chunk_def by (intro keeps blk outer_keeps_req [OF more_hw(2)]) simp
  with 1 show ?case by (subst send_loop.simps) (auto simp: Let_def intro!: keeps)
qed

lemma req_dma: "keeps req_view (dma_alloc P sz k)" "keeps req_view (dma_free P kva)"
  unfolding dma_alloc_def dma_free_def
  by (intro keeps outer_keeps_req [OF more_dmamem(1)] outer_keeps_req [OF more_dmamem(2)]
      outer_keeps_req [OF more_dmamem(3)] outer_keeps_req [OF more_dmamem(4)])+

text \<open>A view of the slot and the disk that no request can change.\<close>

definition request_frame :: "(('h, 'z) disk_scheme \<Rightarrow> 'b) \<Rightarrow> bool" where
  "request_frame f \<longleftrightarrow> card_frame f \<and> (\<forall>s x. f (s\<lparr>sc_lock := x\<rparr>) = f s)
     \<and> (\<forall>s x. f (s\<lparr>completions := x\<rparr>) = f s) \<and> (\<forall>s x. f (s\<lparr>bios := x\<rparr>) = f s)"

lemma request_frameD:
  assumes "request_frame f"
  shows "card_frame f" "slot_part f" "f (s\<lparr>sc_lock := a\<rparr>) = f s" "f (s\<lparr>completions := b\<rparr>) = f s"
    "f (s\<lparr>bios := c\<rparr>) = f s" "f (s\<lparr>sc_panic := d\<rparr>) = f s" "f (s\<lparr>seg_arrays := e\<rparr>) = f s"
proof -
  show c: "card_frame f" and "f (s\<lparr>sc_lock := a\<rparr>) = f s" "f (s\<lparr>completions := b\<rparr>) = f s" "f (s\<lparr>bios := c\<rparr>) = f s"
    using assms unfolding request_frame_def by blast+
  then show s: "slot_part f" and "f (s\<lparr>sc_panic := d\<rparr>) = f s"
    by (simp_all add: card_frame_def)
  show "f (s\<lparr>seg_arrays := e\<rparr>) = f s" by (rule slot_partD [OF s]) simp
qed

context sdmmc_chip begin

lemma frame_block:
  assumes "card_frame f" and "\<And>s x. f (s\<lparr>sc_lock := x\<rparr>) = f s"
  shows "keeps f (sdmmc_mem_read_block n P T p b a len)" "keeps f (sdmmc_mem_write_block n P T p b a len)"
proof -
  note f = assms card_frameD(1) [OF assms(1)]
  have "keeps f rw_enter_write" "keeps f rw_exit"
    unfolding rw_enter_write_def rw_exit_def by (intro keeps f)+
  note lock = this
  show "keeps f (sdmmc_mem_read_block n P T p b a len)" "keeps f (sdmmc_mem_write_block n P T p b a len)"
    unfolding sdmmc_mem_read_block_def sdmmc_mem_write_block_def by (intro keeps keeps_with_dma lock f)+
qed

end

lemma frame_send_loop:
  fixes f :: "('h, 'z) disk_scheme \<Rightarrow> 'b"
  assumes "sdmmc_chip T mb" and "request_frame f"
  shows "keeps f (send_loop n P S T args buf blocks remaining sent)"
  using assms
proof (induction n P S T args buf blocks remaining sent rule: send_loop.induct)
  case (1 n P S T args buf blocks remaining sent)
  note f = request_frameD [OF 1(3)]
  have "keeps f (send_chunk n P S T args buf blocks len sent)" for len
    unfolding send_chunk_def by (intro keeps sdmmc_chip.frame_block [OF 1(2)] slot_hw f)
  with 1 show ?case by (subst send_loop.simps) (auto simp: Let_def intro!: keeps)
qed

lemma frame_read_task:
  fixes f :: "('h, 'z) disk_scheme \<Rightarrow> 'b"
  assumes "sdmmc_chip T mb" and "request_frame f"
  shows "keeps f (read_task_impl n P S T i)"
proof -
  note f = request_frameD [OF assms(2)]
  have low: "keeps outer m \<Longrightarrow> keeps f m" for m :: "(('h, 'z) disk_scheme, 'c) state"
    by (rule keeps_slot_part [OF _ f(2)])
  have "keeps f (dma_alloc P sz k)" "keeps f (dma_free P kva)" for sz k kva
    unfolding dma_alloc_def dma_free_def
    by (intro keeps low [OF more_dmamem(1)] low [OF more_dmamem(2)] low [OF more_dmamem(3)] low [OF more_dmamem(4)])+
  then show ?thesis
    unfolding read_task_impl_def complete_bio_def
    by (intro keeps frame_send_loop [OF assms] slot_hw f)
qed

section \<open>The end of a request\<close>

text \<open>How a request ends: the entry for its completion action, if it has one, and no argument left.\<close>

definition completed :: "nat \<Rightarrow> bio \<Rightarrow> u64 \<Rightarrow> ('h, 'z) disk_scheme \<Rightarrow> ('h, 'z) disk_scheme \<Rightarrow> bool" where
  "completed i a bytes s s' \<longleftrightarrow> bios s' = (bios s)(i := None) \<and> next_task s' = next_task s
     \<and> disk_queue s' = disk_queue s
     \<and> (\<exists>r k. completions s' = completions s @ (case bio_completion a of None \<Rightarrow> [] | Some c \<Rightarrow> [(c, r, k)])
            \<and> (r = kIOReturnSuccess \<and> k = bytes \<or> r \<in> {kIOReturnNoMemory, kIOReturnIOError} \<and> k = 0))"

lemma complete_run:
  assumes "run_state (complete_bio i a bytes e) s1 = (u, s')" and "req_view s1 = req_view s"
  shows "completed i a bytes s s'"
  using assms
  by (auto simp: complete_bio_def completed_def req_view_def disk_queue_def split: option.splits sum.splits)

text \<open>What a request needs to be served.\<close>

definition servable :: "('h, 'z) disk_scheme \<Rightarrow> bio \<Rightarrow> bool" where
  "servable s a \<longleftrightarrow> bio_buffer a \<noteq> 0 \<and> disk_provider s \<and> sdmmc_attached s \<and> sc_fn0 s \<noteq> None"

text \<open>The buffer of a request, allocated and released as \<open>read_task_impl_\<close> does.\<close>

definition request_buffer :: "'h platform \<Rightarrow> 'h storage \<Rightarrow> bool \<Rightarrow> u64 \<Rightarrow> (('h, 'z) disk_scheme, u64) state" where
  "request_buffer P S na bytes = (if \<not> na then do {
      modify (\<lambda>s. s\<lparr>seg_arrays := (seg_arrays s)(disk_segs := replicate (SDMMC_MAXNSEGS P) zero_segment)\<rparr>);
      dma_alloc P (if bytes > maxSendBytes then maxSendBytes else bytes) (SDMMC_MAXNSEGS P) }
    else ret (st_static_buffer S))"

definition request_release :: "'h platform \<Rightarrow> bool \<Rightarrow> u64 \<Rightarrow> (('h, 'z) disk_scheme, unit) state" where
  "request_release P na buf = (if \<not> na then dma_free P buf else ret ())"

lemma req_buffer: "keeps req_view (request_buffer P S na bytes)" "keeps req_view (request_release P na buf)"
  unfolding request_buffer_def request_release_def by (intro keeps req_dma; simp)+

text \<open>The ways through the task of a request that can be served.\<close>

lemma read_task_cases:
  assumes "run_state (read_task_impl n P S T i) s = (Some (), s')" and "bios s i = Some a" and "servable s a"
  obtains (no_memory) s1 where
      "run_state (request_buffer P S (no_adma s) (bio_nblks a * ucast (blk_size s))) s = (0, s1)"
      "run_state (complete_bio i a (bio_nblks a * ucast (blk_size s)) (Inl ENOMEM)) s1 = ((), s')"
    | (served) buf s1 e s2 s3 where
      "run_state (request_buffer P S (no_adma s) (bio_nblks a * ucast (blk_size s))) s = (buf, s1)"
      "run_state (send_loop n P S T a buf (sint (ucast (bio_block a) :: u32)) (bio_nblks a * 512) 0) s1 = (Some e, s2)"
      "run_state (request_release P (no_adma s) buf) s2 = ((), s3)"
      "run_state (complete_bio i a (bio_nblks a * ucast (blk_size s)) e) s3 = ((), s')"
proof -
  let ?total = "bio_nblks a * ucast (blk_size s)"
  obtain buf s1 where buf: "run_state (request_buffer P S (no_adma s) ?total) s = (buf, s1)" by fastforce
  note task = assms(1) [unfolded read_task_impl_def request_buffer_def [symmetric] request_release_def [symmetric] Let_def]
  show thesis
  proof (cases "buf = 0")
    case True
    with task assms(2,3) buf show thesis
      by (intro no_memory) (auto simp: servable_def osome_def split: prod.splits)
  next
    case False
    let ?loop = "send_loop n P S T a buf (sint (ucast (bio_block a) :: u32)) (bio_nblks a * 512) 0"
    obtain x s2 where x: "run_state ?loop s1 = (x, s2)" by fastforce
    obtain s3 where u: "run_state (request_release P (no_adma s) buf) s2 = ((), s3)"
      by (cases "run_state (request_release P (no_adma s) buf) s2") auto
    with task assms(2,3) buf False x obtain e where "x = Some e"
      "run_state (complete_bio i a ?total e) s3 = ((), s')"
      by (auto simp: servable_def osome_def obind_def split: prod.splits option.splits)
    with buf x u show thesis by (intro served) simp_all
  qed
qed

lemma read_task_outcome:
  fixes T :: "('h, 'z) disk_chip"
  assumes chip: "sdmmc_chip T mb"
    and run: "run_state (read_task_impl n P S T i) s = (Some (), s')" and a: "bios s i = Some a"
  shows "if servable s a then completed i a (bio_nblks a * ucast (blk_size s)) s s' else s' = s"
proof (cases "servable s a")
  case False
  with run a show ?thesis by (auto simp: read_task_impl_def servable_def)
next
  case True
  note keep = keeps_run [OF req_buffer(1)] keeps_run [OF req_buffer(2)] keeps_run [OF req_send_loop [OF chip]]
  from run a True have "completed i a (bio_nblks a * ucast (blk_size s)) s s'"
  proof (cases rule: read_task_cases)
    case (no_memory s1)
    then show ?thesis using keep(1) by (blast intro: complete_run)
  next
    case (served buf s1 e s2 s3)
    then show ?thesis using keep(1) [OF served(1)] keep(2) [OF served(3)] keep(3) [OF served(2)]
      by (intro complete_run [OF served(4)]) simp
  qed
  then show ?thesis using True by simp
qed

text \<open>
  C11: a request is completed exactly once, with success and its byte count or with an error
  and 0, and its arguments are freed; but when the card is gone, or the device is detached from
  its provider, nothing is done at all: the action of the request is never called.
\<close>

theorem request_completed_once:
  assumes "run_state (read_task_impl n P S (rtsx_functions P) i) s = (Some (), s')" and "bios s i = Some a"
  shows "if servable s a then completed i a (bio_nblks a * ucast (blk_size s)) s s' else s' = s"
  using assms by (rule read_task_outcome [OF rtsx_chip.sdmmc_chip_axioms])

text \<open>A request for one block, on a platform without memory.\<close>

definition one_request :: bio where
  "one_request = \<lparr>bio_buffer = 8192, bio_direction = kIODirectionIn, bio_block = 7, bio_nblks = 1,
     bio_completion = Some 0\<rparr>"

definition one_request_state :: "unit driver" where
  "one_request_state = one_card\<lparr>bios := [0 \<mapsto> one_request], next_task := 1, tskq := [DiskTask 0],
     disk_provider := True, blk_size := 512\<rparr>"

lemma bare_dma_alloc: "run_state (dma_alloc (bare_platform :: unit platform) sz k) s = (0, s)"
proof -
  have "s\<lparr>hw := hw s\<rparr> = s" by (cases s) simp
  moreover
  have "md_alloc (bare_platform :: unit platform) h c l = (0, h)" for h c l by (simp add: bare_platform_def)
  ultimately show ?thesis by (simp add: dma_alloc_def bus_dmamem_alloc_def run_call_hw)
qed

theorem request_completed_once_witness:
  "\<exists>r k. completions (snd (run_state (read_task_impl 1 bare_platform bare_storage (rtsx_functions bare_platform) 0)
    one_request_state)) = [(0, r, k)]"
proof -
  let ?m = "read_task_impl 1 bare_platform bare_storage (rtsx_functions bare_platform) 0"
  have sv: "servable one_request_state one_request" "bios one_request_state 0 = Some one_request"
    by (simp_all add: servable_def one_request_state_def one_request_def one_card_def)
  obtain r s' where run: "run_state ?m one_request_state = (r, s')" by fastforce
  have "r = Some ()"
    using run
    by (auto simp: read_task_impl_def one_request_state_def one_card_def one_request_def Let_def
        bare_dma_alloc osome_def split: prod.splits)
  with run have some: "run_state ?m one_request_state = (Some (), s')" by simp
  from request_completed_once [OF some sv(2)] sv(1) some show ?thesis
    by (auto simp: completed_def one_request_def one_request_state_def one_card_def)
qed

section \<open>Starting the driver\<close>

text \<open>A driver with an empty slot and no request: the cleared memory before it starts, and
  (below) what starting it leaves.\<close>

definition fresh_driver :: "'h driver \<Rightarrow> bool" where
  "fresh_driver s \<longleftrightarrow> slot_clean s \<and> \<not> io_mode s \<and> bios s = Map.empty \<and> next_task s = 0 \<and> completions s = []
     \<and> disk_queue s = ([], \<lambda>_. False, \<lambda>_. False)"

lemma fresh_outer: "keeps outer m \<Longrightarrow> preserves fresh_driver (m :: ('h driver, 'b) state)"
proof (rule preservesI)
  fix s :: "'h driver"
  assume k: "keeps outer m" and f: "fresh_driver s"
  from k have eq: "outer (snd (run_state m s)) = outer s" by (rule keepsD)
  have "req_view (snd (run_state m s)) = req_view s" by (rule keepsD [OF outer_keeps_req [OF k]])
  with f slot_fields [OF eq] show "fresh_driver (snd (run_state m s))"
    by (simp add: fresh_driver_def disk_queue_def slot_clean_def io_mode_def req_view_def)
qed

lemma fresh_found: "preserves fresh_driver (found_slot P I (0x0040 :: u32) caps)"
proof -
  have 1: "fresh_driver s \<Longrightarrow> fresh_driver (zero_slot s)" for s :: "'a driver"
    by (simp add: fresh_driver_def disk_queue_def zero_slot_def slot_clean_def io_mode_def isset_def)
  have 2: "fresh_driver s \<Longrightarrow> fresh_driver (s\<lparr>dev_mem := a, dev_live := b\<rparr>)" "fresh_driver s \<Longrightarrow> fresh_driver (s\<lparr>dev_active := b\<rparr>)"
    "fresh_driver s \<Longrightarrow> fresh_driver (s\<lparr>sc_dmap := a\<rparr>)" "fresh_driver s \<Longrightarrow> fresh_driver (s\<lparr>sc_lock := l\<rparr>)"
    "fresh_driver s \<Longrightarrow> fresh_driver (s\<lparr>sf_head := [], tskq := [], sc_intrq := []\<rparr>)"
    "fresh_driver s \<Longrightarrow> fresh_driver (s\<lparr>sc_task_thread := b\<rparr>)"
    "fresh_driver s \<Longrightarrow> fresh_driver (s\<lparr>sc_flags := setf (sc_flags s) SMF_CONFIG_PENDING\<rparr>)"
    "fresh_driver s \<Longrightarrow> fresh_driver (s\<lparr>sc_dmap := a, sc_flags := 0x0040, sc_caps := caps, sc_max_seg := k, sc_max_xfer := m\<rparr>)"
    for s :: "'a driver" and a b l k m
    by (simp_all add: fresh_driver_def disk_queue_def slot_clean_def io_mode_def isset_setf, simp add: isset_def)
  note low = fresh_outer [OF more_hw(1)] fresh_outer [OF more_hw(2)] fresh_outer [OF more_dmamap(1)]
  have 4: "preserves fresh_driver (sdmmc_init_task t :: ('a driver, unit) state)" if "\<not> disk_task t" for t
    unfolding sdmmc_init_task_def
    by (rule preserves_modify, cases t) (use that in \<open>auto simp: fresh_driver_def disk_queue_def slot_clean_def io_mode_def\<close>)
  show ?thesis
    unfolding found_slot_def config_found_sm_def config_search_slot config_attach_def sdmmc_attach_def
      sdmmc_create_thread_def kthread_create_def kthread_create_deferred_def option.case
    by (intro preserves low 4; (rule 1 2; assumption | simp))
qed

lemma fresh_attach: "preserves fresh_driver (rtsx_attach P (found_slot P I) d fl)"
proof -
  have upd: "fresh_driver s \<Longrightarrow> fresh_driver (s\<lparr>ioh := d, rflags := fl\<rparr>)" "fresh_driver s \<Longrightarrow> fresh_driver (s\<lparr>dmap_cmd := a\<rparr>)"
    "fresh_driver s \<Longrightarrow> fresh_driver (s\<lparr>dmap_data := a\<rparr>)" "fresh_driver s \<Longrightarrow> fresh_driver (s\<lparr>dmap_adma := a, adma_segs := b\<rparr>)"
    "fresh_driver s \<Longrightarrow> fresh_driver (s\<lparr>admabuf := a\<rparr>)" "fresh_driver s \<Longrightarrow> fresh_driver (s\<lparr>sdmmc_attached := x\<rparr>)"
    for s :: "'a driver" and a b x
    by (simp_all add: fresh_driver_def disk_queue_def slot_clean_def io_mode_def)
  have "keeps outer (destroy_maps P fs :: ('a driver, unit res) state)" for fs
    unfolding destroy_maps_def by (intro keeps; auto intro!: keeps)
  note low = this [THEN fresh_outer] more_hw [THEN fresh_outer] more_dmamap(1) [THEN fresh_outer]
    more_dmamem [THEN fresh_outer] more_store(2) [THEN fresh_outer] more_intr(1) [THEN fresh_outer]
    outer_power_parts(2) [THEN fresh_outer]
  show ?thesis
    unfolding rtsx_attach_def Let_def
    by (intro preserves low fresh_found; (rule upd; assumption)?)
qed

lemma start_fresh:
  assumes "fresh_driver s" and "run_state (Sinetek_start n P I w) s = (r, s')"
  shows "fresh_driver s'"
proof -
  have upd: "fresh_driver s \<Longrightarrow> fresh_driver (s\<lparr>workloop := x\<rparr>)" "fresh_driver s \<Longrightarrow> fresh_driver (s\<lparr>compat_owner := x\<rparr>)"
    "fresh_driver s \<Longrightarrow> fresh_driver (s\<lparr>pci_memory_map := a\<rparr>)" "fresh_driver s \<Longrightarrow> fresh_driver (s\<lparr>memory_descriptor := a\<rparr>)"
    "fresh_driver s \<Longrightarrow> fresh_driver (s\<lparr>intr_source := x\<rparr>)" "fresh_driver s \<Longrightarrow> fresh_driver (s\<lparr>task_loop := x\<rparr>)"
    "fresh_driver s \<Longrightarrow> fresh_driver (s\<lparr>task_timer := x\<rparr>)" for s :: "'a driver" and x a
    by (simp_all add: fresh_driver_def disk_queue_def slot_clean_def io_mode_def)
  note low = more_hw [THEN fresh_outer]
  have att: "preserves fresh_driver (rtsx_pci_attach n P I)"
    unfolding rtsx_pci_attach_def by (intro preserves low fresh_attach; (rule upd; assumption)?)
  have "preserves fresh_driver (Sinetek_start n P I w)"
    unfolding Sinetek_start_def openbsd_compat_start_def prepare_task_loop_def by (intro preserves low att; (rule upd; assumption)?)
  from preserves_run [OF this assms(2,1)] show ?thesis .
qed

text \<open>
  Starting the driver, whether the device is found and answers or not, leaves an empty slot
  without requests: the state from which its invariants are established.
\<close>

theorem start_is_fresh:
  assumes "fresh_driver s" and "run_state (Sinetek_start n P I w) s = (r, s')"
  shows "fresh_driver s'"
  using assms by (rule start_fresh)

theorem start_is_fresh_witness:
  "fresh_driver (snd (run_state (Sinetek_start 1 bare_platform bare_pci True) (driver_boot ())))"
proof -
  have "fresh_driver (driver_boot ())"
    by (simp add: fresh_driver_def disk_queue_def slot_clean_def io_mode_def isset_def)
  from start_is_fresh [OF this surjective_pairing] show ?thesis .
qed

section \<open>The driver as a transition system\<close>

text \<open>
  One step of the loaded driver: an interrupt is handled; the slot's thread takes the first task
  and runs it to its end; the thread starts, or leaves its loop; the storage stack submits a
  request, whose completion is identified with the number of the request; the power state
  changes; the slot is told to die; a child calls for ejection; the device does anything at all.
  A task runs as one step: the interrupts that arrive while it waits are those of its schedule,
  which is arbitrary, and a request submitted meanwhile only appends to the queue.
\<close>

inductive driver_step ::
    "'h platform \<Rightarrow> 'h storage \<Rightarrow> 'h pci \<Rightarrow> 'h driver \<Rightarrow> 'h driver \<Rightarrow> bool"
  for P S I where
  interrupt: "run_state (InterruptHandler P) s = (u, s') \<Longrightarrow> driver_step P S I s s'"
| task: "tskq s = t # q \<Longrightarrow> run_state (State_Monad.bind (sdmmc_del_task t) (\<lambda>_. run_task n P S I t)) s = (Some (), s')
    \<Longrightarrow> driver_step P S I s s'"
| thread_start: "run_state sdmmc_needs_discover s = (u, s') \<Longrightarrow> driver_step P S I s s'"
| thread_end: "run_state (thread_tail (rtsx_functions P) (card_drivers P I)) s = (u, s') \<Longrightarrow> driver_step P S I s s'"
| request: "run_state (doAsyncReadWrite P S buffer block nblks (Some (next_task s))) s = (r, s')
    \<Longrightarrow> driver_step P S I s s'"
| power: "run_state (setPowerState P ordinal) s = (u, s') \<Longrightarrow> driver_step P S I s s'"
| die: "driver_step P S I s (s\<lparr>sc_dying := 1\<rparr>)"
| eject: "run_state (doEjectMedia P) s = (u, s') \<Longrightarrow> driver_step P S I s s'"
| device: "driver_step P S I s (s\<lparr>hw := h, sched := es\<rparr>)"

inductive driver_reach :: "'h platform \<Rightarrow> 'h storage \<Rightarrow> 'h pci \<Rightarrow> 'h driver \<Rightarrow> bool" for P S I where
  start: "fresh_driver s \<Longrightarrow> run_state (Sinetek_start n P I True) s = (Some ok, s') \<Longrightarrow> driver_reach P S I s'"
| step: "driver_reach P S I s \<Longrightarrow> driver_step P S I s s' \<Longrightarrow> driver_reach P S I s'"

inductive_cases driver_stepE: "driver_step P S I s s'"

text \<open>
  The account: the requests are numbered in the order of their submission; a request is in
  exactly one of two states, its arguments allocated or its completion called; what is queued
  has been submitted and is queued once, and the marks of the tasks agree with the queue.
\<close>

definition queue_ok :: "task list \<times> (nat \<Rightarrow> bool) \<times> (nat \<Rightarrow> bool) \<Rightarrow> bool" where
  "queue_ok q \<longleftrightarrow> (case q of (ts, on, sc) \<Rightarrow> distinct ts
     \<and> on = (\<lambda>i. DiskTask i \<in> set ts) \<and> sc = (\<lambda>i. DiskTask i \<in> set ts))"

definition req_inv :: "('h, 'z) disk_scheme \<Rightarrow> bool" where
  "req_inv s \<longleftrightarrow> distinct (map fst (completions s))
     \<and> (\<forall>i. i < next_task s \<longleftrightarrow> (i \<in> fst ` set (completions s)) \<noteq> (i \<in> dom (bios s)))
     \<and> fst ` set (completions s) \<inter> dom (bios s) = {}
     \<and> (\<forall>i a. bios s i = Some a \<longrightarrow> bio_completion a = Some i)
     \<and> (\<forall>i. DiskTask i \<in> set (tskq s) \<longrightarrow> i < next_task s) \<and> queue_ok (disk_queue s)"

lemma queued_view: "DiskTask i \<in> set (tskq s) \<longleftrightarrow> DiskTask i \<in> set (fst (snd (snd (snd (req_view s)))))"
  by (simp add: req_view_def disk_queue_def)

lemma req_inv_view: "req_view s = req_view s' \<Longrightarrow> req_inv s = req_inv s'"
  unfolding req_inv_def queued_view by (simp add: req_view_def)

lemma keeps_req_inv: "keeps req_view m \<Longrightarrow> preserves req_inv m"
  unfolding preserves_def keeps_def using req_inv_view by blast

lemma disk_queue_eq: "disk_queue s' = disk_queue s \<Longrightarrow> DiskTask i \<in> set (tskq s') \<longleftrightarrow> DiskTask i \<in> set (tskq s)"
  using disk_queue_DiskTask by blast

lemma req_inv_completed:
  assumes "req_inv s" and "bios s i = Some a" and "completed i a b s s'"
  shows "req_inv s'"
proof -
  have c: "bio_completion a = Some i" using assms(1,2) by (simp add: req_inv_def)
  from assms(3) obtain r k where
    s': "bios s' = (bios s)(i := None)" "next_task s' = next_task s" "completions s' = completions s @ [(i, r, k)]"
      "disk_queue s' = disk_queue s"
    by (auto simp: completed_def c)
  have q: "DiskTask j \<in> set (tskq s') \<longleftrightarrow> DiskTask j \<in> set (tskq s)" for j
    by (rule disk_queue_eq [OF s'(4)])
  have i: "i \<in> dom (bios s)" using assms(2) by blast
  have dq: "queue_ok (disk_queue s')" using assms(1) s'(4) by (simp add: req_inv_def)
  from i have ni: "i \<notin> fst ` set (completions s)" using assms(1) by (auto simp: req_inv_def)
  show ?thesis
    unfolding req_inv_def using assms(1) i ni dq by (auto simp: req_inv_def s'(1-3) q)
qed

text \<open>Taking a task off the queue and adding a request to it.\<close>

lemma filter_remove1: "filter Q (remove1 x xs) = (if Q x then remove1 x (filter Q xs) else filter Q xs)"
  by (induction xs) auto

lemma remove1_once: "distinct (filter Q xs) \<Longrightarrow> Q x \<Longrightarrow> x \<notin> set (remove1 x xs)"
proof
  assume d: "distinct (filter Q xs)" and Q: "Q x" and "x \<in> set (remove1 x xs)"
  then have "x \<in> set (filter Q (remove1 x xs))" by simp
  with d Q show False by (simp add: filter_remove1)
qed

lemma remove1_disk: "distinct (filter disk_task q) \<Longrightarrow> DiskTask i \<notin> set (remove1 (DiskTask i) q)"
  by (rule remove1_once [where Q = disk_task]) simp_all

lemma queue_del: "queue_ok (disk_queue s) \<Longrightarrow> queue_ok (disk_queue (snd (run_state (sdmmc_del_task t) s)))"
  by (cases t) (auto simp: sdmmc_del_task_def disk_queue_def queue_ok_def filter_remove1 fun_eq_iff remove1_disk)

lemma queue_add:
  "queue_ok (disk_queue s) \<Longrightarrow> DiskTask i \<notin> set (tskq s) \<Longrightarrow> tskq s' = tskq s @ [DiskTask i]
    \<Longrightarrow> onqueue s' = (onqueue s)(DiskTask i := True) \<Longrightarrow> task_sc s' = (task_sc s)(DiskTask i := True)
    \<Longrightarrow> queue_ok (disk_queue s')"
  by (auto simp: disk_queue_def queue_ok_def fun_eq_iff)

lemma req_inv_del: "preserves req_inv (sdmmc_del_task t)"
proof (rule preservesI)
  fix s :: "('h, 'z) disk_scheme"
  assume inv: "req_inv s"
  then have "queue_ok (disk_queue (snd (run_state (sdmmc_del_task t) s)))"
    by (intro queue_del) (simp add: req_inv_def)
  moreover have "set (remove1 t (tskq s)) \<subseteq> set (tskq s)" by (rule set_remove1_subset)
  ultimately show "req_inv (snd (run_state (sdmmc_del_task t) s))"
    using inv by (auto simp: sdmmc_del_task_def req_inv_def)
qed

lemma async_run:
  assumes "run_state (doAsyncReadWrite P S buffer block nblks c) s = (r, s')"
  shows "s' = s \<or> (bios s' = (bios s)(next_task s \<mapsto> \<lparr>bio_buffer = buffer,
      bio_direction = st_direction S (hw s) buffer, bio_block = block, bio_nblks = nblks, bio_completion = c\<rparr>)
    \<and> next_task s' = Suc (next_task s) \<and> completions s' = completions s
    \<and> (tskq s' = tskq s \<and> onqueue s' = onqueue s \<and> task_sc s' = task_sc s
      \<or> tskq s' = tskq s @ [DiskTask (next_task s)] \<and> onqueue s' = (onqueue s)(DiskTask (next_task s) := True)
        \<and> task_sc s' = (task_sc s)(DiskTask (next_task s) := True)))"
  using assms
  by (auto simp: doAsyncReadWrite_def run_call_hw sdmmc_init_task_def sdmmc_add_task_def split: if_splits)

lemma req_inv_request:
  assumes "req_inv s" and "run_state (doAsyncReadWrite P S buffer block nblks (Some (next_task s))) s = (r, s')"
  shows "req_inv s'"
  using async_run [OF assms(2)]
proof
  assume "s' = s" then show ?thesis using assms(1) by simp
next
  let ?a = "\<lparr>bio_buffer = buffer, bio_direction = st_direction S (hw s) buffer, bio_block = block, bio_nblks = nblks,
    bio_completion = Some (next_task s)\<rparr>"
  assume "bios s' = (bios s)(next_task s \<mapsto> ?a) \<and> next_task s' = Suc (next_task s) \<and> completions s' = completions s
    \<and> (tskq s' = tskq s \<and> onqueue s' = onqueue s \<and> task_sc s' = task_sc s
      \<or> tskq s' = tskq s @ [DiskTask (next_task s)] \<and> onqueue s' = (onqueue s)(DiskTask (next_task s) := True)
        \<and> task_sc s' = (task_sc s)(DiskTask (next_task s) := True))"
  then have s': "bios s' = (bios s)(next_task s \<mapsto> ?a)" "next_task s' = Suc (next_task s)" "completions s' = completions s"
    and q: "tskq s' = tskq s \<and> onqueue s' = onqueue s \<and> task_sc s' = task_sc s
      \<or> tskq s' = tskq s @ [DiskTask (next_task s)] \<and> onqueue s' = (onqueue s)(DiskTask (next_task s) := True)
        \<and> task_sc s' = (task_sc s)(DiskTask (next_task s) := True)" by blast+
  have new: "DiskTask (next_task s) \<notin> set (tskq s)" using assms(1) by (auto simp: req_inv_def)
  have "next_task s \<notin> fst ` set (completions s)" using assms(1) by (auto simp: req_inv_def)
  then have "(next_task s, r, k) \<notin> set (completions s)" for r k by force
  moreover have "queue_ok (disk_queue s')"
    using q
  proof
    assume "tskq s' = tskq s \<and> onqueue s' = onqueue s \<and> task_sc s' = task_sc s"
    then have "disk_queue s' = disk_queue s" by (simp add: disk_queue_def)
    then show ?thesis using assms(1) by (simp add: req_inv_def)
  next
    assume "tskq s' = tskq s @ [DiskTask (next_task s)] \<and> onqueue s' = (onqueue s)(DiskTask (next_task s) := True)
      \<and> task_sc s' = (task_sc s)(DiskTask (next_task s) := True)"
    then show ?thesis using assms(1) new by - (rule queue_add [of s "next_task s"]; simp add: req_inv_def)
  qed
  moreover have "DiskTask i \<in> set (tskq s') \<Longrightarrow> i < next_task s'" for i
    using q assms(1) s'(2) by (auto simp: req_inv_def less_Suc_eq)
  ultimately show ?thesis using assms(1) by (auto simp: req_inv_def less_Suc_eq s')
qed

section \<open>Every reachable state\<close>

lemma outer_slot_req:
  "keeps outer m \<Longrightarrow> preserves slot_inv m" "keeps outer m \<Longrightarrow> preserves req_inv m"
  by (simp_all add: inv_slot_part keeps_req_inv outer_keeps_req)

lemma slot_inv_other [simp]:
  "slot_inv (s\<lparr>sc_dying := x\<rparr>) = slot_inv s" "slot_inv (s\<lparr>hw := h\<rparr>) = slot_inv s" "slot_inv (s\<lparr>sched := es\<rparr>) = slot_inv s"
  "slot_inv (s\<lparr>tskq := q\<rparr>) = slot_inv s" "slot_inv (s\<lparr>onqueue := f\<rparr>) = slot_inv s"
  "slot_inv (s\<lparr>task_sc := g\<rparr>) = slot_inv s" "slot_inv (s\<lparr>tskq_wakeups := w\<rparr>) = slot_inv s"
  by (simp_all add: slot_inv_def slot_wf_def slot_clean_def io_mode_def usable_def [abs_def] fn_at_def)

lemma req_inv_other [simp]:
  "req_inv (s\<lparr>sc_dying := x\<rparr>) = req_inv s" "req_inv (s\<lparr>hw := h\<rparr>) = req_inv s" "req_inv (s\<lparr>sched := es\<rparr>) = req_inv s"
  "req_inv (s\<lparr>tskq_wakeups := w\<rparr>) = req_inv s" "req_inv (s\<lparr>sc_panic := b\<rparr>) = req_inv s"
  by (simp_all add: req_inv_def disk_queue_def)

lemma activate_children_views:
  "preserves slot_inv (config_activate_children act :: (('h, 'z) driver_scheme, unit res) state)"
  "preserves req_inv (config_activate_children act :: (('h, 'z) driver_scheme, unit res) state)"
  unfolding config_activate_children_def sdmmc_activate_def
  by (cases act; intro preserves; auto intro!: preserves)+

lemma set_power_views:
  "preserves slot_inv (setPowerState P ordinal)" "preserves req_inv (setPowerState P ordinal)"
proof -
  note slot = outer_power_parts [THEN outer_slot_req(1)] more_intr [THEN outer_slot_req(1)]
  note req = outer_power_parts [THEN outer_slot_req(2)] more_intr [THEN outer_slot_req(2)]
  show "preserves slot_inv (setPowerState P ordinal)" "preserves req_inv (setPowerState P ordinal)"
    unfolding setPowerState_def rtsx_activate_def
    by (cases ordinal; simp; intro preserves slot req activate_children_views)+
qed

lemma async_slot:
  "preserves slot_inv (doAsyncReadWrite P S buffer block nblks c :: (('h, 'z) disk_scheme, io_return) state)"
  unfolding doAsyncReadWrite_def sdmmc_init_task_def sdmmc_add_task_def
  by (intro preserves outer_slot_req(1) [OF more_hw(2)] inv_hw(1,2)) simp_all

lemma req_run_task:
  assumes "run_state (run_task n P S I t) s = (Some (), s')" and "req_inv s"
  shows "req_inv s'"
proof (cases t)
  case DiscoverTask
  with assms show ?thesis
    using preserves_run [OF keeps_req_inv [OF req_discover]] by (simp add: run_task_def)
next
  case IntrTask
  note spl = outer_slot_req(2) [OF more_spl(2)] outer_slot_req(2) [OF more_spl(3)]
  have "preserves req_inv (run_task n P S I IntrTask)"
    unfolding run_task_def sdmmc_intr_task_def
    by (auto simp: rtsx_functions_def intro!: preserves spl)
  with assms IntrTask show ?thesis by (auto dest: preserves_run)
next
  case (DiskTask i)
  with assms(1) have run: "run_state (read_task_impl n P S (rtsx_functions P) i) s = (Some (), s')"
    by (simp add: run_task_def)
  show ?thesis
  proof (cases "bios s i")
    case None
    with run assms(2) show ?thesis by (simp add: read_task_impl_def)
  next
    case (Some a)
    from read_task_outcome [OF rtsx_chip.sdmmc_chip_axioms run Some] req_inv_completed [OF assms(2) Some] assms(2)
    show ?thesis by (auto split: if_splits)
  qed
qed

lemma step_inv:
  assumes "driver_step P S I s s'" and "slot_inv s" and "req_inv s"
  shows "slot_inv s' \<and> req_inv s'"
  using assms(1)
proof cases
  case (task t q n)
  obtain u s1 where d: "run_state (sdmmc_del_task t) s = (u, s1)" by (cases "run_state (sdmmc_del_task t) s")
  from task d have r: "run_state (run_task n P S I t) s1 = (Some (), s')" by simp
  have "slot_inv s1" "req_inv s1"
    using preserves_run [OF inv_hw(3) d assms(2)] preserves_run [OF req_inv_del d assms(3)] .
  then show ?thesis using preserves_run [OF inv_run_task r] req_run_task [OF r] by blast
next
  case (thread_end u)
  show ?thesis
    using rtsx_slot.thread_tail_clean [OF thread_end assms(2)] preserves_run [OF keeps_req_inv [OF req_tail] thread_end assms(3)]
    by blast
next
  case (request buffer block nblks r)
  show ?thesis using preserves_run [OF async_slot request assms(2)] req_inv_request [OF assms(3) request] by blast
next
  case (power ordinal u)
  show ?thesis
    using preserves_run [OF set_power_views(1) power assms(2)] preserves_run [OF set_power_views(2) power assms(3)] by blast
next
  case die
  then show ?thesis using assms(2,3)
    by simp
next
  case (device h es)
  then show ?thesis using assms(2,3)
    by simp
next
  case (interrupt u)
  have "keeps outer (InterruptHandler P)" unfolding InterruptHandler_def by (intro keeps more_intr)
  from preserves_run [OF outer_slot_req(1) [OF this] interrupt assms(2)]
    preserves_run [OF outer_slot_req(2) [OF this] interrupt assms(3)]
  show ?thesis by blast
next
  case (thread_start u)
  from preserves_run [OF outer_slot_req(1) [OF more_needs_discover] thread_start assms(2)]
    preserves_run [OF outer_slot_req(2) [OF more_needs_discover] thread_start assms(3)]
  show ?thesis by blast
next
  case (eject u)
  have "keeps outer (doEjectMedia P)" unfolding doEjectMedia_def by (intro keeps more_intr)
  from preserves_run [OF outer_slot_req(1) [OF this] eject assms(2)]
    preserves_run [OF outer_slot_req(2) [OF this] eject assms(3)]
  show ?thesis by blast
qed

lemma fresh_inv: "fresh_driver s \<Longrightarrow> slot_inv s \<and> req_inv s"
proof -
  assume f: "fresh_driver s"
  have "DiskTask i \<notin> set (tskq s)" for i
  proof
    assume "DiskTask i \<in> set (tskq s)"
    then have "DiskTask i \<in> set (filter disk_task (tskq s))" by simp
    with f show False by (simp add: fresh_driver_def disk_queue_def)
  qed
  moreover have "queue_ok (disk_queue s)" using f by (simp add: fresh_driver_def queue_ok_def)
  ultimately show ?thesis using f by (auto simp: fresh_driver_def slot_inv_def clean_wf slot_clean_def req_inv_def)
qed

lemma reach_inv:
  assumes "driver_reach P S I s"
  shows "slot_inv s \<and> req_inv s"
  using assms
proof induction
  case (start s n ok s')
  show ?case by (rule fresh_inv [OF start_fresh [OF start]])
next
  case (step s s')
  then show ?case using step_inv [of P S I s s'] by blast
qed

text \<open>
  C8: in every state the driver can reach, whatever its device and its clients do, the slot
  holds either nothing or an attached card with a usable function and no dangling pointer, and
  the account of the requests is right: every request ever submitted either still has its
  arguments or has had its completion called, never both, and never twice; what is queued is
  queued once and its task is marked so.
\<close>

theorem driver_reachable_inv:
  assumes "driver_reach P S I s"
  shows "slot_inv s \<and> req_inv s"
  using assms by (rule reach_inv)

text \<open>A request that is neither queued nor completed.\<close>

definition lost :: "nat \<Rightarrow> ('h, 'z) disk_scheme \<Rightarrow> bool" where
  "lost i s \<longleftrightarrow> i < next_task s \<and> i \<in> dom (bios s) \<and> DiskTask i \<notin> set (tskq s)"

lemma keeps_lost: "keeps req_view m \<Longrightarrow> preserves (lost i) m"
  by (rule preservesI) (simp add: lost_def queued_view, simp add: keeps_def req_view_def)

lemma lost_run_task:
  assumes "run_state (run_task n P S I t) s = (Some (), s')" and "lost i s" and "t \<noteq> DiskTask i"
  shows "lost i s'"
proof (cases t)
  case DiscoverTask
  with assms show ?thesis
    using preserves_run [OF keeps_lost [OF req_discover]] by (simp add: run_task_def)
next
  case IntrTask
  note spl = keeps_lost [OF outer_keeps_req [OF more_spl(2)]] keeps_lost [OF outer_keeps_req [OF more_spl(3)]]
  have "preserves (lost i) (run_task n P S I IntrTask)"
    unfolding run_task_def sdmmc_intr_task_def
    by (auto simp: rtsx_functions_def lost_def intro!: preserves spl)
  with assms IntrTask show ?thesis by (auto dest: preserves_run)
next
  case (DiskTask j)
  with assms(1) have run: "run_state (read_task_impl n P S (rtsx_functions P) j) s = (Some (), s')"
    by (simp add: run_task_def)
  show ?thesis
  proof (cases "bios s j")
    case None
    with run assms(2) show ?thesis by (simp add: read_task_impl_def)
  next
    case (Some a)
    have q: "disk_queue s' = disk_queue s \<Longrightarrow> DiskTask i \<notin> set (tskq s')"
      using assms(2) disk_queue_eq [of s' s i] by (simp add: lost_def)
    from read_task_outcome [OF rtsx_chip.sdmmc_chip_axioms run Some] assms(2,3) DiskTask q show ?thesis
      by (auto simp: lost_def completed_def split: if_splits)
  qed
qed

lemma lost_step:
  assumes "driver_step P S I s s'" and "lost i s"
  shows "lost i s'"
  using assms(1)
proof cases
  case (task t q n)
  obtain u s1 where d: "run_state (sdmmc_del_task t) s = (u, s1)" by (cases "run_state (sdmmc_del_task t) s")
  from task d have r: "run_state (run_task n P S I t) s1 = (Some (), s')" by simp
  have "set (remove1 t (tskq s)) \<subseteq> set (tskq s)" by (rule set_remove1_subset)
  with d assms(2) have "lost i s1" by (auto simp: sdmmc_del_task_def lost_def split: if_splits)
  moreover have "t \<noteq> DiskTask i" using task assms(2) by (auto simp: lost_def)
  ultimately show ?thesis using lost_run_task [OF r] by blast
next
  case (thread_end u)
  show ?thesis using preserves_run [OF keeps_lost [OF req_tail] thread_end assms(2)] .
next
  case (request buffer block nblks r)
  show ?thesis using async_run [OF request] assms(2) by (auto simp: lost_def)
next
  case (power ordinal u)
  have "preserves (lost i) (config_activate_children act :: ('a driver, unit res) state)" for act
    unfolding config_activate_children_def sdmmc_activate_def
    by (cases act; intro preserves; auto simp: lost_def intro!: preserves)
  moreover note outer_power_parts [THEN outer_keeps_req, THEN keeps_lost] more_intr [THEN outer_keeps_req, THEN keeps_lost]
  ultimately have "preserves (lost i) (setPowerState P ordinal :: ('a driver, unit) state)"
    unfolding setPowerState_def rtsx_activate_def by (cases ordinal; simp; intro preserves)
  from preserves_run [OF this power assms(2)] show ?thesis .
next
  case (interrupt u)
  have "keeps outer (InterruptHandler P)" unfolding InterruptHandler_def by (intro keeps more_intr)
  from preserves_run [OF keeps_lost [OF outer_keeps_req [OF this]] interrupt assms(2)] show ?thesis .
next
  case (thread_start u)
  from preserves_run [OF keeps_lost [OF outer_keeps_req [OF more_needs_discover]] thread_start assms(2)] show ?thesis .
next
  case (eject u)
  have "keeps outer (doEjectMedia P)" unfolding doEjectMedia_def by (intro keeps more_intr)
  from preserves_run [OF keeps_lost [OF outer_keeps_req [OF this]] eject assms(2)] show ?thesis .
qed (use assms(2) in \<open>simp_all add: lost_def\<close>)

text \<open>
  C30: a request whose turn comes when the slot has no card is lost: it is taken from the queue,
  and in no later state of the driver is its completion called or its memory freed.
\<close>

theorem request_without_card_is_lost:
  assumes "driver_reach P S I s" and "tskq s = DiskTask i # q" and "i \<in> dom (bios s)" and "sc_fn0 s = None"
    and "run_state (State_Monad.bind (sdmmc_del_task (DiskTask i)) (\<lambda>_. run_task n P S I (DiskTask i))) s = (r, s1)"
    and "(driver_step P S I)\<^sup>*\<^sup>* s1 s2"
  shows "i \<notin> fst ` set (completions s2) \<and> i \<in> dom (bios s2)"
proof -
  let ?s = "s\<lparr>tskq := q, onqueue := (onqueue s)(DiskTask i := False), task_sc := (task_sc s)(DiskTask i := False)\<rparr>"
  have reach: "slot_inv s \<and> req_inv s" by (rule reach_inv [OF assms(1)])
  have d: "run_state (sdmmc_del_task (DiskTask i)) s = ((), ?s)"
    using assms(2) reach by (simp add: sdmmc_del_task_def req_inv_def queue_ok_def disk_queue_def fun_eq_iff)
  with assms(4,5) have run: "r = Some () \<and> s1 = ?s" using assms(3) by (auto simp: run_task_def read_task_impl_def)
  have "DiskTask i \<notin> set q" "i < next_task s" using assms(2) reach by (auto simp: req_inv_def queue_ok_def disk_queue_def)
  then have "lost i s1" using assms(3) run by (simp add: lost_def)
  moreover have "driver_reach P S I s1"
    using assms(1) driver_step.task [OF assms(2), of n P S I] assms(5) run by (blast intro: driver_reach.step)
  ultimately have "lost i s1 \<and> driver_reach P S I s1" by simp
  with assms(6) have "lost i s2 \<and> driver_reach P S I s2"
    by (induction rule: rtranclp_induct) (auto intro: lost_step driver_reach.step)
  then show ?thesis using reach_inv [of P S I s2] by (auto simp: lost_def req_inv_def)
qed

text \<open>A platform with memory for a task, and the driver after its first request.\<close>

definition task_platform :: "unit platform" where
  "task_platform = bare_platform\<lparr>km_alloc := (\<lambda>h _. (1, h))\<rparr>"

definition asked :: "unit driver" where
  "asked = snd (run_state (doAsyncReadWrite task_platform bare_storage 8192 3 4 (Some 0))
     ((driver_boot ())\<lparr>num_blocks := 100, workloop := False\<rparr>))"

lemma asked_fields:
  "tskq asked = [DiskTask 0]" "sc_fn0 asked = None" "0 \<in> dom (bios asked)"
  by (simp_all add: asked_def doAsyncReadWrite_def bare_storage_def task_platform_def run_call_hw
      sdmmc_init_task_def sdmmc_add_task_def)

lemma asked_reach: "driver_reach task_platform bare_storage bare_pci asked"
proof -
  let ?s = "(driver_boot ())\<lparr>num_blocks := 100\<rparr>" and ?s0 = "(driver_boot ())\<lparr>num_blocks := 100, workloop := False\<rparr>"
  have "fresh_driver ?s" by (simp add: fresh_driver_def disk_queue_def slot_clean_def io_mode_def isset_def)
  moreover have "run_state (Sinetek_start 1 task_platform bare_pci True) ?s = (Some False, ?s0)"
    by (simp add: Sinetek_start_def prepare_task_loop_def openbsd_compat_start_def)
  ultimately have "driver_reach task_platform bare_storage bare_pci ?s0" by (rule driver_reach.start)
  moreover have "driver_step task_platform bare_storage bare_pci ?s0 asked"
    by (rule driver_step.request [of _ _ 8192 3 4 _ "fst (run_state (doAsyncReadWrite task_platform bare_storage 8192 3 4 (Some 0)) ?s0)"])
       (simp add: asked_def)
  ultimately show ?thesis by (rule driver_reach.step)
qed

theorem driver_reachable_inv_witness: "slot_inv asked \<and> req_inv asked"
  by (rule driver_reachable_inv [OF asked_reach])

theorem request_without_card_is_lost_witness:
  "0 \<in> dom (bios (snd (run_state (State_Monad.bind (sdmmc_del_task (DiskTask 0))
     (\<lambda>_. run_task 1 task_platform bare_storage bare_pci (DiskTask 0))) asked)))"
  using request_without_card_is_lost [OF asked_reach asked_fields(1,3,2) surjective_pairing rtranclp.rtrancl_refl]
  by blast

end
