(* ===== verification/Geometry.thy ===== *)
theory Geometry
  imports Requests
begin

text \<open>
  The types that the slot's structures have at run time: the sector size of a function whose
  registers were decoded is a power of two of at most the host's block length. The discovery
  establishes it, every other step of the driver keeps it, and with it the divisions of the block
  transfers are defined.
\<close>

section \<open>Typed function structures\<close>

definition csd_ok :: "int \<Rightarrow> sdmmc_csd \<Rightarrow> bool" where
  "csd_ok mb c \<longleftrightarrow> (\<exists>k. sector_size c = min (2 ^ k) mb)"

definition fn_ok :: "int \<Rightarrow> sdmmc_function \<Rightarrow> bool" where
  "fn_ok mb f \<longleftrightarrow> isset (sf_flags f) SFF_ERROR \<or> csd_ok mb (sf_csd f)"

text \<open>The structures among \<open>A\<close> that are allocated are well typed.\<close>

definition typed :: "int \<Rightarrow> nat set \<Rightarrow> ('h, 'z) sdmmc_scheme \<Rightarrow> bool" where
  "typed mb A s \<longleftrightarrow> (\<forall>p\<in>A. \<forall>f. sfs s p = Some f \<longrightarrow> fn_ok mb f)"

lemma typed_sfs: "sfs s = sfs s' \<Longrightarrow> typed mb A s = typed mb A s'"
  by (simp add: typed_def)

lemma keeps_typed: "keeps sfs m \<Longrightarrow> preserves (typed mb A) m"
  unfolding keeps_def preserves_def using typed_sfs by blast

lemma typed_slot_part: "(\<And>f :: ('h, 'z) sdmmc_scheme \<Rightarrow> nat \<Rightarrow> sdmmc_function option. slot_part f \<Longrightarrow> keeps f m)
    \<Longrightarrow> preserves (typed mb A) (m :: (('h, 'z) sdmmc_scheme, 'b) state)"
  by (rule keeps_typed) simp

lemma typed_modify: "(\<And>s. sfs (g s) = sfs s) \<Longrightarrow> preserves (typed mb A) (modify g)"
  by (rule keeps_typed) (rule keeps_modify)

lemma typed_empty [simp]: "typed mb {} s"
  by (simp add: typed_def)

lemma typed_Un: "typed mb (A \<union> B) s \<longleftrightarrow> typed mb A s \<and> typed mb B s"
  by (auto simp: typed_def)

lemma typed_dom: "dom (sfs s) \<subseteq> A \<Longrightarrow> typed mb A s \<Longrightarrow> typed mb B s"
  by (auto simp: typed_def)

lemma typed_clean: "slot_clean s \<Longrightarrow> typed mb A s"
  by (simp add: typed_def slot_clean_def)

text \<open>Updating a structure that is not watched, or in a way that keeps its type.\<close>

lemma typed_other: "p \<notin> A \<Longrightarrow> preserves (typed mb A) (upd_fn p g)"
  unfolding upd_fn_def by (rule preserves_modify) (auto simp: typed_def)

lemma typed_upd: "(\<And>f. fn_ok mb f \<Longrightarrow> fn_ok mb (g f)) \<Longrightarrow> preserves (typed mb A) (upd_fn p g)"
  unfolding upd_fn_def by (rule preserves_modify) (auto simp: typed_def)

lemma typed_made: "(\<And>f. fn_ok mb (g f)) \<Longrightarrow> valid (typed mb (A - {p})) (upd_fn p g) (\<lambda>_. typed mb (insert p A))"
  unfolding upd_fn_def by (rule valid_modify) (auto simp: typed_def)

lemma fn_ok_upd [simp]:
  "fn_ok mb (f\<lparr>sf_flags := setf (sf_flags f) SFF_ERROR\<rparr>)"
  "fn_ok mb (f\<lparr>sf_scr := x\<rparr>) = fn_ok mb f" "fn_ok mb (f\<lparr>sf_cid := y\<rparr>) = fn_ok mb f"
  by (simp_all add: fn_ok_def isset_setf)

lemma fn_ok_big:
  "fn_ok mb f \<Longrightarrow> fn_ok mb (f\<lparr>sf_flags := setf (sf_flags f) SFF_SDHC\<rparr>)"
  "fn_ok mb f \<Longrightarrow> fn_ok mb (f\<lparr>sf_csd := (sf_csd f)\<lparr>capacity := k\<rparr>\<rparr>)"
  by (auto simp: fn_ok_def csd_ok_def isset_setf)

lemma min_power_512: "x = min (2 ^ k) (512 :: int) \<Longrightarrow> \<exists>j\<le>9. x = 2 ^ j"
proof (cases "k \<le> 9")
  case True
  assume "x = min (2 ^ k) 512"
  moreover have "(2 :: int) ^ k \<le> 2 ^ 9" using True by (rule power_increasing) simp
  ultimately show ?thesis using True by (intro exI [of _ k]) simp
next
  case False
  assume "x = min (2 ^ k) 512"
  moreover have "(2 :: int) ^ 9 \<le> 2 ^ k" using False by (intro power_increasing) simp_all
  ultimately show ?thesis by (intro exI [of _ 9]) simp
qed

lemma csd_sectors_ok: "csd_ok mb (csd_sectors mb c)"
  by (auto simp: csd_ok_def csd_sectors_def Let_def)

section \<open>Discovery establishes the types\<close>

context sdmmc_chip begin

lemma typed_ops [preserves]:
  "preserves (typed mb A) (sdmmc_mmc_command T cmd)" "preserves (typed mb A) (chip_bus_clock T a b)"
  "preserves (typed mb A) (chip_bus_width T w)"
  "preserves (typed mb A) (sdmmc_mem_send_scr P T scr)" "preserves (typed mb A) (sdmmc_mem_send_cxd_data P T opcode n)"
  "preserves (typed mb A) (sdmmc_mem_sd_switch P T p mode grp func status)"
  "preserves (typed mb A) (sdmmc_mem_set_bus_width T w)" "preserves (typed mb A) (sdmmc_mem_mmc_switch T x y z)"
  "preserves (typed mb A) (sdmmc_mem_set_blocklen T p)" "preserves (typed mb A) (delay P n)"
  by (rule typed_slot_part; intro keeps; assumption)+

lemma typed_select [preserves]: "preserves (typed mb A) (sdmmc_select_card T x)"
  by (rule keeps_typed, rule keeps_select_card) (simp add: card_frame_def)

lemma typed_disable [preserves]: "preserves (typed mb A) (sdmmc_disable T)"
  by (rule keeps_typed, rule keeps_disable) (simp add: card_frame_def)

lemma typed_enable [preserves]: "preserves (typed mb A) (sdmmc_enable P T)"
proof -
  have "keeps sfs (sdmmc_mem_enable P T)" by (rule keeps_mem_enable) simp_all
  then have "preserves (typed mb A) (sdmmc_mem_enable P T)" by (rule keeps_typed)
  moreover have "preserves (typed mb A) (chip_host_ocr T)" "preserves (typed mb A) (chip_bus_power T v)" for v
    by (rule typed_slot_part; intro keeps; assumption)+
  ultimately show ?thesis unfolding sdmmc_enable_def by (intro preserves; simp add: typed_def)
qed

text \<open>Reading the CSD of a function makes that function well typed.\<close>

lemma typed_decode:
  "valid (typed mb (A - {p})) (sdmmc_decode_csd T resp p)
     (\<lambda>r s. typed mb (A - {p}) s \<and> (r = OK \<longrightarrow> mb = maxblk \<longrightarrow> typed mb {p} s))"
proof -
  have upd: "preserves (typed mb (A - {p})) (upd_fn p g)" for g by (rule typed_other) simp
  have last: "valid (typed mb (A - {p})) (do { m \<leftarrow> chip_host_maxblklen T; upd_csd p (csd_sectors m); ret OK })
     (\<lambda>r s. typed mb (A - {p}) s \<and> (r = OK \<longrightarrow> mb = maxblk \<longrightarrow> typed mb {p} s))"
    by (auto simp: valid_def maxblklen upd_csd_def upd_fn_def typed_def fn_ok_def csd_sectors_ok)
  show ?thesis
    unfolding sdmmc_decode_csd_def upd_csd_def
    by (intro valid_bind [OF preserves_valid] valid_if valid_return last [unfolded upd_csd_def] preserves upd) auto
qed

lemma typed_read_csd:
  assumes "mb = maxblk"
  shows "valid (typed mb A) (read_csd T p) (\<lambda>_. typed mb (insert p A))"
proof -
  let ?V = "\<lambda>r s. typed mb (A - {p}) s \<and> (r = OK \<longrightarrow> typed mb {p} s)"
  have cid: "valid (\<lambda>s. typed mb (A - {p}) s \<and> typed mb {p} s) (sdmmc_decode_cid raw p) ?V" for raw
  proof (rule valid_post [OF preserves_valid])
    have "preserves (typed mb ((A - {p}) \<union> {p})) (sdmmc_decode_cid raw p)"
      unfolding sdmmc_decode_cid_def upd_cid_def by (intro preserves typed_upd; simp)
    then show "preserves (\<lambda>s. typed mb (A - {p}) s \<and> typed mb {p} s) (sdmmc_decode_cid raw p)"
      by (simp only: preserves_def typed_Un)
  qed simp
  have dec: "valid (typed mb (A - {p})) (chk (sdmmc_decode_csd T resp p) (\<lambda>_. do {
      raw \<leftarrow> fetch (\<lambda>s. sf_raw_cid (fn_at s p)); sdmmc_decode_cid raw p })) ?V" for resp
  proof (rule validI)
    fix s e and s' :: "('h, 'z) sdmmc_scheme"
    let ?cid = "do { raw \<leftarrow> fetch (\<lambda>s. sf_raw_cid (fn_at s p)); sdmmc_decode_cid raw p }"
    assume s: "typed mb (A - {p}) s"
      and run: "run_state (chk (sdmmc_decode_csd T resp p) (\<lambda>_. ?cid)) s = (e, s')"
    obtain r s1 where r: "run_state (sdmmc_decode_csd T resp p) s = (r, s1)" by (cases "run_state (sdmmc_decode_csd T resp p) s")
    note d = validD [OF typed_decode r s]
    show "?V e s'"
    proof (cases r)
      case (Inl x)
      with run r d show ?thesis by (auto simp: chk_def)
    next
      case (Inr x)
      with run r have "run_state (sdmmc_decode_cid (sf_raw_cid (fn_at s1 p)) p) s1 = (e, s')" by (simp add: chk_def)
      from validD [OF cid this] d Inr assms show ?thesis by simp
    qed
  qed
  have upd: "valid (?V e) (if e \<noteq> OK then upd_fn p (\<lambda>f. f\<lparr>sf_flags := setf (sf_flags f) SFF_ERROR\<rparr>) else ret ())
      (\<lambda>_. typed mb (insert p A))" for e :: "unit res"
  proof (cases "e = OK")
    case True
    then show ?thesis by (auto simp: valid_def typed_def)
  next
    case False
    then show ?thesis by (auto intro: valid_pre [OF typed_made])
  qed
  have cmd: "valid (typed mb (A - {p})) (sdmmc_mmc_command T cmd) (\<lambda>_. typed mb (A - {p}))" for cmd
    by (intro preserves_valid preserves)
  have "valid (typed mb (A - {p})) (read_csd T p) (\<lambda>_. typed mb (insert p A))"
    unfolding read_csd_def
    by (intro valid_bind [OF valid_look] valid_bind [OF cmd] valid_bind [OF _ upd] valid_if dec valid_return) simp
  then show ?thesis by (rule valid_pre) (auto simp: typed_def)
qed

lemma typed_read_all:
  "mb = maxblk \<Longrightarrow> valid (typed mb A) (run_all (map (read_csd T) ps)) (\<lambda>_. typed mb (set ps \<union> A))"
proof (induction ps arbitrary: A)
  case (Cons p ps)
  then show ?case
    using valid_bind [OF typed_read_csd [OF Cons.prems] Cons.IH [OF Cons.prems]] by simp
qed (simp add: valid_return)

lemma typed_mem_scan:
  assumes "run_state (sdmmc_mem_scan T) s = (u, s')" and "mb = maxblk"
  shows "typed mb (set (sf_head s')) s'"
proof -
  obtain v s1 where v: "run_state (scan_loop 100 T) s = (v, s1)" by (cases "run_state (scan_loop 100 T) s")
  have run: "run_state (run_all (map (read_csd T) (sf_head s1))) s1 = (u, s')" using assms(1) v by (simp add: sdmmc_mem_scan_def)
  have "keeps sf_head (run_all (map (read_csd T) (sf_head s1)))"
    by (intro keeps_run_all) (auto intro: keeps_read_csd)
  from keeps_run [OF this run] have "sf_head s' = sf_head s1" .
  moreover have "typed mb (set (sf_head s1) \<union> {}) s'"
    by (rule validD [OF typed_read_all [OF assms(2)] run]) simp
  ultimately show ?thesis by simp
qed

text \<open>Initialising the card keeps the types: it changes capacities and flags, never a sector size.\<close>

lemma typed_mem_init:
  assumes "chip_signal_voltage T = None"
  shows "preserves (typed mb A) (sdmmc_mem_init P T p)"
proof -
  have volt: "preserves (typed mb A) (signal_voltage T v)" for v
    using assms by (auto simp: signal_voltage_def intro!: preserves typed_modify)
  have sd: "preserves (typed mb A) (sdmmc_mem_sd_init P T p)"
    unfolding sdmmc_mem_sd_init_def sd_high_speed_def sdmmc_mem_decode_scr_def
    by (intro preserves typed_upd; simp)
  have ddr: "preserves (typed mb A) (mmc_ddr P T a b c d)" for a b c d
    unfolding mmc_ddr_def by (intro preserves volt)
  have "preserves (typed mb A) (mmc_init_ext P T p e)" for e
    unfolding mmc_init_ext_def upd_csd_def
    by (intro preserves typed_upd ddr; simp add: fn_ok_big)
  then have "preserves (typed mb A) (sdmmc_mem_mmc_init P T p)"
    unfolding sdmmc_mem_mmc_init_def by (intro preserves typed_upd; simp)
  with sd show ?thesis
    unfolding sdmmc_mem_init_def by (intro preserves)
qed

end

text \<open>The slot outside I/O mode with well typed structures.\<close>

definition geometry :: "int \<Rightarrow> ('h, 'z) sdmmc_scheme \<Rightarrow> bool" where
  "geometry mb s \<longleftrightarrow> typed mb UNIV s"

lemma geometry_wf: "slot_wf s \<Longrightarrow> typed mb (set (sf_head s)) s \<Longrightarrow> geometry mb s"
  unfolding geometry_def by (rule typed_dom) (simp_all add: slot_wf_def)

lemma geometry_sfs: "sfs s = sfs s' \<Longrightarrow> geometry mb s = geometry mb s'"
  unfolding geometry_def by (rule typed_sfs)

context slot_system begin

lemma geometry_scan:
  assumes "run_state (sdmmc_scan T) s = (r, s')" and "slot_wf s" and "geometry maxblk s"
  shows "geometry maxblk s'"
proof (cases "isset (sc_flags s) SMF_MEM_MODE")
  case True
  with assms(1,2) obtain u where u: "run_state (sdmmc_mem_scan T) s = (u, s')"
    by (auto simp: sdmmc_scan_def slot_wf_def io_mode_def split: prod.splits)
  have "slot_wf s'" using wf_scan [OF assms(1,2)] by blast
  then show ?thesis using typed_mem_scan [OF u refl] by (rule geometry_wf)
next
  case False
  with assms show ?thesis by (auto simp: sdmmc_scan_def slot_wf_def io_mode_def)
qed

lemma geometry_init_loop:
  assumes "\<not> io_mode s" and "geometry mb s" and "run_state (init_loop n P T ps) s = (r, s')"
  shows "geometry mb s'"
  using assms
proof (induction ps arbitrary: s)
  case (Cons p ps)
  let ?m = "if isset (sc_flags s) SMF_MEM_MODE then sdmmc_mem_init P T p else ret OK"
  obtain e s1 where e: "run_state ?m s = (e, s1)" by (cases "run_state ?m s")
  have "keeps ctl ?m" by (intro keeps ctl_mem_init)
  from keeps_run [OF this e] Cons.prems(1) have "\<not> io_mode s1" by (simp add: ctl_def io_mode_def)
  moreover have "preserves (typed mb UNIV) ?m" by (intro preserves typed_mem_init no_voltage)
  from preserves_run [OF this e] Cons.prems(2) have "geometry mb s1" by (simp add: geometry_def)
  moreover have "run_state (init_loop n P T ps) s1 = (r, s')"
    using Cons.prems e by (simp add: obind_def io_mode_def)
  ultimately show ?case using Cons.IH by simp
qed simp

lemma geometry_init:
  assumes "run_state (sdmmc_init n P T) s = (r, s')" and "slot_wf s" and "geometry mb s"
  shows "geometry mb s'"
proof -
  obtain x s1 where x: "run_state (init_loop n P T (sf_head s)) s = (x, s1)"
    by (cases "run_state (init_loop n P T (sf_head s)) s")
  have "geometry mb s1" using assms(2,3) by (intro geometry_init_loop [OF _ _ x]) (simp_all add: slot_wf_def)
  then show ?thesis using assms(1) x by (auto simp: sdmmc_init_def obind_def split: option.splits)
qed

lemma geometry_try:
  assumes "slot_wf s" and "geometry maxblk s"
    and "run_state (sdmmc_enable P T) s = (e1, s1)"
    and "run_state (if e1 \<noteq> OK then ret e1 else sdmmc_scan T) s1 = (e2, s2)"
    and "run_state (if e2 \<noteq> OK then ret (Some e2) else sdmmc_init n P T) s2 = (e3, s3)"
  shows "geometry maxblk s3"
proof -
  have 1: "slot_wf s1" "geometry maxblk s1"
    using preserves_run [OF preserves_slot_wf [OF wf_enable] assms(3)] preserves_run [OF typed_enable assms(3)] assms(1,2)
    by (simp_all add: geometry_def)
  then have 2: "slot_wf s2" "geometry maxblk s2"
    using assms(4) wf_scan geometry_scan by (cases "e1 = OK"; simp; blast)+
  show ?thesis
  proof (cases "e2 = OK")
    case True
    with assms(5) geometry_init [of n P s2 e3 s3] 2 show ?thesis by simp
  next
    case False
    with assms(5) 2 show ?thesis by auto
  qed
qed

lemma geometry_view: "slot_view s = slot_view s' \<Longrightarrow> geometry mb s = geometry mb s'"
  by (rule geometry_sfs) (simp add: slot_view_def)

lemma geometry_attach:
  assumes "run_state (sdmmc_card_attach n P T D) s = (r, s')" and "slot_wf s" and "geometry maxblk s"
  shows "geometry maxblk s'"
proof -
  let ?s0 = "s\<lparr>sc_lock := sc_lock s + 1, sc_flags := clrf (sc_flags s) SMF_CARD_ATTACHED\<rparr>"
  have wf0: "slot_wf ?s0"
    using assms(2) slot_wf_flags [of "clrf (sc_flags s) SMF_CARD_ATTACHED" "s\<lparr>sc_lock := sc_lock s + 1\<rparr>"]
    by (simp add: wf_lock isset_clrf_other)
  have g0: "geometry maxblk ?s0" using assms(3) geometry_sfs [of ?s0 s] by simp
  obtain e1 s1 where 1: "run_state (sdmmc_enable P T) ?s0 = (e1, s1)" by fastforce
  obtain e2 s2 where 2: "run_state (if e1 \<noteq> OK then ret e1 else sdmmc_scan T) s1 = (e2, s2)" by fastforce
  obtain e3 s3 where 3: "run_state (if e2 \<noteq> OK then ret (Some e2) else sdmmc_init n P T) s2 = (e3, s3)" by fastforce
  note g3 = geometry_try [OF wf0 g0 1 2 3]
  from try_card [OF wf0 1 2 3] obtain e where t: "slot_wf s3" "e3 = Some e" by blast
  let ?fail = "do { sdmmc_card_detach T D; rw_exit; ret (Some ()) }"
  let ?good = "do { fl \<leftarrow> fetch sc_flags;
         (if isset fl SMF_MEM_MODE then scsi_attach D else ret ());
         fl2 \<leftarrow> fetch sc_flags;
         (if isset fl2 SMF_IO_MODE then sdmmc_io_attach (io_found D) else ret ());
         modify (\<lambda>s. s\<lparr>sc_flags := setf (sc_flags s) SMF_CARD_ATTACHED\<rparr>);
         rw_exit;
         ret (Some ()) }"
  have run: "run_state (if e \<noteq> OK then ?fail else ?good) s3 = (r, s')"
    using assms(1) 1 2 3 t(2) by (simp add: sdmmc_card_attach_def rw_enter_write_def obind_def)
  show ?thesis
  proof (cases "e = OK")
    case False
    obtain u s4 where u: "run_state (sdmmc_card_detach T D) s3 = (u, s4)"
      by (cases "run_state (sdmmc_card_detach T D) s3")
    have "sfs s' = sfs s4" using run False u by (auto simp: rw_exit_def)
    moreover have "geometry maxblk s4"
      using card_detach_clean [OF u t(1)] by (simp add: geometry_def typed_clean)
    ultimately show ?thesis using geometry_sfs by blast
  next
    case True
    let ?d = "if isset (sc_flags s3) SMF_MEM_MODE then scsi_attach D else ret ()"
    obtain v s4 where v: "run_state ?d s3 = (v, s4)" by (cases "run_state ?d s3")
    have "keeps slot_view ?d" by (intro keeps attach_view)
    note eq = keeps_run [OF this v]
    have io: "\<not> isset (sc_flags s4) SMF_IO_MODE" using view_slot [OF eq] t(1) by (auto simp: slot_wf_def io_mode_def)
    have "sfs s' = sfs s4" using run True v io by (auto simp: rw_exit_def)
    then have "geometry maxblk s' = geometry maxblk s4" by (rule geometry_sfs)
    then show ?thesis using g3 geometry_view [OF eq] by simp
  qed
qed

lemma geometry_detach:
  assumes "run_state (locked_detach T D) s = (u, s')" and "slot_wf s"
  shows "geometry mb s'"
  using locked_detach_inv [OF assms] by (simp add: geometry_def typed_clean)

lemma geometry_discover:
  assumes "run_state (sdmmc_discover_task n P T D) s = (r, s')" and "slot_inv s" and "geometry maxblk s"
  shows "geometry maxblk s'"
proof -
  obtain present s0 where p: "run_state (chip_card_detect T) s = (present, s0)" by (cases "run_state (chip_card_detect T) s")
  let ?m = "if present then
          if \<not> isset (sc_flags s0) SMF_CARD_PRESENT then do {
            modify (\<lambda>s. s\<lparr>sc_flags := setf (sc_flags s) SMF_CARD_PRESENT\<rparr>);
            sdmmc_card_attach n P T D }
          else ret (Some ())
        else if isset (sc_flags s0) SMF_CARD_PRESENT then do {
          modify (\<lambda>s. s\<lparr>sc_flags := clrf (sc_flags s) SMF_CARD_PRESENT\<rparr>);
          osome (locked_detach T D) }
        else ret (Some ())"
  let ?set = "s0\<lparr>sc_flags := setf (sc_flags s0) SMF_CARD_PRESENT\<rparr>"
  let ?clr = "s0\<lparr>sc_flags := clrf (sc_flags s0) SMF_CARD_PRESENT\<rparr>"
  have inv0: "slot_inv s0" and "sfs s0 = sfs s"
    using keeps_run [OF slot_chip(2) [OF slot_part_inv] p] keeps_run [OF slot_chip(2) p, of sfs] assms(2) by auto
  then have g0: "geometry maxblk s0" using assms(3) geometry_sfs by blast
  have wf: "slot_wf ?set" "slot_wf ?clr" using inv0 by (simp_all add: slot_inv_def slot_wf_flags isset_setf isset_clrf_other)
  obtain x s1 where x: "run_state ?m s0 = (x, s1)" by (cases "run_state ?m s0")
  have "geometry maxblk s1"
  proof (cases "isset (sc_flags s0) SMF_CARD_PRESENT = present")
    case True
    with x g0 show ?thesis by (auto split: if_splits)
  next
    case False
    show ?thesis
    proof (cases present)
      case True
      have "run_state (sdmmc_card_attach n P T D) ?set = (x, s1)" using x False True by simp
      from geometry_attach [OF this wf(1)] g0 geometry_sfs [of ?set s0] show ?thesis by simp
    next
      case absent: False
      then obtain u where "run_state (locked_detach T D) ?clr = (u, s1)"
        using x False by (auto simp: osome_def split: prod.splits)
      from geometry_detach [OF this wf(2)] show ?thesis .
    qed
  qed
  moreover have "sfs s' = sfs s1"
    using assms(1) p x by (auto simp: sdmmc_discover_task_def obind_def split: option.splits)
  ultimately show ?thesis using geometry_sfs by blast
qed

lemma geometry_tail:
  assumes "run_state (thread_tail T D) s = (again, s')" and "slot_inv s"
  shows "geometry mb s'"
  using thread_tail_clean [OF assms] by (simp add: geometry_def typed_clean)

end

section \<open>Requests leave the structures alone\<close>

lemma card_frame_sfs [simp]: "card_frame sfs"
  by (simp add: card_frame_def)

lemma outer_sfs: "keeps outer m \<Longrightarrow> keeps sfs m"
  by (rule keeps_slot_part) simp_all

lemma sfs_read_task: "keeps sfs (read_task_impl n P S (rtsx_functions P) i)"
  by (rule frame_read_task [OF rtsx_chip.sdmmc_chip_axioms]) (simp add: request_frame_def)

section \<open>Every reachable state is well typed\<close>

lemma geometry_keeps: "keeps sfs m \<Longrightarrow> preserves (geometry mb) m"
  by (simp add: keeps_typed geometry_def [abs_def])

lemma geometry_outer: "keeps outer m \<Longrightarrow> preserves (geometry mb) m"
  by (intro geometry_keeps outer_sfs)

lemma geometry_run_task:
  assumes "run_state (run_task n P S I t) s = (r, s')" and "slot_inv s" and "geometry 512 s"
  shows "geometry 512 s'"
proof (cases t)
  case DiscoverTask
  with assms show ?thesis using rtsx_slot.geometry_discover by (simp add: run_task_def)
next
  case IntrTask
  note spl = more_spl [THEN geometry_outer]
  have "preserves (geometry 512) (run_task n P S I IntrTask)"
    unfolding run_task_def sdmmc_intr_task_def
    by (auto simp: rtsx_functions_def geometry_def typed_def intro!: preserves spl)
  with assms IntrTask show ?thesis by (auto dest: preserves_run)
next
  case (DiskTask i)
  with assms show ?thesis by (auto simp: run_task_def dest: preserves_run [OF geometry_keeps [OF sfs_read_task]])
qed

lemma geometry_power: "preserves (geometry mb) (setPowerState P ordinal)"
proof -
  have "preserves (geometry mb) (config_activate_children act :: (('h, 'z) driver_scheme, unit res) state)" for act
    unfolding config_activate_children_def sdmmc_activate_def
    by (cases act; intro preserves; auto simp: geometry_def typed_def intro!: preserves)
  moreover note more_intr [THEN geometry_outer] outer_power_parts [THEN geometry_outer]
  ultimately show ?thesis
    unfolding setPowerState_def rtsx_activate_def by (cases ordinal; simp; intro preserves)
qed

lemma geometry_async:
  "preserves (geometry mb) (doAsyncReadWrite P S buffer block nblks c :: (('h, 'z) disk_scheme, io_return) state)"
  unfolding doAsyncReadWrite_def sdmmc_init_task_def sdmmc_add_task_def
  by (intro preserves more_hw(2) [THEN geometry_outer] more_spl [THEN geometry_outer])
     (simp_all add: geometry_def typed_def)

lemma geometry_del: "preserves (geometry mb) (sdmmc_del_task t)"
  unfolding sdmmc_del_task_def
  by (intro preserves more_spl [THEN geometry_outer]) (simp_all add: geometry_def typed_def)

lemma geometry_step:
  assumes "driver_step P S I s s'" and "slot_inv s" and "geometry 512 s"
  shows "geometry 512 s'"
  using assms(1)
proof cases
  case (task t q n)
  obtain u s1 where d: "run_state (sdmmc_del_task t) s = (u, s1)" by (cases "run_state (sdmmc_del_task t) s")
  from task d have r: "run_state (run_task n P S I t) s1 = (Some (), s')" by simp
  from preserves_run [OF geometry_del d assms(3)] preserves_run [OF inv_hw(3) d assms(2)] geometry_run_task [OF r]
  show ?thesis by blast
next
  case (thread_end u)
  show ?thesis by (rule rtsx_slot.geometry_tail [OF thread_end assms(2)])
next
  case (request buffer block nblks r)
  show ?thesis by (rule preserves_run [OF geometry_async request assms(3)])
next
  case (power ordinal u)
  show ?thesis by (rule preserves_run [OF geometry_power power assms(3)])
next
  case (interrupt u)
  have "keeps outer (InterruptHandler P)" unfolding InterruptHandler_def by (intro keeps more_intr)
  from preserves_run [OF geometry_outer [OF this] interrupt assms(3)] show ?thesis .
next
  case (thread_start u)
  from preserves_run [OF geometry_outer [OF more_needs_discover] thread_start assms(3)] show ?thesis .
next
  case (eject u)
  have "keeps outer (doEjectMedia P)" unfolding doEjectMedia_def by (intro keeps more_intr)
  from preserves_run [OF geometry_outer [OF this] eject assms(3)] show ?thesis .
qed (use assms(3) geometry_sfs in \<open>auto simp: geometry_def typed_def\<close>)

lemma geometry_reach:
  assumes "driver_reach P S I s"
  shows "slot_inv s \<and> geometry 512 s"
  using assms
proof induction
  case (start s n ok s')
  have "fresh_driver s'" by (rule start_fresh [OF start])
  then have "slot_inv s'" "slot_clean s'" using fresh_inv by (auto simp: fresh_driver_def)
  then show ?case by (simp add: geometry_def typed_clean)
next
  case (step s s')
  then show ?case using geometry_step step_inv [of P S I s s'] reach_inv by blast
qed

text \<open>The sector size of every structure that is not marked as failed is a power of two up to 512.\<close>

definition sector_types :: "('h, 'z) sdmmc_scheme \<Rightarrow> bool" where
  "sector_types s \<longleftrightarrow> (\<forall>p f. sfs s p = Some f
     \<longrightarrow> isset (sf_flags f) SFF_ERROR \<or> (\<exists>k\<le>9. sector_size (sf_csd f) = 2 ^ k))"

text \<open>
  C5: in every state the driver can reach, whatever card is put into it, the sector size of a
  function structure that has not been marked as failed is a power of two of at most 512.
\<close>

theorem reachable_sector_sizes:
  assumes "driver_reach P S I s"
  shows "sector_types s"
  unfolding sector_types_def
proof (intro allI impI)
  fix p f
  assume "sfs s p = Some f"
  with geometry_reach [OF assms] have "fn_ok 512 f" by (auto simp: geometry_def typed_def)
  then show "isset (sf_flags f) SFF_ERROR \<or> (\<exists>k\<le>9. sector_size (sf_csd f) = 2 ^ k)"
    by (auto simp: fn_ok_def csd_ok_def dest: min_power_512)
qed

section \<open>The divisions of a request\<close>

text \<open>Function 0 can be divided by, and nothing has trapped yet.\<close>

definition sound :: "nat \<Rightarrow> ('h, 'z) sdmmc_scheme \<Rightarrow> bool" where
  "sound p s \<longleftrightarrow> \<not> sc_panic s \<and> sc_fn0 s = Some p \<and> sector_size (sf_csd (fn_at s p)) \<noteq> 0"

lemma sound_slot_part [simp]: "slot_part (sound p)"
  unfolding slot_part_def
proof (intro allI impI)
  fix s s' :: "('h, 'z) sdmmc_scheme"
  assume "outer s = outer s'"
  note slot_fields [OF this]
  then show "sound p s = sound p s'" by (simp add: sound_def fn_at_def)
qed

lemma sound_part: "(\<And>f :: ('h, 'z) sdmmc_scheme \<Rightarrow> bool. slot_part f \<Longrightarrow> keeps f m)
    \<Longrightarrow> preserves (sound p) (m :: (('h, 'z) sdmmc_scheme, 'b) state)"
  by (rule keeps_pred) simp

lemma sound_update [simp]:
  "sound p (s\<lparr>sc_card := c\<rparr>) = sound p s" "sound p (s\<lparr>sc_lock := l\<rparr>) = sound p s"
  by (simp_all add: sound_def fn_at_def)

lemma sound_update_disk [simp]:
  "sound p (s\<lparr>completions := d\<rparr>) = sound p s" "sound p (s\<lparr>bios := b\<rparr>) = sound p s" "sound p (s\<lparr>seg_arrays := a\<rparr>) = sound p s"
  by (simp_all add: sound_def fn_at_def)

lemma sound_div:
  "(\<And>f k. preserves (sound p) (m f k))
    \<Longrightarrow> preserves (sound p) (do { f \<leftarrow> fetch (\<lambda>s. fn_at s p); k \<leftarrow> c_div a (sector_size (sf_csd f)); m f k })"
  "(\<And>k. preserves (sound p) (n k))
    \<Longrightarrow> preserves (sound p) (do { ss \<leftarrow> fetch (\<lambda>s. sector_size (sf_csd (fn_at s p))); k \<leftarrow> c_div a ss; n k })"
  by (rule preservesI, simp add: c_div_def sound_def [of p], simp add: preserves_def sound_def)+

context sdmmc_chip begin

lemma sound_ops [preserves]:
  "preserves (sound p) (sdmmc_mmc_command T cmd)" "preserves (sound p) (poll_ready n T rca)"
  "preserves (sound p) (bus_dmamap_load P a buf len)" "preserves (sound p) (bus_dmamap_unload P a)"
  "preserves (sound p) bus_dmamap_sync" "preserves (sound p) (call_hw k)"
  by (rule sound_part; intro keeps; assumption)+

lemma sound_select [preserves]: "preserves (sound p) (sdmmc_select_card T x)"
  unfolding sdmmc_select_card_def by (intro preserves; simp)

lemma sound_subr [preserves]:
  "preserves (sound p) (sdmmc_mem_read_block_subr n T p dm b a len)"
  "preserves (sound p) (sdmmc_mem_write_block_subr n T p dm b a len)"
  unfolding sdmmc_mem_read_block_subr_def sdmmc_mem_write_block_subr_def finish_read_def
    data_command_def stop_multiple_def
  by (intro sound_div preserves)+

lemma sound_block [preserves]:
  "preserves (sound p) (sdmmc_mem_read_block n P T p b a len)"
  "preserves (sound p) (sdmmc_mem_write_block n P T p b a len)"
  unfolding sdmmc_mem_read_block_def sdmmc_mem_write_block_def sdmmc_mem_single_read_block_def
    sdmmc_mem_single_write_block_def with_dma_def rw_enter_write_def rw_exit_def
  by (intro sound_div transfer_single preserves; simp)+

end

lemma sound_chunk:
  fixes T :: "('h, 'z) disk_chip"
  assumes "sdmmc_chip T mb"
  shows "preserves (sound p) (send_chunk n P S T args buf blocks len sent)"
proof (rule preservesI)
  fix s :: "('h, 'z) disk_scheme"
  assume s: "sound p s"
  note blk = sdmmc_chip.sound_block [OF assms] sdmmc_chip.sound_ops(6) [OF assms]
  define m where "m = (if bio_direction args = kIODirectionIn then
      obind (run_with_retry (sdmmc_mem_read_block n P T p blocks buf (uint len)) 3) (\<lambda>e.
        if e \<noteq> OK then ret (Some e) else do {
          c \<leftarrow> call_hw (\<lambda>h. st_write_bytes S h (bio_buffer args) sent buf len);
          ret (Some (if c = 0 then Inl EIO else OK)) })
    else do {
      c \<leftarrow> call_hw (\<lambda>h. st_read_bytes S h (bio_buffer args) sent buf len);
      if c = 0 then ret (Some (Inl EIO))
      else run_with_retry (sdmmc_mem_write_block n P T p blocks buf (uint len)) 3 })"
  have "preserves (sound p) m" unfolding m_def by (intro preserves blk)
  moreover have "run_state (send_chunk n P S T args buf blocks len sent) s = run_state m s"
    using s by (simp add: send_chunk_def m_def sound_def)
  ultimately show "sound p (snd (run_state (send_chunk n P S T args buf blocks len sent) s))"
    using s by (simp add: preserves_def)
qed

lemma sound_send_loop:
  fixes T :: "('h, 'z) disk_chip"
  assumes "sdmmc_chip T mb"
  shows "preserves (sound p) (send_loop n P S T args buf blocks remaining sent)"
  using assms
proof (induction n P S T args buf blocks remaining sent rule: send_loop.induct)
  case (1 n P S T args buf blocks remaining sent)
  then show ?case by (subst send_loop.simps) (auto simp: Let_def intro!: preserves sound_chunk [OF 1(2)])
qed

lemma sound_read_task:
  fixes T :: "('h, 'z) disk_chip"
  assumes "sdmmc_chip T mb"
  shows "preserves (sound p) (read_task_impl n P S T i)"
proof -
  have low: "keeps outer m \<Longrightarrow> preserves (sound p) m" for m :: "(('h, 'z) disk_scheme, 'b) state"
    by (rule sound_part) (rule keeps_slot_part)
  have "preserves (sound p) (dma_alloc P sz k :: (('h, 'z) disk_scheme, u64) state)"
    "preserves (sound p) (dma_free P kva :: (('h, 'z) disk_scheme, unit) state)" for sz k kva
    unfolding dma_alloc_def dma_free_def by (intro preserves low [OF more_dmamem(1)] low [OF more_dmamem(2)]
      low [OF more_dmamem(3)] low [OF more_dmamem(4)])+
  then show ?thesis
    unfolding read_task_impl_def complete_bio_def
    by (intro preserves sound_send_loop [OF assms]; simp)
qed


text \<open>A driver that finds the card detection set when it looks for a card first.\<close>

definition first_look :: "unit driver" where
  "first_look = snd (run_state sdmmc_needs_discover ((driver_boot ())\<lparr>rflags := RTSX_F_CARD_PRESENT, workloop := False\<rparr>))"

definition looked :: "unit driver" where
  "looked = snd (run_state (State_Monad.bind (sdmmc_del_task DiscoverTask)
     (\<lambda>_. run_task 1 task_platform bare_storage bare_pci DiscoverTask)) first_look)"

lemma looked_reach: "driver_reach task_platform bare_storage bare_pci looked"
proof -
  let ?s = "(driver_boot ())\<lparr>rflags := RTSX_F_CARD_PRESENT\<rparr>" and ?s0 = "(driver_boot ())\<lparr>rflags := RTSX_F_CARD_PRESENT, workloop := False\<rparr>"
  have "fresh_driver ?s" by (simp add: fresh_driver_def disk_queue_def slot_clean_def io_mode_def isset_def)
  moreover have "run_state (Sinetek_start 1 task_platform bare_pci True) ?s = (Some False, ?s0)"
    by (simp add: Sinetek_start_def prepare_task_loop_def openbsd_compat_start_def)
  ultimately have 0: "driver_reach task_platform bare_storage bare_pci ?s0" by (rule driver_reach.start)
  have "driver_step task_platform bare_storage bare_pci ?s0 first_look"
    by (rule driver_step.thread_start [of _ "()"]) (simp add: first_look_def prod_eq_iff)
  with 0 have 1: "driver_reach task_platform bare_storage bare_pci first_look" by (rule driver_reach.step)
  have q: "tskq first_look = DiscoverTask # []"
    by (simp add: first_look_def sdmmc_needs_discover_def sdmmc_task_pending_def sdmmc_add_task_def)
  let ?m = "State_Monad.bind (sdmmc_del_task DiscoverTask) (\<lambda>_. run_task 1 task_platform bare_storage bare_pci DiscoverTask)"
  obtain u s1 where d: "run_state (sdmmc_del_task DiscoverTask) first_look = (u, s1)"
    by (cases "run_state (sdmmc_del_task DiscoverTask) first_look")
  have inv: "slot_inv s1" using preserves_run [OF inv_hw(3) d] reach_inv [OF 1] by blast
  have "fst (run_state (run_task 1 task_platform bare_storage bare_pci DiscoverTask) s1) = Some ()"
    unfolding run_task_def task.case using rtsx_discover [OF inv surjective_pairing] by blast
  then have "fst (run_state ?m first_look) = Some ()" using d by simp
  then have "run_state ?m first_look = (Some (), looked)" by (simp add: looked_def prod_eq_iff)
  from driver_reach.step [OF 1 driver_step.task [OF q this]] show ?thesis .
qed

theorem reachable_sector_sizes_witness: "sector_types looked"
  by (rule reachable_sector_sizes [OF looked_reach])


end
