(* ===== verification/CardData.thy ===== *)
theory CardData
  imports BlockIo Chunks
begin

text \<open>
  The data that a request moves. A card stores bytes, the client of the storage stack owns
  buffers, and a kernel buffer lies between them; the lemmas follow the bytes through the block
  transfers, their retries and the chunks of a request. What the card, the DMA engine and the
  buffer descriptors do is the contract \<open>moves_data\<close>, \<open>copies\<close>, \<open>quiet\<close>, stated for an arbitrary
  view of the outside world.
\<close>

section \<open>The world outside the driver\<close>

record world =
  card_bytes :: "nat \<Rightarrow> u8"           \<comment> \<open>by byte address\<close>
  client :: "u64 \<Rightarrow> nat \<Rightarrow> u8"       \<comment> \<open>by descriptor and offset\<close>
  memory :: "u64 \<Rightarrow> u8"              \<comment> \<open>kernel memory\<close>

definition blit :: "nat \<Rightarrow> nat \<Rightarrow> (nat \<Rightarrow> u8) \<Rightarrow> (nat \<Rightarrow> u8) \<Rightarrow> nat \<Rightarrow> u8" where
  "blit a n g f = (\<lambda>x. if a \<le> x \<and> x < a + n then g (x - a) else f x)"

definition blit_mem :: "u64 \<Rightarrow> nat \<Rightarrow> (nat \<Rightarrow> u8) \<Rightarrow> (u64 \<Rightarrow> u8) \<Rightarrow> u64 \<Rightarrow> u8" where
  "blit_mem a n g m = (\<lambda>x. if unat (x - a) < n then g (unat (x - a)) else m x)"

definition put_card :: "nat \<Rightarrow> nat \<Rightarrow> (nat \<Rightarrow> u8) \<Rightarrow> world \<Rightarrow> world" where
  "put_card a n g w = w\<lparr>card_bytes := blit a n g (card_bytes w)\<rparr>"

definition put_memory :: "u64 \<Rightarrow> nat \<Rightarrow> (nat \<Rightarrow> u8) \<Rightarrow> world \<Rightarrow> world" where
  "put_memory a n g w = w\<lparr>memory := blit_mem a n g (memory w)\<rparr>"

definition put_client :: "u64 \<Rightarrow> nat \<Rightarrow> nat \<Rightarrow> (nat \<Rightarrow> u8) \<Rightarrow> world \<Rightarrow> world" where
  "put_client d off n g w = w\<lparr>client := (client w)(d := blit off n g (client w d))\<rparr>"

text \<open>The bytes from an address on.\<close>

definition card_from :: "world \<Rightarrow> nat \<Rightarrow> nat \<Rightarrow> u8" where
  "card_from w a = (\<lambda>i. card_bytes w (a + i))"

definition mem_from :: "world \<Rightarrow> u64 \<Rightarrow> nat \<Rightarrow> u8" where
  "mem_from w a = (\<lambda>i. memory w (a + of_nat i))"

definition client_from :: "world \<Rightarrow> u64 \<Rightarrow> nat \<Rightarrow> nat \<Rightarrow> u8" where
  "client_from w d off = (\<lambda>i. client w d (off + i))"

definition splice :: "nat \<Rightarrow> (nat \<Rightarrow> u8) \<Rightarrow> (nat \<Rightarrow> u8) \<Rightarrow> nat \<Rightarrow> u8" where
  "splice n g k = (\<lambda>i. if i < n then g i else k (i - n))"

lemma blit_absorb: "blit a n g (blit a n k f) = blit a n g f"
  by (auto simp: blit_def fun_eq_iff)

lemma blit_self: "blit a n (\<lambda>i. f (a + i)) f = f"
  by (auto simp: blit_def fun_eq_iff)

lemma blit_nothing [simp]: "blit a 0 g f = f" "blit_mem b 0 g m = m"
  by (auto simp: blit_def blit_mem_def fun_eq_iff)

lemma blit_splice: "blit (a + n) m k (blit a n g f) = blit a (n + m) (splice n g k) f"
  by (auto simp: blit_def splice_def fun_eq_iff)

lemma blit_mem_absorb: "blit_mem a n g (blit_mem a n k m) = blit_mem a n g m"
  by (auto simp: blit_mem_def fun_eq_iff)

lemma blit_mem_self: "blit_mem a n (\<lambda>i. m (a + of_nat i)) m = m"
  by (auto simp: blit_mem_def fun_eq_iff)

lemma blit_mem_splice:
  assumes "n + k \<le> 2 ^ 64"
  shows "blit_mem (a + of_nat n) k h (blit_mem a n g m) = blit_mem a (n + k) (splice n g h) m"
proof
  fix x :: u64
  let ?i = "unat (x - a)"
  show "blit_mem (a + of_nat n) k h (blit_mem a n g m) x = blit_mem a (n + k) (splice n g h) m x"
  proof (cases "k = 0")
    case True
    then show ?thesis by (simp add: blit_mem_def splice_def)
  next
    case False
    then have n: "unat (of_nat n :: u64) = n"
      using assms by (simp add: unsigned_of_nat take_bit_nat_eq_self)
    have i: "?i < 2 ^ 64" using unsigned_less [of "x - a"] by simp
    have d: "unat (x - (a + of_nat n)) = (if n \<le> ?i then ?i - n else ?i + 2 ^ 64 - n)"
      using i assms n by (simp add: diff_diff_eq [symmetric] unat_sub_if' [of "x - a"] word_le_nat_alt)
    show ?thesis using i assms False by (auto simp: blit_mem_def splice_def d)
  qed
qed

lemma mem_from_blit: "n \<le> 2 ^ 64 \<Longrightarrow> i < n \<Longrightarrow> blit_mem a n g m (a + of_nat i) = g i"
  by (simp add: blit_mem_def unsigned_of_nat take_bit_nat_eq_self)


section \<open>What the driver relies on\<close>

definition data_ops :: "u16 set" where
  "data_ops = {MMC_READ_BLOCK_SINGLE, MMC_READ_BLOCK_MULTIPLE, MMC_WRITE_BLOCK_SINGLE, MMC_WRITE_BLOCK_MULTIPLE}"

definition write_op :: "u16 \<Rightarrow> bool" where
  "write_op op \<longleftrightarrow> op = MMC_WRITE_BLOCK_SINGLE \<or> op = MMC_WRITE_BLOCK_MULTIPLE"

text \<open>
  The commands a card accepts: whole blocks of 512 bytes, one of them for the commands that move
  a single block, with the direction of the transfer and, on a card that is addressed by bytes
  (\<open>hc\<close> is False), a multiple of 512 as address.
\<close>

definition proper :: "bool \<Rightarrow> sdmmc_command \<Rightarrow> bool" where
  "proper hc cmd \<longleftrightarrow> c_blklen cmd = 512 \<and> 0 < c_datalen cmd \<and> 512 dvd c_datalen cmd
     \<and> (c_opcode cmd \<in> {MMC_READ_BLOCK_SINGLE, MMC_WRITE_BLOCK_SINGLE} \<longrightarrow> c_datalen cmd = 512)
     \<and> isset (c_flags cmd) SCF_CMD_READ = (\<not> write_op (c_opcode cmd))
     \<and> (hc \<or> 512 dvd unat (c_arg cmd))"

definition card_address :: "bool \<Rightarrow> u32 \<Rightarrow> nat" where
  "card_address hc a = (if hc then 512 * unat a else unat a)"

text \<open>
  The card and the controller: a data command moves its bytes between the buffer and the
  card; when it fails any bytes may have arrived at their destination, but nowhere else. The other
  commands move nothing.
\<close>

definition data_effect :: "bool \<Rightarrow> sdmmc_command \<Rightarrow> unit res \<Rightarrow> world \<Rightarrow> world \<Rightarrow> bool" where
  "data_effect hc cmd e w w' \<longleftrightarrow>
     (let a = card_address hc (c_arg cmd); n = nat (c_datalen cmd) in
      if c_opcode cmd \<notin> data_ops then w' = w
      else if \<not> proper hc cmd then True
      else if write_op (c_opcode cmd)
      then \<exists>g. w' = put_card a n g w \<and> (e = OK \<longrightarrow> g = mem_from w (c_data cmd))
      else \<exists>g. w' = put_memory (c_data cmd) n g w \<and> (e = OK \<longrightarrow> g = card_from w a))"

definition moves_data :: "('h \<Rightarrow> world) \<Rightarrow> bool \<Rightarrow> ('h, 'z) slot_chip \<Rightarrow> bool" where
  "moves_data view hc T \<longleftrightarrow> (\<forall>cmd s. case run_state (chip_exec_command T cmd) s of
     (c, s') \<Rightarrow> mimic_linux s' = mimic_linux s
       \<and> data_effect hc cmd (c_error c) (view (hw s)) (view (hw s')))"

text \<open>Buffer descriptors copy all the bytes or none.\<close>

definition copies :: "('h \<Rightarrow> world) \<Rightarrow> 'h storage \<Rightarrow> bool" where
  "copies view S \<longleftrightarrow> (\<forall>h d off buf len.
     (case st_write_bytes S h d off buf len of (c, h') \<Rightarrow> c = len
          \<and> view h' = put_client d (unat off) (unat len) (mem_from (view h) buf) (view h)
        \<or> c = 0 \<and> view h' = view h)
   \<and> (case st_read_bytes S h d off buf len of (c, h') \<Rightarrow> c = len
          \<and> view h' = put_memory buf (unat len) (client_from (view h) d (unat off)) (view h)
        \<or> c = 0 \<and> view h' = view h))"

text \<open>
  Setting up a DMA transfer moves no data; allocating and mapping memory, freeing and unmapping
  it, touches neither card nor client.
\<close>

definition quiet :: "('h \<Rightarrow> world) \<Rightarrow> 'h platform \<Rightarrow> bool" where
  "quiet view P \<longleftrightarrow>
     (\<forall>h c md. view (snd (dc_set P h c md)) = view h) \<and> (\<forall>h c off. view (snd (dc_gen P h c off)) = view h)
   \<and> (\<forall>h c. view (dc_clear P h c) = view h)
   \<and> (\<forall>h. let same = (\<lambda>h'. \<exists>m. view h' = (view h)\<lparr>memory := m\<rparr>) in
       (\<forall>b sz. same (snd (md_alloc P h b sz))) \<and> (\<forall>md. same (snd (md_prepare P h md)))
     \<and> (\<forall>md. same (md_complete P h md)) \<and> (\<forall>md. same (md_release P h md))
     \<and> (\<forall>md. same (snd (md_map P h md))) \<and> (\<forall>mm. same (mm_release P h mm)))"

section \<open>Following the bytes\<close>

text \<open>The part of the state that decides what a transfer does, with the world.\<close>

definition scene :: "('h \<Rightarrow> world) \<Rightarrow> ('h, 'z) sdmmc_scheme
    \<Rightarrow> world \<times> bool \<times> nat option \<times> (nat \<Rightarrow> sdmmc_function option)" where
  "scene view s = (view (hw s), mimic_linux s, sc_fn0 s, sfs s)"

lemma scene_update [simp]:
  "scene view (s\<lparr>sc_card := a\<rparr>) = scene view s" "scene view (s\<lparr>sc_lock := b\<rparr>) = scene view s"
  "scene view (s\<lparr>sc_panic := c\<rparr>) = scene view s" "scene view (s\<lparr>dmamaps := d\<rparr>) = scene view s"
  "scene view (s\<lparr>seg_oob := e\<rparr>) = scene view s" "scene view (s\<lparr>seg_arrays := k\<rparr>) = scene view s"
  "scene view (s\<lparr>va_list := l\<rparr>) = scene view s"
  by (simp_all add: scene_def)

lemma scene_call:
  assumes "\<And>h. view (snd (g h)) = view h"
  shows "keeps (scene view) (call_hw g)"
  using assms by (auto simp: keeps_def call_hw_def scene_def split: prod.split) (metis snd_conv)

lemma scene_load:
  assumes q: "quiet view P"
  shows "keeps (scene view) (bus_dmamap_load P dm buf len)" "keeps (scene view) (bus_dmamap_unload P dm)"
proof -
  have gen: "keeps (scene view) (call_hw (\<lambda>h. dc_gen P h c off))" for c off
    using q by (intro scene_call) (simp add: quiet_def)
  have set: "keeps (scene view) (call_hw (\<lambda>h. dc_set P h c md))" for c md
    using q by (intro scene_call) (simp add: quiet_def)
  have clear: "keeps (scene view) (exec_hw (\<lambda>h. dc_clear P h c))" for c
    using q by (auto simp: quiet_def keeps_def exec_hw_def scene_def)
  have put: "keeps (scene view) (put_map_seg p i a l)" for p i a l
    by (auto simp: put_map_seg_def keeps_def scene_def split: option.split)
  have fin: "keeps (scene view) (finish_load p a b c d)" for p a b c d
    by (auto simp: finish_load_def keeps_def scene_def split: option.split)
  have loop: "keeps (scene view) (load_loop n P p c buflen off i)" for n p c buflen off i
  proof (induction n arbitrary: off i)
    case (Suc n)
    then show ?case unfolding load_loop.simps by (intro keeps gen put)
  qed (simp add: keeps_return)
  show "keeps (scene view) (bus_dmamap_load P dm buf len)"
    unfolding bus_dmamap_load_def by (intro keeps set loop fin)
  show "keeps (scene view) (bus_dmamap_unload P dm)"
    unfolding bus_dmamap_unload_def by (intro keeps clear) simp
qed


text \<open>
  A transfer of \<open>n\<close> bytes between the card, from address \<open>a\<close> on, and the buffer: what it writes
  to its destination, and the bytes it should write.
\<close>

definition moved :: "bool \<Rightarrow> nat \<Rightarrow> u64 \<Rightarrow> nat \<Rightarrow> (nat \<Rightarrow> u8) \<Rightarrow> world \<Rightarrow> world" where
  "moved wr a buf n g w = (if wr then put_card a n g w else put_memory buf n g w)"

definition source :: "bool \<Rightarrow> nat \<Rightarrow> u64 \<Rightarrow> world \<Rightarrow> nat \<Rightarrow> u8" where
  "source wr a buf w = (if wr then mem_from w buf else card_from w a)"

lemma moved_absorb: "moved wr a buf n g (moved wr a buf n k w) = moved wr a buf n g w"
  by (simp add: moved_def put_card_def put_memory_def blit_absorb blit_mem_absorb)

lemma moved_self: "\<exists>g. w = moved wr a buf n g w"
proof (cases wr)
  case True
  then have "w = moved wr a buf n (\<lambda>i. card_bytes w (a + i)) w"
    by (simp add: moved_def put_card_def blit_self)
  then show ?thesis by blast
next
  case False
  then have "w = moved wr a buf n (\<lambda>i. memory w (buf + of_nat i)) w"
    by (simp add: moved_def put_memory_def blit_mem_self)
  then show ?thesis by blast
qed

lemma moved_splice:
  "n + k \<le> 2 ^ 64 \<Longrightarrow>
   moved wr (a + n) (buf + of_nat n) k h (moved wr a buf n g w) = moved wr a buf (n + k) (splice n g h) w"
  by (simp add: moved_def put_card_def put_memory_def blit_splice blit_mem_splice)

lemma source_moved: "source wr a' buf' (moved wr a buf n g w) = source wr a' buf' w"
  by (auto simp: source_def moved_def put_card_def put_memory_def mem_from_def card_from_def)

lemma source_splice: "splice n (source wr a buf w) (source wr (a + n) (buf + of_nat n) w) = source wr a buf w"
  by (auto simp: splice_def source_def mem_from_def card_from_def fun_eq_iff add.assoc simp flip: of_nat_add)

lemma moved_extend:
  assumes "n \<le> m" and "m \<le> 2 ^ 64"
  shows "\<exists>h. moved wr a buf n g w = moved wr a buf m h w"
proof -
  obtain h where "moved wr a buf n g w = moved wr (a + n) (buf + of_nat n) (m - n) h (moved wr a buf n g w)"
    using moved_self by blast
  also have "\<dots> = moved wr a buf (n + (m - n)) (splice n g h) w"
    by (rule moved_splice) (use assms in simp)
  finally show ?thesis using assms(1) by auto
qed

lemma moved_nothing [simp]: "moved wr a buf 0 g w = w"
  by (simp add: moved_def put_card_def put_memory_def)

text \<open>How a transfer ends: whatever its result, only its destination has changed.\<close>

definition arrived ::
    "('h \<Rightarrow> world) \<Rightarrow> bool \<times> nat option \<times> (nat \<Rightarrow> sdmmc_function option) \<Rightarrow> world
       \<Rightarrow> bool \<Rightarrow> nat \<Rightarrow> u64 \<Rightarrow> nat \<Rightarrow> unit res option \<Rightarrow> ('h, 'z) sdmmc_scheme \<Rightarrow> bool" where
  "arrived view c w wr a buf n r s \<longleftrightarrow>
     (\<exists>g. scene view s = (moved wr a buf n g w, c) \<and> (r = Some OK \<longrightarrow> g = source wr a buf w))"

lemma arrivedI: "scene view s = (moved wr a buf n g w, c) \<Longrightarrow> (r = Some OK \<Longrightarrow> g = source wr a buf w)
    \<Longrightarrow> arrived view c w wr a buf n r s"
  unfolding arrived_def by blast

lemma arrived_failed: "scene view s = (w, c) \<Longrightarrow> r \<noteq> Some OK \<Longrightarrow> arrived view c w wr a buf n r s"
  unfolding arrived_def using moved_self by metis

lemma arrived_mono: "arrived view c w wr a buf n r s \<Longrightarrow> scene view s' = scene view s
    \<Longrightarrow> (r' = Some OK \<Longrightarrow> r = Some OK) \<Longrightarrow> arrived view c w wr a buf n r' s'"
  unfolding arrived_def by auto

lemma arrived_again:
  "arrived view c (moved wr a buf n g w) wr a buf n r s \<Longrightarrow> arrived view c w wr a buf n r s"
  by (auto simp: arrived_def moved_absorb source_moved)

lemma retry_arrived:
  assumes "\<And>w. valid (\<lambda>s. scene view s = (w, c)) m (arrived view c w wr a buf n)"
  shows "valid (\<lambda>s. scene view s = (w, c)) (run_with_retry m k) (arrived view c w wr a buf n)"
proof (induction k arbitrary: w)
  case (0 w)
  show ?case
  proof (rule validI)
    fix s r s'
    assume "scene view s = (w, c)" "run_state (run_with_retry m 0) s = (r, s')"
    with validD [OF assms] show "arrived view c w wr a buf n r s'"
      by (subst (asm) run_with_retry.simps) (auto simp: obind_def split: prod.splits option.splits sum.splits)
  qed
next
  case (Suc k w)
  show ?case
  proof (rule validI)
    fix s r s'
    assume s: "scene view s = (w, c)" and run: "run_state (run_with_retry m (Suc k)) s = (r, s')"
    obtain x s1 where x: "run_state m s = (x, s1)" by fastforce
    note one = validD [OF assms x s]
    show "arrived view c w wr a buf n r s'"
    proof (cases "\<exists>e. x = Some (Inl e)")
      case True
      then have "run_state (run_with_retry m k) s1 = (r, s')"
        using run x by (subst (asm) run_with_retry.simps) (auto simp: obind_def)
      moreover obtain g where "scene view s1 = (moved wr a buf n g w, c)"
        using one by (auto simp: arrived_def)
      ultimately show ?thesis using validD [OF Suc.IH] arrived_again by blast
    next
      case False
      with run x have "r = x" "s' = s1"
        by (subst (asm) run_with_retry.simps; auto simp: obind_def split: option.splits sum.splits)+
      then show ?thesis using one by simp
    qed
  qed
qed

section \<open>Block transfers\<close>

text \<open>The card as the driver has identified it: sectors of 512 bytes, addressed as \<open>hc\<close> says.\<close>

definition block_card :: "nat \<Rightarrow> bool \<Rightarrow> (nat \<Rightarrow> sdmmc_function option) \<Rightarrow> bool" where
  "block_card p hc fs \<longleftrightarrow>
     (\<exists>f. fs p = Some f \<and> sector_size (sf_csd f) = 512 \<and> isset (sf_flags f) SFF_SDHC = hc)"

text \<open>The block numbers that an \<open>int\<close> can hold, as blocks or as byte addresses.\<close>

definition in_reach :: "bool \<Rightarrow> nat \<Rightarrow> bool" where
  "in_reach hc b \<longleftrightarrow> b \<le> (if hc then 2 ^ 31 - 1 else 2 ^ 22)"

lemma card_address_block_arg:
  assumes "in_reach hc b" and "isset (sf_flags f) SFF_SDHC = hc"
  shows "card_address hc (block_arg f (int b)) = 512 * b" and "hc \<or> 512 dvd unat (block_arg f (int b))"
proof -
  have "unat (of_nat b :: u32) = b" if hc using that assms(1)
    by (simp add: in_reach_def unsigned_of_nat take_bit_nat_eq_self)
  moreover have "unat (of_nat (b * 512) :: u32) = b * 512" if "\<not> hc" using that assms(1)
    by (subst unsigned_of_nat) (simp add: in_reach_def take_bit_nat_eq_self del: of_nat_mult)
  moreover have "(word_of_int (int b * 512) :: u32) = of_nat (b * 512)" "(word_of_int (int b) :: u32) = of_nat b"
    by simp_all
  ultimately show "card_address hc (block_arg f (int b)) = 512 * b" "hc \<or> 512 dvd unat (block_arg f (int b))"
    using assms(2) by (auto simp: card_address_def block_arg_def simp del: of_nat_mult)
qed


text \<open>Both directions of a transfer.\<close>

definition subr :: "('h, 'z) slot_chip \<Rightarrow> bool \<Rightarrow> nat \<Rightarrow> nat \<Rightarrow> u64 \<Rightarrow> int \<Rightarrow> u64 \<Rightarrow> int \<Rightarrow> (('h, 'z) sdmmc_scheme, unit res option) state" where
  "subr T wr m p dm b buf len = (if wr then sdmmc_mem_write_block_subr m T p dm b buf len
     else sdmmc_mem_read_block_subr m T p dm b buf len)"

lemma subr_directions:
  "subr T True m p dm = sdmmc_mem_write_block_subr m T p dm"
  "subr T False m p dm = sdmmc_mem_read_block_subr m T p dm"
  by (simp_all add: subr_def fun_eq_iff)

definition block_io :: "bool \<Rightarrow> nat \<Rightarrow> 'h platform \<Rightarrow> ('h, 'z) slot_chip \<Rightarrow> nat \<Rightarrow> int \<Rightarrow> u64 \<Rightarrow> int
    \<Rightarrow> (('h, 'z) sdmmc_scheme, unit res option) state" where
  "block_io wr m P T p b buf len = (if wr then sdmmc_mem_write_block m P T p b buf len
     else sdmmc_mem_read_block m P T p b buf len)"

context sdmmc_chip begin

lemma exec_scene:
  assumes "moves_data view hc T" and "run_state (chip_exec_command T cmd) s = (c, s')"
  shows "\<exists>w'. scene view s' = (w', snd (scene view s)) \<and> data_effect hc cmd (c_error c) (view (hw s)) w'"
proof -
  have "mimic_linux s' = mimic_linux s" "data_effect hc cmd (c_error c) (view (hw s)) (view (hw s'))"
    using assms(1) [unfolded moves_data_def, rule_format, where cmd = cmd and s = s] assms(2) by simp_all
  moreover note slot_fields(6,8) [OF keeps_run [OF more_exec assms(2)]]
  ultimately show ?thesis by (intro exI [of _ "view (hw s')"]) (simp add: scene_def)
qed

lemma exec_quiet:
  assumes "moves_data view hc T" and "run_state (chip_exec_command T cmd) s = (c, s')"
    and "c_opcode cmd \<notin> data_ops"
  shows "scene view s' = scene view s"
  using exec_scene [OF assms(1,2)] assms(3) by (auto simp: data_effect_def scene_def)

lemma exec_opcode: "run_state (chip_exec_command T cmd) s = (c, s') \<Longrightarrow> c_opcode c = c_opcode cmd"
  using exec_request [of cmd s] by (simp add: request_def)

lemma status_quiet:
  assumes "moves_data view hc T"
  shows "keeps (scene view) (get_status T)"
proof (rule keepsI)
  fix s
  let ?cmd = "\<lambda>a. zero_command\<lparr>c_opcode := MMC_SEND_STATUS, c_arg := MMC_ARG_RCA a, c_flags := SCF_CMD_AC OR SCF_RSP_R1\<rparr>"
  have one: "scene view s1 = scene view s \<and> c_opcode c = MMC_SEND_STATUS"
    if "run_state (chip_exec_command T (?cmd a)) s = (c, s1)" for a c s1
    using exec_quiet [OF assms that] exec_opcode [OF that] by (simp add: data_ops_def)
  have two: "scene view s2 = scene view s1" if "run_state (chip_exec_command T st) s1 = (c, s2)"
    and "c_opcode st = MMC_SEND_STATUS" for st c s1 s2
    using exec_quiet [OF assms that(1)] that(2) by (simp add: data_ops_def)
  show "scene view (snd (run_state (get_status T) s)) = scene view s"
  proof (cases "sc_card s")
    case (Some p)
    let ?a = "sf_rca (fn_at s p)"
    obtain c s1 where 1: "run_state (chip_exec_command T (?cmd ?a)) s = (c, s1)" by fastforce
    obtain d s2 where 2: "run_state (chip_exec_command T c) s1 = (d, s2)" by fastforce
    show ?thesis using one [OF 1] two [OF 2] 1 2 Some by (simp add: get_status_def)
  qed (simp add: get_status_def)
qed

lemma command_quiet:
  assumes "moves_data view hc T" and "c_opcode cmd \<notin> data_ops"
  shows "keeps (scene view) (sdmmc_mmc_command T cmd)"
proof -
  have "keeps (scene view) (chip_exec_command T cmd)"
    by (rule keepsI) (metis exec_quiet [OF assms(1) _ assms(2)] prod.collapse)
  then show ?thesis unfolding sdmmc_mmc_command_def sdmmc_dump_command_def
    by (intro keeps_bind keeps_if keeps_return status_quiet [OF assms(1)])
qed

lemma select_quiet:
  assumes "moves_data view hc T"
  shows "keeps (scene view) (sdmmc_select_card T sf)"
  unfolding sdmmc_select_card_def
  by (intro keeps_bind keeps_if keeps_return keeps_get keeps_modify command_quiet [OF assms])
     (simp_all add: data_ops_def)

lemma poll_quiet:
  assumes "moves_data view hc T"
  shows "keeps (scene view) (poll_ready n T rca)"
proof (induction n)
  case (Suc n)
  then show ?case unfolding poll_ready.simps
    by (intro keeps_bind keeps_if keeps_return command_quiet [OF assms]) (simp_all add: data_ops_def)
qed (simp add: keeps_return)

lemma stop_quiet:
  assumes "moves_data view hc T"
  shows "keeps (scene view) (stop_multiple T m a)"
  unfolding stop_multiple_def
  by (intro keeps_bind keeps_if keeps_return keeps_get command_quiet [OF assms]) (simp_all add: data_ops_def)

lemma data_command_arrived:
  assumes "moves_data view hc T" and "block_card p hc fs" and "in_reach hc b" and "0 < n"
    and "scene view s = (w, ml, f0, fs)"
    and "run_state (data_command wr T p dm (int b) buf (int (512 * n))) s = (c, s')"
  shows "arrived view (ml, f0, fs) w wr (512 * b) buf (512 * n) (Some (c_error c)) s'"
proof -
  from assms(2) obtain f where f: "fs p = Some f" "sector_size (sf_csd f) = 512" "isset (sf_flags f) SFF_SDHC = hc"
    by (auto simp: block_card_def)
  have at: "fn_at s p = f" using assms(5) f by (simp add: scene_def fn_at_def)
  define cmd where "cmd = zero_command\<lparr>c_data := buf, c_datalen := int (512 * n), c_blklen := 512,
     c_opcode := (if wr then if int n > 1 then MMC_WRITE_BLOCK_MULTIPLE else MMC_WRITE_BLOCK_SINGLE
                  else if int n > 1 then MMC_READ_BLOCK_MULTIPLE else MMC_READ_BLOCK_SINGLE),
     c_arg := block_arg f (int b),
     c_flags := (if wr then SCF_CMD_ADTC OR SCF_RSP_R1 else SCF_CMD_ADTC OR SCF_CMD_READ OR SCF_RSP_R1),
     c_dmamap := dm\<rparr>"
  have run: "run_state (sdmmc_mmc_command T cmd) s = (c, s')"
    using assms(6) by (cases wr; cases "Suc 0 < n") (simp_all add: data_command_def c_div_def at f cmd_def)
  obtain s1 where e: "run_state (chip_exec_command T cmd) s = (c, s1)"
    and same: "scene view s' = scene view s1"
    using run keeps_run [OF status_quiet [OF assms(1)]]
    by (auto simp: sdmmc_mmc_command_def sdmmc_dump_command_def split: prod.splits if_splits)
  note arg = card_address_block_arg [OF assms(3) f(3)]
  have fl: "isset (SCF_CMD_ADTC OR SCF_CMD_READ OR SCF_RSP_R1) SCF_CMD_READ"
    "\<not> isset (SCF_CMD_ADTC OR SCF_RSP_R1) SCF_CMD_READ" by (simp_all add: isset_def)
  have "proper hc cmd" using arg(2) fl assms(4)
    by (auto simp: proper_def cmd_def write_op_def)
  moreover have "c_opcode cmd \<in> data_ops" "write_op (c_opcode cmd) = wr" by (simp_all add: cmd_def data_ops_def write_op_def)
  moreover have "view (hw s) = w" "snd (scene view s) = (ml, f0, fs)" using assms(5) by (simp_all add: scene_def)
  moreover have "card_address hc (c_arg cmd) = 512 * b" "c_data cmd = buf" "nat (c_datalen cmd) = 512 * n"
    using arg(1) by (simp_all add: cmd_def nat_mult_distrib)
  ultimately obtain g where "scene view s1 = (moved wr (512 * b) buf (512 * n) g w, (ml, f0, fs))"
    "c_error c = OK \<longrightarrow> g = source wr (512 * b) buf w"
    using exec_scene [OF assms(1) e] by (auto simp: data_effect_def moved_def source_def split: if_splits)
  then show ?thesis unfolding arrived_def same by auto
qed

lemma subr_arrived:
  assumes "moves_data view hc T" and "block_card p hc fs" and "in_reach hc b" and "0 < n" and "wr \<or> \<not> ml"
  shows "valid (\<lambda>s. scene view s = (w, ml, f0, fs)) (subr T wr m p dm (int b) buf (int (512 * n)))
    (arrived view (ml, f0, fs) w wr (512 * b) buf (512 * n))"
proof (rule validI)
  fix s r s'
  assume s: "scene view s = (w, ml, f0, fs)" and run: "run_state (subr T wr m p dm (int b) buf (int (512 * n))) s = (r, s')"
  let ?A = "arrived view (ml, f0, fs) w wr (512 * b) buf (512 * n)"
  obtain e s1 where e: "run_state (sdmmc_select_card T (Some p)) s = (e, s1)" by fastforce
  have s1: "scene view s1 = (w, ml, f0, fs)" using keeps_run [OF select_quiet [OF assms(1)] e] s by simp
  obtain c s2 where c: "run_state (data_command wr T p dm (int b) buf (int (512 * n))) s1 = (c, s2)" by fastforce
  have A: "?A (Some (c_error c)) s2" by (rule data_command_arrived [OF assms(1-4) s1 c])
  note quiet = keeps_run [OF stop_quiet [OF assms(1)]] keeps_run [OF poll_quiet [OF assms(1)]]
  show "?A r s'"
  proof (cases "e = OK")
    case False
    then have "r = Some e" "s' = s1" using run e
      by (auto simp: subr_def sdmmc_mem_write_block_subr_def sdmmc_mem_read_block_subr_def split: if_splits)
    with False s1 show ?thesis by (auto intro: arrived_failed)
  next
    case True
    have "scene view s' = scene view s2 \<and> (r = Some OK \<longrightarrow> c_error c = OK)"
    proof (cases wr)
      case True
      with run e c \<open>e = OK\<close> show ?thesis
        by (auto simp: subr_def sdmmc_mem_write_block_subr_def obind_def Let_def
            split: prod.splits option.splits if_splits dest!: quiet)
    next
      case False
      then have "\<not> mimic_linux s2" using A assms(5) by (auto simp: arrived_def scene_def)
      with False run e c \<open>e = OK\<close> show ?thesis
        by (auto simp: subr_def sdmmc_mem_read_block_subr_def finish_read_def
            split: prod.splits option.splits if_splits dest!: quiet)
    qed
    with A show ?thesis by (blast intro: arrived_mono)
  qed
qed

lemma single_arrived:
  assumes "moves_data view hc T" and "block_card p hc fs" and "wr \<or> \<not> ml"
    and "in_reach hc (b + i + k)" and "512 * (i + k) \<le> (2 ^ 64 :: nat)"
  shows "valid (\<lambda>s. scene view s = (moved wr (512 * b) buf (512 * i) (source wr (512 * b) buf w) w, ml, f0, fs))
    (single_blocks k (subr T wr m p 0) p (int i) (int b) buf)
    (arrived view (ml, f0, fs) w wr (512 * b) buf (512 * (i + k)))"
  using assms(4,5)
proof (induction k arbitrary: i)
  case 0
  show ?case by (rule validI) (auto intro: arrivedI)
next
  case (Suc k)
  let ?a = "512 * b" and ?G = "source wr (512 * b) buf w" and ?c = "(ml, f0, fs)"
  let ?w = "moved wr ?a buf (512 * i) ?G w" and ?buf = "buf + of_nat (512 * i)"
  show ?case
  proof (rule validI)
    fix s r s'
    assume s: "scene view s = (?w, ml, f0, fs)"
      and run: "run_state (single_blocks (Suc k) (subr T wr m p 0) p (int i) (int b) buf) s = (r, s')"
    have ss: "sector_size (sf_csd (fn_at s p)) = 512"
      using assms(2) s by (auto simp: block_card_def scene_def fn_at_def)
    let ?io = "subr T wr m p 0 (int (b + i)) ?buf (int (512 * 1))"
    obtain e s1 where e: "run_state ?io s = (e, s1)" by fastforce
    have "in_reach hc (b + i)" using Suc.prems(1) by (auto simp: in_reach_def)
    from validD [OF subr_arrived [OF assms(1,2) this _ assms(3)] e s]
    obtain g where g: "scene view s1 = (moved wr (512 * (b + i)) ?buf 512 g ?w, ?c)"
      and ok: "e = Some OK \<Longrightarrow> g = source wr (512 * (b + i)) ?buf w"
      by (auto simp: arrived_def source_moved)
    have "moved wr (?a + 512 * i) ?buf 512 g ?w = moved wr ?a buf (512 * i + 512) (splice (512 * i) ?G g) w"
      by (rule moved_splice) (use Suc.prems(2) in simp)
    then have g': "scene view s1 = (moved wr ?a buf (512 * Suc i) (splice (512 * i) ?G g) w, ?c)"
      using g by (simp add: add.commute)
    have suc: "int (Suc i) = int i + 1" by simp
    have step: "run_state (single_blocks (Suc k) (subr T wr m p 0) p (int i) (int b) buf) s
        = run_state (obind ?io (\<lambda>r. if r \<noteq> OK then ret (Some r)
            else single_blocks k (subr T wr m p 0) p (int (Suc i)) (int b) buf)) s"
      unfolding suc by (simp add: ss mult.commute)
    show "arrived view ?c w wr ?a buf (512 * (i + Suc k)) r s'"
    proof (cases "e = Some OK")
      case True
      have "splice (512 * i) ?G g = ?G"
        unfolding ok [OF True] using source_splice [of "512 * i" wr ?a buf w] by (simp add: distrib_left)
      then have "scene view s1 = (moved wr ?a buf (512 * Suc i) ?G w, ml, f0, fs)" using g' by simp
      moreover have "run_state (single_blocks k (subr T wr m p 0) p (int (Suc i)) (int b) buf) s1 = (r, s')"
        using run e True unfolding step by (simp add: obind_def)
      ultimately have "arrived view ?c w wr ?a buf (512 * (Suc i + k)) r s'"
        using validD [OF Suc.IH [of "Suc i"]] Suc.prems by simp
      then show ?thesis by simp
    next
      case False
      then have r: "r \<noteq> Some OK" "s' = s1" using run e unfolding step
        by (auto simp: obind_def split: option.splits if_splits)
      obtain h where "moved wr ?a buf (512 * Suc i) (splice (512 * i) ?G g) w = moved wr ?a buf (512 * (i + Suc k)) h w"
        using moved_extend [of "512 * Suc i" "512 * (i + Suc k)"] Suc.prems(2) by fastforce
      then show ?thesis using g' r by (auto simp: arrived_def)
    qed
  qed
qed

lemma with_dma_arrived:
  assumes "quiet view P"
    and "\<And>dm. valid (\<lambda>s. scene view s = (w, c)) (io dm) (arrived view c w wr a buf n)"
  shows "valid (\<lambda>s. scene view s = (w, c)) (with_dma P addr len io) (arrived view c w wr a buf n)"
proof (rule validI)
  fix s r s'
  assume s: "scene view s = (w, c)" and run: "run_state (with_dma P addr len io) s = (r, s')"
  obtain l s1 where l: "run_state (bus_dmamap_load P (sc_dmap s) addr (word_of_int len)) s = (l, s1)" by fastforce
  have s1: "scene view s1 = (w, c)" using keeps_run [OF scene_load(1) [OF assms(1)] l] s by simp
  obtain x s2 where x: "run_state (io (sc_dmap s)) s1 = (x, s2)" by fastforce
  have A: "arrived view c w wr a buf n x s2" by (rule validD [OF assms(2) x s1])
  show "arrived view c w wr a buf n r s'"
  proof (cases "l = OK")
    case True
    with run l x have "r = x" "scene view s' = scene view s2"
      by (auto simp: with_dma_def bus_dmamap_sync_def obind_def split: option.splits prod.splits if_splits
          dest!: keeps_run [OF scene_load(2) [OF assms(1)]])
    with A show ?thesis by (auto intro: arrived_mono)
  next
    case False
    with run l have "r = Some l" "s' = s1" by (auto simp: with_dma_def split: if_splits)
    with s1 False show ?thesis by (auto intro: arrived_failed)
  qed
qed

lemma block_arrived:
  assumes "moves_data view hc T" and "quiet view P" and "block_card p hc fs" and "in_reach hc (b + n)"
    and "0 < n" and "512 * n \<le> 2 ^ 64" and "wr \<or> \<not> ml"
  shows "valid (\<lambda>s. scene view s = (w, ml, f0, fs)) (block_io wr m P T p (int b) buf (int (512 * n)))
    (arrived view (ml, f0, fs) w wr (512 * b) buf (512 * n))"
proof (rule validI)
  fix s r s'
  assume s: "scene view s = (w, ml, f0, fs)"
    and run: "run_state (block_io wr m P T p (int b) buf (int (512 * n))) s = (r, s')"
  let ?A = "arrived view (ml, f0, fs) w wr (512 * b) buf (512 * n)" and ?P = "\<lambda>s. scene view s = (w, ml, f0, fs)"
  let ?s = "s\<lparr>sc_lock := sc_lock s + 1\<rparr>"
  let ?single = "single_blocks n (subr T wr m p 0) p 0 (int b) buf"
  let ?body = "if isset (sc_caps s) SMC_CAPS_SINGLE_ONLY then ?single
     else if \<not> isset (sc_caps s) SMC_CAPS_DMA then subr T wr m p 0 (int b) buf (int (512 * n))
     else with_dma P buf (int (512 * n)) (\<lambda>dm. subr T wr m p dm (int b) buf (int (512 * n)))"
  have "in_reach hc b" using assms(4) by (auto simp: in_reach_def)
  note sub = subr_arrived [OF assms(1,3) this assms(5,7)]
  have "valid ?P ?single ?A"
    using single_arrived [OF assms(1,3,7), of b 0 n buf w f0 m] assms(4,6) by simp
  then have body: "valid ?P ?body ?A"
    by (intro valid_if sub with_dma_arrived assms(2))
  have ss: "sector_size (sf_csd (fn_at ?s p)) = 512"
    using assms(3) s by (auto simp: block_card_def scene_def fn_at_def)
  then have "run_state ((if wr then sdmmc_mem_single_write_block else sdmmc_mem_single_read_block) m T p (int b) buf (int (512 * n))) ?s
      = run_state ?single ?s"
    by (cases wr) (simp_all add: sdmmc_mem_single_write_block_def sdmmc_mem_single_read_block_def c_div_def subr_directions)
  then have "run_state (obind ?body (\<lambda>e. do { rw_exit; ret (Some e) })) ?s = (r, s')"
    using run by (cases wr)
      (simp_all add: block_io_def sdmmc_mem_write_block_def sdmmc_mem_read_block_def rw_enter_write_def subr_directions obind_def
        split: if_splits)
  then obtain x s1 where x: "run_state ?body ?s = (x, s1)" and r: "r = x" "scene view s' = scene view s1"
    by (auto simp: obind_def rw_exit_def split: prod.splits option.splits)
  have "?A x s1" by (rule validD [OF body x]) (use s in simp)
  then show "?A r s'" using r by (auto intro: arrived_mono)
qed

end

end
