(* ===== verification/RequestData.thy ===== *)
theory RequestData
  imports CardData Requests
begin

text \<open>
  The block device as the storage stack sees it: an array of bytes and the buffers of the
  clients. The task that serves a request refines the transfer of its bytes between them.
\<close>

section \<open>The abstract device\<close>

type_synonym disk_data = "(nat \<Rightarrow> u8) \<times> (u64 \<Rightarrow> nat \<Rightarrow> u8)"

definition stored :: "world \<Rightarrow> disk_data" where
  "stored w = (card_bytes w, client w)"

text \<open>
  The bytes that request \<open>a\<close> moves, from its byte \<open>off\<close> on, and the device after \<open>n\<close> bytes \<open>g\<close> have
  arrived at their destination: the buffer of the client, or the card.
\<close>

definition request_bytes :: "bio \<Rightarrow> nat \<Rightarrow> disk_data \<Rightarrow> nat \<Rightarrow> u8" where
  "request_bytes a off D i = (if bio_direction a = kIODirectionIn then fst D (512 * unat (bio_block a) + off + i)
     else snd D (bio_buffer a) (off + i))"

definition deliver :: "bio \<Rightarrow> nat \<Rightarrow> nat \<Rightarrow> (nat \<Rightarrow> u8) \<Rightarrow> disk_data \<Rightarrow> disk_data" where
  "deliver a off n g D = (if bio_direction a = kIODirectionIn
     then (fst D, (snd D)(bio_buffer a := blit off n g (snd D (bio_buffer a))))
     else (blit (512 * unat (bio_block a) + off) n g (fst D), snd D))"

lemma deliver_self: "\<exists>g. D = deliver a off n g D"
proof (cases "bio_direction a = kIODirectionIn")
  case True
  then have "D = deliver a off n (\<lambda>i. snd D (bio_buffer a) (off + i)) D" by (simp add: deliver_def blit_self)
  then show ?thesis by blast
next
  case False
  then have "D = deliver a off n (\<lambda>i. fst D (512 * unat (bio_block a) + off + i)) D"
    by (simp add: deliver_def blit_self)
  then show ?thesis by blast
qed

lemma deliver_cong: "(\<And>i. i < n \<Longrightarrow> g i = h i) \<Longrightarrow> deliver a off n g D = deliver a off n h D"
  by (auto simp: deliver_def blit_def fun_eq_iff)

lemma deliver_splice: "deliver a (off + n) m h (deliver a off n g D) = deliver a off (n + m) (splice n g h) D"
  using blit_splice [of "512 * unat (bio_block a) + off" n m h g "fst D"]
  by (simp add: deliver_def blit_splice add.assoc)

lemma deliver_nothing [simp]: "deliver a off 0 g D = D"
  by (simp add: deliver_def)

lemma bytes_deliver: "request_bytes a off' (deliver a off n g D) = request_bytes a off' D"
  by (auto simp: request_bytes_def deliver_def)

lemma bytes_splice: "splice n (request_bytes a off D) (request_bytes a (off + n) D) = request_bytes a off D"
  by (auto simp: splice_def request_bytes_def fun_eq_iff add.assoc)

lemma deliver_extend:
  assumes "n \<le> m"
  shows "\<exists>h. deliver a off n g D = deliver a off m h D"
proof -
  obtain h where "deliver a off n g D = deliver a (off + n) (m - n) h (deliver a off n g D)"
    using deliver_self by blast
  also have "\<dots> = deliver a off (n + (m - n)) (splice n g h) D" by (rule deliver_splice)
  finally show ?thesis using assms by auto
qed

section \<open>One chunk\<close>

text \<open>The scene without the kernel buffer.\<close>

definition sight :: "('h \<Rightarrow> world) \<Rightarrow> ('h, 'z) sdmmc_scheme
    \<Rightarrow> disk_data \<times> bool \<times> nat option \<times> (nat \<Rightarrow> sdmmc_function option)" where
  "sight view s = (case scene view s of (w, c) \<Rightarrow> (stored w, c))"

definition delivered ::
    "('h \<Rightarrow> world) \<Rightarrow> bool \<times> nat option \<times> (nat \<Rightarrow> sdmmc_function option) \<Rightarrow> bio \<Rightarrow> nat \<Rightarrow> nat
       \<Rightarrow> disk_data \<Rightarrow> unit res option \<Rightarrow> ('h, 'z) sdmmc_scheme \<Rightarrow> bool" where
  "delivered view c a off n D r s \<longleftrightarrow>
     (\<exists>g. sight view s = (deliver a off n g D, c) \<and> (r = Some OK \<longrightarrow> g = request_bytes a off D))"

lemma delivered_failed: "sight view s = (D, c) \<Longrightarrow> r \<noteq> Some OK \<Longrightarrow> delivered view c a off n D r s"
  unfolding delivered_def using deliver_self by metis

lemma deliveredI:
  assumes "sight view s = (deliver a off n g D, c)" and "r = Some OK \<Longrightarrow> \<forall>i<n. g i = request_bytes a off D i"
  shows "delivered view c a off n D r s"
proof (cases "r = Some OK")
  case True
  then have "deliver a off n g D = deliver a off n (request_bytes a off D) D"
    using assms(2) by (intro deliver_cong) simp
  with assms(1) show ?thesis by (auto simp: delivered_def)
next
  case False
  with assms(1) show ?thesis by (auto simp: delivered_def)
qed

lemma write_bytes:
  assumes "copies view S" and "run_state (call_hw (\<lambda>h. st_write_bytes S h d off buf len)) s = (c, s')"
    and "scene view s = (w, cf)"
  shows "c = len \<and> scene view s' = (put_client d (unat off) (unat len) (mem_from w buf) w, cf)
    \<or> c = 0 \<and> scene view s' = (w, cf)"
proof -
  obtain h' where h: "st_write_bytes S (hw s) d off buf len = (c, h')" "s' = s\<lparr>hw := h'\<rparr>"
    using assms(2) by (auto simp: call_hw_def split: prod.splits)
  from assms(1) have "case st_write_bytes S (hw s) d off buf len of (c, h') \<Rightarrow> c = len
          \<and> view h' = put_client d (unat off) (unat len) (mem_from (view (hw s)) buf) (view (hw s))
        \<or> c = 0 \<and> view h' = view (hw s)"
    by (rule copies_def [THEN iffD1, rule_format, THEN conjunct1])
  with h assms(3) show ?thesis by (auto simp: scene_def)
qed

lemma read_bytes:
  assumes "copies view S" and "run_state (call_hw (\<lambda>h. st_read_bytes S h d off buf len)) s = (c, s')"
    and "scene view s = (w, cf)"
  shows "c = len \<and> scene view s' = (put_memory buf (unat len) (client_from w d (unat off)) w, cf)
    \<or> c = 0 \<and> scene view s' = (w, cf)"
proof -
  obtain h' where h: "st_read_bytes S (hw s) d off buf len = (c, h')" "s' = s\<lparr>hw := h'\<rparr>"
    using assms(2) by (auto simp: call_hw_def split: prod.splits)
  from assms(1) have "case st_read_bytes S (hw s) d off buf len of (c, h') \<Rightarrow> c = len
          \<and> view h' = put_memory buf (unat len) (client_from (view (hw s)) d (unat off)) (view (hw s))
        \<or> c = 0 \<and> view h' = view (hw s)"
    by (rule copies_def [THEN iffD1, rule_format, THEN conjunct2])
  with h assms(3) show ?thesis by (auto simp: scene_def)
qed


text \<open>The contract, and the size of a chunk.\<close>

definition data_contract ::
    "('h \<Rightarrow> world) \<Rightarrow> bool \<Rightarrow> 'h platform \<Rightarrow> 'h storage \<Rightarrow> ('h, 'z) disk_chip \<Rightarrow> bool" where
  "data_contract view hc P S T \<longleftrightarrow> moves_data view hc T \<and> copies view S \<and> quiet view P"

lemma unat_of_nat_64: "n < 2 ^ 64 \<Longrightarrow> unat (of_nat n :: u64) = n"
  by (rule of_nat_64)

lemma sight_put:
  "scene view s = (put_memory buf n g w, c) \<Longrightarrow> sight view s = (stored w, c)"
  by (simp add: sight_def stored_def put_memory_def)

lemma chunk_delivered:
  fixes T :: "('h, 'z) disk_chip"
  assumes chip: "sdmmc_chip T mb" and con: "data_contract view hc P S T"
    and card: "block_card p hc fs" and reach: "in_reach hc (unat (bio_block a) + j + k)"
    and k: "0 < k" "512 * (j + k) < (2 ^ 64 :: nat)"
    and sight: "sight view s = (D, False, Some p, fs)"
    and run: "run_state (send_chunk n P S T a buf (int (unat (bio_block a) + j)) (of_nat (512 * k)) (of_nat (512 * j))) s = (r, s')"
  shows "delivered view (False, Some p, fs) a (512 * j) (512 * k) D r s'"
proof -
  let ?c = "(False, Some p, fs)" and ?b = "unat (bio_block a)" and ?len = "of_nat (512 * k) :: u64"
  let ?off = "of_nat (512 * j) :: u64" and ?d = "bio_buffer a"
  obtain w where w: "scene view s = (w, ?c)" "stored w = D" using sight
    by (cases "scene view s") (auto simp: sight_def)
  have copies: "copies view S" using con by (simp add: data_contract_def)
  have f0: "sc_fn0 s = Some p" using w by (simp add: scene_def)
  have n: "unat ?len = 512 * k" "unat ?off = 512 * j" "uint ?len = int (512 * k)" "?len \<noteq> 0"
  proof -
    show u: "unat ?len = 512 * k" "unat ?off = 512 * j" using k by (auto intro!: unat_of_nat_64 simp del: of_nat_mult)
    have "uint ?len = int (unat ?len)" by (rule of_nat_unat [symmetric])
    then show "uint ?len = int (512 * k)" by (simp only: u(1))
    show "?len \<noteq> 0" using u(1) k(1) by (metis unat_0 mult_eq_0_iff zero_neq_numeral not_gr_zero)
  qed
  have io: "valid (\<lambda>s. scene view s = (w, ?c)) (run_with_retry (block_io wr m P T p (int (?b + j)) buf (int (512 * k))) 3)
      (arrived view ?c w wr (512 * (?b + j)) buf (512 * k))" for wr m w
    by (rule retry_arrived, rule sdmmc_chip.block_arrived [OF chip])
       (use con card reach k in \<open>auto simp: data_contract_def\<close>)
  show ?thesis
  proof (cases "bio_direction a = kIODirectionIn")
    case True
    let ?io = "run_with_retry (block_io False n P T p (int (?b + j)) buf (int (512 * k))) 3"
    obtain x s1 where x: "run_state ?io s = (x, s1)" by fastforce
    obtain g where g: "scene view s1 = (put_memory buf (512 * k) g w, ?c)"
      and ok: "x = Some OK \<Longrightarrow> g = card_from w (512 * (?b + j))"
      using validD [OF io x w(1)] by (auto simp: arrived_def moved_def source_def)
    show ?thesis
    proof (cases "x = Some OK")
      case False
      then have "r \<noteq> Some OK" "s' = s1" using run x True f0 n(3)
        by (auto simp: send_chunk_def obind_def block_io_def split: option.splits prod.splits if_splits)
      with sight_put [OF g] w(2) show ?thesis by (auto intro: delivered_failed)
    next
      case ok': True
      let ?w = "put_memory buf (512 * k) g w"
      obtain c s2 where c: "run_state (call_hw (\<lambda>h. st_write_bytes S h ?d ?off buf ?len)) s1 = (c, s2)" by fastforce
      have r: "r = Some (if c = 0 then Inl EIO else OK)" "s' = s2" using run x c True f0 n(3) ok'
        by (auto simp: send_chunk_def obind_def block_io_def split: option.splits prod.splits if_splits)
      from write_bytes [OF copies c g, unfolded n(1,2)]
      consider "scene view s2 = (put_client ?d (512 * j) (512 * k) (mem_from ?w buf) ?w, ?c)" | "c = 0" "scene view s2 = (?w, ?c)"
        by blast
      then show ?thesis
      proof cases
        case 1
        then have "sight view s' = (deliver a (512 * j) (512 * k) (mem_from ?w buf) D, ?c)"
          using w(2) r True by (auto simp: sight_def stored_def deliver_def put_client_def put_memory_def)
        moreover have "mem_from ?w buf i = request_bytes a (512 * j) D i" if "i < 512 * k" for i
          using that k w(2) True ok [OF ok'] unfolding mem_from_def put_memory_def
          by (auto simp: mem_from_blit request_bytes_def card_from_def stored_def distrib_left add.assoc)
        ultimately show ?thesis by (intro deliveredI) auto
      next
        case 2
        then show ?thesis using r w(2) sight_put by (intro delivered_failed) auto
      qed
    qed
  next
    case False
    obtain c s1 where c: "run_state (call_hw (\<lambda>h. st_read_bytes S h ?d ?off buf ?len)) s = (c, s1)" by fastforce
    let ?w = "put_memory buf (512 * k) (client_from w ?d (512 * j)) w"
    let ?io = "run_with_retry (block_io True n P T p (int (?b + j)) buf (int (512 * k))) 3"
    from read_bytes [OF copies c w(1), unfolded n(1,2)] n(4)
    consider "c \<noteq> 0" "scene view s1 = (?w, ?c)" | "c = 0" "scene view s1 = (w, ?c)"
      by metis
    then show ?thesis
    proof cases
      case 1
      obtain x s2 where x: "run_state ?io s1 = (x, s2)" by fastforce
      have r: "r = x" "s' = s2" using run x c False f0 n(3) 1(1)
        by (auto simp: send_chunk_def block_io_def split: option.splits prod.splits if_splits)
      obtain g where g: "scene view s2 = (put_card (512 * (?b + j)) (512 * k) g ?w, ?c)"
        and ok: "x = Some OK \<Longrightarrow> g = mem_from ?w buf"
        using validD [OF io x 1(2)] by (auto simp: arrived_def moved_def source_def)
      have "sight view s' = (deliver a (512 * j) (512 * k) g D, ?c)"
        using g w(2) r False
        by (auto simp: sight_def stored_def deliver_def put_card_def put_memory_def distrib_left)
      moreover have "mem_from ?w buf i = request_bytes a (512 * j) D i" if "i < 512 * k" for i
        using that k w(2) False unfolding mem_from_def put_memory_def
        by (auto simp: mem_from_blit request_bytes_def client_from_def stored_def)
      ultimately show ?thesis using r ok by (intro deliveredI) auto
    next
      case 2
      then have "r = Some (Inl EIO)" "s' = s1" using run c False f0
        by (auto simp: send_chunk_def split: option.splits prod.splits if_splits)
      with 2 w(2) show ?thesis by (intro delivered_failed) (auto simp: sight_def)
    qed
  qed
qed


section \<open>The whole request\<close>

lemma chunks_delivered:
  fixes T :: "('h, 'z) disk_chip"
  assumes chip: "sdmmc_chip T mb" and con: "data_contract view hc P S T" and card: "block_card p hc fs"
    and reach: "in_reach hc (unat (bio_block a) + m)" and m: "m < 2 ^ 31" and j: "j \<le> chunk_count (512 * m)"
  shows "valid (\<lambda>s. sight view s = (deliver a 0 (min (131072 * j) (512 * m)) (request_bytes a 0 D) D, False, Some p, fs))
    (osteps (map (chunk n P S T a buf (unat (bio_block a)) (512 * m)) [j..<chunk_count (512 * m)]))
    (delivered view (False, Some p, fs) a 0 (512 * m) D)"
  using j
proof (induction "chunk_count (512 * m) - j" arbitrary: j)
  case 0
  then have "j = chunk_count (512 * m)" by simp
  then have "[j..<chunk_count (512 * m)] = []" "min (131072 * j) (512 * m) = 512 * m"
    using chunk_count_less [of j "512 * m"] by simp_all
  then show ?case by (auto intro!: validI simp: delivered_def)
next
  case (Suc d)
  let ?K = "chunk_count (512 * m)" and ?c = "(False, Some p, fs)" and ?G = "request_bytes a 0 D"
  let ?k = "min 256 (m - 256 * j)" and ?b = "unat (bio_block a)"
  let ?chunks = "\<lambda>j. osteps (map (chunk n P S T a buf ?b (512 * m)) [j..<?K])"
  have less: "131072 * j < 512 * m" using Suc.hyps(2) by (simp add: chunk_count_less)
  have split: "[j..<?K] = j # [Suc j..<?K]" using Suc.hyps(2) by (simp add: upt_conv_Cons)
  have len: "chunk_len (512 * m) j = 512 * ?k" "131072 * j = 512 * (256 * j)"
    "131072 * j + 512 * ?k = min (131072 * Suc j) (512 * m)"
    using less by (auto simp: chunk_len_def min_def)
  show ?case
  proof (rule validI)
    fix s s' :: "('h, 'z) disk_scheme" and r
    let ?D = "deliver a 0 (131072 * j) ?G D"
    assume "sight view s = (deliver a 0 (min (131072 * j) (512 * m)) ?G D, ?c)"
    then have s: "sight view s = (?D, ?c)" using less by (simp add: min_def)
    assume run: "run_state (?chunks j) s = (r, s')"
    obtain e s1 where e: "run_state (chunk n P S T a buf ?b (512 * m) j) s = (e, s1)" by fastforce
    have "in_reach hc (?b + 256 * j + ?k)" using reach less by (auto simp: in_reach_def)
    moreover have "0 < ?k" "512 * (256 * j + ?k) < 2 ^ 64" using less m by auto
    ultimately have "delivered view ?c a (512 * (256 * j)) (512 * ?k) ?D e s1"
      using e unfolding chunk_def len by (rule chunk_delivered [OF chip con card _ _ _ s [unfolded len(2)]])
    then obtain g where "sight view s1 = (deliver a (131072 * j) (512 * ?k) g ?D, ?c)"
      and ok: "e = Some OK \<Longrightarrow> g = request_bytes a (131072 * j) D"
      unfolding delivered_def len(2) [symmetric] by (auto simp: bytes_deliver)
    then have g: "sight view s1 = (deliver a 0 (min (131072 * Suc j) (512 * m)) (splice (131072 * j) ?G g) D, ?c)"
      using deliver_splice [of a 0 "131072 * j" "512 * ?k" g ?G D] unfolding len(3) by simp
    show "delivered view ?c a 0 (512 * m) D r s'"
    proof (cases "e = Some OK")
      case True
      have "splice (131072 * j) ?G g = ?G" unfolding ok [OF True] using bytes_splice [of "131072 * j" a 0 D] by simp
      moreover have "run_state (?chunks (Suc j)) s1 = (r, s')"
        using run e True unfolding split by (simp add: obind_def)
      ultimately show ?thesis
        using validD [OF Suc.hyps(1) [of "Suc j"]] Suc.hyps(2) g by simp
    next
      case False
      then have r: "r \<noteq> Some OK" "s' = s1" using run e unfolding split
        by (auto simp: obind_def split: option.splits if_splits)
      obtain h where "deliver a 0 (min (131072 * Suc j) (512 * m)) (splice (131072 * j) ?G g) D = deliver a 0 (512 * m) h D"
        using deliver_extend [of "min (131072 * Suc j) (512 * m)" "512 * m"] by fastforce
      then show ?thesis using g r by (auto simp: delivered_def)
    qed
  qed
qed

lemma loop_delivered:
  fixes T :: "('h, 'z) disk_chip"
  assumes "sdmmc_chip T mb" and "data_contract view hc P S T" and "block_card p hc fs"
    and "in_reach hc (unat (bio_block a) + unat (bio_nblks a))"
  shows "valid (\<lambda>s. sight view s = (D, False, Some p, fs))
    (send_loop n P S T a buf (sint (ucast (bio_block a) :: u32)) (bio_nblks a * 512) 0)
    (delivered view (False, Some p, fs) a 0 (512 * unat (bio_nblks a)) D)"
proof -
  have b: "unat (bio_block a) + unat (bio_nblks a) < 2 ^ 31" using assms(4) by (simp add: in_reach_def split: if_splits)
  then have "unat (bio_nblks a) < 2 ^ 31" by simp
  from chunks_delivered [OF assms this, of 0 D n buf]
  show ?thesis by (simp add: send_loop_is_chunks [OF b])
qed


section \<open>The task\<close>

lemma sight_scene: "keeps (scene view) m \<Longrightarrow> keeps (sight view) m"
  by (simp add: keeps_def sight_def)

lemma sight_hw:
  fixes f :: "'h \<Rightarrow> 'h"
  assumes "\<And>h. \<exists>m. view (f h) = (view h)\<lparr>memory := m\<rparr>"
  shows "keeps (sight view) (exec_hw f :: (('h, 'z) sdmmc_scheme, unit) state)"
proof (rule keepsI)
  fix s :: "('h, 'z) sdmmc_scheme"
  obtain m where "view (f (hw s)) = (view (hw s))\<lparr>memory := m\<rparr>" using assms by blast
  then show "sight view (snd (run_state (exec_hw f) s)) = sight view s"
    by (simp add: exec_hw_def sight_def scene_def stored_def)
qed

lemma sight_call:
  fixes f :: "'h \<Rightarrow> 'a \<times> 'h"
  assumes "\<And>h. \<exists>m. view (snd (f h)) = (view h)\<lparr>memory := m\<rparr>"
  shows "keeps (sight view) (call_hw f :: (('h, 'z) sdmmc_scheme, 'a) state)"
proof (rule keepsI)
  fix s :: "('h, 'z) sdmmc_scheme"
  obtain m where "view (snd (f (hw s))) = (view (hw s))\<lparr>memory := m\<rparr>" using assms by blast
  then show "sight view (snd (run_state (call_hw f) s)) = sight view s"
    by (simp add: call_hw_def sight_def scene_def stored_def case_prod_beta)
qed

lemma quietD:
  assumes "quiet view P"
  shows "\<exists>m. view (snd (md_alloc P h b sz)) = (view h)\<lparr>memory := m\<rparr>"
    "\<exists>m. view (snd (md_prepare P h md)) = (view h)\<lparr>memory := m\<rparr>"
    "\<exists>m. view (md_release P h md) = (view h)\<lparr>memory := m\<rparr>"
    "\<exists>m. view (md_release P (md_complete P h md) md) = (view h)\<lparr>memory := m\<rparr>"
    "\<exists>m. view (snd (md_map P h md)) = (view h)\<lparr>memory := m\<rparr>"
    "\<exists>m. view (mm_release P h mm) = (view h)\<lparr>memory := m\<rparr>"
proof -
  note q = assms [unfolded quiet_def Let_def, THEN conjunct2, THEN conjunct2, THEN conjunct2, THEN spec]
  show "\<exists>m. view (snd (md_alloc P h b sz)) = (view h)\<lparr>memory := m\<rparr>"
    "\<exists>m. view (snd (md_prepare P h md)) = (view h)\<lparr>memory := m\<rparr>"
    "\<exists>m. view (md_release P h md) = (view h)\<lparr>memory := m\<rparr>"
    "\<exists>m. view (snd (md_map P h md)) = (view h)\<lparr>memory := m\<rparr>"
    "\<exists>m. view (mm_release P h mm) = (view h)\<lparr>memory := m\<rparr>"
    using q [of h] by blast+
  obtain m where m: "view (md_complete P h md) = (view h)\<lparr>memory := m\<rparr>" using q [of h] by blast
  obtain k where "view (md_release P (md_complete P h md) md) = (view (md_complete P h md))\<lparr>memory := k\<rparr>"
    using q [of "md_complete P h md"] by blast
  then show "\<exists>m. view (md_release P (md_complete P h md) md) = (view h)\<lparr>memory := m\<rparr>"
    unfolding m by auto
qed

lemma sight_put_seg: "keeps (sight view) (put_seg a i g)"
  by (auto simp: put_seg_def keeps_def sight_def)

lemma sight_buffer:
  assumes q: "quiet view P"
  shows "keeps (sight view) (request_buffer P S na bytes)" "keeps (sight view) (request_release P na buf)"
proof -
  have loop: "keeps (sight view) (alloc_loop n P md sz segs k off t i)" for n md sz segs k off t i
  proof (induction n arbitrary: off t i)
    case (Suc n)
    then show ?case unfolding alloc_loop.simps by (intro keeps sight_put_seg sight_hw quietD(3) [OF q])
  qed (simp add: keeps_return)
  have alloc: "keeps (sight view) (bus_dmamem_alloc P sz segs n)" for sz segs n
    unfolding bus_dmamem_alloc_def
    by (intro keeps sight_put_seg loop sight_hw sight_call quietD [OF q])
  have free: "keeps (sight view) (bus_dmamem_free P segs)" for segs
    unfolding bus_dmamem_free_def by (intro keeps sight_put_seg sight_hw quietD [OF q])
  have add: "keeps (sight view) (State (\<lambda>s. case addToList v segs (va_list s) of (b, d) \<Rightarrow> (b, s\<lparr>va_list := d\<rparr>)))" for v segs
    by (auto simp: keeps_def sight_def split: prod.split)
  have map: "keeps (sight view) (bus_dmamem_map P segs)" for segs
    unfolding bus_dmamem_map_def by (intro keeps sight_put_seg add sight_call quietD [OF q])
  have unmap: "keeps (sight view) (bus_dmamem_unmap P kva)" for kva
    unfolding bus_dmamem_unmap_def
    by (intro keeps sight_put_seg sight_hw quietD [OF q]) (simp add: sight_def)
  show "keeps (sight view) (request_buffer P S na bytes)" "keeps (sight view) (request_release P na buf)"
    unfolding request_buffer_def request_release_def dma_alloc_def dma_free_def
    by (intro keeps alloc free map unmap; simp add: sight_def)+
qed


lemma complete_status:
  assumes "run_state (complete_bio i a bytes e) s = (u, s')" and "bio_completion a = Some k"
  shows "\<exists>status count. completions s' = completions s @ [(k, status, count)]
    \<and> (status = kIOReturnSuccess \<longleftrightarrow> e = OK)" and "hw s' = hw s"
  using assms by (auto simp: complete_bio_def split: sum.splits)


section \<open>A card that stores bytes\<close>

definition store_effect :: "bool \<Rightarrow> sdmmc_command \<Rightarrow> world \<Rightarrow> world" where
  "store_effect hc cmd w = (let a = card_address hc (c_arg cmd); n = nat (c_datalen cmd) in
     if c_opcode cmd \<notin> data_ops then w
     else if write_op (c_opcode cmd) then put_card a n (mem_from w (c_data cmd)) w
     else put_memory (c_data cmd) n (card_from w a) w)"

definition store_chip :: "bool \<Rightarrow> (world, 'z) slot_chip" where
  "store_chip hc = failing_chip\<lparr>chip_exec_command := (\<lambda>cmd. State (\<lambda>s.
     (cmd\<lparr>c_resp := [MMC_R1_READY_FOR_DATA, 0, 0, 0], c_error := OK\<rparr>, s\<lparr>hw := store_effect hc cmd (hw s)\<rparr>)))\<rparr>"

definition store_buffers :: "world storage" where
  "store_buffers = bare_storage\<lparr>
     st_write_bytes := (\<lambda>w d off buf len. (len, put_client d (unat off) (unat len) (mem_from w buf) w)),
     st_read_bytes := (\<lambda>w d off buf len. (len, put_memory buf (unat len) (client_from w d (unat off)) w))\<rparr>"

lemma store_contract: "data_contract (\<lambda>w. w) hc bare_platform store_buffers (store_chip hc)"
proof -
  have "\<exists>m. w = w\<lparr>memory := m\<rparr>" for w :: world by (rule exI [of _ "memory w"]) simp
  then have "quiet (\<lambda>w. w) bare_platform" by (simp add: quiet_def bare_platform_def)
  moreover have "copies (\<lambda>w. w) store_buffers" by (simp add: copies_def store_buffers_def)
  moreover have "moves_data (\<lambda>w. w) hc (store_chip hc)"
    by (auto simp: moves_data_def store_chip_def store_effect_def data_effect_def Let_def)
  ultimately show ?thesis by (simp add: data_contract_def)
qed

lemma store_chip: "sdmmc_chip (store_chip hc) 512"
  by unfold_locales (auto simp: store_chip_def failing_chip_def keeps_def Let_def request_def)


text \<open>A driver with such a card, addressed by bytes, and a request to write its block 7.\<close>

definition write_seven :: bio where
  "write_seven = \<lparr>bio_buffer = 9, bio_direction = kIODirectionOut, bio_block = 7, bio_nblks = 1, bio_completion = Some 5\<rparr>"

definition write_asked :: "world driver" where
  "write_asked = (with_card (zero_function\<lparr>sf_csd := zero_csd\<lparr>sector_size := 512, capacity := 100000\<rparr>\<rparr>)
     (driver_boot \<lparr>card_bytes = \<lambda>_. 0, client = \<lambda>_ _. 42, memory = \<lambda>_. 0\<rparr>))
     \<lparr>no_adma := True, sc_caps := 0, disk_provider := True, blk_size := 512, bios := [0 \<mapsto> write_seven]\<rparr>"

lemma store_command:
  "run_state (sdmmc_mmc_command (store_chip hc) cmd) s
    = (cmd\<lparr>c_resp := [MMC_R1_READY_FOR_DATA, 0, 0, 0], c_error := OK\<rparr>, s\<lparr>hw := store_effect hc cmd (hw s)\<rparr>)"
  by (simp add: sdmmc_mmc_command_def store_chip_def)

lemma store_block:
  fixes h :: world
  defines "s \<equiv> write_asked\<lparr>hw := h\<rparr>"
  shows "\<exists>h'. run_state (sdmmc_mem_write_block (Suc 0) bare_platform (store_chip False) 0 7 4096 512) s
    = (Some OK, s\<lparr>hw := h'\<rparr>)"
proof -
  let ?s = "s\<lparr>sc_lock := 1\<rparr>"
  have s: "sc_card s = Some 0" "sc_caps s = 0" "sc_lock s = 0" "sfs s = [0 \<mapsto> zero_function\<lparr>sf_csd := zero_csd\<lparr>sector_size := 512, capacity := 100000\<rparr>\<rparr>]"
    by (simp_all add: s_def write_asked_def with_card_def)
  have self: "x\<lparr>sc_card := Some 0\<rparr> = x" if "sc_card x = Some 0" for x :: "world driver"
    using that by (cases x) simp
  have sel: "run_state (sdmmc_select_card (store_chip False) (Some 0)) ?s = (OK, ?s)"
    using s(1) self [of ?s] by (simp add: sdmmc_select_card_def same_card_def)
  obtain c h1 where c: "run_state (data_command True (store_chip False) 0 0 7 4096 512) ?s = (c, ?s\<lparr>hw := h1\<rparr>)"
    "c_error c = OK" "c_opcode c = MMC_WRITE_BLOCK_SINGLE"
    using s by (simp add: data_command_def c_div_def store_command fn_at_def zero_function_def)
  have "run_state (sdmmc_mem_write_block_subr (Suc 0) (store_chip False) 0 0 7 4096 512) ?s = (Some OK, ?s\<lparr>hw := h1\<rparr>)"
    by (simp add: sdmmc_mem_write_block_subr_def sel c stop_multiple_def poll_ready.simps(2) store_command
        obind_def isset_def store_effect_def data_ops_def Let_def)
  then have "run_state (sdmmc_mem_write_block (Suc 0) bare_platform (store_chip False) 0 7 4096 512) s
      = (Some OK, s\<lparr>hw := h1, sc_lock := 0\<rparr>)" using s
    by (simp add: sdmmc_mem_write_block_def rw_enter_write_def rw_exit_def isset_def obind_def)
  moreover have "s\<lparr>hw := h1, sc_lock := 0\<rparr> = s\<lparr>hw := h1\<rparr>"
    using s(3) by (cases s) simp
  ultimately show ?thesis by (simp only:) blast
qed


lemma write_asked_run:
  "\<exists>s'. run_state (read_task_impl (Suc 0) bare_platform store_buffers (store_chip False) 0) write_asked = (Some (), s')
     \<and> completions s' = [(5, kIOReturnSuccess, 512)]"
proof -
  define h where "h = snd (st_read_bytes store_buffers (hw write_asked) 9 0 4096 512)"
  obtain h' where blk: "run_state (sdmmc_mem_write_block (Suc 0) bare_platform (store_chip False) 0 7 4096 512)
      (write_asked\<lparr>hw := h\<rparr>) = (Some OK, write_asked\<lparr>hw := h'\<rparr>)"
    using store_block [of h] by auto
  have over: "send_loop n P S T a buf b 0 k = ret (Some OK)" for n and P :: "world platform" and S T a buf b k
    by (subst send_loop.simps) simp
  have loop: "run_state (send_loop (Suc 0) bare_platform store_buffers (store_chip False) write_seven 4096 7 512 0) write_asked
      = (Some OK, write_asked\<lparr>hw := h'\<rparr>)"
    using blk by (subst send_loop.simps) (simp add: over send_chunk_def write_seven_def run_with_retry.simps obind_def call_hw_def h_def store_buffers_def
        bare_storage_def write_asked_def with_card_def)
  have "bios write_asked 0 = Some write_seven" "disk_provider write_asked" "sdmmc_attached write_asked"
    "sc_fn0 write_asked = Some 0" "blk_size write_asked = 512" "no_adma write_asked" "completions write_asked = []"
    by (simp_all add: write_asked_def with_card_def)
  then show ?thesis using loop
    by (simp add: read_task_impl_def write_seven_def obind_def osome_def complete_bio_def store_buffers_def bare_storage_def)
qed


end
