(* ===== verification/Returns.thy ===== *)
theory Returns
  imports Requests
begin

text \<open>
  The loops whose end depends on the card: the task of a request returns when the card
  answers a bounded number of status polls with "busy" only.
\<close>

section \<open>Programs that return\<close>

named_theorems returns "rules for programs that return"

text \<open>Started in a state with \<open>A\<close>, the program returns, in such a state again.\<close>

definition returning :: "('s \<Rightarrow> bool) \<Rightarrow> ('s, 'a option) state \<Rightarrow> bool" where
  "returning A m \<longleftrightarrow> valid A m (\<lambda>r s. r \<noteq> None \<and> A s)"

lemma returning_run: "returning A m \<Longrightarrow> run_state m s = (r, s') \<Longrightarrow> A s \<Longrightarrow> r \<noteq> None \<and> A s'"
  unfolding returning_def by (rule validD)

lemma returning_some [returns]: "returning A (ret (Some x))"
  by (simp add: returning_def valid_def)

lemma returning_bind [returns]:
  "preserves A m \<Longrightarrow> (\<And>x. returning A (k x)) \<Longrightarrow> returning A (State_Monad.bind m k)"
  by (simp add: returning_def valid_def preserves_def case_prod_beta)

lemma returning_osome [returns]: "preserves A m \<Longrightarrow> returning A (osome m)"
  unfolding osome_def by (intro returns)

lemma returning_obind [returns]: "returning A m \<Longrightarrow> (\<And>x. returning A (k x)) \<Longrightarrow> returning A (obind m k)"
  by (auto simp: returning_def valid_def obind_def case_prod_beta split: option.split)

lemma returning_if [returns]: "returning A m \<Longrightarrow> returning A n \<Longrightarrow> returning A (if b then m else n)"
  by simp

lemma returning_sum [returns]:
  "(\<And>e. returning A (m e)) \<Longrightarrow> (\<And>x. returning A (n x)) \<Longrightarrow> returning A (case r of Inl e \<Rightarrow> m e | Inr x \<Rightarrow> n x)"
  by (cases r) auto

lemma returning_retry [returns]:
  assumes "returning A m"
  shows "returning A (run_with_retry m k)"
  by (induction k; subst run_with_retry.simps) (auto intro!: returns assms)

section \<open>Waiting for the card\<close>

text \<open>
  A card that is busy for at most \<open>K\<close> polls: every status command fails, reports that the card
  is ready, or brings the card nearer to that.
\<close>

definition busy_at_most :: "(('h, 'z) sdmmc_scheme \<Rightarrow> nat) \<Rightarrow> nat \<Rightarrow> ('h, 'z) slot_chip \<Rightarrow> bool" where
  "busy_at_most busy K T \<longleftrightarrow> (\<forall>s. busy s \<le> K)
     \<and> (\<forall>cmd s c s'. run_state (chip_exec_command T cmd) s = (c, s') \<longrightarrow> c_opcode cmd = MMC_SEND_STATUS
          \<longrightarrow> c_error c \<noteq> OK \<or> isset (c_resp c ! 0) MMC_R1_READY_FOR_DATA \<or> busy s' < busy s)"

lemma poll_returns:
  assumes "busy_at_most busy K T" and "busy s < n"
  shows "fst (run_state (poll_ready n T rca) s) \<noteq> None"
  using assms(2)
proof (induction n arbitrary: s)
  case (Suc n)
  let ?cmd = "zero_command\<lparr>c_opcode := MMC_SEND_STATUS, c_arg := MMC_ARG_RCA rca, c_flags := SCF_CMD_AC OR SCF_RSP_R1\<rparr>"
  obtain c s1 where c: "run_state (chip_exec_command T ?cmd) s = (c, s1)" by fastforce
  consider "c_error c \<noteq> OK" | "isset (c_resp c ! 0) MMC_R1_READY_FOR_DATA" | "c_error c = OK" "busy s1 < busy s"
    using assms(1) c unfolding busy_at_most_def by fastforce
  then show ?case
  proof cases
    case 3
    then have "fst (run_state (poll_ready n T rca) s1) \<noteq> None" using Suc by simp
    with c 3 show ?thesis by (simp add: sdmmc_mmc_command_def)
  qed (use c in \<open>auto simp: sdmmc_mmc_command_def split: prod.split\<close>)
qed simp

text \<open>The slot has a card.\<close>

abbreviation (input) has_card :: "('h, 'z) sdmmc_scheme \<Rightarrow> bool" where
  "has_card \<equiv> \<lambda>s. sc_fn0 s \<noteq> None"

lemma card_stays: "keeps sc_fn0 m \<Longrightarrow> preserves has_card m"
  by (simp add: keeps_def preserves_def)

context sdmmc_chip begin

lemma poll_returning:
  assumes "busy_at_most busy K T" and "K < n"
  shows "returning has_card (poll_ready n T rca)"
  unfolding returning_def
proof (rule validI)
  fix s r s'
  assume "has_card s" and run: "run_state (poll_ready n T rca) s = (r, s')"
  have "busy s < n" using assms unfolding busy_at_most_def by (meson le_less_trans)
  then have "r \<noteq> None" using poll_returns [OF assms(1), of s n rca] run by simp
  moreover have "has_card s'"
    using keeps_run [OF keeps_poll_ready run, of sc_fn0] \<open>has_card s\<close> by simp
  ultimately show "r \<noteq> None \<and> has_card s'" ..
qed

lemma block_returning:
  assumes "busy_at_most busy K T" and "K < n"
  shows "returning has_card (sdmmc_mem_read_block n P T p b a len)"
    "returning has_card (sdmmc_mem_write_block n P T p b a len)"
proof -
  note poll = poll_returning [OF assms]
  note keep = card_stays [OF keeps_select_card] card_stays [OF keeps_data_command] card_stays [OF keeps_stop]
    card_stays [OF keeps_c_div] card_stays [OF slot_dma(1)] card_stays [OF slot_dma(2)] card_stays [OF slot_dma(3)]
  have rd: "returning has_card (sdmmc_mem_read_block_subr n T p dm b a len)" for dm b a len
    unfolding sdmmc_mem_read_block_subr_def finish_read_def by (intro returns preserves keep poll) simp_all
  have wr: "returning has_card (sdmmc_mem_write_block_subr n T p dm b a len)" for dm b a len
    unfolding sdmmc_mem_write_block_subr_def Let_def by (intro returns preserves keep poll) simp_all
  have single: "returning has_card (single_blocks k io p i b a)"
    if "\<And>b a l. returning has_card (io b a l)" for k io i b a
  proof (induction k arbitrary: i)
    case (Suc k)
    then show ?case unfolding single_blocks.simps by (intro returns preserves that)
  qed (simp add: returns)
  have lock: "preserves has_card rw_enter_write" "preserves has_card rw_exit"
    unfolding rw_enter_write_def rw_exit_def by (intro preserves; simp)+
  show "returning has_card (sdmmc_mem_read_block n P T p b a len)"
    unfolding sdmmc_mem_read_block_def sdmmc_mem_single_read_block_def with_dma_def
    by (intro returns preserves keep lock single rd) simp_all
  show "returning has_card (sdmmc_mem_write_block n P T p b a len)"
    unfolding sdmmc_mem_write_block_def sdmmc_mem_single_write_block_def with_dma_def
    by (intro returns preserves keep lock single wr) simp_all
qed

end


section \<open>The task of a request\<close>

lemma chunk_returning:
  fixes T :: "('h, 'z) disk_chip"
  assumes "sdmmc_chip T mb" and "busy_at_most busy K T" and "K < n"
  shows "returning has_card (send_chunk n P S T a buf b len sent)"
  unfolding returning_def
proof (rule validI)
  fix s s' :: "('h, 'z) disk_scheme" and r
  assume card: "has_card s" and run: "run_state (send_chunk n P S T a buf b len sent) s = (r, s')"
  from card obtain p where p: "sc_fn0 s = Some p" by blast
  have hw: "preserves has_card (call_hw g :: (('h, 'z) disk_scheme, u64) state)" for g
    by (rule card_stays [OF slot_hw(2)]) simp
  note blk = returning_retry [OF sdmmc_chip.block_returning(1) [OF assms]]
    returning_retry [OF sdmmc_chip.block_returning(2) [OF assms]]
  let ?m = "if bio_direction a = kIODirectionIn then
      obind (run_with_retry (sdmmc_mem_read_block n P T p b buf (uint len)) 3) (\<lambda>e.
        if e \<noteq> OK then ret (Some e) else do {
          c \<leftarrow> call_hw (\<lambda>h. st_write_bytes S h (bio_buffer a) sent buf len);
          ret (Some (if c = 0 then Inl EIO else OK)) })
    else do {
      c \<leftarrow> call_hw (\<lambda>h. st_read_bytes S h (bio_buffer a) sent buf len);
      if c = 0 then ret (Some (Inl EIO))
      else run_with_retry (sdmmc_mem_write_block n P T p b buf (uint len)) 3 }"
  have "returning has_card ?m" by (intro returns hw blk)
  moreover have "run_state ?m s = (r, s')" using run p by (simp add: send_chunk_def)
  ultimately show "r \<noteq> None \<and> has_card s'" using card by (blast dest: returning_run)
qed

lemma loop_returning:
  fixes T :: "('h, 'z) disk_chip"
  assumes "sdmmc_chip T mb" and "busy_at_most busy K T" and "K < n"
  shows "returning has_card (send_loop n P S T a buf b remaining sent)"
  using assms
proof (induction n P S T a buf b remaining sent rule: send_loop.induct)
  case (1 n P S T a buf b remaining sent)
  then show ?case
    by (subst send_loop.simps) (auto simp: Let_def intro!: returns chunk_returning simp del: not_None_eq)
qed

lemma read_task_returns:
  fixes T :: "('h, 'z) disk_chip"
  assumes "sdmmc_chip T mb" and "busy_at_most busy K T" and "K < n"
  shows "\<exists>s'. run_state (read_task_impl n P S T i) s = (Some (), s')"
proof -
  have buf: "preserves has_card (request_buffer P S na bytes :: (('h, 'z) disk_scheme, u64) state)"
    "preserves has_card (request_release P na b :: (('h, 'z) disk_scheme, unit) state)" for na bytes b
    unfolding request_buffer_def request_release_def dma_alloc_def dma_free_def
    by (intro preserves card_stays [OF keeps_slot_part [OF more_dmamem(1)]] card_stays [OF keeps_slot_part [OF more_dmamem(2)]]
      card_stays [OF keeps_slot_part [OF more_dmamem(3)]] card_stays [OF keeps_slot_part [OF more_dmamem(4)]]; simp)+
  have complete: "preserves has_card (complete_bio i a bytes e :: (('h, 'z) disk_scheme, unit) state)" for i a bytes e
    unfolding complete_bio_def by (intro preserves; simp)+
  obtain r s' where run: "run_state (read_task_impl n P S T i) s = (r, s')" by fastforce
  have "r = Some ()"
  proof (cases "bios s i")
    case None
    with run show ?thesis by (auto simp: read_task_impl_def)
  next
    case (Some a)
    show ?thesis
    proof (cases "servable s a")
      case False
      with run Some show ?thesis by (auto simp: read_task_impl_def servable_def)
    next
      case True
      let ?total = "bio_nblks a * ucast (blk_size s)"
      let ?m = "do { buf \<leftarrow> request_buffer P S (no_adma s) ?total;
          if buf = 0 then osome (complete_bio i a ?total (Inl ENOMEM))
          else obind (send_loop n P S T a buf (sint (ucast (bio_block a) :: u32)) (bio_nblks a * 512) 0)
            (\<lambda>error. do { request_release P (no_adma s) buf; osome (complete_bio i a ?total error) }) }"
      have "returning has_card ?m" by (intro returns buf complete loop_returning [OF assms])
      moreover have "run_state ?m s = (r, s')"
        using run [unfolded read_task_impl_def request_buffer_def [symmetric] request_release_def [symmetric] Let_def]
          Some True by (auto simp: servable_def)
      moreover have "has_card s" using True by (simp add: servable_def)
      ultimately show ?thesis by (cases r) (auto dest: returning_run)
    qed
  qed
  with run show ?thesis by blast
qed



end
