(* ===== verification/Service.thy ===== *)
theory Service
  imports Returns
begin

text \<open>
  The queue is served: on a card that leaves its programming state the thread of the slot
  completes the requests before the next discovery, all of them and in their order.
\<close>

section \<open>What serving a request leaves alone\<close>

definition serving :: "('h, 'z) disk_scheme \<Rightarrow> bool \<times> bool \<times> nat option" where
  "serving s = (disk_provider s, sdmmc_attached s, sc_fn0 s)"

lemma servable_serving: "serving s = serving s' \<Longrightarrow> servable s a = servable s' a"
  by (simp add: serving_def servable_def)

lemma outer_serving:
  fixes s s' :: "('h, 'z) disk_scheme"
  assumes "outer s = outer s'"
  shows "front s = front s'" "serving s = serving s'" "req_view s = req_view s'"
proof -
  have more: "sdmmc.more s = sdmmc.more s'" and fn0: "sc_fn0 s = sc_fn0 s'"
    using slot_fields [OF assms] by simp_all
  from more have "disk_provider s = disk_provider s'" "bios s = bios s'" "next_task s = next_task s'" "completions s = completions s'"
    by (cases s; cases s'; simp)+
  with fn0 assms show "front s = front s'" "serving s = serving s'" "req_view s = req_view s'"
    by (simp_all add: serving_def outer_def req_view_def)
qed

lemma serving_frame: "request_frame (\<lambda>s. (front s, serving s))"
proof -
  have "slot_part (\<lambda>s :: ('h, 'z) disk_scheme. (front s, serving s))"
    unfolding slot_part_def using outer_serving by blast
  then show ?thesis
    by (simp add: request_frame_def card_frame_def serving_def front_def)
qed

lemma front_head: "front s = t # ts \<Longrightarrow> \<exists>q. tskq s = t # q \<and> takeWhile (\<lambda>t. t \<noteq> DiscoverTask) q = ts"
  by (cases "tskq s") (auto simp: front_def split: if_splits)

section \<open>One round of the thread\<close>

text \<open>The state \<open>s'\<close> follows \<open>s\<close> by the completion of request \<open>i\<close>, the first of its queue.\<close>

definition served :: "nat \<Rightarrow> ('h, 'z) disk_scheme \<Rightarrow> ('h, 'z) disk_scheme \<Rightarrow> bool" where
  "served i s s' \<longleftrightarrow> front s = DiskTask i # front s' \<and> req_inv s' \<and> serving s' = serving s
     \<and> bios s' = (bios s)(i := None) \<and> (\<exists>r k. completions s' = completions s @ [(i, r, k)])"

lemma del_first:
  assumes "front s = DiskTask i # ts" and "req_inv s"
  obtains s' where "run_state (sdmmc_del_task (DiskTask i)) s = ((), s')" "front s' = ts" "req_inv s'"
    "serving s' = serving s" "bios s' = bios s" "completions s' = completions s"
proof -
  obtain q where q: "tskq s = DiskTask i # q" "takeWhile (\<lambda>t. t \<noteq> DiscoverTask) q = ts"
    using front_head [OF assms(1)] by blast
  have "task_sc s (DiskTask i)"
    using assms(2) q(1) by (simp add: req_inv_def queue_ok_def disk_queue_def fun_eq_iff)
  moreover obtain s' where run: "run_state (sdmmc_del_task (DiskTask i)) s = ((), s')"
    by (cases "run_state (sdmmc_del_task (DiskTask i)) s") simp
  ultimately have "front s' = ts \<and> serving s' = serving s \<and> bios s' = bios s \<and> completions s' = completions s"
    using q by (auto simp: sdmmc_del_task_def front_def serving_def)
  moreover have "req_inv s'" by (rule preserves_run [OF req_inv_del run assms(2)])
  ultimately show thesis using that run by blast
qed

lemma serve_one:
  fixes T :: "('h, 'z) disk_chip" and s :: "('h, 'z) disk_scheme"
  assumes chip: "sdmmc_chip T mb" "busy_at_most busy K T" "K < n"
    and run: "run (DiskTask i) = read_task_impl n P S T i"
    and front: "front s = DiskTask i # ts" and inv: "req_inv s" and a: "bios s i = Some a" "servable s a"
  obtains s' where "run_state (run_tasks (Suc k) run) s = run_state (run_tasks k run) s'" "served i s s'"
proof -
  obtain s1 where s1: "run_state splx s = ((), s1)" by (cases "run_state splx s") simp
  note o1 = outer_serving [OF keeps_run [OF more_spl(3) s1]]
  then have inv1: "req_inv s1" and f1: "front s1 = DiskTask i # ts" and b1: "bios s1 = bios s" "completions s1 = completions s"
    using inv front req_inv_view [OF o1(3)] by (simp_all add: req_view_def)
  obtain s2 where s2: "run_state (sdmmc_del_task (DiskTask i)) s1 = ((), s2)" "front s2 = ts" "req_inv s2"
      "serving s2 = serving s1" "bios s2 = bios s1" "completions s2 = completions s1"
    by (rule del_first [OF f1 inv1])
  obtain s3 where s3: "run_state (read_task_impl n P S T i) s2 = (Some (), s3)"
    using read_task_returns [OF chip] by blast
  have a2: "bios s2 i = Some a" "servable s2 a"
    using a b1 s2 servable_serving [of s2 s a] o1(2) by simp_all
  have c: "completed i a (bio_nblks a * ucast (blk_size s2)) s2 s3"
    using read_task_outcome [OF chip(1) s3 a2(1)] a2(2) by simp
  have inv3: "req_inv s3" by (rule req_inv_completed [OF s2(3) a2(1) c])
  have v3: "front s3 = ts" "serving s3 = serving s2"
    using keeps_run [OF frame_read_task [OF chip(1) serving_frame] s3] s2(2) by simp_all
  obtain s4 where s4: "run_state splbio s3 = ((), s4)" by (cases "run_state splbio s3") simp
  note o4 = outer_serving [OF keeps_run [OF more_spl(1) s4]]
  have "bio_completion a = Some i" using s2(3) a2(1) by (simp add: req_inv_def)
  then have "served i s s4"
    using c front v3 s2 b1 o1 o4 inv3 req_inv_view [OF o4(3)]
    by (auto simp: served_def completed_def req_view_def)
  moreover obtain q where "tskq s = DiskTask i # q" using front_head [OF front] by blast
  then have "run_state (run_tasks (Suc k) run) s = run_state (run_tasks k run) s4"
    using s1 s2(1) s3 s4 run by (simp add: obind_def)
  ultimately show thesis using that by blast
qed

section \<open>The queue\<close>

text \<open>The requests that wait have arguments and a buffer, and the device is there to serve them.\<close>

definition ready_for :: "nat list \<Rightarrow> ('h, 'z) disk_scheme \<Rightarrow> bool" where
  "ready_for is s \<longleftrightarrow> disk_provider s \<and> sdmmc_attached s \<and> sc_fn0 s \<noteq> None
     \<and> list_all (\<lambda>i. case bios s i of None \<Rightarrow> False | Some a \<Rightarrow> bio_buffer a \<noteq> 0) is"

lemma front_distinct:
  assumes "front s = map DiskTask is @ ts" and "req_inv s"
  shows "distinct is"
proof -
  have "tskq s = front s @ dropWhile (\<lambda>t. t \<noteq> DiscoverTask) (tskq s)" by (simp add: front_def)
  then have "tskq s = map DiskTask is @ ts @ dropWhile (\<lambda>t. t \<noteq> DiscoverTask) (tskq s)" by (simp add: assms(1))
  moreover have "filter disk_task (map DiskTask is) = map DiskTask is" by (induction "is") simp_all
  moreover have "distinct (filter disk_task (tskq s))" using assms(2) by (simp add: req_inv_def queue_ok_def disk_queue_def)
  ultimately have "distinct (map DiskTask is)" by (metis distinct_append filter_append)
  then show ?thesis by (simp add: distinct_map)
qed

lemma ready_next:
  assumes "ready_for (i # is) s" and "served i s s'" and "i \<notin> set is"
  shows "ready_for is s'"
  using assms by (auto simp: ready_for_def served_def serving_def list_all_iff)

lemma serve_all:
  fixes T :: "('h, 'z) disk_chip" and s :: "('h, 'z) disk_scheme"
  assumes "sdmmc_chip T mb" and "busy_at_most busy K T" and "K < n"
    and "\<And>i. run (DiskTask i) = read_task_impl n P S T i"
    and "front s = map DiskTask is @ ts" and "req_inv s" and "ready_for is s"
    and "run_state (run_tasks (length is) run) s = (r, s')"
  shows "map fst (completions s') = map fst (completions s) @ is \<and> front s' = ts \<and> req_inv s'"
  using assms(5-8)
proof (induction "is" arbitrary: s)
  case Nil
  then show ?case by simp
next
  case (Cons i "is")
  have dist: "i \<notin> set is" using front_distinct [OF Cons.prems(1,2)] by simp
  from Cons.prems(3) obtain a where a: "bios s i = Some a" "servable s a"
    by (auto simp: ready_for_def servable_def split: option.splits)
  have front: "front s = DiskTask i # (map DiskTask is @ ts)" using Cons.prems(1) by simp
  obtain s1 where s1: "run_state (run_tasks (Suc (length is)) run) s = run_state (run_tasks (length is) run) s1"
    "served i s s1" by (rule serve_one [where run = run and k = "length is", OF assms(1-3) assms(4) [of i] front Cons.prems(2) a])
  have "ready_for is s1" by (rule ready_next [OF Cons.prems(3) s1(2) dist])
  moreover have "front s1 = map DiskTask is @ ts" "req_inv s1" using s1(2) Cons.prems(1) by (auto simp: served_def)
  moreover have "run_state (run_tasks (length is) run) s1 = (r, s')" using Cons.prems(4) s1(1) by simp
  ultimately have "map fst (completions s') = map fst (completions s1) @ is \<and> front s' = ts \<and> req_inv s'"
    using Cons.IH by blast
  moreover have "map fst (completions s1) = map fst (completions s) @ [i]" using s1(2) by (auto simp: served_def)
  ultimately show ?case by simp
qed


text \<open>Two requests wait on a card that is always ready.\<close>

definition two_waiting :: "unit driver" where
  "two_waiting = one_card\<lparr>bios := [0 \<mapsto> one_request, 1 \<mapsto> one_request\<lparr>bio_block := 9, bio_completion := Some 1\<rparr>],
     next_task := 2, tskq := [DiskTask 0, DiskTask 1], onqueue := (\<lambda>t. t \<in> {DiskTask 0, DiskTask 1}),
     task_sc := (\<lambda>t. t \<in> {DiskTask 0, DiskTask 1}), disk_provider := True, blk_size := 512\<rparr>"

definition ready_run :: "task \<Rightarrow> (unit driver, unit option) state" where
  "ready_run t = (case t of DiskTask i \<Rightarrow> read_task_impl 1 bare_platform bare_storage ready_chip i | _ \<Rightarrow> ret (Some ()))"

lemma ready_contract: "sdmmc_chip ready_chip 512" "busy_at_most (\<lambda>_. 0) 0 ready_chip"
proof -
  show "sdmmc_chip ready_chip 512"
    by unfold_locales (auto simp: ready_chip_def failing_chip_def keeps_def request_def)
  show "busy_at_most (\<lambda>_. 0) 0 ready_chip"
    by (auto simp: busy_at_most_def ready_chip_def failing_chip_def isset_def)
qed


end
