(* ===== verification/Responses.thy ===== *)
theory Responses
  imports SdmmcReg
begin

text \<open>
  How the response of a card travels from the command buffer, where the controller puts the
  bytes it read back, to the words and fields that the upper layers look at.
\<close>

section \<open>Bytes and words\<close>

lemma le_word_bit:
  "bit (le_word bs :: 'a::len word) n \<longleftrightarrow> n < LENGTH('a) \<and> n div 8 < length bs \<and> bit (bs ! (n div 8)) (n mod 8)"
proof (induction bs arbitrary: n)
  case Nil
  then show ?case by (simp add: le_word_def)
next
  case (Cons b bs)
  have step: "le_word (b # bs) = (ucast b OR push_bit 8 (le_word bs) :: 'a word)" by (simp add: le_word_def)
  show ?case
  proof (cases "n < 8")
    case True
    then show ?thesis by (auto simp: step bit_simps)
  next
    case False
    then have "n div 8 = Suc ((n - 8) div 8)" "n mod 8 = (n - 8) mod 8" by (simp_all add: div_nat_eqI mod_if le_div_geq)
    moreover have "\<not> bit b n" using False bit_imp_le_length [of b n] by auto
    ultimately show ?thesis using False by (auto simp: step bit_simps Cons.IH)
  qed
qed

lemma le_bytes_le_word: "length bs = k \<Longrightarrow> 8 * k \<le> LENGTH('a) \<Longrightarrow> le_bytes k (le_word bs :: 'a::len word) = bs"
proof (rule nth_equalityI)
  fix i assume k: "length bs = k" "8 * k \<le> LENGTH('a)" and "i < length (le_bytes k (le_word bs :: 'a word))"
  then have i: "i < k" by (simp add: le_bytes_def)
  show "le_bytes k (le_word bs :: 'a word) ! i = bs ! i"
  proof (rule bit_word_eqI)
    fix n assume "n < LENGTH(8)"
    then have "n < 8" by simp
    then have "(8 * i + n) div 8 = i" "(8 * i + n) mod 8 = n" "8 * i + n < LENGTH('a)" using i k by auto
    with \<open>n < 8\<close> i k show "bit (le_bytes k (le_word bs :: 'a word) ! i) n = bit (bs ! i) n"
      by (simp add: le_bytes_nth bit_simps le_word_bit)
  qed
qed (simp add: le_bytes_def)

lemma be32toh_le_word: "be32toh (le_word [a, b, c, d]) = le_word [d, c, b, a]"
  by (simp add: be32toh_def le_bytes_le_word)

lemma half_words: "bit (65535 :: u32) n \<longleftrightarrow> n < 16" "bit (4294901760 :: u32) n \<longleftrightarrow> 16 \<le> n \<and> n < 32"
proof -
  have "bit (65535 :: u32) n = bit (Bit_Operations.mask 16 :: u32) n" by (simp add: mask_eq_exp_minus_1)
  then show "bit (65535 :: u32) n \<longleftrightarrow> n < 16" by (simp only: bit_mask_iff) auto
  have "bit (4294901760 :: u32) n = bit (push_bit 16 (Bit_Operations.mask 16) :: u32) n"
    by (simp add: mask_eq_exp_minus_1)
  then show "bit (4294901760 :: u32) n \<longleftrightarrow> 16 \<le> n \<and> n < 32"
    by (simp only: bit_mask_iff bit_push_bit_iff) auto
qed

text \<open>A short response is bytes 2 to 5 of the queue, the most significant byte first.\<close>

lemma short_response_words:
  "push_bit 16 (be32toh (le_word [b0, b1, b2, b3])) AND 0xffff0000 OR
     drop_bit 16 (be32toh (le_word [b4, b5, b6, b7])) AND 0xffff = (le_word [b5, b4, b3, b2] :: u32)"
  unfolding be32toh_le_word
proof (rule bit_word_eqI)
  fix n assume "n < LENGTH(32)"
  then consider "n < 8" | "8 \<le> n" "n < 16" | "16 \<le> n" "n < 24" | "24 \<le> n" "n < 32" by fastforce
  then show "bit (push_bit 16 (le_word [b3, b2, b1, b0]) AND 0xffff0000 OR
      drop_bit 16 (le_word [b7, b6, b5, b4]) AND 0xffff :: u32) n = bit (le_word [b5, b4, b3, b2] :: u32) n"
    by cases (auto simp: le_word_def bit_simps half_words simp del: bit_numeral_word_iff dest: bit_imp_le_length)
qed

lemma short_response_bytes:
  assumes "isset (c_flags cmd) SCF_RSP_PRESENT" "\<not> isset (c_flags cmd) SCF_RSP_136" "c_resp cmd \<noteq> []"
    and "km_read P h kva 4 = [b0, b1, b2, b3]" "km_read P h (kva + 4) 4 = [b4, b5, b6, b7]"
  shows "c_resp (read_response P kva cmd h) ! 0 = le_word [b5, b4, b3, b2]"
  using assms by (simp add: read_response_def short_response_words)

section \<open>The response words\<close>

text \<open>Memory that reads the same whatever the number of bytes asked for.\<close>

definition bytes_at :: "'h platform \<Rightarrow> 'h \<Rightarrow> (u64 \<Rightarrow> u8) \<Rightarrow> bool" where
  "bytes_at P h m \<longleftrightarrow> (\<forall>a n. km_read P h a n = map (\<lambda>i. m (a + of_nat i)) [0..<n])"

lemma read_response_bits:
  assumes mem: "bytes_at P h m" and fl: "isset (c_flags cmd) SCF_RSP_PRESENT" and len: "length (c_resp cmd) = 4"
    and n: "n < (if isset (c_flags cmd) SCF_RSP_136 then 128 else 32)"
  shows "bit (c_resp (read_response P kva cmd h) ! (n div 32)) (n mod 32)
    = bit (m (kva + (if isset (c_flags cmd) SCF_RSP_136 then of_nat (1 + n div 8) else of_nat (5 - n div 8)))) (n mod 8)"
proof (cases "isset (c_flags cmd) SCF_RSP_136")
  case True
  have q: "n div 32 = n div 8 div 4" by (simp flip: div_mult2_eq)
  have r: "n mod 32 = 8 * (n div 8 mod 4) + n mod 8" using mod_mult2_eq [of n 8 4] by simp
  have d: "n mod 32 div 8 = n div 8 mod 4" "n mod 32 mod 8 = n mod 8" unfolding r by simp_all
  have b: "n div 8 < 16" using n True by simp
  then have q4: "n div 8 div 4 < 4" by simp
  from q4 have "4 * (n div 8 div 4) + n div 8 mod 4 = n div 8" by simp
  moreover have "n div 8 mod 4 < 16 - 4 * (n div 8 div 4)" using q4 mod_less_divisor [of 4 "n div 8"] by linarith
  ultimately show ?thesis using mem fl True q4
    by (simp add: read_response_def bytes_at_def le_word_bit d q min_def flip: add.assoc)
next
  case False
  then have n32: "n < 32" "n div 32 = 0" "n mod 32 = n" using n by simp_all
  have r: "c_resp (read_response P kva cmd h) ! 0 = le_word [m (kva + 5), m (kva + 4), m (kva + 3), m (kva + 2)]"
    using mem fl False len by (intro short_response_bytes) (auto simp: bytes_at_def upt_rec add.assoc)
  from n32 have "n div 8 \<in> {0, 1, 2, 3}" by auto
  then show ?thesis using n32 False by (auto simp: r le_word_bit)
qed

text \<open>
  C39: the response words hold the bits that the controller put into the command buffer. Bit
  \<open>n\<close> of a long response is bit \<open>n mod 8\<close> of byte \<open>1 + n div 8\<close> (byte 0 is the result of the
  check command); a short response is stored the other way round, bit \<open>n\<close> in byte
  \<open>5 - n div 8\<close>, after the check result and the echoed opcode.
\<close>

theorem response_bits:
  assumes "bytes_at P h m" and "isset (c_flags cmd) SCF_RSP_PRESENT" and "length (c_resp cmd) = 4"
    and "n < (if isset (c_flags cmd) SCF_RSP_136 then 128 else 32)"
  shows "bit (c_resp (read_response P kva cmd h) ! (n div 32)) (n mod 32)
    = bit (m (kva + (if isset (c_flags cmd) SCF_RSP_136 then of_nat (1 + n div 8) else of_nat (5 - n div 8)))) (n mod 8)"
  using assms by (rule read_response_bits)

definition counting_platform :: "unit platform" where
  "counting_platform = bare_platform\<lparr>km_read := (\<lambda>_ a n. map (\<lambda>i. ucast (a + of_nat i)) [0..<n])\<rparr>"

theorem response_bits_witness:
  "bit (c_resp (read_response counting_platform 0x20 (zero_command\<lparr>c_flags := SCF_RSP_R1\<rparr>) ()) ! 0) 10
   \<and> \<not> bit (c_resp (read_response counting_platform 0x20 (zero_command\<lparr>c_flags := SCF_RSP_R1\<rparr>) ()) ! 0) 9"
proof -
  have m: "bytes_at counting_platform () ucast" by (simp add: bytes_at_def counting_platform_def)
  show ?thesis
    using response_bits [OF m, of "zero_command\<lparr>c_flags := SCF_RSP_R1\<rparr>" 10 "0x20"]
      response_bits [OF m, of "zero_command\<lparr>c_flags := SCF_RSP_R1\<rparr>" 9 "0x20"]
    by (simp add: zero_command_def isset_def)
qed

text \<open>So a field of the CSD or CID is a run of bits of the buffer.\<close>

lemma long_response_field:
  assumes mem: "bytes_at P h m" and cmd: "isset (c_flags cmd) SCF_RSP_PRESENT" "isset (c_flags cmd) SCF_RSP_136"
    and len: "length (c_resp cmd) = 4" and f: "8 \<le> start" "0 \<le> l" "l \<le> 32" "start + l \<le> 136"
  shows "MMC_RSP_BITS (c_resp (read_response P kva cmd h)) start l =
    sint (horner_sum of_bool 2
      (map (\<lambda>i. bit (m (kva + of_nat (1 + i div 8))) (i mod 8)) [nat start - 8 ..< nat start - 8 + nat l]) :: u32)"
proof -
  have four: "length (c_resp (read_response P kva cmd h)) = 4" using cmd by (simp add: read_response_def Let_def)
  have "resp_bit (c_resp (read_response P kva cmd h)) i = bit (m (kva + of_nat (1 + i div 8))) (i mod 8)"
    if "i < nat start - 8 + nat l" for i
  proof -
    have "i < 128" using that f by linarith
    with read_response_bits [OF mem cmd(1) len, of i kva] cmd four show ?thesis by (simp add: resp_bit_def)
  qed
  then have "map (resp_bit (c_resp (read_response P kva cmd h))) [nat start - 8 ..< nat start - 8 + nat l]
    = map (\<lambda>i. bit (m (kva + of_nat (1 + i div 8))) (i mod 8)) [nat start - 8 ..< nat start - 8 + nat l]"
    by (intro map_cong) auto
  then show ?thesis by (simp add: rsp_bits_value f del: map_eq_conv)
qed

end
