(* ===== verification/MemFacts.thy ===== *)
theory MemFacts
  imports BlockIo Chunks Responses
begin

text \<open>
  What the slot makes of the answers of a card: the voltage it chooses, the size it computes,
  the status it converts, the card it selects.
\<close>

section \<open>Voltage\<close>

lemma lowest_voltage_sub: "lowest_voltage x b n AND x = lowest_voltage x b n"
  by (induction n arbitrary: b) (auto simp: and.assoc and.commute and.left_commute)

lemma isset_bit: "isset x (push_bit b 1) \<longleftrightarrow> bit x b" if "b < LENGTH('a)" for x :: "'a::len word"
proof
  assume "bit x b"
  then have "bit (x AND push_bit b 1) b" using that by (simp add: bit_simps)
  then show "isset x (push_bit b 1)" by (auto simp: isset_def)
next
  assume "isset x (push_bit b 1)"
  then obtain n where "bit (x AND push_bit b 1) n" unfolding isset_def by (metis bit_eqI bit_0_eq bot_apply bot_bool_def)
  then show "bit x b" by (auto simp: bit_simps bit_1_iff)
qed

lemma lowest_voltage_Suc:
  assumes "b + Suc n \<le> 32"
  shows "lowest_voltage x b (Suc n) = (if bit x b then x AND push_bit b 3 else lowest_voltage x (Suc b) n)"
proof -
  have "b < LENGTH(32)" using assms by simp
  from isset_bit [OF this] show ?thesis by (simp only: lowest_voltage.simps)
qed

lemma lowest_voltage_lowest:
  "b + n \<le> 32 \<Longrightarrow> lowest_voltage x b n =
     (case filter (bit x) [b..<b + n] of [] \<Rightarrow> x | k # _ \<Rightarrow> x AND push_bit k 3)"
proof (induction n arbitrary: b)
  case (Suc n)
  have "[b..<b + Suc n] = b # [Suc b..<Suc b + n]" by (simp add: upt_conv_Cons del: upt_Suc)
  with Suc show ?case by (simp add: lowest_voltage_Suc del: lowest_voltage.simps upt_Suc)
qed simp

lemma lowest_voltage_nonzero: "b + n \<le> 32 \<Longrightarrow> x \<noteq> 0 \<Longrightarrow> lowest_voltage x b n \<noteq> 0"
proof (induction n arbitrary: b)
  case (Suc n)
  show ?case
  proof (cases "bit x b")
    case True
    then have "bit (x AND push_bit b 3) b" using Suc.prems by (simp add: bit_simps)
    then have "x AND push_bit b 3 \<noteq> 0" by auto
    then show ?thesis using True Suc.prems by (simp add: lowest_voltage_Suc del: lowest_voltage.simps)
  next
    case False
    then show ?thesis using Suc by (simp add: lowest_voltage_Suc del: lowest_voltage.simps)
  qed
qed simp


section \<open>Selecting a card\<close>

text \<open>
  C33: selecting a card succeeds only if it is the selected one afterwards; a failed selection
  leaves the old one, and deselecting always clears it, whatever the card answers. Nothing else
  of the slot changes.
\<close>

theorem select_card_outcome:
  assumes "run_state (sdmmc_select_card (rtsx_functions P) sf) (s :: ('h, 'z) sdmmc_scheme) = (r, s')"
  shows "(r = OK \<longrightarrow> sc_card s' = sf) \<and> (sf = None \<longrightarrow> sc_card s' = None)
    \<and> (r \<noteq> OK \<and> sf \<noteq> None \<longrightarrow> sc_card s' = sc_card s) \<and> sfs s' = sfs s \<and> sf_head s' = sf_head s \<and> sc_lock s' = sc_lock s"
proof -
  have "keeps sc_card (sdmmc_mmc_command (rtsx_functions P) c :: (('h, 'z) sdmmc_scheme, sdmmc_command) state)" for c
    by (rule rtsx_chip.keeps_mmc_command) simp
  note cmd = keeps_run [OF this]
  have fr: "card_frame (\<lambda>s :: ('h, 'z) sdmmc_scheme. (sfs s, sf_head s, sc_lock s))"
    unfolding card_frame_def slot_part_def
  proof (intro conjI allI impI)
    fix s s' :: "('h, 'z) sdmmc_scheme"
    assume "outer s = outer s'"
    from slot_fields [OF this] show "(sfs s, sf_head s, sc_lock s) = (sfs s', sf_head s', sc_lock s')" by simp
  qed simp_all
  have "(r = OK \<longrightarrow> sc_card s' = sf) \<and> (sf = None \<longrightarrow> sc_card s' = None)
    \<and> (r \<noteq> OK \<and> sf \<noteq> None \<longrightarrow> sc_card s' = sc_card s)"
    using assms by (auto simp: sdmmc_select_card_def split: prod.splits if_splits dest: cmd)
  then show ?thesis using keeps_run [OF rtsx_chip.keeps_select_card [OF fr] assms] by simp
qed

theorem select_card_outcome_witness:
  "sc_card (snd (run_state (sdmmc_select_card (rtsx_functions bare_platform) None) one_card)) = None"
  using select_card_outcome [OF surjective_pairing, of bare_platform None one_card] by blast

text \<open>
  C37: a register access of an SDIO function gives the lock away when the card cannot be
  selected, although its caller holds it and gives it back again.
\<close>

theorem io_rw_direct_lock:
  assumes "run_state (sdmmc_select_card (rtsx_functions P) sf) (s :: ('h, 'z) sdmmc_scheme) = (e, s1)"
    and "run_state (sdmmc_io_rw_direct (rtsx_functions P) sf reg d arg) s = (r, s')"
  shows "sc_lock s' = (if e = OK then sc_lock s else sc_lock s - 1)"
proof -
  have "sc_lock s1 = sc_lock s" by (rule keeps_run [OF rtsx_chip.keeps_select_card assms(1)]) simp
  moreover have "keeps sc_lock (sdmmc_mmc_command (rtsx_functions P) c :: (('h, 'z) sdmmc_scheme, sdmmc_command) state)" for c
    by (rule rtsx_chip.keeps_mmc_command) simp
  note cmd = keeps_run [OF this]
  ultimately show ?thesis
    using assms by (auto simp: sdmmc_io_rw_direct_def rw_exit_def split: prod.splits if_splits dest: cmd)
qed

theorem io_rw_direct_lock_witness:
  "sc_lock (snd (run_state (sdmmc_io_rw_direct (rtsx_functions bare_platform) (Some 0) 6 8 0) one_card)) = 0"
proof -
  have "run_state (sdmmc_select_card (rtsx_functions bare_platform) (Some 0)) one_card = (OK, one_card)"
    by (rule one_card_selected)
  from io_rw_direct_lock [OF this surjective_pairing] show ?thesis by (simp add: one_card_def)
qed

section \<open>The switch status\<close>

lemma be32toh_bit: "bit (be32toh w) n \<longleftrightarrow> n < 32 \<and> bit w (8 * (3 - n div 8) + n mod 8)"
proof (cases "n < 32")
  case True
  then have "n div 8 < 4" by simp
  then have "rev (le_bytes 4 w) ! (n div 8) = le_bytes 4 w ! (3 - n div 8)"
    by (subst rev_nth) (simp_all add: le_bytes_def)
  moreover have "3 - n div 8 < 4" by simp
  ultimately show ?thesis
    by (auto simp: be32toh_def le_word_bit le_bytes_nth bit_simps) (auto simp: le_bytes_def)
qed (use bit_imp_le_length [of "be32toh w" n] in auto)

lemma be32toh_twice: "be32toh (be32toh w) = w"
proof (rule bit_word_eqI)
  fix n assume "n < LENGTH(32)"
  then have n: "n < 32" by simp
  let ?m = "8 * (3 - n div 8) + n mod 8"
  have q: "n div 8 \<le> 3" using n by simp
  have "?m div 8 = 3 - n div 8" "?m mod 8 = n mod 8" by simp_all
  moreover have "?m < 32" using q by presburger
  moreover have "8 * (3 - (3 - n div 8)) + n mod 8 = n" using q by simp
  ultimately show "bit (be32toh (be32toh w)) n = bit w n" using n by (simp add: be32toh_bit)
qed

lemma swap_rounds:
  assumes "k \<le> length buf div 2"
  shows "length (foldl swap_words buf [0..<k]) = length buf
    \<and> (\<forall>j < length buf. foldl swap_words buf [0..<k] ! j
       = (if j < k \<or> length buf - k \<le> j then be32toh (buf ! (length buf - 1 - j)) else buf ! j))"
  using assms
proof (induction k)
  case (Suc k)
  let ?b = "foldl swap_words buf [0..<k]"
  have len: "length ?b = length buf" using Suc by simp
  have nth: "?b ! i = (if i < k \<or> length buf - k \<le> i then be32toh (buf ! (length buf - 1 - i)) else buf ! i)"
    if "i < length buf" for i using Suc that by simp
  have k: "k < length buf" "length buf - 1 - k < length buf" "k < length buf - 1 - k" using Suc.prems by auto
  have r: "foldl swap_words buf [0..<Suc k] = ?b[k := be32toh (buf ! (length buf - 1 - k)),
      length buf - 1 - k := be32toh (buf ! k)]"
  proof -
    have "?b ! k = buf ! k" "?b ! (length buf - 1 - k) = buf ! (length buf - 1 - k)"
      using nth [OF k(1)] nth [OF k(2)] k by auto
    then show ?thesis by (simp add: swap_words_def Let_def len)
  qed
  show ?case
  proof (intro conjI allI impI)
    show "length (foldl swap_words buf [0..<Suc k]) = length buf" unfolding r by (simp add: len)
    fix j assume "j < length buf"
    then show "foldl swap_words buf [0..<Suc k] ! j = (if j < Suc k \<or> length buf - Suc k \<le> j
        then be32toh (buf ! (length buf - 1 - j)) else buf ! j)"
      unfolding r using k nth [of j] by (auto simp: len nth_list_update)
  qed
qed simp

lemma be512_rev:
  assumes "even (length buf)"
  shows "sdmmc_be512_to_bitfield512 buf = rev (map be32toh buf)"
proof (rule nth_equalityI)
  have r: "length (foldl swap_words buf [0..<length buf div 2]) = length buf"
    "\<And>j. j < length buf \<Longrightarrow> foldl swap_words buf [0..<length buf div 2] ! j = be32toh (buf ! (length buf - 1 - j))"
    using swap_rounds [of "length buf div 2" buf] assms by (auto elim!: evenE)
  show "length (sdmmc_be512_to_bitfield512 buf) = length (rev (map be32toh buf))"
    by (simp add: sdmmc_be512_to_bitfield512_def r)
  fix j assume "j < length (sdmmc_be512_to_bitfield512 buf)"
  then show "sdmmc_be512_to_bitfield512 buf ! j = rev (map be32toh buf) ! j"
    using r by (simp add: sdmmc_be512_to_bitfield512_def rev_nth)
qed

text \<open>
  C34: the in-place conversion of the 512 bit switch status, which swaps the words pairwise from
  both ends, reverses the whole status byte by byte, and converting twice gives it back.
\<close>

theorem be512_reverses:
  assumes "length buf = 16"
  shows "sdmmc_be512_to_bitfield512 buf = rev (map be32toh buf)
    \<and> sdmmc_be512_to_bitfield512 (sdmmc_be512_to_bitfield512 buf) = buf"
proof -
  have "map (be32toh \<circ> be32toh) buf = buf" by (simp add: map_idI be32toh_twice)
  then show ?thesis using assms by (simp add: be512_rev rev_map)
qed

theorem be512_reverses_witness:
  "sdmmc_be512_to_bitfield512 (sdmmc_be512_to_bitfield512 (replicate 15 7 @ [0x01020304])) = replicate 15 7 @ [0x01020304]"
  by (rule be512_reverses [THEN conjunct2]) simp

section \<open>The size of a card\<close>

lemma csd_sectors_bytes:
  assumes "0 \<le> read_bl_len c" and "read_bl_len c < 16" and "0 \<le> capacity c" and "capacity c \<le> 2 ^ 21"
  shows "sector_size (csd_sectors 512 c) = min 512 (2 ^ nat (read_bl_len c))
    \<and> sector_size (csd_sectors 512 c) * capacity (csd_sectors 512 c) = 2 ^ nat (read_bl_len c) * capacity c"
proof (cases "nat (read_bl_len c) \<le> 9")
  case True
  have "(2 :: int) ^ nat (read_bl_len c) \<le> 2 ^ 9" by (rule power_increasing [OF True]) simp
  then show ?thesis by (simp add: csd_sectors_def Let_def)
next
  case False
  let ?r = "nat (read_bl_len c)"
  have r: "?r = (?r - 9) + 9" using False by simp
  have pow: "(2 :: int) ^ ?r = 512 * 2 ^ (?r - 9)" by (subst r) (simp add: power_add)
  have "?r - 9 \<le> 6" using assms(2) by simp
  then have le: "(2 :: int) ^ (?r - 9) \<le> 2 ^ 6" by (intro power_increasing) simp_all
  have "(1 :: int) < 2 ^ (?r - 9)" using False by simp
  then have gt: "(512 :: int) < 2 ^ ?r" using pow by simp
  have "capacity c * 2 ^ (?r - 9) \<le> 2 ^ 21 * 2 ^ 6" by (rule mult_mono) (use assms le in auto)
  then have id: "c_int (capacity c * 2 ^ (?r - 9)) = capacity c * 2 ^ (?r - 9)"
    using assms(3) by (intro c_int_id) simp_all
  have "2 ^ ?r div 512 = (2 :: int) ^ (?r - 9)" unfolding pow by simp
  then show ?thesis using gt id by (simp add: csd_sectors_def Let_def pow)
qed

lemma csd_capacity_bounds: "0 \<le> SD_CSD_CAPACITY resp" "SD_CSD_CAPACITY resp \<le> 2 ^ 21"
proof -
  have s: "0 \<le> SD_CSD_C_SIZE resp" "SD_CSD_C_SIZE resp < 2 ^ 12"
    using rsp_bits_range [of 62 12 resp] by (simp_all add: SD_CSD_C_SIZE_def)
  have m: "0 \<le> SD_CSD_C_SIZE_MULT resp" "SD_CSD_C_SIZE_MULT resp < 2 ^ 3"
    using rsp_bits_range [of 47 3 resp] by (simp_all add: SD_CSD_C_SIZE_MULT_def)
  have "nat (SD_CSD_C_SIZE_MULT resp + 2) \<le> 9" using m by simp
  then have "(2 :: int) ^ nat (SD_CSD_C_SIZE_MULT resp + 2) \<le> 2 ^ 9" by (intro power_increasing) simp_all
  then have "(SD_CSD_C_SIZE resp + 1) * 2 ^ nat (SD_CSD_C_SIZE_MULT resp + 2) \<le> 2 ^ 12 * 2 ^ 9"
    by (rule mult_mono [rotated]) (use s in auto)
  then show "SD_CSD_CAPACITY resp \<le> 2 ^ 21" by (simp add: SD_CSD_CAPACITY_def)
  show "0 \<le> SD_CSD_CAPACITY resp" using s by (simp add: SD_CSD_CAPACITY_def)
qed

text \<open>
  C29: for every CSD of a standard capacity card the driver computes the size the register
  describes: sector size times number of sectors is the capacity in blocks times the block
  length, with sectors of at most 512 bytes, and no step of it overflows.
\<close>

theorem decode_csd_size:
  assumes "isset (sc_flags s) SMF_SD_MODE" and "SD_CSD_CSDVER resp = SD_CSD_CSDVER_1_0" and "sfs s p = Some f"
    and "run_state (sdmmc_decode_csd (rtsx_functions P) resp p) s = (r, s')"
  shows "r = OK
    \<and> sector_size (sf_csd (fn_at s' p)) = min 512 (2 ^ nat (SD_CSD_READ_BL_LEN resp))
    \<and> sector_size (sf_csd (fn_at s' p)) * capacity (sf_csd (fn_at s' p))
      = 2 ^ nat (SD_CSD_READ_BL_LEN resp) * SD_CSD_CAPACITY resp"
proof -
  have bl: "0 \<le> SD_CSD_READ_BL_LEN resp" "SD_CSD_READ_BL_LEN resp < 16"
    using rsp_bits_range [of 80 4 resp] by (simp_all add: SD_CSD_READ_BL_LEN_def)
  let ?c = "(sf_csd f)\<lparr>csdver := 0, capacity := SD_CSD_CAPACITY resp, read_bl_len := SD_CSD_READ_BL_LEN resp, ccc := SD_CSD_CCC resp\<rparr>"
  have r: "r = OK \<and> sf_csd (fn_at s' p) = csd_sectors 512 ?c"
    using assms by (auto simp: sdmmc_decode_csd_def upd_csd_def upd_fn_def rtsx_functions_def rtsx_host_maxblklen_def fn_at_def)
  have g: "read_bl_len ?c = SD_CSD_READ_BL_LEN resp" "capacity ?c = SD_CSD_CAPACITY resp" by simp_all
  have "sector_size (csd_sectors 512 ?c) = min 512 (2 ^ nat (read_bl_len ?c))
    \<and> sector_size (csd_sectors 512 ?c) * capacity (csd_sectors 512 ?c) = 2 ^ nat (read_bl_len ?c) * capacity ?c"
    by (rule csd_sectors_bytes) (use bl csd_capacity_bounds in simp_all)
  from this [unfolded g] show ?thesis unfolding r [THEN conjunct2] using r by blast
qed

theorem decode_csd_size_witness:
  "sector_size (sf_csd (fn_at (snd (run_state (sdmmc_decode_csd (rtsx_functions bare_platform) [0, 0, 0x00090000, 0] 0) one_card)) 0))
    = min 512 (2 ^ nat (SD_CSD_READ_BL_LEN [0, 0, 0x00090000, 0]))"
proof -
  have "isset (sc_flags one_card) SMF_SD_MODE" by (simp add: one_card_def isset_setf isset_def setf_def)
  moreover have "SD_CSD_CSDVER [0, 0, 0x00090000, 0] = SD_CSD_CSDVER_1_0"
    by (simp add: SD_CSD_CSDVER_def rsp_bits_value resp_bit_def upt_rec)
  moreover obtain f where "sfs one_card 0 = Some f" by (simp add: one_card_def)
  ultimately show ?thesis using decode_csd_size [OF _ _ _ surjective_pairing] by blast
qed

end
