(* ===== verification/Engine.thy ===== *)
theory Engine
  imports Responses
begin

text \<open>
  What the command engine of the controller runs. The engine fetches a queue of host commands
  by DMA when \<open>RTSX_HCBCTLR\<close> is written with the start bit; the theorem at the end says which
  queues it is started on while \<open>rtsx_exec_command\<close> runs, and with which contents.
\<close>

section \<open>The engine and its memory\<close>

text \<open>
  The view of the outside world in which the queues can be seen: the bytes of kernel memory, the
  kernel address of what is behind a bus address, the kernel address at which a memory descriptor
  is mapped, the addresses at which something is mapped, the register \<open>RTSX_HCBAR\<close>, and the
  queues that the engine was started on, latest last.
\<close>

record 'h engine =
  e_mem :: "'h \<Rightarrow> u64 \<Rightarrow> u8"
  e_kva :: "'h \<Rightarrow> u32 \<Rightarrow> u64"
  e_base :: "'h \<Rightarrow> u64 \<Rightarrow> u64"
  e_used :: "'h \<Rightarrow> u64 set"
  e_bar :: "'h \<Rightarrow> u32"
  e_ran :: "'h \<Rightarrow> u8 list list"

definition starts :: "u32 \<Rightarrow> u32 \<Rightarrow> bool" where
  "starts r v \<longleftrightarrow> r = RTSX_HCBCTLR \<and> isset v RTSX_START_CMD"

definition fetched :: "'h engine \<Rightarrow> 'h \<Rightarrow> u32 \<Rightarrow> u8 list" where
  "fetched E h v = map (\<lambda>i. e_mem E h (e_kva E h (e_bar E h) + of_nat i)) [0..<unat (v AND 0x00ffffff)]"

text \<open>
  The engine is started by nothing but the start bit, and register accesses and the passing of
  time do not move memory to other bus addresses. Setting the address register leaves the memory
  alone.
\<close>

definition engine_io :: "'h engine \<Rightarrow> 'h platform \<Rightarrow> bool" where
  "engine_io E P \<longleftrightarrow>
     (\<forall>h b r. e_ran E (snd (io_read4 P h b r)) = e_ran E h \<and> e_kva E (snd (io_read4 P h b r)) = e_kva E h)
   \<and> (\<forall>h n. e_ran E (io_delay P h n) = e_ran E h \<and> e_kva E (io_delay P h n) = e_kva E h)
   \<and> (\<forall>h. e_ran E (io_idle P h) = e_ran E h \<and> e_kva E (io_idle P h) = e_kva E h)
   \<and> (\<forall>h b r v. e_kva E (io_write4 P h b r v) = e_kva E h
        \<and> e_ran E (io_write4 P h b r v) = (if starts r v then e_ran E h @ [fetched E h v] else e_ran E h))
   \<and> (\<forall>h b v. e_bar E (io_write4 P h b RTSX_HCBAR v) = v
        \<and> e_mem E (io_write4 P h b RTSX_HCBAR v) = e_mem E h)"

text \<open>Kernel memory holds what was stored last.\<close>

definition engine_mem :: "'h engine \<Rightarrow> 'h platform \<Rightarrow> bool" where
  "engine_mem E P \<longleftrightarrow> (\<forall>h a bs.
     (length bs < 2 ^ 64 \<longrightarrow>
        (\<forall>i < length bs. e_mem E (km_write P h a bs) (a + of_nat i) = bs ! i)
      \<and> (\<forall>x. (\<forall>i < length bs. x \<noteq> a + of_nat i) \<longrightarrow> e_mem E (km_write P h a bs) x = e_mem E h x))
   \<and> e_ran E (km_write P h a bs) = e_ran E h \<and> e_kva E (km_write P h a bs) = e_kva E h
   \<and> e_base E (km_write P h a bs) = e_base E h)"

text \<open>
  What the code relies on of the memory descriptors: a new mapping is at a new address, and the
  first segment of a DMA command is the start of the descriptor it was set to. None of the
  calls starts the engine, and the two that prepare a transfer change no memory.
\<close>

definition engine_dma :: "'h engine \<Rightarrow> 'h platform \<Rightarrow> bool" where
  "engine_dma E P \<longleftrightarrow>
     (\<forall>h md. e_ran E (snd (md_map P h md)) = e_ran E h
        \<and> (fst (md_map P h md) \<noteq> 0 \<longrightarrow>
             mm_address P (snd (md_map P h md)) (fst (md_map P h md)) \<notin> e_used E h
           \<and> dict_key (mm_address P (snd (md_map P h md)) (fst (md_map P h md)))
           \<and> e_base E (snd (md_map P h md)) md = mm_address P (snd (md_map P h md)) (fst (md_map P h md))))
   \<and> (\<forall>h c md. e_ran E (snd (dc_set P h c md)) = e_ran E h \<and> e_mem E (snd (dc_set P h c md)) = e_mem E h)
   \<and> (\<forall>h c off. e_ran E (snd (dc_gen P h c off)) = e_ran E h \<and> e_mem E (snd (dc_gen P h c off)) = e_mem E h)
   \<and> (\<forall>h c md o' a l h2. fst (dc_set P h c md) = 0 \<longrightarrow> dc_gen P (snd (dc_set P h c md)) c 0 = ((0, o', a, l), h2)
        \<longrightarrow> e_kva E h2 a = e_base E h md)
   \<and> (\<forall>h b n. e_ran E (snd (md_alloc P h b n)) = e_ran E h \<and> e_used E (snd (md_alloc P h b n)) = e_used E h)
   \<and> (\<forall>h md. e_ran E (snd (md_prepare P h md)) = e_ran E h \<and> e_used E (snd (md_prepare P h md)) = e_used E h)
   \<and> (\<forall>h md. e_ran E (md_complete P h md) = e_ran E h \<and> e_ran E (md_release P h md) = e_ran E h)
   \<and> (\<forall>h m. e_ran E (mm_release P h m) = e_ran E h) \<and> (\<forall>h c. e_ran E (dc_clear P h c) = e_ran E h)"

definition engine_laws :: "'h engine \<Rightarrow> 'h platform \<Rightarrow> bool" where
  "engine_laws E P \<longleftrightarrow> engine_io E P \<and> engine_mem E P \<and> engine_dma E P"

lemma engine_lawsD: "engine_laws E P \<Longrightarrow> engine_io E P" "engine_laws E P \<Longrightarrow> engine_mem E P"
    "engine_laws E P \<Longrightarrow> engine_dma E P"
  by (simp_all add: engine_laws_def)

section \<open>What leaves the engine alone\<close>

text \<open>The queues that were run, and with them what decides where the engine would fetch from.\<close>

definition ran :: "'h engine \<Rightarrow> ('h, 'z) rtsx_scheme \<Rightarrow> u8 list list" where
  "ran E s = e_ran E (hw s)"

definition loaded :: "'h engine \<Rightarrow> ('h, 'z) rtsx_scheme \<Rightarrow> u8 list list \<times> (u32 \<Rightarrow> u64) \<times> (u64 \<Rightarrow> dmamap option) \<times> u64 \<times> u64" where
  "loaded E s = (e_ran E (hw s), e_kva E (hw s), dmamaps s, dmap_cmd s, ioh s)"

text \<open>A part of the state that only the engine and the DMA layer change.\<close>

definition engine_part :: "'h engine \<Rightarrow> 'h platform \<Rightarrow> (('h, 'z) rtsx_scheme \<Rightarrow> 'b) \<Rightarrow> bool" where
  "engine_part E P f \<longleftrightarrow>
     (\<forall>s h. e_ran E h = e_ran E (hw s) \<and> e_kva E h = e_kva E (hw s) \<longrightarrow> f (s\<lparr>hw := h\<rparr>) = f s)
   \<and> (\<forall>s d. f (s\<lparr>spl_depth := d\<rparr>) = f s) \<and> (\<forall>s x. f (s\<lparr>sched := x\<rparr>) = f s)
   \<and> (\<forall>s x. f (s\<lparr>slept := x\<rparr>) = f s) \<and> (\<forall>s x. f (s\<lparr>rflags := x\<rparr>) = f s)
   \<and> (\<forall>s x. f (s\<lparr>intr_status := x\<rparr>) = f s) \<and> (\<forall>s x. f (s\<lparr>tskq := x\<rparr>) = f s)
   \<and> (\<forall>s x. f (s\<lparr>onqueue := x\<rparr>) = f s) \<and> (\<forall>s x. f (s\<lparr>task_sc := x\<rparr>) = f s)
   \<and> (\<forall>s x. f (s\<lparr>tskq_wakeups := x\<rparr>) = f s)"

lemma engine_part_ran: "engine_part E P (ran E)"
  by (simp add: engine_part_def ran_def)

lemma engine_part_loaded: "engine_part E P (loaded E)"
  by (simp add: engine_part_def loaded_def)

lemmas structural = keeps_return keeps_get keeps_bind keeps_chk keeps_if keeps_sum keeps_option
  keeps_prod keeps_let

lemma quiet_bus:
  assumes "engine_part E P f" "engine_io E P"
  shows "keeps f (READ4 P r)" "\<not> starts r v \<Longrightarrow> keeps f (WRITE4 P r v)"
proof -
  from assms have f: "f (s\<lparr>hw := h\<rparr>) = f s" if "e_ran E h = e_ran E (hw s)" "e_kva E h = e_kva E (hw s)" for s h
    using that by (simp add: engine_part_def)
  show "keeps f (READ4 P r)" using assms(2)
    by (auto simp: keeps_def READ4_def bus_space_read_4_def engine_io_def case_prod_beta intro!: f)
  show "\<not> starts r v \<Longrightarrow> keeps f (WRITE4 P r v)" using assms(2)
    by (auto simp: keeps_def WRITE4_def bus_space_write_4_def engine_io_def intro!: f)
qed

lemma quiet_delay:
  "engine_part E P f \<Longrightarrow> engine_io E P \<Longrightarrow> keeps f (delay P n)"
  "engine_part E P f \<Longrightarrow> keeps f splbio" "engine_part E P f \<Longrightarrow> keeps f splx"
  by (simp_all add: keeps_def delay_def engine_part_def engine_io_def)

lemma not_starts: "r \<noteq> RTSX_HCBCTLR \<Longrightarrow> \<not> starts r v" "\<not> starts RTSX_HCBCTLR RTSX_STOP_CMD"
  by (simp_all add: starts_def isset_def)

lemma quiet_rtsx:
  assumes "engine_part E P f" "engine_io E P"
  shows "keeps f (rtsx_read P reg)" "keeps f (rtsx_write P reg m v)"
proof -
  note q = quiet_bus [OF assms]
  have "keeps f (haimr_poll n P x)" for n x
    by (induction n arbitrary: x) (auto intro!: q structural)
  then show "keeps f (rtsx_read P reg)" unfolding rtsx_read_def by (intro q structural) (simp_all add: not_starts)
  have "keeps f (haimr_write_poll n P v)" for n
    by (induction n) (auto intro!: q structural)
  then show "keeps f (rtsx_write P reg m v)" unfolding rtsx_write_def by (intro q structural) (simp_all add: not_starts)
qed

lemma quiet_led:
  assumes "engine_part E P f" "engine_io E P"
  shows "keeps f (rtsx_led_enable P)" "keeps f (rtsx_led_disable P)" "keeps f (rtsx_soft_reset P)"
  unfolding rtsx_led_enable_def rtsx_led_disable_def rtsx_soft_reset_def RTSX_CLR_def RTSX_WRITE_def RTSX_SET_def
  by (intro structural steps_keeps_list run_all_keeps_list quiet_bus [OF assms] quiet_rtsx [OF assms];
      simp add: quiet_rtsx [OF assms] not_starts)+

lemma quiet_intr:
  assumes "engine_part E P f" "engine_io E P"
  shows "keeps f (rtsx_intr P)"
proof -
  have m: "keeps f (modify (\<lambda>s. s\<lparr>rflags := g (rflags s)\<rparr>))" "keeps f (modify (\<lambda>s. s\<lparr>intr_status := g (intr_status s)\<rparr>))" for g
    using assms(1) by (simp_all add: engine_part_def keeps_def)
  have "keeps f sdmmc_needs_discover" using assms(1)
    by (simp add: engine_part_def keeps_def sdmmc_needs_discover_def sdmmc_add_task_def)
  then show ?thesis
    unfolding rtsx_intr_def intr_card_def rtsx_card_insert_def rtsx_card_eject_def
    by (intro structural m quiet_bus [OF assms] quiet_led [OF assms]) (simp_all add: not_starts)
qed

lemma quiet_wait:
  assumes "engine_part E P f" "engine_io E P"
  shows "keeps f (rtsx_wait_intr P m secs)"
proof -
  note i = keepsD [OF quiet_intr [OF assms]]
  have sl: "keeps f (tsleep_nsec P (rtsx_intr P) ns)" for ns
  proof (rule keepsI)
    fix s
    show "f (snd (run_state (tsleep_nsec P (rtsx_intr P) ns) s)) = f s"
    proof -
      have up: "f (s\<lparr>slept := a, sched := b, hw := io_idle P (hw s)\<rparr>) = f s" for a b
        using assms by (simp add: engine_part_def engine_io_def)
      have d: "f (s\<lparr>spl_depth := d\<rparr>) = f s" for s d using assms(1) by (simp add: engine_part_def)
      have dl: "f (snd (run_state (IOSleep P 1) s)) = f s"
        unfolding IOSleep_def by (rule keepsD [OF quiet_delay(1) [OF assms]])
      show ?thesis
        using i up d dl by (auto simp: tsleep_nsec_def case_prod_beta split: list.split sleep_event.split)
    qed
  qed
  have lp: "keeps f (wait_loop n P k ns st)" for n k ns st
    by (induction n arbitrary: st) (auto intro!: structural sl quiet_led [OF assms])
  have m: "keeps f (modify (\<lambda>s. s\<lparr>intr_status := g (intr_status s)\<rparr>))" for g
    using assms(1) by (simp add: engine_part_def keeps_def)
  show ?thesis unfolding rtsx_wait_intr_def
    by (intro structural m lp quiet_delay [OF assms(1)])
qed

lemma ran_update [simp]:
  "ran E (s\<lparr>va_list := a\<rparr>) = ran E s" "ran E (s\<lparr>seg_arrays := b\<rparr>) = ran E s"
  "ran E (s\<lparr>seg_oob := c\<rparr>) = ran E s" "ran E (s\<lparr>dmamaps := d\<rparr>) = ran E s"
  by (simp_all add: ran_def)

lemma ran_hw:
  "(\<And>h. e_ran E (snd (g h)) = e_ran E h) \<Longrightarrow> keeps (ran E) (call_hw g)"
  "(\<And>h. e_ran E (k h) = e_ran E h) \<Longrightarrow> keeps (ran E) (exec_hw k)"
  by (simp_all add: keeps_def ran_def run_call_hw exec_hw_def)

lemma ran_segs:
  "keeps (ran E) (put_seg a i f)" "keeps (ran E) (put_map_seg m i x l)"
  "keeps (ran E) (finish_load m n k md mm)" "keeps (ran E) (local_segs a)"
  by (auto simp: keeps_def put_seg_def put_map_seg_def finish_load_def local_segs_def split: option.split)

text \<open>The DMA layer never starts the engine.\<close>

lemma ran_dmamem:
  assumes "engine_laws E P"
  shows "keeps (ran E) (bus_dmamem_alloc P sz segs n)" "keeps (ran E) (bus_dmamem_free P segs)"
    "keeps (ran E) (bus_dmamem_map P segs)" "keeps (ran E) (bus_dmamem_unmap P kva)"
proof -
  note d = engine_lawsD(3) [OF assms, unfolded engine_dma_def]
  have al: "keeps (ran E) (alloc_loop k P md sz segs n off t i)" for k md off t i
    by (induction k arbitrary: off t i) (use d in \<open>auto intro!: structural ran_hw ran_segs\<close>)
  show "keeps (ran E) (bus_dmamem_alloc P sz segs n)" unfolding bus_dmamem_alloc_def
    by (intro structural al ran_hw ran_segs) (use d in auto)
  show "keeps (ran E) (bus_dmamem_free P segs)" unfolding bus_dmamem_free_def
    by (intro structural ran_hw ran_segs) (use d in auto)
  show "keeps (ran E) (bus_dmamem_map P segs)" unfolding bus_dmamem_map_def
    by (intro structural ran_hw ran_segs keepsI) (use d in \<open>auto split: prod.split\<close>)
  show "keeps (ran E) (bus_dmamem_unmap P kva)" unfolding bus_dmamem_unmap_def
    by (intro structural ran_hw ran_segs keeps_modify) (use d in auto)
qed

lemma ran_dmamap:
  assumes "engine_laws E P"
  shows "keeps (ran E) (bus_dmamap_load P p buf len)" "keeps (ran E) (bus_dmamap_unload P p)"
    "keeps (ran E) bus_dmamap_sync"
proof -
  note d = engine_lawsD(3) [OF assms, unfolded engine_dma_def]
  have ll: "keeps (ran E) (load_loop k P p c len off i)" for k c off i
    by (induction k arbitrary: off i) (use d in \<open>auto intro!: structural ran_hw ran_segs\<close>)
  show "keeps (ran E) (bus_dmamap_load P p buf len)" unfolding bus_dmamap_load_def
    by (intro structural ll ran_hw ran_segs) (use d in auto)
  show "keeps (ran E) (bus_dmamap_unload P p)" unfolding bus_dmamap_unload_def
    by (intro structural ran_hw keeps_modify) (use d in auto)
  show "keeps (ran E) bus_dmamap_sync" by (simp add: bus_dmamap_sync_def structural)
qed

lemma ran_transfer:
  assumes "engine_laws E P"
  shows "keeps (ran E) (rtsx_xfer_bounce P cmd)" "keeps (ran E) (rtsx_xfer_adma P cmd)"
proof -
  note io = engine_lawsD(1) [OF assms]
  note m = engine_lawsD(2) [OF assms, unfolded engine_mem_def]
  have x: "keeps (ran E) (rtsx_xfer_exec P dm fl)" for dm fl unfolding rtsx_xfer_exec_def
    by (intro structural quiet_delay [OF engine_part_ran] quiet_bus [OF engine_part_ran io]
          quiet_wait [OF engine_part_ran io]) (simp_all add: not_starts)
  have c: "keeps (ran E) (memcpy P a b n)" for a b n unfolding memcpy_def
    by (rule ran_hw) (use m in auto)
  have w: "keeps (ran E) (run_all (map (\<lambda>(i, d). exec_hw (\<lambda>h. km_write P h (g i) (k d))) ds))"
    for g :: "nat \<Rightarrow> u64" and k :: "u64 \<Rightarrow> u8 list" and ds
    by (rule run_all_keeps_list) (use m in \<open>auto simp: list_all_iff intro!: ran_hw\<close>)
  show "keeps (ran E) (rtsx_xfer_bounce P cmd)" unfolding rtsx_xfer_bounce_def Let_def
    by (intro structural c x ran_segs ran_dmamem [OF assms] ran_dmamap [OF assms])
  show "keeps (ran E) (rtsx_xfer_adma P cmd)" unfolding rtsx_xfer_adma_def
    by (intro structural w x ran_dmamap [OF assms])
qed

section \<open>Storing and starting a queue\<close>

text \<open>\<open>resp_bytes\<close>, the bytes of a list of words, is also how a queue lies in memory.\<close>

definition holds_at :: "'h engine \<Rightarrow> ('h, 'z) rtsx_scheme \<Rightarrow> u64 \<Rightarrow> u8 list \<Rightarrow> bool" where
  "holds_at E s a bs \<longleftrightarrow> (\<forall>i < length bs. e_mem E (hw s) (a + of_nat i) = bs ! i)"

definition store_words :: "'h platform \<Rightarrow> u64 \<Rightarrow> u32 list \<Rightarrow> 'h \<Rightarrow> 'h" where
  "store_words P a ws = fold (\<lambda>(i, w) h. km_write P h (a + of_nat (4 * i)) (le_bytes 4 w)) (enumerate 0 ws)"

lemma run_exec_hws:
  "run_state (run_all (map (\<lambda>(i, w). exec_hw (g i w)) xs)) s = ((), s\<lparr>hw := fold (\<lambda>(i, w). g i w) xs (hw s)\<rparr>)"
  by (induction xs arbitrary: s) (auto simp: exec_hw_def)

lemma run_store: "run_state (store_cmdbuf P a ws) s = ((), s\<lparr>hw := store_words P a ws (hw s)\<rparr>)"
  unfolding store_cmdbuf_def store_words_def by (rule run_exec_hws)

lemma store_words_snoc:
  "store_words P a (ws @ [w]) h = km_write P (store_words P a ws h) (a + of_nat (4 * length ws)) (le_bytes 4 w)"
  by (simp add: store_words_def enumerate_append_eq)

lemma resp_bytes_snoc: "resp_bytes (ws @ [w]) = resp_bytes ws @ le_bytes 4 w"
  by (simp add: resp_bytes_def)

lemma offsets_differ:
  assumes "i < k" "k + 4 < 2 ^ 64" "j < 4"
  shows "(a :: u64) + of_nat i \<noteq> a + of_nat k + of_nat j"
proof
  assume "a + of_nat i = a + of_nat k + of_nat j"
  then have "(of_nat i :: u64) = of_nat (k + j)" by (simp add: algebra_simps)
  then have "unat (of_nat i :: u64) = unat (of_nat (k + j) :: u64)" by simp
  then have "i = k + j" using assms by (simp add: unat_of_nat take_bit_nat_eq_self del: of_nat_add)
  with assms show False by simp
qed

lemma store_words_mem:
  assumes "engine_mem E P" "4 * length ws + 4 < 2 ^ 64"
  shows "(\<forall>i < 4 * length ws. e_mem E (store_words P a ws h) (a + of_nat i) = resp_bytes ws ! i)
    \<and> e_ran E (store_words P a ws h) = e_ran E h \<and> e_kva E (store_words P a ws h) = e_kva E h
    \<and> e_base E (store_words P a ws h) = e_base E h"
  using assms(2)
proof (induction ws rule: rev_induct)
  case Nil
  then show ?case by (simp add: store_words_def)
next
  case (snoc w ws)
  let ?h = "store_words P a ws h" and ?a = "a + of_nat (4 * length ws)"
  note m = assms(1) [unfolded engine_mem_def, rule_format]
  have len: "length (le_bytes 4 w) = 4" by (simp add: le_bytes_def)
  have new: "e_mem E (km_write P ?h ?a (le_bytes 4 w)) (?a + of_nat j) = le_bytes 4 w ! j" if "j < 4" for j
    using m [of "le_bytes 4 w" ?h ?a] that len by auto
  have old: "e_mem E (km_write P ?h ?a (le_bytes 4 w)) (a + of_nat i) = e_mem E ?h (a + of_nat i)" if "i < 4 * length ws" for i
    using m [of "le_bytes 4 w" ?h ?a] offsets_differ [OF that] snoc.prems len by auto
  have "e_mem E (store_words P a (ws @ [w]) h) (a + of_nat i) = resp_bytes (ws @ [w]) ! i" if "i < 4 * length (ws @ [w])" for i
  proof (cases "i < 4 * length ws")
    case True
    then show ?thesis using snoc old by (simp add: store_words_snoc resp_bytes_snoc nth_append)
  next
    case False
    then have j: "i = 4 * length ws + (i - 4 * length ws)" "i - 4 * length ws < 4" using that by auto
    define k where "k = i - 4 * length ws"
    with j have k: "i = 4 * length ws + k" "k < 4" by simp_all
    show ?thesis using new [OF k(2)] by (simp add: k(1) store_words_snoc resp_bytes_snoc nth_append add.assoc)
  qed
  then show ?case using snoc m [of "le_bytes 4 w" ?h ?a] by (simp add: store_words_snoc)
qed

lemma store_holds:
  assumes "engine_laws E P" "length q \<le> RTSX_HOSTCMD_MAX"
  shows "holds_at E (snd (run_state (store_cmdbuf P a q) s)) a (resp_bytes q)"
    "loaded E (snd (run_state (store_cmdbuf P a q) s)) = loaded E s"
  using store_words_mem [OF engine_lawsD(2) [OF assms(1)], of q a "hw s"] assms(2)
  by (simp_all add: run_store holds_at_def loaded_def)

text \<open>The value written to start the engine: the length of the queue and the start bit.\<close>

lemma start_value:
  assumes "n \<le> RTSX_HOSTCMD_MAX"
  defines "v \<equiv> (of_nat (n * 4) AND 0x00ffffff) OR RTSX_START_CMD OR RTSX_HW_AUTO_RSP :: u32"
  shows "starts RTSX_HCBCTLR v" "unat (v AND 0x00ffffff) = 4 * n"
proof -
  have "v AND RTSX_START_CMD = RTSX_START_CMD"
    by (simp add: v_def bit.conj_disj_distrib2 and.assoc)
  then show "starts RTSX_HCBCTLR v" by (simp add: starts_def isset_def)
  have "v AND 0x00ffffff = of_nat (n * 4) AND 0x00ffffff"
    by (simp add: v_def bit.conj_disj_distrib2 and.assoc)
  moreover have "x AND 0x00ffffff = take_bit 24 x" for x :: u32
    by (simp add: take_bit_eq_mask mask_eq_exp_minus_1)
  ultimately have "v AND 0x00ffffff = take_bit 24 (of_nat (n * 4))" by simp
  then show "unat (v AND 0x00ffffff) = 4 * n"
    using assms(1) by (simp add: unsigned_take_bit_eq unat_of_nat take_bit_nat_eq_self del: of_nat_mult)
qed

text \<open>The command map points at the command buffer at \<open>kva\<close>.\<close>

definition ready :: "'h engine \<Rightarrow> u64 \<Rightarrow> ('h, 'z) rtsx_scheme \<Rightarrow> bool" where
  "ready E kva s \<longleftrightarrow> ioh s \<noteq> 0 \<and> e_kva E (hw s) (map_addr s (dmap_cmd s)) = kva"

lemma ready_loaded: "loaded E s' = loaded E s \<Longrightarrow> ready E kva s' = ready E kva s"
  by (simp add: loaded_def ready_def map_addr_def)

lemma send_runs:
  assumes laws: "engine_laws E P" and q: "length q \<le> RTSX_HOSTCMD_MAX" and rd: "ready E kva s"
    and mem: "holds_at E s kva (resp_bytes q)" and run: "run_state (rtsx_hostcmd_send P (length q)) s = (r, s')"
  shows "r = OK \<and> ran E s' = ran E s @ [resp_bytes q] \<and> ready E kva s'"
proof -
  note io = engine_lawsD(1) [OF laws, unfolded engine_io_def]
  let ?a = "map_addr s (dmap_cmd s)" and ?v = "(of_nat (length q * 4) AND 0x00ffffff) OR RTSX_START_CMD OR RTSX_HW_AUTO_RSP :: u32"
  let ?h1 = "io_write4 P (hw s) (ioh s) RTSX_HCBAR ?a"
  let ?h2 = "io_write4 P ?h1 (ioh s) RTSX_HCBCTLR ?v"
  have b: "ioh s \<noteq> 0" and kva: "e_kva E (hw s) ?a = kva" using rd by (simp_all add: ready_def)
  have s': "r = OK" "hw s' = ?h2" "dmamaps s' = dmamaps s" "dmap_cmd s' = dmap_cmd s" "ioh s' = ioh s"
    using run b by (auto simp: rtsx_hostcmd_send_def WRITE4_def bus_space_write_4_def map_addr_def)
  have h1: "e_bar E ?h1 = ?a" "e_mem E ?h1 = e_mem E (hw s)" "e_kva E ?h1 = e_kva E (hw s)" "e_ran E ?h1 = e_ran E (hw s)"
    using io by (auto simp: not_starts)
  have "e_ran E ?h2 = e_ran E (hw s) @ [fetched E ?h1 ?v]"
    using io start_value(1) [OF q] h1 by auto
  moreover have "fetched E ?h1 ?v = map (\<lambda>i. e_mem E (hw s) (kva + of_nat i)) [0..<4 * length q]"
    unfolding fetched_def start_value(2) [OF q] by (simp add: h1 kva)
  then have "fetched E ?h1 ?v = resp_bytes q"
    using mem by (auto simp: holds_at_def intro!: nth_equalityI)
  moreover have "e_kva E ?h2 = e_kva E (hw s)" using io h1 by auto
  ultimately show ?thesis using s' b kva by (simp add: ran_def ready_def map_addr_def)
qed

text \<open>The map of the command buffer, as \<open>rtsx_attach\<close> creates it: one segment.\<close>

definition cmd_map :: "('h, 'z) rtsx_scheme \<Rightarrow> bool" where
  "cmd_map s \<longleftrightarrow> (case dmamaps s (dmap_cmd s) of
     None \<Rightarrow> False | Some dm \<Rightarrow> dmm_segcnt dm = 1 \<and> length (dm_segs dm) = 1)"

lemma load_ready:
  assumes laws: "engine_laws E P" and cm: "cmd_map s" and b: "ioh s \<noteq> 0"
    and va: "getValueFromList kva (va_list s) = Some segs" "e_base E (hw s) (ds_memDesc (seg_at s segs 0)) = kva"
    and n: "n \<noteq> 0" and run: "run_state (bus_dmamap_load P (dmap_cmd s) kva n) s = (Inr u, s')"
  shows "ready E kva s' \<and> e_mem E (hw s') = e_mem E (hw s)"
proof -
  note d = engine_lawsD(3) [OF laws, unfolded engine_dma_def]
  obtain dm g where dm: "dmamaps s (dmap_cmd s) = Some dm" "dmm_segcnt dm = Suc 0" "dm_segs dm = [g]"
    using cm by (auto simp: cmd_map_def length_Suc_conv split: option.splits)
  have pos: "0 < n" using n by (simp add: word_gt_0)
  let ?md = "ds_memDesc (seg_at s segs 0)"
  let ?set = "dc_set P (hw s) (dmm_command dm) ?md"
  let ?gen = "dc_gen P (snd ?set) (dmm_command dm) 0"
  obtain e o' a l h2 where gen: "?gen = ((e, o', a, l), h2)" by (metis surj_pair)
  have uu: "ucast (ucast a :: u64) = a" by (rule ucast_ucast_up) simp
  from run va(1) dm pos gen
  have g: "fst ?set = 0" "e = 0" "hw s' = h2" "map_addr s' (dmap_cmd s') = a" "ioh s' = ioh s"
    by (auto simp: bus_dmamap_load_def run_call_hw put_map_seg_def finish_load_def map_addr_def uu
        split: if_splits prod.splits)
  then show ?thesis using d va(2) b gen unfolding ready_def by (metis snd_conv)
qed

lemma map_fresh:
  assumes laws: "engine_laws E P" and seg: "seg_arrays s segs \<noteq> []" and inv: "dict_inv (va_list s)"
    and used: "dom (dict_map (va_list s)) \<subseteq> e_used E (hw s)"
    and run: "run_state (bus_dmamem_map P segs) s = (Inr kva, s')"
  shows "getValueFromList kva (va_list s') = Some segs \<and> e_base E (hw s') (ds_memDesc (seg_at s' segs 0)) = kva
    \<and> dmamaps s' = dmamaps s \<and> dmap_cmd s' = dmap_cmd s \<and> ioh s' = ioh s"
proof -
  note d = engine_lawsD(3) [OF laws, unfolded engine_dma_def]
  note m = bus_dmamem_map_Inr [OF run seg]
  let ?md = "ds_memDesc (seg_at s segs 0)"
  let ?map = "md_map P (hw s) ?md"
  have r: "fst ?map \<noteq> 0" "kva = mm_address P (snd ?map) (fst ?map)" "hw s' = snd ?map"
    "ds_memDesc (seg_at s' segs 0) = ?md" "dmamaps s' = dmamaps s" "dmap_cmd s' = dmap_cmd s" "ioh s' = ioh s"
    using run seg by (auto simp: bus_dmamem_map_def run_call_hw run_put_seg seg_at_def split: if_splits prod.splits)
  have k: "dict_key kva" "kva \<notin> e_used E (hw s)" "e_base E (hw s') ?md = kva" using d r by auto
  then have none: "dict_map (va_list s) kva = None" using used by auto
  have "getValueFromList kva (va_list s') = Some segs"
    using m va_segs.get_after_add [OF inv k(1) k(1) none, of segs] by simp
  then show ?thesis using r k by simp
qed

lemma alloc_single:
  assumes laws: "engine_laws E P" and seg: "seg_arrays s segs \<noteq> []"
    and run: "run_state (bus_dmamem_alloc P n segs 1) s = (Inr k, s')"
  shows "seg_arrays s' segs \<noteq> [] \<and> va_list s' = va_list s \<and> e_used E (hw s') = e_used E (hw s)
    \<and> dmamaps s' = dmamaps s \<and> dmap_cmd s' = dmap_cmd s \<and> ioh s' = ioh s"
  using run seg engine_lawsD(3) [OF laws, unfolded engine_dma_def]
  by (auto simp: bus_dmamem_alloc_def run_call_hw run_put_seg exec_hw_def split: if_splits prod.splits)

section \<open>A command and its queues\<close>

text \<open>The queues of a command: the one that sends it, and one for its data if it has any.\<close>

definition command_queues :: "sdmmc_command \<Rightarrow> u8 list list" where
  "command_queues cmd = resp_bytes (exec_queue (rtsx_response_type (c_flags cmd AND 0xff00)) cmd)
     # (if c_data cmd = 0 then [] else [resp_bytes (xfer_queue cmd)])"

text \<open>\<open>runs E qs ok s s'\<close>: between \<open>s\<close> and \<open>s'\<close> the engine ran a prefix of \<open>qs\<close>, and all of it if \<open>ok\<close>.\<close>

definition runs :: "'h engine \<Rightarrow> u8 list list \<Rightarrow> bool \<Rightarrow> ('h, 'z) rtsx_scheme \<Rightarrow> ('h, 'z) rtsx_scheme \<Rightarrow> bool" where
  "runs E qs ok s s' \<longleftrightarrow> (\<exists>n \<le> length qs. ran E s' = ran E s @ take n qs \<and> (ok \<longrightarrow> n = length qs))"

lemma runs_none: "ran E s' = ran E s \<Longrightarrow> \<not> ok \<Longrightarrow> runs E qs ok s s'"
  by (auto simp: runs_def intro: exI [of _ 0])

lemma runs_all: "ran E s' = ran E s @ qs \<Longrightarrow> runs E qs ok s s'"
  by (auto simp: runs_def intro: exI [of _ "length qs"])

lemma runs_one: "ran E s' = ran E s @ [q] \<Longrightarrow> \<not> ok \<Longrightarrow> runs E (q # qs) ok s s'"
  by (auto simp: runs_def intro: exI [of _ 1])

lemma runs_Cons: "ran E s1 = ran E s @ [q] \<Longrightarrow> runs E qs ok s1 s' \<Longrightarrow> runs E (q # qs) ok s s'"
  unfolding runs_def by (metis Suc_le_mono append.assoc append_Cons append_Nil length_Cons take_Suc_Cons)

lemma runs_then: "runs E qs ok s s' \<Longrightarrow> ran E s'' = ran E s' \<Longrightarrow> runs E qs ok s s''"
  and runs_since: "runs E qs ok s s' \<Longrightarrow> ran E s0 = ran E s \<Longrightarrow> runs E qs ok s0 s'"
  by (simp_all add: runs_def)

lemma xfer_runs:
  assumes laws: "engine_laws E P" and rd: "ready E kva s" and run: "run_state (rtsx_xfer P cmd kva) s = (x, s')"
  shows "runs E [resp_bytes (xfer_queue cmd)] (x = OK) s s'"
proof (cases "c_datalen cmd > MAXPHYS P")
  case True
  then show ?thesis using run by (auto simp: rtsx_xfer_def intro: runs_none)
next
  case False
  let ?q = "xfer_queue cmd" and ?s1 = "snd (run_state (store_cmdbuf P kva (xfer_queue cmd)) s)"
  have len: "length ?q \<le> RTSX_HOSTCMD_MAX" using queue_lengths by simp
  note st = store_holds [OF laws len, of kva s]
  obtain r s2 where send: "run_state (rtsx_hostcmd_send P (length ?q)) ?s1 = (r, s2)" by force
  have rd1: "ready E kva ?s1" using rd ready_loaded [OF st(2)] by simp
  have "ran E ?s1 = ran E s" using st(2) by (simp add: loaded_def ran_def)
  with send_runs [OF laws len rd1 st(1) send] have s2: "r = OK" "ran E s2 = ran E s @ [resp_bytes ?q]" by simp_all
  let ?m = "if c_dmamap cmd \<noteq> 0 then rtsx_xfer_adma P cmd else rtsx_xfer_bounce P cmd"
  have "(x, s') = run_state ?m s2" using run False send s2(1)
    by (auto simp: rtsx_xfer_def case_prod_beta split: if_splits)
  moreover have "keeps (ran E) ?m" by (intro structural ran_transfer [OF laws])
  ultimately have "ran E s' = ran E s2" by (metis keepsD snd_conv)
  with s2 show ?thesis by (intro runs_all) simp
qed

lemma exec_run_runs:
  assumes laws: "engine_laws E P" and rd: "ready E kva s" and q: "length q \<le> RTSX_HOSTCMD_MAX"
    and mem: "holds_at E s kva (resp_bytes q)" and run: "run_state (exec_run P kva (length q) cmd) s = ((c, e), s')"
  shows "runs E (resp_bytes q # (if c_data cmd = 0 then [] else [resp_bytes (xfer_queue cmd)])) (e = OK) s s'"
proof -
  note io = engine_lawsD(1) [OF laws]
  obtain r s1 where send: "run_state (rtsx_hostcmd_send P (length q)) s = (r, s1)" by force
  note sr = send_runs [OF laws q rd mem send]
  obtain w s2 where wait: "run_state (rtsx_wait_intr P RTSX_TRANS_OK_INT 1) s1 = (w, s2)" by force
  have l2: "loaded E s2 = loaded E s1" using keepsD [OF quiet_wait [OF engine_part_loaded io]] wait by (metis snd_conv)
  then have r2: "ran E s2 = ran E s @ [resp_bytes q]" using sr by (simp add: loaded_def ran_def)
  have rd2: "ready E kva s2" using sr ready_loaded [OF l2] by simp
  show ?thesis
  proof (cases "w = OK \<and> c_data cmd \<noteq> 0")
    case False
    then show ?thesis using run send sr wait r2
      by (auto simp: exec_run_def bus_dmamap_sync_def split: sum.splits intro: runs_one runs_all)
  next
    case True
    obtain x s3 where xf: "run_state (rtsx_xfer P cmd kva) s2 = (x, s3)" by force
    let ?err = "do { _ \<leftarrow> rtsx_read P RTSX_SD_STAT1; ml \<leftarrow> fetch mimic_linux; (if ml then rtsx_soft_reset P else ret ()) }"
    have k: "keeps (ran E) ?err"
      by (intro structural quiet_rtsx [OF engine_part_ran io] quiet_led [OF engine_part_ran io])
    have "e = x \<and> (s' = s3 \<or> s' = snd (run_state ?err s3))"
      using run send sr wait True xf by (auto simp: exec_run_def bus_dmamap_sync_def case_prod_beta split: sum.splits)
    then have "e = x" "ran E s' = ran E s3" using keepsD [OF k, of s3] by auto
    with xfer_runs [OF laws rd2 xf] have "runs E [resp_bytes (xfer_queue cmd)] (e = OK) s2 s'" by (simp add: runs_def)
    then show ?thesis using True by (simp add: runs_Cons [OF r2])
  qed
qed

text \<open>
  A state of an attached controller: the command map is in place, and all addresses in the table of
  mapped buffers are in use.
\<close>

definition attached :: "'h engine \<Rightarrow> ('h, 'z) rtsx_scheme \<Rightarrow> bool" where
  "attached E s \<longleftrightarrow> cmd_map s \<and> ioh s \<noteq> 0 \<and> dict_inv (va_list s) \<and> dom (dict_map (va_list s)) \<subseteq> e_used E (hw s)"

lemma mapped_runs:
  fixes s :: "('h, 'z) rtsx_scheme"
  assumes laws: "engine_laws E P" and cm: "cmd_map s" and b: "ioh s \<noteq> 0"
    and va: "getValueFromList kva (va_list s) = Some segs" "e_base E (hw s) (ds_memDesc (seg_at s segs 0)) = kva"
    and q: "length q \<le> RTSX_HOSTCMD_MAX" and run: "run_state (exec_mapped P kva q cmd) s = ((c, e), s')"
  shows "runs E (resp_bytes q # (if c_data cmd = 0 then [] else [resp_bytes (xfer_queue cmd)])) (e = OK) s s'"
proof -
  let ?s1 = "s\<lparr>hw := store_words P kva q (hw s)\<rparr>"
  note sw = store_words_mem [OF engine_lawsD(2) [OF laws], of q kva "hw s"]
  have h1: "holds_at E ?s1 kva (resp_bytes q)" "ran E ?s1 = ran E s" "e_base E (hw ?s1) = e_base E (hw s)"
    using sw q by (simp_all add: holds_at_def ran_def)
  obtain l s2 where ld: "run_state (bus_dmamap_load P (dmap_cmd s) kva (of_nat RTSX_HOSTCMD_BUFSIZE)) ?s1 = (l, s2)" by force
  have r2: "ran E s2 = ran E s" using keepsD [OF ran_dmamap(1) [OF laws]] ld h1(2) by (metis snd_conv)
  have un: "keeps (ran E) (bus_dmamem_unmap P kva :: (('h, 'z) rtsx_scheme, unit) state)"
    "keeps (ran E) (bus_dmamap_unload P p :: (('h, 'z) rtsx_scheme, unit) state)" for p
    by (rule ran_dmamem [OF laws] ran_dmamap [OF laws])+
  show ?thesis
  proof (cases l)
    case (Inl x)
    then have "\<not> e = OK" "ran E s' = ran E s2" using run ld keepsD [OF un(1), of s2]
      by (auto simp: exec_mapped_def run_store case_prod_beta)
    then show ?thesis using r2 by (intro runs_none) simp_all
  next
    case (Inr u)
    have "cmd_map ?s1" "getValueFromList kva (va_list ?s1) = Some segs" "ioh ?s1 \<noteq> 0"
      "e_base E (hw ?s1) (ds_memDesc (seg_at ?s1 segs 0)) = kva"
      using cm va b h1(3) by (auto simp: cmd_map_def seg_at_def)
    with load_ready [OF laws, of ?s1 kva segs "of_nat RTSX_HOSTCMD_BUFSIZE" u s2] ld Inr
    have rd: "ready E kva s2" "e_mem E (hw s2) = e_mem E (hw ?s1)" by simp_all
    then have mem: "holds_at E s2 kva (resp_bytes q)" using h1(1) by (simp add: holds_at_def)
    obtain c1 e1 s3 where ex: "run_state (exec_run P kva (length q) cmd) s2 = ((c1, e1), s3)" by (metis surj_pair)
    have "e = e1" and "ran E s' = ran E s3"
      using run ld Inr ex keepsD [OF un(1)] keepsD [OF un(2)]
      by (auto simp: exec_mapped_def run_store bus_dmamap_sync_def case_prod_beta)
    with exec_run_runs [OF laws rd(1) q mem ex] r2 show ?thesis by (auto simp: runs_def)
  qed
qed

lemma command_runs:
  fixes s :: "('h, 'z) rtsx_scheme"
  assumes laws: "engine_laws E P" and at: "attached E s" and run: "run_state (rtsx_exec_command P cmd) s = (c, s')"
  shows "runs E (command_queues cmd) (c_error c = OK) s s'"
proof -
  let ?t = "rtsx_response_type (c_flags cmd AND 0xff00)" and ?s0 = "s\<lparr>seg_arrays := (seg_arrays s)(cmd_segs := [zero_segment])\<rparr>"
  have q: "length (exec_queue ?t cmd) \<le> RTSX_HOSTCMD_MAX" using queue_lengths by simp
  obtain a s1 where al: "run_state (bus_dmamem_alloc P (of_nat RTSX_HOSTCMD_BUFSIZE) cmd_segs 1) ?s0 = (a, s1)" by force
  obtain m s2 where mp: "run_state (bus_dmamem_map P cmd_segs) s1 = (m, s2)" by force
  have r1: "ran E s1 = ran E s" using keepsD [OF ran_dmamem(1) [OF laws]] al by (metis snd_conv ran_update(2))
  have r2: "ran E s2 = ran E s" using keepsD [OF ran_dmamem(3) [OF laws]] mp r1 by (metis snd_conv)
  have fr: "keeps (ran E) (bus_dmamem_free P cmd_segs :: (('h, 'z) rtsx_scheme, unit) state)" by (rule ran_dmamem [OF laws])
  let ?refused = "c_opcode cmd = SD_IO_SEND_OP_COND \<and> \<not> isset (rflags s) RTSX_F_SDIO_SUPPORT \<or> ?t = 0"
  have early: "c_error c \<noteq> OK \<and> ran E s' = ran E s" if "?refused \<or> (\<exists>x. a = Inl x) \<or> (\<exists>x. m = Inl x)"
    using that run al mp r1 r2 keepsD [OF fr]
    by (cases ?refused; cases a; cases m)
       (auto simp: rtsx_exec_command_def local_segs_def case_prod_beta Let_def split: if_splits)
  show ?thesis
  proof (cases "?refused \<or> (\<exists>x. a = Inl x) \<or> (\<exists>x. m = Inl x)")
    case True
    then show ?thesis using early by (intro runs_none) simp_all
  next
    case False
    then obtain k kva where "\<not> ?refused" "a = Inr k" "m = Inr kva" by (metis sum.exhaust_sel)
    note ok = this
    obtain c1 e1 s3 where ex: "run_state (exec_mapped P kva (exec_queue ?t cmd) cmd) s2 = ((c1, e1), s3)" by (metis surj_pair)
    have e1: "c_error c = e1" "ran E s' = ran E s3"
      using run al mp ok ex keepsD [OF fr]
      by (auto simp: rtsx_exec_command_def local_segs_def case_prod_beta Let_def split: if_splits)
    have s1: "seg_arrays s1 cmd_segs \<noteq> []" "va_list s1 = va_list s" "e_used E (hw s1) = e_used E (hw s)"
      "dmamaps s1 = dmamaps s" "dmap_cmd s1 = dmap_cmd s" "ioh s1 = ioh s"
      using alloc_single [OF laws _ al [unfolded ok(2)]] by simp_all
    have "dict_inv (va_list s1)" "dom (dict_map (va_list s1)) \<subseteq> e_used E (hw s1)"
      using at s1 by (simp_all add: attached_def)
    from map_fresh [OF laws s1(1) this mp [unfolded ok(3)]]
    have s2: "getValueFromList kva (va_list s2) = Some cmd_segs" "e_base E (hw s2) (ds_memDesc (seg_at s2 cmd_segs 0)) = kva"
      "dmamaps s2 = dmamaps s" "dmap_cmd s2 = dmap_cmd s" "ioh s2 = ioh s" using s1 by simp_all
    have "cmd_map s2" "ioh s2 \<noteq> 0" using at s2 by (simp_all add: attached_def cmd_map_def)
    from mapped_runs [OF laws this s2(1,2) q ex] e1 r2 show ?thesis
      unfolding command_queues_def runs_def by simp
  qed
qed

text \<open>
  C3: the engine is started on the queues of the command and on nothing else, in order, each once,
  and with the complete encoding of the command in the memory it fetches from; a command that
  succeeds has had all its queues run, a command that fails a prefix of them.
\<close>

theorem command_runs_its_queues:
  assumes "engine_laws E P" and "attached E s" and "run_state (rtsx_exec_command P cmd) s = (c, s')"
  shows "\<exists>n \<le> length (command_queues cmd). ran E s' = ran E s @ take n (command_queues cmd)
    \<and> (c_error c = OK \<longrightarrow> n = length (command_queues cmd))"
  using command_runs [OF assms] by (simp add: runs_def)

section \<open>A concrete engine\<close>

text \<open>
  A device whose memory is the list of the stores, latest first; a queue that was started is kept
  as that list, the address and the control word. Memory descriptors are named by their size, the
  last one that a DMA command was set to is kept. Every register reads as a finished transfer, every
  byte of memory as all ones.
\<close>

record dev =
  d_stores :: "(u64 \<times> u8 list) list"
  d_bar :: u32
  d_started :: "((u64 \<times> u8 list) list \<times> u64 \<times> u32) list"
  d_md :: u64

fun stored :: "(u64 \<times> u8 list) list \<Rightarrow> u64 \<Rightarrow> u8" where
  "stored [] x = 0"
| "stored ((a, bs) # ws) x = (if unat (x - a) < length bs then bs ! unat (x - a) else stored ws x)"

fun dev_queue :: "(u64 \<times> u8 list) list \<times> u64 \<times> u32 \<Rightarrow> u8 list" where
  "dev_queue (ws, a, v) = map (\<lambda>i. stored ws (a + of_nat i)) [0..<unat (v AND 0x00ffffff)]"

definition dev_address :: "u64 \<Rightarrow> u64" where
  "dev_address md = (if md = 1024 then 0x4000 else 0x8000)"

definition dev_write :: "dev \<Rightarrow> u64 \<Rightarrow> u32 \<Rightarrow> u32 \<Rightarrow> dev" where
  "dev_write h b r v =
     (if r = RTSX_HCBAR then h\<lparr>d_bar := v\<rparr>
      else if starts r v then h\<lparr>d_started := d_started h @ [(d_stores h, dev_address (d_md h), v)]\<rparr> else h)"

definition dev_read :: "nat \<Rightarrow> u8 list" where
  "dev_read n = replicate n 0xff"

definition dev_platform :: "dev platform" where
  "dev_platform = bare_platform\<lparr>
     io_read4 := (\<lambda>h _ _. (RTSX_TRANS_OK_INT, h)), io_write4 := dev_write,
     km_write := (\<lambda>h a bs. h\<lparr>d_stores := (a, bs) # d_stores h\<rparr>),
     km_read := (\<lambda>_ _ n. dev_read n),
     md_alloc := (\<lambda>h _ sz. (sz, h)), md_segment := (\<lambda>_ md _. (0x4000, md)), md_length := (\<lambda>_ md. md),
     md_map := (\<lambda>h md. (md, h)), mm_address := (\<lambda>_. dev_address),
     dc_set := (\<lambda>h _ md. (0, h\<lparr>d_md := md\<rparr>)),
     dc_gen := (\<lambda>h _ off. ((0, off + d_md h, 0x4000, ucast (d_md h)), h))\<rparr>"

definition dev_engine :: "dev engine" where
  "dev_engine = \<lparr>e_mem = (\<lambda>h. stored (d_stores h)), e_kva = (\<lambda>h _. dev_address (d_md h)), e_base = (\<lambda>_. dev_address),
     e_used = (\<lambda>_. {}), e_bar = d_bar, e_ran = (\<lambda>h. map dev_queue (d_started h))\<rparr>"

lemma dev_engine_laws: "engine_laws dev_engine dev_platform"
proof -
  have io: "engine_io dev_engine dev_platform"
    by (auto simp: engine_io_def dev_engine_def dev_platform_def bare_platform_def dev_write_def fetched_def
        starts_def)
  have mem: "engine_mem dev_engine dev_platform"
    unfolding engine_mem_def
  proof (intro allI conjI impI)
    fix h a and bs :: "u8 list" and i
    assume "length bs < 2 ^ 64" "i < length bs"
    then show "e_mem dev_engine (km_write dev_platform h a bs) (a + of_nat i) = bs ! i"
      by (simp add: dev_engine_def dev_platform_def unat_of_nat take_bit_nat_eq_self)
  next
    fix h and a x :: u64 and bs :: "u8 list"
    assume "\<forall>i<length bs. x \<noteq> a + of_nat i"
    moreover have "x = a + of_nat (unat (x - a))" by simp
    ultimately have "\<not> unat (x - a) < length bs" by metis
    then show "e_mem dev_engine (km_write dev_platform h a bs) x = e_mem dev_engine h x"
      by (simp add: dev_engine_def dev_platform_def)
  qed (simp_all add: dev_engine_def dev_platform_def)
  have "engine_dma dev_engine dev_platform"
    by (auto simp: engine_dma_def dev_engine_def dev_platform_def bare_platform_def dict_key_def dev_address_def)
  with io mem show ?thesis by (simp add: engine_laws_def)
qed

text \<open>The interrupt that ends the next wait.\<close>

lemma wait_interrupt:
  assumes "io_read4 P = (\<lambda>h _ _. (RTSX_TRANS_OK_INT, h))" "ioh s \<noteq> 0" "sched s = WakeIntr # es"
    and "rflags s = RTSX_F_CARD_PRESENT" "intr_status s = 0" "spl_depth s = 0"
  shows "run_state (rtsx_wait_intr P RTSX_TRANS_OK_INT secs) s = (OK, s\<lparr>sched := es,
     slept := intr_timeout_ns (mimic_linux s) (timeout_shift s) secs # slept s,
     hw := io_write4 P (io_idle P (hw s)) (ioh s) RTSX_BIPR RTSX_TRANS_OK_INT\<rparr>)"
  using assms
  by (cases s) (simp add: rtsx_wait_intr_def Let_def tsleep_nsec_def rtsx_intr_def READ4_def bus_space_read_4_def
       WRITE4_def bus_space_write_4_def intr_card_def isset_def setf_def clrf_def)

definition one_segment_map :: "u64 \<Rightarrow> dmamap" where
  "one_segment_map c = \<lparr>dmm_size = 1024, dmm_flags = 0, dmm_segcnt = 1, dmm_maxsegsz = 1024, dmm_boundary = 0,
     dmm_command = c, dm_mapsize = 0, dm_nsegs = 0, dm_segs = [zero_segment]\<rparr>"

definition dev_start :: dev where
  "dev_start = \<lparr>d_stores = [], d_bar = 0, d_started = [], d_md = 0\<rparr>"

definition dev_state :: "dev rtsx" where
  "dev_state = (rtsx_boot dev_start)
     \<lparr>rflags := RTSX_F_CARD_PRESENT, sched := [WakeIntr], dmap_cmd := 16,
      va_list := \<lparr>d_keys = [0, 0], d_vals = [0, 0]\<rparr>, dmamaps := [16 \<mapsto> one_segment_map 9]\<rparr>"

definition status_command :: sdmmc_command where
  "status_command = zero_command\<lparr>c_opcode := 13, c_arg := 0x12340000, c_flags := SCF_RSP_R1\<rparr>"

lemmas dev_ops = dev_platform_def bare_platform_def dev_address_def bus_dmamem_alloc_def call_hw_def put_seg_def
  exec_hw_def bus_dmamem_map_def seg_at_def zero_segment_def addToList_def getFreeSlot_def fillSlot_def
  getValueFromList_def findKey_def one_segment_map_def

lemma status_command_ok: "c_error (fst (run_state (rtsx_exec_command dev_platform status_command) dev_state)) = OK"
  by (simp add: rtsx_exec_command_def exec_mapped_def exec_run_def dev_state_def rtsx_boot_def status_command_def
        zero_command_def dev_ops local_segs_def rtsx_response_type_def response_types_def isset_def run_store
        bus_dmamap_load_def Let_def case_prod_beta)
     (simp add: put_map_seg_def finish_load_def bus_dmamap_sync_def rtsx_hostcmd_send_def WRITE4_def
        bus_space_write_4_def wait_interrupt isset_def case_prod_beta split del: if_split)

lemma dev_attached: "attached dev_engine dev_state"
  by (auto simp: attached_def cmd_map_def dev_engine_def dev_state_def rtsx_boot_def dict_inv_def dict_map_def
      getValueFromList_def findKey_def dict_key_def one_segment_map_def)

theorem command_runs_its_queues_witness:
  "ran dev_engine (snd (run_state (rtsx_exec_command dev_platform status_command) dev_state))
     = [resp_bytes (exec_queue RTSX_SD_RSP_TYPE_R1 status_command)]"
proof -
  have "ran dev_engine dev_state = []" by (simp add: ran_def dev_engine_def dev_state_def rtsx_boot_def dev_start_def)
  moreover have "command_queues status_command = [resp_bytes (exec_queue RTSX_SD_RSP_TYPE_R1 status_command)]"
    by (simp add: command_queues_def status_command_def zero_command_def rtsx_response_type_def response_types_def)
  ultimately show ?thesis
    using command_runs_its_queues [OF dev_engine_laws dev_attached surjective_pairing, of status_command]
      status_command_ok by auto
qed

end
