(* ===== verification/Wire.thy ===== *)
theory Wire
  imports Engine BlockIo
begin

text \<open>
  What a card is told when the memory layer moves blocks: the block transfer of sdmmc\_mem.c,
  through the functions of rtsx.c, to the registers that the queues of host commands program.
\<close>

section \<open>Reading a queue\<close>

text \<open>
  The words of a queue, little-endian, and the register write that a word stands for: the
  register index of 14 bits and the data byte.
\<close>

fun host_words :: "u8 list \<Rightarrow> u32 list" where
  "host_words (a # b # c # d # bs) = le_word [a, b, c, d] # host_words bs"
| "host_words _ = []"

definition host_write :: "u32 \<Rightarrow> (u16 \<times> u8) option" where
  "host_write w = (if ucast (drop_bit 30 w) = RTSX_WRITE_REG_CMD
     then Some (ucast (drop_bit 16 w) AND 0x3fff, ucast w) else None)"

text \<open>The byte that a queue leaves in a register, 0 if it does not write it.\<close>

definition reg_of :: "u8 list \<Rightarrow> u16 \<Rightarrow> u8" where
  "reg_of q r = (case map_of (rev (List.map_filter host_write (host_words q))) (r AND 0x3fff) of
     None \<Rightarrow> 0 | Some d \<Rightarrow> d)"

text \<open>
  The SD command that a queue has the controller send, and the size of the transfer that it
  programs. The argument goes out with its most significant byte first.
\<close>

definition sent_opcode :: "u8 list \<Rightarrow> u8" where
  "sent_opcode q = reg_of q RTSX_SD_CMD0 AND 0x3f"

definition sent_arg :: "u8 list \<Rightarrow> u32" where
  "sent_arg q = le_word (map (reg_of q) [RTSX_SD_CMD4, RTSX_SD_CMD3, RTSX_SD_CMD2, RTSX_SD_CMD1])"

definition moved_bytes :: "u8 list \<Rightarrow> int" where
  "moved_bytes q = uint (le_word (map (reg_of q) [RTSX_DMATC0, RTSX_DMATC1, RTSX_DMATC2, RTSX_DMATC3]) :: u32)"

definition block_bytes :: "u8 list \<Rightarrow> int" where
  "block_bytes q = uint (le_word (map (reg_of q) [RTSX_SD_BYTE_CNT_L, RTSX_SD_BYTE_CNT_H]) :: u16)"

definition block_count :: "u8 list \<Rightarrow> int" where
  "block_count q = uint (le_word (map (reg_of q) [RTSX_SD_BLOCK_CNT_L, RTSX_SD_BLOCK_CNT_H]) :: u16)"

lemma le_bytes_4: "le_bytes 4 (w :: u32) = [ucast w, ucast (drop_bit 8 w), ucast (drop_bit 16 w), ucast (drop_bit 24 w)]"
  by (simp add: le_bytes_def upt_rec)

lemma le_word_4: "le_word [ucast w, ucast (drop_bit 8 w), ucast (drop_bit 16 w), ucast (drop_bit 24 w)] = (w :: u32)"
proof (rule bit_word_eqI)
  fix n assume "n < LENGTH(32)"
  then have "n < 32" by simp
  then have b: "n div 8 < length (le_bytes 4 w)" by (simp add: le_bytes_def)
  then have "bit (le_bytes 4 w ! (n div 8)) (n mod 8) = bit w (8 * (n div 8) + n mod 8)"
    by (simp add: le_bytes_nth bit_simps le_bytes_def)
  then show "bit (le_word [ucast w, ucast (drop_bit 8 w), ucast (drop_bit 16 w), ucast (drop_bit 24 w)] :: u32) n = bit w n"
    using \<open>n < 32\<close> b by (simp add: le_word_bit flip: le_bytes_4)
qed

lemma host_words_bytes: "host_words (resp_bytes ws) = ws"
  by (induction ws) (simp_all add: resp_bytes_def le_bytes_4 le_word_4)

lemma host_write_word:
  "host_write (hostcmd_word cmd r m d) = (if cmd AND 0x3 = RTSX_WRITE_REG_CMD then Some (r AND 0x3fff, d) else None)"
  using hostcmd_word_fields [of cmd r m d] by (simp add: host_write_def)

lemma map_filter_reads:
  "List.map_filter host_write (foldl (\<lambda>q r. q @ [hostcmd_word 0 (g r) 0 0]) q rs) = List.map_filter host_write q"
  by (induction rs arbitrary: q) (simp_all add: map_filter_def host_write_word)

lemma exec_queue_writes:
  "List.map_filter host_write (exec_queue t cmd) =
     [(RTSX_SD_CMD0 AND 0x3fff, ucast (0x40 OR c_opcode cmd)), (RTSX_SD_CMD1 AND 0x3fff, ucast (drop_bit 24 (c_arg cmd))),
      (RTSX_SD_CMD2 AND 0x3fff, ucast (drop_bit 16 (c_arg cmd))), (RTSX_SD_CMD3 AND 0x3fff, ucast (drop_bit 8 (c_arg cmd))),
      (RTSX_SD_CMD4 AND 0x3fff, ucast (c_arg cmd)), (RTSX_SD_CFG2 AND 0x3fff, t),
      (RTSX_CARD_DATA_SOURCE AND 0x3fff, RTSX_PINGPONG_BUFFER),
      (RTSX_SD_TRANSFER AND 0x3fff, RTSX_TM_CMD_RSP OR RTSX_SD_TRANSFER_START)]"
proof -
  have w: "List.map_filter host_write (q @ [hostcmd_word 0 r 0 0]) = List.map_filter host_write q" for q r
    by (simp add: map_filter_def host_write_word)
  show ?thesis
    unfolding exec_queue_def Let_def rtsx_hostcmd_def
    by (simp add: map_filter_reads w foldl_map) (simp add: map_filter_def host_write_word)
qed

lemma exec_queue_sends:
  "sent_opcode (resp_bytes (exec_queue t cmd)) = ucast (c_opcode cmd) AND 0x3f"
  "sent_arg (resp_bytes (exec_queue t cmd)) = c_arg cmd"
proof -
  have "ucast (0x40 OR c_opcode cmd) AND 0x3f = (ucast (c_opcode cmd) AND 0x3f :: u8)"
    by (simp add: unsigned_or_eq bit.conj_disj_distrib2)
  then show "sent_opcode (resp_bytes (exec_queue t cmd)) = ucast (c_opcode cmd) AND 0x3f"
    by (simp add: sent_opcode_def reg_of_def host_words_bytes exec_queue_writes)
  show "sent_arg (resp_bytes (exec_queue t cmd)) = c_arg cmd"
    by (simp add: sent_arg_def reg_of_def host_words_bytes exec_queue_writes le_word_4)
qed

text \<open>The bytes of a C integer, least significant first.\<close>

lemma le_word_int:
  "le_word [word_of_int x, word_of_int (x div 2 ^ 8), word_of_int (x div 2 ^ 16), word_of_int (x div 2 ^ 24)]
     = (word_of_int x :: u32)"
  "le_word [word_of_int x, word_of_int (x div 2 ^ 8)] = (word_of_int x :: u16)"
proof -
  have d: "x div 256 = drop_bit 8 x" "x div 65536 = drop_bit 16 x" "x div 16777216 = drop_bit 24 x"
    by (simp_all add: drop_bit_eq_div)
  have at: "bit (drop_bit (8 * (n div 8)) x) (n mod 8) = bit x n" for n by (simp add: bit_drop_bit_eq)
  show "le_word [word_of_int x, word_of_int (x div 2 ^ 8), word_of_int (x div 2 ^ 16), word_of_int (x div 2 ^ 24)]
     = (word_of_int x :: u32)"
  proof (rule bit_word_eqI)
    fix n assume "n < LENGTH(32)"
    then have n: "n < 32" and "n div 8 \<in> {0, 1, 2, 3}" by auto
    moreover note at [of n]
    ultimately show "bit (le_word [word_of_int x, word_of_int (x div 2 ^ 8), word_of_int (x div 2 ^ 16),
        word_of_int (x div 2 ^ 24)] :: u32) n = bit (word_of_int x :: u32) n"
      by (auto simp: le_word_bit d bit_word_of_int_iff)
  qed
  show "le_word [word_of_int x, word_of_int (x div 2 ^ 8)] = (word_of_int x :: u16)"
  proof (rule bit_word_eqI)
    fix n assume "n < LENGTH(16)"
    then have n: "n < 16" and "n div 8 \<in> {0, 1}" by auto
    moreover note at [of n]
    ultimately show "bit (le_word [word_of_int x, word_of_int (x div 2 ^ 8)] :: u16) n = bit (word_of_int x :: u16) n"
      by (auto simp: le_word_bit d bit_word_of_int_iff)
  qed
qed

lemma xfer_queue_moves:
  assumes "0 \<le> c_datalen cmd" "c_datalen cmd < 2 ^ 32" "0 \<le> c_blklen cmd" "c_blklen cmd < 2 ^ 16"
    and "0 \<le> c_datalen cmd sdiv c_blklen cmd" "c_datalen cmd sdiv c_blklen cmd < 2 ^ 16"
  shows "moved_bytes (resp_bytes (xfer_queue cmd)) = c_datalen cmd"
    "block_bytes (resp_bytes (xfer_queue cmd)) = c_blklen cmd"
    "block_count (resp_bytes (xfer_queue cmd)) = c_datalen cmd sdiv c_blklen cmd"
proof -
  let ?b = "c_datalen cmd sdiv c_blklen cmd" and ?q = "resp_bytes (xfer_queue cmd)"
  have r: "reg_of ?q RTSX_DMATC0 = word_of_int (c_datalen cmd)" "reg_of ?q RTSX_DMATC1 = word_of_int (c_datalen cmd div 2 ^ 8)"
    "reg_of ?q RTSX_DMATC2 = word_of_int (c_datalen cmd div 2 ^ 16)" "reg_of ?q RTSX_DMATC3 = word_of_int (c_datalen cmd div 2 ^ 24)"
    "reg_of ?q RTSX_SD_BYTE_CNT_L = word_of_int (c_blklen cmd)" "reg_of ?q RTSX_SD_BYTE_CNT_H = word_of_int (c_blklen cmd div 2 ^ 8)"
    "reg_of ?q RTSX_SD_BLOCK_CNT_L = word_of_int ?b" "reg_of ?q RTSX_SD_BLOCK_CNT_H = word_of_int (?b div 2 ^ 8)"
    by (simp_all add: reg_of_def host_words_bytes xfer_queue_def Let_def rtsx_hostcmd_def map_filter_def host_write_word)
  show "moved_bytes ?q = c_datalen cmd"
    using assms(1,2) by (simp only: moved_bytes_def list.map r le_word_int) (simp add: uint_word_of_int_eq take_bit_int_eq_self)
  show "block_bytes ?q = c_blklen cmd"
    using assms(3,4) by (simp only: block_bytes_def list.map r le_word_int) (simp add: uint_word_of_int_eq take_bit_int_eq_self)
  show "block_count ?q = ?b"
    using assms(5,6) by (simp only: block_count_def list.map r le_word_int) (simp add: uint_word_of_int_eq take_bit_int_eq_self)
qed

section \<open>A block transfer\<close>

lemma mmc_command_ok:
  assumes "run_state (sdmmc_mmc_command T cmd) s = (c, s')" "c_error c = OK"
  shows "run_state (chip_exec_command T cmd) s = (c, s')"
  using assms by (auto simp: sdmmc_mmc_command_def split: prod.splits if_splits)

text \<open>A command with data that the controller reports as done was run with both its queues.\<close>

lemma command_done:
  assumes "engine_laws E P" "attached E s" and "run_state (sdmmc_mmc_command (rtsx_functions P) cmd) s = (c, s')"
    and "c_error c = OK" "c_data cmd \<noteq> 0"
  shows "\<exists>t. ran E s' = ran E s @ [resp_bytes (exec_queue t cmd), resp_bytes (xfer_queue cmd)]"
proof -
  have "run_state (rtsx_exec_command P cmd) s = (c, s')"
    using mmc_command_ok [OF assms(3,4)] by (simp add: rtsx_functions_def)
  from command_runs [OF assms(1,2) this] assms(4,5) show ?thesis
    by (auto simp: runs_def command_queues_def)
qed

lemma data_transfer_sent:
  fixes s :: "('h, 'z) sdmmc_scheme"
  assumes laws: "engine_laws E P" "attached E s"
    and run: "run_state (data_command wr (rtsx_functions P) p dmap blkno data n) s = (c, s')"
    and ok: "c_error c = OK" "data \<noteq> 0"
    and ss: "0 < ss" "ss < 2 ^ 16" "sector_size (sf_csd (fn_at s p)) = ss"
    and n: "0 \<le> n" "n < 2 ^ 31" "ss dvd n" "n div ss < 2 ^ 16"
  shows "\<exists>q1 q2. ran E s' = ran E s @ [q1, q2]
    \<and> sent_opcode q1 = ucast (if wr then if n div ss > 1 then MMC_WRITE_BLOCK_MULTIPLE else MMC_WRITE_BLOCK_SINGLE
                           else if n div ss > 1 then MMC_READ_BLOCK_MULTIPLE else MMC_READ_BLOCK_SINGLE)
    \<and> sent_arg q1 = block_arg (fn_at s p) blkno
    \<and> moved_bytes q2 = n \<and> block_bytes q2 = ss \<and> block_count q2 * ss = n"
proof -
  define cmd where "cmd = zero_command\<lparr>c_data := data, c_datalen := n, c_blklen := ss,
       c_opcode := (if wr then if n div ss > 1 then MMC_WRITE_BLOCK_MULTIPLE else MMC_WRITE_BLOCK_SINGLE
                    else if n div ss > 1 then MMC_READ_BLOCK_MULTIPLE else MMC_READ_BLOCK_SINGLE),
       c_arg := block_arg (fn_at s p) blkno,
       c_flags := (if wr then SCF_CMD_ADTC OR SCF_RSP_R1 else SCF_CMD_ADTC OR SCF_CMD_READ OR SCF_RSP_R1),
       c_dmamap := dmap\<rparr>"
  have "run_state (data_command wr (rtsx_functions P) p dmap blkno data n) s
    = run_state (sdmmc_mmc_command (rtsx_functions P) cmd) s"
    using ss by (simp add: data_command_def c_div_def cmd_def)
  with run have "run_state (sdmmc_mmc_command (rtsx_functions P) cmd) s = (c, s')" by simp
  from command_done [OF laws this ok(1)] ok(2)
  obtain t where t: "ran E s' = ran E s @ [resp_bytes (exec_queue t cmd), resp_bytes (xfer_queue cmd)]"
    by (auto simp: cmd_def)
  have f: "c_datalen cmd = n" "c_blklen cmd = ss" "c_arg cmd = block_arg (fn_at s p) blkno" by (simp_all add: cmd_def)
  have sd: "n sdiv ss = n div ss" using ss n by (cases "n = 0") (simp_all add: signed_divide_int_def)
  have "0 \<le> n div ss" using ss n by (simp add: pos_imp_zdiv_nonneg_iff)
  then have q2: "moved_bytes (resp_bytes (xfer_queue cmd)) = n" "block_bytes (resp_bytes (xfer_queue cmd)) = ss"
    "block_count (resp_bytes (xfer_queue cmd)) = n div ss"
    using xfer_queue_moves [of cmd] ss n f sd by simp_all
  have q1: "sent_opcode (resp_bytes (exec_queue t cmd)) = ucast (c_opcode cmd)"
    unfolding exec_queue_sends by (auto simp: cmd_def)
  have op: "c_opcode cmd = (if wr then if n div ss > 1 then MMC_WRITE_BLOCK_MULTIPLE else MMC_WRITE_BLOCK_SINGLE
                    else if n div ss > 1 then MMC_READ_BLOCK_MULTIPLE else MMC_READ_BLOCK_SINGLE)" by (simp add: cmd_def)
  show ?thesis
    by (rule exI [of _ "resp_bytes (exec_queue t cmd)"], rule exI [of _ "resp_bytes (xfer_queue cmd)"])
       (use t q1 q2 n(3) exec_queue_sends(2) [of t cmd] in \<open>simp add: f flip: op\<close>)
qed

section \<open>What is never taken back\<close>

text \<open>\<open>grows E m\<close>: the program \<open>m\<close> only adds to the queues that the engine ran.\<close>

definition grows :: "'h engine \<Rightarrow> (('h, 'z) rtsx_scheme, 'a) state \<Rightarrow> bool" where
  "grows E m \<longleftrightarrow> (\<forall>s. \<exists>qs. ran E (snd (run_state m s)) = ran E s @ qs)"

named_theorems grows "programs that only add to the queues that were run"

lemma grows_keeps: "keeps (ran E) m \<Longrightarrow> grows E m"
  by (auto simp: grows_def keeps_def)

lemma grows_run: "grows E m \<Longrightarrow> run_state m s = (r, s') \<Longrightarrow> \<exists>qs. ran E s' = ran E s @ qs"
  unfolding grows_def by (metis snd_conv)

lemma grows_return [grows]: "grows E (ret x)"
  and grows_get [grows]: "grows E State_Monad.get"
  by (simp_all add: grows_def)

lemma grows_bind [grows]:
  assumes "grows E m" "\<And>x. grows E (k x)"
  shows "grows E (State_Monad.bind m k)"
  unfolding grows_def
proof
  fix s
  obtain x s1 where m: "run_state m s = (x, s1)" by force
  obtain qs qs' where "ran E s1 = ran E s @ qs" "ran E (snd (run_state (k x) s1)) = ran E s1 @ qs'"
    using grows_run [OF assms(1) m] assms(2) [unfolded grows_def] by blast
  then show "\<exists>qs. ran E (snd (run_state (State_Monad.bind m k) s)) = ran E s @ qs" using m by simp
qed

lemma grows_if [grows]: "grows E m \<Longrightarrow> grows E n \<Longrightarrow> grows E (if b then m else n)"
  by simp

lemma grows_sum [grows]:
  "(\<And>e. grows E (m e)) \<Longrightarrow> (\<And>x. grows E (n x)) \<Longrightarrow> grows E (case r of Inl e \<Rightarrow> m e | Inr x \<Rightarrow> n x)"
  by (cases r) auto

lemma grows_option [grows]:
  "grows E m \<Longrightarrow> (\<And>x. grows E (n x)) \<Longrightarrow> grows E (case r of None \<Rightarrow> m | Some x \<Rightarrow> n x)"
  by (cases r) auto

lemma grows_chk [grows]: "grows E m \<Longrightarrow> (\<And>x. grows E (k x)) \<Longrightarrow> grows E (chk m k)"
  unfolding chk_def by (intro grows)

lemma grows_obind [grows]: "grows E m \<Longrightarrow> (\<And>x. grows E (k x)) \<Longrightarrow> grows E (obind m k)"
  unfolding obind_def by (intro grows)

lemma grows_send [grows]:
  assumes "engine_io E P"
  shows "grows E (rtsx_hostcmd_send P n)"
  using assms by (auto simp: grows_def rtsx_hostcmd_send_def WRITE4_def bus_space_write_4_def engine_io_def ran_def not_starts)

lemma grows_command:
  assumes laws: "engine_laws E P"
  shows "grows E (rtsx_exec_command P cmd)"
proof -
  note io = engine_lawsD(1) [OF laws]
  note d = ran_dmamem [OF laws] ran_dmamap [OF laws] ran_transfer [OF laws] ran_segs
    quiet_rtsx [OF engine_part_ran io] quiet_led [OF engine_part_ran io] quiet_wait [OF engine_part_ran io]
  have st: "keeps (ran E) (store_cmdbuf P kva q)" for kva q unfolding store_cmdbuf_def
    by (rule run_all_keeps_list) (use engine_lawsD(2) [OF laws] in \<open>auto simp: engine_mem_def list_all_iff intro!: ran_hw\<close>)
  show ?thesis
    unfolding rtsx_exec_command_def exec_mapped_def exec_run_def rtsx_xfer_def Let_def
    by (intro grows grows_send [OF io] d [THEN grows_keeps] st [THEN grows_keeps])
qed

lemma grows_slot:
  assumes laws: "engine_laws E P"
  shows "grows E (sdmmc_mmc_command (rtsx_functions P) cmd)" "grows E (stop_multiple (rtsx_functions P) b a)"
    "grows E (poll_ready n (rtsx_functions P) rca)"
proof -
  have c: "grows E (chip_exec_command (rtsx_functions P) cmd)" for cmd
    using grows_command [OF laws] by (simp add: rtsx_functions_def)
  have m: "grows E (sdmmc_mmc_command (rtsx_functions P) cmd)" for cmd
    unfolding sdmmc_mmc_command_def sdmmc_dump_command_def get_status_def Let_def by (intro grows c)
  show "grows E (sdmmc_mmc_command (rtsx_functions P) cmd)" by (rule m)
  show "grows E (stop_multiple (rtsx_functions P) b a)" unfolding stop_multiple_def by (intro grows m)
  show "grows E (poll_ready n (rtsx_functions P) rca)" by (induction n) (auto intro!: grows m)
qed

section \<open>A block write\<close>

text \<open>
  C4: when a write of blocks to the selected card reports success, the controller first ran a queue
  that sends the write command of the right kind with the address in the unit of the card, and then a
  queue that programs a transfer of exactly the bytes of the request in blocks of the size of the
  sector. Whatever follows (the end of the transfer, the wait for the card) is only added to them.
\<close>

theorem block_write_on_the_wire:
  fixes s :: "('h, 'z) sdmmc_scheme"
  assumes laws: "engine_laws E P" "attached E s" and selected: "same_card s (Some p)"
    and run: "run_state (sdmmc_mem_write_block_subr k (rtsx_functions P) p dmap blkno data n) s = (Some OK, s')"
    and data: "data \<noteq> 0" and ss: "0 < ss" "ss < 2 ^ 16" "sector_size (sf_csd (fn_at s p)) = ss"
    and n: "0 \<le> n" "n < 2 ^ 31" "ss dvd n" "n div ss < 2 ^ 16"
  shows "\<exists>q1 q2 rest. ran E s' = ran E s @ q1 # q2 # rest
    \<and> sent_opcode q1 = ucast (if n div ss > 1 then MMC_WRITE_BLOCK_MULTIPLE else MMC_WRITE_BLOCK_SINGLE)
    \<and> sent_arg q1 = block_arg (fn_at s p) blkno
    \<and> moved_bytes q2 = n \<and> block_bytes q2 = ss \<and> block_count q2 * ss = n"
proof -
  let ?T = "rtsx_functions P" and ?s0 = "s\<lparr>sc_card := Some p\<rparr>"
  have at: "attached E ?s0" "ran E ?s0 = ran E s" "fn_at ?s0 p = fn_at s p"
    using laws(2) by (simp_all add: attached_def cmd_map_def ran_def fn_at_def)
  obtain c s1 where dc: "run_state (data_command True ?T p dmap blkno data n) ?s0 = (c, s1)" by force
  let ?rest = "do {
       rca \<leftarrow> fetch (\<lambda>s. sf_rca (fn_at s p));
       e2 \<leftarrow> stop_multiple ?T (c_opcode c = MMC_WRITE_BLOCK_MULTIPLE) 0;
       if e2 \<noteq> OK then ret (Some (if c_error c \<noteq> OK then c_error c else e2))
       else obind (poll_ready k ?T rca) (\<lambda>r. ret (Some (if c_error c \<noteq> OK then c_error c else r))) }"
  have e: "run_state ?rest s1 = (Some OK, s')"
    using run selected dc by (simp add: sdmmc_mem_write_block_subr_def sdmmc_select_card_def Let_def)
  have ok: "c_error c = OK"
    using e by (auto simp: obind_def split: prod.splits option.splits if_splits)
  have "grows E ?rest" by (intro grows grows_slot [OF laws(1)])
  from grows_run [OF this e] obtain rest where rest: "ran E s' = ran E s1 @ rest" by blast
  from data_transfer_sent [OF laws(1) at(1) dc ok data ss(1,2) ss(3) [folded at(3)] n] show ?thesis
    using rest by (auto simp: at)
qed

section \<open>A write on the concrete engine\<close>

text \<open>
  The operations of the DMA layer on the device of \<open>dev_platform\<close>, each with its outcome: blocks of
  memory of one segment, named by their size.
\<close>

lemmas dev_calls = dev_platform_def bare_platform_def call_hw_def exec_hw_def put_seg_def seg_at_def

definition dev_block :: "u64 \<Rightarrow> u64 \<Rightarrow> dma_segment" where
  "dev_block sz mm = \<lparr>ds_addr = 0x4000, ds_len = sz, ds_memDesc = sz, ds_memMap = mm\<rparr>"

lemma dev_alloc:
  assumes "seg_arrays s a = [zero_segment]" "sz \<noteq> 0" "a \<noteq> 0"
  shows "run_state (bus_dmamem_alloc dev_platform sz a 1) s
    = (Inr 1, s\<lparr>seg_arrays := (seg_arrays s)(a := [dev_block sz 0])\<rparr>)"
  using assms by (simp add: dev_ops dev_block_def)

lemma dev_map:
  assumes "seg_arrays s a = [dev_block sz 0]" "sz \<noteq> 0" "a \<noteq> 0" "addToList (dev_address sz) a (va_list s) = (True, d)"
  shows "run_state (bus_dmamem_map dev_platform a) s
    = (Inr (dev_address sz), s\<lparr>seg_arrays := (seg_arrays s)(a := [dev_block sz sz]), va_list := d\<rparr>)"
  using assms by (simp add: bus_dmamem_map_def dev_calls dev_block_def)

lemma dev_load:
  assumes "dmamaps s dm = Some m" "dmm_segcnt m = 1" "dm_segs m = [g]" "dmm_command m \<noteq> 0"
    and "getValueFromList kva (va_list s) = Some a" "seg_arrays s a = [dev_block sz sz]" "kva \<noteq> 0" "0 < sz" "a \<noteq> 0"
  shows "\<exists>g'. run_state (bus_dmamap_load dev_platform dm kva sz) s
    = (OK, s\<lparr>hw := (hw s)\<lparr>d_md := sz\<rparr>, dmamaps := (dmamaps s)(dm \<mapsto> m\<lparr>dm_mapsize := sz, dm_nsegs := 1,
        dm_segs := [g']\<rparr>)\<rparr>)"
  using assms by (simp add: bus_dmamap_load_def dev_calls dev_block_def
    put_map_seg_def finish_load_def word_neq_0_conv) (rule exI, rule refl)

lemma dev_unload:
  assumes "dmamaps s dm = Some m" "dmm_command m \<noteq> 0"
  shows "run_state (bus_dmamap_unload dev_platform dm) s
    = ((), s\<lparr>dmamaps := (dmamaps s)(dm \<mapsto> m\<lparr>dm_mapsize := 0, dm_nsegs := 0\<rparr>)\<rparr>)"
  using assms by (simp add: bus_dmamap_unload_def dev_calls)

lemma dev_unmap:
  assumes "getValueFromList kva (va_list s) = Some a" "seg_arrays s a = [dev_block sz sz]" "sz \<noteq> 0"
  shows "run_state (bus_dmamem_unmap dev_platform kva) s
    = ((), s\<lparr>seg_arrays := (seg_arrays s)(a := [dev_block sz 0]), va_list := snd (removeFromList kva (va_list s))\<rparr>)"
  using assms by (simp add: bus_dmamem_unmap_def dev_calls dev_block_def)

lemma dev_free:
  assumes "seg_arrays s a = [dev_block sz 0]" "sz \<noteq> 0" "a \<noteq> 0"
  shows "run_state (bus_dmamem_free dev_platform a) s
    = ((), s\<lparr>seg_arrays := (seg_arrays s)(a := [(dev_block sz 0)\<lparr>ds_memDesc := 0\<rparr>])\<rparr>)"
  using assms by (simp add: bus_dmamem_free_def dev_calls dev_block_def)

definition dev_idle :: "sleep_event list \<Rightarrow> (dev, 'z) rtsx_scheme \<Rightarrow> bool" where
  "dev_idle es s \<longleftrightarrow> ioh s = 1 \<and> rflags s = RTSX_F_CARD_PRESENT \<and> intr_status s = 0 \<and> spl_depth s = 0
     \<and> sched s = es \<and> dmap_cmd s = 16 \<and> dmap_data s = 17"

definition one_map :: "(dev, 'z) rtsx_scheme \<Rightarrow> u64 \<Rightarrow> bool" where
  "one_map s p \<longleftrightarrow> (\<exists>m g. dmamaps s p = Some m \<and> dmm_segcnt m = 1 \<and> dm_segs m = [g] \<and> dmm_command m \<noteq> 0)"

lemma dev_exec:
  assumes "dev_idle (WakeIntr # es) s"
  shows "\<exists>h sl. run_state (rtsx_xfer_exec dev_platform dm fl) s = (OK, s\<lparr>sched := es, slept := sl, hw := h\<rparr>)"
  using assms by (cases s) (simp add: dev_idle_def rtsx_xfer_exec_def WRITE4_def bus_space_write_4_def wait_interrupt dev_platform_def
    bare_platform_def)

lemma dev_send:
  assumes "dev_idle es s"
  shows "\<exists>h. run_state (rtsx_hostcmd_send dev_platform n) s = (OK, s\<lparr>hw := h\<rparr>)"
  using assms by (cases s) (simp add: dev_idle_def rtsx_hostcmd_send_def WRITE4_def bus_space_write_4_def)

definition dev_ok :: "sleep_event list \<Rightarrow> u64 static_dict \<Rightarrow> (dev, 'z) rtsx_scheme \<Rightarrow> bool" where
  "dev_ok es d s \<longleftrightarrow> dev_idle es s \<and> one_map s 16 \<and> one_map s 17 \<and> va_list s = d"

definition va_keys :: "u64 \<Rightarrow> u64 \<Rightarrow> u64 static_dict" where
  "va_keys a b = \<lparr>d_keys = [a, b], d_vals = [if a = 0 then 0 else 1, if b = 0 then 0 else 2]\<rparr>"

lemma va_keys_ops:
  "addToList 0x4000 1 (va_keys 0 0) = (True, va_keys 0x4000 0)" "addToList 0x8000 2 (va_keys 0x4000 0)
    = (True, va_keys 0x4000 0x8000)"
  "snd (removeFromList 0x4000 (va_keys 0x4000 0)) = va_keys 0 0"
    "snd (removeFromList 0x8000 (va_keys 0x4000 0x8000)) = va_keys 0x4000 0"
  "getValueFromList 0x4000 (va_keys 0x4000 b) = Some 1" "getValueFromList 0x8000 (va_keys 0x4000 0x8000) = Some 2"
  by (simp_all add: va_keys_def addToList_def getFreeSlot_def fillSlot_def removeFromList_def findKey_def getValueFromList_def)

lemma dev_bounce:
  assumes "dev_ok (WakeIntr # es) (va_keys 0x4000 0) s" "isset (c_flags cmd) SCF_CMD_READ = False"
    "(word_of_int (c_datalen cmd) :: u64) \<noteq> 0" "(word_of_int (c_datalen cmd) :: u64) \<noteq> 1024" "seg_arrays s 1 = gs"
  shows "\<exists>s'. run_state (rtsx_xfer_bounce dev_platform cmd) s = (OK, s') \<and> dev_ok es (va_keys 0x4000 0) s'
    \<and> seg_arrays s' 1 = gs"
proof -
  let ?sz = "word_of_int (c_datalen cmd) :: u64"
  let ?s1 = "s\<lparr>seg_arrays := (seg_arrays s)(2 := [dev_block ?sz ?sz]), va_list := va_keys 0x4000 0x8000,
    hw := (hw s)\<lparr>d_stores := (0x8000, dev_read (nat (c_datalen cmd))) # d_stores (hw s)\<rparr>\<rparr>"
  have ok: "dev_idle (WakeIntr # es) s" "one_map s 16" "one_map s 17" "va_list s = va_keys 0x4000 0"
    "dmap_data s = 17"
    using assms(1) by (simp_all add: dev_ok_def dev_idle_def)
  then obtain m g where m: "dmamaps s 17 = Some m" "dmm_segcnt m = 1" "dm_segs m = [g]" "dmm_command m \<noteq> 0"
    by (auto simp: one_map_def)
  have a: "dev_address ?sz = 0x8000" using assms(4) by (simp add: dev_address_def)
  have st: "run_state (memcpy dev_platform 0x8000 (c_data cmd) n) t
    = ((), t\<lparr>hw := (hw t)\<lparr>d_stores := (0x8000, dev_read (nat n)) # d_stores (hw t)\<rparr>\<rparr>)" for n t
    by (simp add: memcpy_def exec_hw_def dev_platform_def)
  have "0 < ?sz" using assms(3) by (simp add: word_neq_0_conv)
  with dev_load [where s = "?s1" and dm = 17 and m = m and g = g and kva = "0x8000" and a = 2 and sz =
    "?sz"] m obtain g' where
    ld: "run_state (bus_dmamap_load dev_platform 17 0x8000 ?sz) ?s1
    = (OK, ?s1\<lparr>hw := (hw ?s1)\<lparr>d_md := ?sz\<rparr>, dmamaps := (dmamaps ?s1)(17 \<mapsto> m\<lparr>dm_mapsize := ?sz, dm_nsegs := 1,
        dm_segs := [g']\<rparr>)\<rparr>)" by (auto simp: va_keys_ops)
  let ?s2 = "?s1\<lparr>hw := (hw ?s1)\<lparr>d_md := ?sz\<rparr>, dmamaps := (dmamaps ?s1)(17 \<mapsto> m\<lparr>dm_mapsize := ?sz, dm_nsegs := 1,
        dm_segs := [g']\<rparr>)\<rparr>"
  have "dev_idle (WakeIntr # es) ?s2" using ok(1) by (simp add: dev_idle_def)
  from dev_exec [OF this] obtain h sl where
    ex: "run_state (rtsx_xfer_exec dev_platform 17 (RTSX_TRIG_DMA OR (word_of_int (c_datalen cmd) AND 0x00ffffff))) ?s2
      = (OK, ?s2\<lparr>sched := es, slept := sl, hw := h\<rparr>)" by blast
  show ?thesis
    using assms(2,3,5) ok(1,2,4,5) m ld ex
    by (simp add: rtsx_xfer_bounce_def Let_def local_segs_def dev_alloc dev_map va_keys_ops a st bus_dmamap_sync_def del: One_nat_def)
       (simp add: dev_unload dev_unmap dev_free va_keys_ops dev_ok_def one_map_def dev_idle_def)
qed

definition plain_transfer :: "sdmmc_command \<Rightarrow> bool" where
  "plain_transfer cmd \<longleftrightarrow> \<not> isset (c_flags cmd) SCF_CMD_READ \<and> c_dmamap cmd = 0 \<and> c_datalen cmd = 512"

lemma dev_update:
  "dev_ok es d (s\<lparr>hw := h\<rparr>) = dev_ok es d s" "dev_ok es d (s\<lparr>slept := sl\<rparr>) = dev_ok es d s"
  "dev_ok es d (s\<lparr>seg_arrays := a\<rparr>) = dev_ok es d s"
  by (simp_all add: dev_ok_def dev_idle_def one_map_def)

lemma dev_run:
  assumes "dev_ok (WakeIntr # (if c_data cmd = 0 then es else WakeIntr # es)) (va_keys 0x4000 0) s"
    "seg_arrays s 1 = gs"
    and "c_data cmd \<noteq> 0 \<Longrightarrow> plain_transfer cmd"
  shows "\<exists>c s'. run_state (exec_run dev_platform 0x4000 n cmd) s = ((c, OK), s')
    \<and> dev_ok es (va_keys 0x4000 0) s' \<and> seg_arrays s' 1 = gs"
proof -
  let ?es = "if c_data cmd = 0 then es else WakeIntr # es"
  have idle: "dev_idle (WakeIntr # ?es) s" using assms(1) by (simp add: dev_ok_def)
  obtain h where snd: "run_state (rtsx_hostcmd_send dev_platform n) s = (OK, s\<lparr>hw := h\<rparr>)"
    using dev_send [OF idle] by blast
  let ?s1 = "s\<lparr>hw := h\<rparr>"
  have w: "run_state (rtsx_wait_intr dev_platform RTSX_TRANS_OK_INT 1) ?s1 = (OK, ?s1\<lparr>sched := ?es,
     slept := intr_timeout_ns (mimic_linux s) (timeout_shift s) 1 # slept s,
     hw := io_write4 dev_platform (io_idle dev_platform h) 1 RTSX_BIPR RTSX_TRANS_OK_INT\<rparr>)"
    using wait_interrupt [of dev_platform ?s1 ?es 1] idle by (simp add: dev_idle_def dev_platform_def)
  obtain s2 where s2: "run_state (rtsx_wait_intr dev_platform RTSX_TRANS_OK_INT 1) ?s1 = (OK, s2)"
    "dev_ok ?es (va_keys 0x4000 0) s2" "seg_arrays s2 1 = gs"
    using w assms(1,2) by (simp add: dev_ok_def dev_idle_def one_map_def)
  show ?thesis
  proof (cases "c_data cmd = 0")
    case True
    then show ?thesis using snd s2 by (simp add: exec_run_def bus_dmamap_sync_def)
  next
    case False
    then have t: "plain_transfer cmd" by (rule assms(3))
    have "dev_idle (WakeIntr # es) s2" using s2(2) False by (simp add: dev_ok_def)
    define s3 where "s3 = snd (run_state (store_cmdbuf dev_platform 0x4000 (xfer_queue cmd)) s2)"
    have s3: "dev_ok (WakeIntr # es) (va_keys 0x4000 0) s3" "seg_arrays s3 1 = gs"
      "run_state (store_cmdbuf dev_platform 0x4000 (xfer_queue cmd)) s2 = ((), s3)"
      using s2(2,3) False by (simp_all add: s3_def run_store dev_update)
    then obtain h3 where h3: "run_state (rtsx_hostcmd_send dev_platform (length (xfer_queue cmd))) s3
      = (OK, s3\<lparr>hw := h3\<rparr>)"
      using dev_send [of "WakeIntr # es" s3] by (auto simp: dev_ok_def)
    obtain s4 where "run_state (rtsx_xfer_bounce dev_platform cmd) (s3\<lparr>hw := h3\<rparr>) = (OK, s4)"
      "dev_ok es (va_keys 0x4000 0) s4" "seg_arrays s4 1 = gs"
      using dev_bounce [of es "s3\<lparr>hw := h3\<rparr>" cmd gs] s3 t by (auto simp: dev_update plain_transfer_def)
    moreover have "c_datalen cmd \<le> MAXPHYS dev_platform" using t
      by (simp add: plain_transfer_def dev_platform_def bare_platform_def)
    ultimately show ?thesis using False snd s2(1) s3(3) h3 t
      by (simp add: exec_run_def bus_dmamap_sync_def rtsx_xfer_def plain_transfer_def)
  qed
qed

lemma dev_command:
  assumes "dev_ok (WakeIntr # (if c_data cmd = 0 then es else WakeIntr # es)) (va_keys 0 0) s"
    and "c_data cmd \<noteq> 0 \<Longrightarrow> plain_transfer cmd"
    and "c_opcode cmd \<noteq> SD_IO_SEND_OP_COND" "rtsx_response_type (c_flags cmd AND 0xff00) \<noteq> 0"
  shows "\<exists>c s'. run_state (rtsx_exec_command dev_platform cmd) s = (c, s') \<and> c_error c = OK
    \<and> dev_ok es (va_keys 0 0) s'"
proof -
  let ?es = "WakeIntr # (if c_data cmd = 0 then es else WakeIntr # es)"
  let ?q = "exec_queue (rtsx_response_type (c_flags cmd AND 0xff00)) cmd"
  let ?s1 = "s\<lparr>seg_arrays := (seg_arrays s)(1 := [dev_block 1024 1024]), va_list := va_keys 0x4000 0,
    hw := store_words dev_platform 0x4000 ?q (hw s)\<rparr>"
  have ok: "dev_idle ?es s" "one_map s 16" "one_map s 17" "va_list s = va_keys 0 0" "dmap_cmd s = 16"
    using assms(1) by (simp_all add: dev_ok_def dev_idle_def)
  then obtain m g where m: "dmamaps s 16 = Some m" "dmm_segcnt m = 1" "dm_segs m = [g]" "dmm_command m \<noteq> 0"
    by (auto simp: one_map_def)
  have a: "dev_address 1024 = 0x4000" by (simp add: dev_address_def)
  obtain g' where
    ld: "run_state (bus_dmamap_load dev_platform 16 0x4000 1024) ?s1
    = (OK, ?s1\<lparr>hw := (hw ?s1)\<lparr>d_md := 1024\<rparr>, dmamaps := (dmamaps ?s1)(16 \<mapsto> m\<lparr>dm_mapsize := 1024, dm_nsegs := 1,
        dm_segs := [g']\<rparr>)\<rparr>)" 
    using dev_load [where s = "?s1" and dm = 16 and m = m and g = g and kva = "0x4000" and a = 1 and sz =
      "1024"] m by (auto simp: va_keys_ops)
  let ?s2 = "?s1\<lparr>hw := (hw ?s1)\<lparr>d_md := 1024\<rparr>, dmamaps := (dmamaps ?s1)(16 \<mapsto> m\<lparr>dm_mapsize := 1024, dm_nsegs := 1,
        dm_segs := [g']\<rparr>)\<rparr>"
  have "dev_ok ?es (va_keys 0x4000 0) ?s2" using ok m by (auto simp: dev_ok_def one_map_def dev_idle_def)
  from dev_run [OF this refl assms(2), of "length ?q"] obtain c s3 where
    ex: "run_state (exec_run dev_platform 0x4000 (length ?q) cmd) ?s2 = ((c, OK), s3)" and s3:
      "dev_ok es (va_keys 0x4000 0) s3" "seg_arrays s3 1 = [dev_block 1024 1024]" by auto
  obtain m' g'' where m': "dmamaps s3 16 = Some m'" "dmm_segcnt m' = 1" "dm_segs m' = [g'']" "dmm_command m' \<noteq> 0"
    using s3(1) by (auto simp: dev_ok_def one_map_def)
  have k: "va_list s3 = va_keys 0x4000 0" using s3 by (simp add: dev_ok_def)
  have fin: "dev_ok es (va_keys 0 0) (s3\<lparr>dmamaps := (dmamaps s3)(16 \<mapsto> m'\<lparr>dm_mapsize := 0, dm_nsegs := 0\<rparr>), va_list := va_keys 0 0, seg_arrays := a\<rparr>)" for a
    using s3(1) m' by (auto simp: dev_ok_def one_map_def dev_idle_def)
  show ?thesis
    using assms(3,4) ok(4,5) ld ex s3(2) m' k
    by (simp add: rtsx_exec_command_def Let_def local_segs_def dev_alloc dev_map va_keys_ops a exec_mapped_def run_store
           bus_dmamap_sync_def del: One_nat_def)
       (simp add: dev_unload dev_unmap dev_free va_keys_ops fin)
qed
lemma read_ones:
  assumes "isset (c_flags cmd) SCF_RSP_PRESENT" "\<not> isset (c_flags cmd) SCF_RSP_136" "c_resp cmd \<noteq> []"
  shows "c_resp (read_response dev_platform kva cmd h) ! 0 = - 1"
proof -
  have "km_read dev_platform h a 4 = [0xff, 0xff, 0xff, 0xff]" for a
    by (simp add: dev_platform_def dev_read_def numeral_eq_Suc)
  moreover have "le_word [0xff, 0xff, 0xff, 0xff] = (- 1 :: u32)" by (simp add: le_word_def)
  ultimately show ?thesis by (simp add: short_response_bytes [OF assms])
qed

lemma exec_run_response:
  "run_state (exec_run P kva n cmd) s = ((c, OK), s') \<Longrightarrow> \<exists>h. c = read_response P kva cmd h"
  by (auto simp: exec_run_def case_prod_beta split: sum.splits if_splits)

lemma exec_mapped_response:
  "run_state (exec_mapped P kva q cmd) s = ((c, OK), s') \<Longrightarrow> \<exists>h. c = read_response P kva cmd h"
  by (auto simp: exec_mapped_def split: prod.splits sum.splits dest: exec_run_response)

lemma command_response:
  assumes "run_state (rtsx_exec_command P cmd) s = (c, s')" "c_error c = OK"
  shows "\<exists>kva h. c_resp c = c_resp (read_response P kva cmd h)"
  using assms
  by (auto simp: rtsx_exec_command_def Let_def simp del: run_state_chk
      split: prod.splits sum.splits if_splits dest!: exec_mapped_response; blast)

lemma dev_slot_command:
  assumes "dev_ok (WakeIntr # (if c_data cmd = 0 then es else WakeIntr # es)) (va_keys 0 0) s"
    and "c_data cmd \<noteq> 0 \<Longrightarrow> plain_transfer cmd"
    and "c_opcode cmd \<noteq> SD_IO_SEND_OP_COND"
      "c_flags cmd = SCF_CMD_AC OR SCF_RSP_R1 \<or> c_flags cmd = SCF_CMD_ADTC OR SCF_RSP_R1" "c_resp cmd \<noteq> []"
  shows "\<exists>c s'. run_state (sdmmc_mmc_command (rtsx_functions dev_platform) cmd) s = (c, s') \<and> c_error c = OK
     \<and> c_resp c ! 0 = - 1 \<and> dev_ok es (va_keys 0 0) s'"
proof -
  have "rtsx_response_type (c_flags cmd AND 0xff00) \<noteq> 0"
    using assms(4) by (auto simp: rtsx_response_type_def response_types_def)
  from dev_command [OF assms(1-3) this] obtain c s' where
    r: "run_state (rtsx_exec_command dev_platform cmd) s = (c, s')" "c_error c = OK"
      "dev_ok es (va_keys 0 0) s'" by blast
  have "isset (c_flags cmd) SCF_RSP_PRESENT" "\<not> isset (c_flags cmd) SCF_RSP_136" using assms(4)
    by (auto simp: isset_def)
  from read_ones [OF this assms(5)] command_response [OF r(1,2)] have "c_resp c ! 0 = - 1" by auto
  with r show ?thesis by (simp add: sdmmc_mmc_command_def rtsx_functions_def)
qed

lemma dev_write_block:
  fixes s :: "(dev, 'z) sdmmc_scheme"
  assumes "dev_ok [WakeIntr, WakeIntr, WakeIntr] (va_keys 0 0) s" "same_card s (Some p)" "data \<noteq> 0"
    "sector_size (sf_csd (fn_at s p)) = 512"
  shows "\<exists>s'. run_state (sdmmc_mem_write_block_subr (Suc k) (rtsx_functions dev_platform) p 0 blkno data 512) s
    = (Some OK, s')"
proof -
  let ?s0 = "s\<lparr>sc_card := Some p\<rparr>" and ?T = "rtsx_functions dev_platform :: (dev, 'z) slot_chip"
  let ?c = "zero_command\<lparr>c_data := data, c_datalen := 512, c_blklen := 512, c_opcode := MMC_WRITE_BLOCK_SINGLE,
     c_arg := block_arg (fn_at s p) blkno, c_flags := SCF_CMD_ADTC OR SCF_RSP_R1, c_dmamap := 0\<rparr>"
  have "dev_ok [WakeIntr, WakeIntr, WakeIntr] (va_keys 0 0) ?s0" using assms(1)
    by (simp add: dev_ok_def dev_idle_def one_map_def)
  then obtain c s1 where c: "run_state (sdmmc_mmc_command ?T ?c) ?s0 = (c, s1)" "c_error c = OK"
    "dev_ok [WakeIntr] (va_keys 0 0) s1"
    using dev_slot_command [of ?c "[WakeIntr]" ?s0] assms(3)
      by (auto simp: zero_command_def plain_transfer_def isset_def)
  have dc: "run_state (data_command True ?T p 0 blkno data 512) ?s0 = (c, s1)"
    using c(1) assms(4) by (simp add: data_command_def c_div_def fn_at_def)
  have op: "c_opcode c = MMC_WRITE_BLOCK_SINGLE"
    using rtsx_exec_request [of dev_platform ?c ?s0] mmc_command_ok [OF c(1,2)]
    by (simp add: rtsx_functions_def request_def)
  let ?p = "zero_command\<lparr>c_opcode := MMC_SEND_STATUS, c_arg := MMC_ARG_RCA (sf_rca (fn_at s1 p)), c_flags := SCF_CMD_AC OR SCF_RSP_R1\<rparr>"
  obtain c2 s2 where "run_state (sdmmc_mmc_command ?T ?p) s1 = (c2, s2)" "c_error c2 = OK" "c_resp c2 ! 0 = - 1"
    using dev_slot_command [of ?p "[]" s1] c(3) by (auto simp: zero_command_def)
  then show ?thesis using assms(2) dc c(2) op
    by (simp add: sdmmc_mem_write_block_subr_def sdmmc_select_card_def Let_def stop_multiple_def obind_def isset_def)
qed

definition dev_card :: "dev driver" where
  "dev_card = (with_card (zero_function\<lparr>sf_csd := zero_csd\<lparr>sector_size := 512, capacity := 100000\<rparr>\<rparr>) (driver_boot dev_start))
     \<lparr>rflags := RTSX_F_CARD_PRESENT, sched := [WakeIntr, WakeIntr, WakeIntr], dmap_cmd := 16, dmap_data := 17,
      va_list := va_keys 0 0, dmamaps := [16 \<mapsto> one_segment_map 9, 17 \<mapsto> one_segment_map 10]\<rparr>"

lemma dev_card_ready:
  "dev_ok [WakeIntr, WakeIntr, WakeIntr] (va_keys 0 0) dev_card" "same_card dev_card (Some 0)"
  "sector_size (sf_csd (fn_at dev_card 0)) = 512" "attached dev_engine dev_card"
  "block_arg (fn_at dev_card 0) 7 = 3584" "ran dev_engine dev_card = []"
proof -
  show "dev_ok [WakeIntr, WakeIntr, WakeIntr] (va_keys 0 0) dev_card" "same_card dev_card (Some 0)"
    "sector_size (sf_csd (fn_at dev_card 0)) = 512" "block_arg (fn_at dev_card 0) 7 = 3584"
      "ran dev_engine dev_card = []"
    by (simp_all add: dev_ok_def dev_idle_def one_map_def dev_card_def driver_boot_def with_card_def same_card_def fn_at_def
       block_arg_def ran_def dev_engine_def one_segment_map_def dev_start_def zero_function_def isset_def zero_csd_def)
  show "attached dev_engine dev_card"
    by (auto simp: dev_card_def driver_boot_def with_card_def attached_def cmd_map_def va_keys_def dict_inv_def
       dict_map_def one_segment_map_def getValueFromList_def findKey_def dict_key_def split: if_splits)
qed

theorem block_write_on_the_wire_witness:
  "\<exists>q1 q2 rest. ran dev_engine (snd (run_state
        (sdmmc_mem_write_block_subr 1 (rtsx_functions dev_platform) 0 0 7 0x9000 512) dev_card)) = q1 # q2 # rest
    \<and> sent_opcode q1 = 24 \<and> sent_arg q1 = 3584
    \<and> moved_bytes q2 = 512 \<and> block_bytes q2 = 512 \<and> block_count q2 = 1"
proof -
  obtain s' where r: "run_state (sdmmc_mem_write_block_subr (Suc 0) (rtsx_functions dev_platform) 0 0 7 0x9000 512) dev_card
      = (Some OK, s')" using dev_write_block [OF dev_card_ready(1,2) _ dev_card_ready(3), of "0x9000" 0 7] by auto
  from block_write_on_the_wire [OF dev_engine_laws dev_card_ready(4,2) r _ _ _ dev_card_ready(3)] r
  show ?thesis by (simp add: dev_card_ready)
qed

end
