(* ===== verification/Shell.thy ===== *)
theory Shell
  imports System
begin

text \<open>
  What the IOKit class adds around the OpenBSD code: its interrupt filter agrees with the
  interrupt handler, a suspend makes the slot forget its card, and the block device takes its
  geometry from the card.
\<close>

section \<open>Interrupts\<close>

lemma run_bus_read:
  assumes "\<And>h off. snd (io_read4 P h d off) = h" and "d \<noteq> 0"
  shows "run_state (bus_space_read_4 P d off) s = (fst (io_read4 P (hw s) d off), s)"
proof -
  have e: "s\<lparr>hw := hw s\<rparr> = s" by (cases s) simp
  obtain v where "io_read4 P (hw s) d off = (v, hw s)" using assms(1) [of "hw s" off] by (metis prod.collapse)
  then show ?thesis using assms(2) e by (simp add: bus_space_read_4_def)
qed

text \<open>
  C31: on a device whose registers can be read without side effect, the filter that runs in
  interrupt context changes nothing, and it accepts an interrupt exactly when the handler would
  claim it, except for a device that has vanished and reads as all ones, which the handler rejects.
\<close>

theorem filter_agrees_with_handler:
  assumes "\<And>h off. snd (io_read4 P h d off) = h" and "d \<noteq> 0" and "ioh s = d" and "memory_descriptor s = d"
  shows "snd (run_state (InterruptFilter P) s) = s
    \<and> fst (run_state (rtsx_intr P) s) = (fst (run_state (InterruptFilter P) s)
        \<and> fst (io_read4 P (hw s) d RTSX_BIPR) \<noteq> 0xffffffff)"
proof -
  let ?st = "fst (io_read4 P (hw s) d RTSX_BIPR)" and ?en = "fst (io_read4 P (hw s) d RTSX_BIER)"
  have rd: "run_state (bus_space_read_4 P d off) s = (fst (io_read4 P (hw s) d off), s)" for off
    by (rule run_bus_read [OF assms(1,2)])
  have "run_state (InterruptFilter P) s = (?st \<noteq> 0 \<and> ?st AND ?en \<noteq> 0, s)"
    by (simp add: InterruptFilter_def Sinetek_READ4_def assms(4) rd)
  moreover have "fst (run_state (rtsx_intr P) s) \<longleftrightarrow> \<not> (?en AND ?st = 0 \<or> ?st = 0xffffffff)"
    by (simp add: rtsx_intr_def READ4_def assms(3) rd WRITE4_def split: prod.split)
  ultimately show ?thesis by (auto simp: and.commute)
qed

theorem filter_agrees_with_handler_witness:
  "\<not> fst (run_state (rtsx_intr bare_platform) (driver_boot ()))"
proof -
  have "\<And>h off. snd (io_read4 (bare_platform :: unit platform) h 1 off) = h" by (simp add: bare_platform_def)
  from filter_agrees_with_handler [OF this, of "driver_boot ()"]
  show ?thesis by (simp add: InterruptFilter_def Sinetek_READ4_def bus_space_read_4_def bare_platform_def)
qed

section \<open>Suspend\<close>

definition leaving :: "('h, 'z) sdmmc_scheme \<Rightarrow> bool" where
  "leaving s \<longleftrightarrow> slot_inv s \<and> isset (sc_flags s) SMF_CARD_PRESENT \<and> sc_dying s = - 1"

lemma slot_part_leaving: "slot_part leaving"
  unfolding slot_part_def
proof (intro allI impI)
  fix s s' :: "('h, 'z) sdmmc_scheme"
  assume eq: "outer s = outer s'"
  show "leaving s = leaving s'"
    using slot_fields [OF eq] slot_partD [OF slot_part_inv eq] by (simp add: leaving_def)
qed

lemma suspend_leaving:
  "valid (\<lambda>s. slot_inv s \<and> sdmmc_attached s \<and> isset (sc_flags s) SMF_CARD_PRESENT
      \<and> \<not> isset (sc_caps s) SMC_CAPS_NONREMOVABLE)
    (setPowerState P kPowerStateSleep) (\<lambda>_. leaving)"
proof -
  let ?A = "\<lambda>s :: ('a, 'b) driver_scheme. slot_inv s \<and> sdmmc_attached s \<and> isset (sc_flags s) SMF_CARD_PRESENT
      \<and> \<not> isset (sc_caps s) SMC_CAPS_NONREMOVABLE"
  have hw: "slot_inv (s\<lparr>hw := h\<rparr>) = slot_inv s" "slot_inv (s\<lparr>sc_dying := d\<rparr>) = slot_inv s" for s :: "('a, 'b) driver_scheme" and h d
    by (simp_all add: slot_inv_def slot_wf_def slot_clean_def io_mode_def usable_def [abs_def] fn_at_def)
  have 1: "valid ?A (IOSleep P ms) (\<lambda>_. ?A)" for ms
    unfolding IOSleep_def delay_def by (rule valid_modify) (simp add: hw)
  have 2: "valid ?A (config_activate_children DVACT_SUSPEND) (\<lambda>_. leaving)"
    by (rule validI) (auto simp: config_activate_children_def sdmmc_activate_def leaving_def hw)
  have 3: "valid leaving (m :: (('a, 'b) driver_scheme, unit) state) (\<lambda>_. leaving)" if "keeps outer m" for m
    by (intro preserves_valid keeps_pred keeps_slot_part [OF that slot_part_leaving])
  show ?thesis
    unfolding setPowerState_def rtsx_activate_def power_state.case dvact.case
    by (rule valid_bind [OF valid_look], rule valid_bind [OF 1], rule valid_bind, rule valid_bind [OF 2],
        rule valid_bind [OF 3 [OF outer_power_parts(3)]], rule valid_return, assumption,
        rule 3 [OF outer_power_parts(1)])
qed

text \<open>
  C23: going to sleep with a removable card tells the slot's thread to start over, and when it
  does the card is detached, its mark is gone and the thread is ready to discover again.
\<close>

theorem suspend_forgets_card:
  assumes "slot_inv s" and "sdmmc_attached s" and "isset (sc_flags s) SMF_CARD_PRESENT"
    and "\<not> isset (sc_caps s) SMC_CAPS_NONREMOVABLE"
    and "run_state (setPowerState P kPowerStateSleep) s = (u, s1)"
    and "run_state (thread_tail (rtsx_functions P) (card_drivers P I)) s1 = (again, s2)"
  shows "again \<and> sf_head s2 = [] \<and> sfs s2 = Map.empty \<and> sc_fn0 s2 = None
    \<and> \<not> isset (sc_flags s2) SMF_CARD_PRESENT \<and> sc_dying s2 = 0"
proof -
  have l: "leaving s1" using validD [OF suspend_leaving assms(5)] assms(1-4) by blast
  then have inv: "slot_inv s1" by (simp add: leaving_def)
  obtain v s' where v: "run_state (locked_detach (rtsx_functions P) (card_drivers P I)) s1 = (v, s')"
    by (cases "run_state (locked_detach (rtsx_functions P) (card_drivers P I)) s1")
  have "sc_dying s' = - 1"
    using rtsx_slot.locked_detach_inv [OF v] inv l by (simp add: slot_inv_def leaving_def ctl_def)
  moreover have "isset (sc_flags s1) SMF_CARD_PRESENT" using l by (simp add: leaving_def)
  ultimately have "again \<and> s2 = s'\<lparr>sc_flags := clrf (sc_flags s') SMF_CARD_PRESENT, sc_dying := 0\<rparr>"
    using assms(6) v by (auto simp: thread_tail_def)
  then show ?thesis
    using rtsx_slot.thread_tail_clean [OF assms(6) inv] by (auto simp: slot_clean_def isset_clrf_same)
qed

theorem suspend_forgets_card_witness:
  "sf_head (snd (run_state (thread_tail (rtsx_functions bare_platform) (card_drivers bare_platform bare_pci))
     (snd (run_state (setPowerState bare_platform kPowerStateSleep) one_card)))) = []"
proof -
  have "sdmmc_attached one_card" "isset (sc_flags one_card) SMF_CARD_PRESENT" "\<not> isset (sc_caps one_card) SMC_CAPS_NONREMOVABLE"
    by (simp_all add: one_card_def isset_def setf_def)
  from suspend_forgets_card [OF one_card_inv(1) this surjective_pairing surjective_pairing] show ?thesis by blast
qed

section \<open>The block device\<close>

text \<open>
  The block device of a card reports the card's number of sectors and sector size as 32 bit
  numbers; it is registered with the system even when there is no card and its attachment failed,
  with whatever geometry it had.
\<close>

lemma blk_attach_geometry:
  assumes "fst (disk_alloc I (hw s))" and "run_state (blk_attach P I) s = (u, s')"
  shows "sddisk s' = Some True
    \<and> (case sc_fn0 s of
        Some p \<Rightarrow> if sdmmc_attached s
          then num_blocks s' = word_of_int (capacity (sf_csd (fn_at s p))) \<and> blk_size s' = word_of_int (sector_size (sf_csd (fn_at s p)))
          else num_blocks s' = num_blocks s \<and> blk_size s' = blk_size s
      | None \<Rightarrow> num_blocks s' = num_blocks s \<and> blk_size s' = blk_size s)"
proof -
  have rd: "\<exists>v h. run_state (cardIsWriteProtected P) t = (v, t\<lparr>hw := h\<rparr>)" for t :: "('a, 'b) driver_scheme"
  proof -
    have "t\<lparr>hw := hw t\<rparr> = t" by (cases t) simp
    then show ?thesis
      by (cases "memory_descriptor t = 0")
         (auto simp: cardIsWriteProtected_def bus_space_read_4_def split: prod.split intro: exI [of _ "hw t"])
  qed
  show ?thesis
  proof (cases "sdmmc_attached s")
    case False
    with assms show ?thesis
      by (auto simp: blk_attach_def SDDisk_init_def SDDisk_attach_def run_call_hw split: option.splits)
  next
    case True
    show ?thesis
    proof (cases "sc_fn0 s")
      case None
      with assms True show ?thesis
        by (auto simp: blk_attach_def SDDisk_init_def SDDisk_attach_def run_call_hw)
    next
      case (Some p)
      let ?t = "s\<lparr>hw := snd (disk_alloc I (hw s)), sddisk := Some False, card_is_write_protected := True, disk_softc := True,
        disk_provider := True, num_blocks := word_of_int (capacity (sf_csd (fn_at s p))),
        blk_size := word_of_int (sector_size (sf_csd (fn_at s p)))\<rparr>"
      obtain v h where "run_state (cardIsWriteProtected P) ?t = (v, ?t\<lparr>hw := h\<rparr>)" using rd by blast
      with assms True Some show ?thesis
        by (auto simp: blk_attach_def SDDisk_init_def SDDisk_attach_def run_call_hw fn_at_def)
    qed
  qed
qed

lemma blk_attach_geometry_witness:
  "num_blocks (snd (run_state (blk_attach bare_platform (bare_pci\<lparr>disk_alloc := (\<lambda>h. (True, h))\<rparr>)) one_card)) = 100000"
proof -
  have "fst (disk_alloc (bare_pci\<lparr>disk_alloc := (\<lambda>h. (True, h))\<rparr>) (hw one_card))" by simp
  from blk_attach_geometry [OF this surjective_pairing, of bare_platform]
  show ?thesis by (simp add: one_card_def fn_at_def)
qed

end
