(* ===== verification/Deviations.thy ===== *)
theory Deviations
  imports Shell
begin

text \<open>
  Places where the code does something else than its comments or its callers expect, each as a
  fact about the model.
\<close>

text \<open>The function number never reaches the configuration address (\<open>func & 0x03 << 4\<close>).\<close>

lemma low_function:
  assumes "(func :: u8) < 16"
  shows "func AND push_bit 4 x = 0"
proof (rule bit_word_eqI)
  fix n
  have "unat func < 2 ^ 4" using assms by (simp add: word_less_nat_alt)
  then have "bit func n \<Longrightarrow> n < 4" by (rule small_bits)
  then show "bit (func AND push_bit 4 x) n = bit (0 :: u8) n"
    by (auto simp: bit_and_iff bit_push_bit_iff)
qed

lemma read_cfg_ignores_function:
  "func < 16 \<Longrightarrow> rtsx_read_cfg P func addr = rtsx_read_cfg P 0 addr"
  unfolding rtsx_read_cfg_def by (simp only: low_function and_zero_eq zero_and_eq)

text \<open>Writing the phy of an RTS525A reports success whatever the chip answers.\<close>

lemma optimize_phy_hides_errors: "fst (run_state (rts525a_optimize_phy P) s) = OK"
  by (simp add: rts525a_optimize_phy_def split: prod.split)

text \<open>Without memory the SCR counts as read, and the caller decodes what its variable held.\<close>

lemma send_scr_without_memory:
  "km_alloc P (hw s) 8 = (0, hw s) \<Longrightarrow> fst (run_state (sdmmc_mem_send_scr P T scr) s) = (OK, scr)"
  by (simp add: sdmmc_mem_send_scr_def run_call_hw)

text \<open>The format capacity is the product modulo \<open>2 ^ 32\<close>.\<close>

lemma format_capacity_wraps:
  assumes "doGetFormatCapacities True 1 s = (k, Some c)"
  shows "unat c = unat (num_blocks s) * unat (blk_size s) mod 2 ^ 32"
  using assms by (auto simp: doGetFormatCapacities_def GetBlockCount_def unat_word_ariths unat_ucast_up)

text \<open>A start that fails because another instance owns the compatibility layer leaves its task loop.\<close>

lemma failed_start_keeps_task_loop:
  assumes "compat_owner s" and "run_state (Sinetek_start n P I True) s = (r, s')"
  shows "r = Some False \<and> task_loop s' \<and> task_timer s'"
  using assms by (auto simp: Sinetek_start_def prepare_task_loop_def openbsd_compat_start_def)

text \<open>A request that finds no memory for its task is refused, but its arguments stay allocated.\<close>

lemma refused_request_leaks:
  assumes "run_state (doAsyncReadWrite P S buffer block nblks c) s = (kIOReturnNoMemory, s')"
  shows "next_task s \<in> dom (bios s') \<and> tskq s' = tskq s"
  using assms by (auto simp: doAsyncReadWrite_def run_call_hw split: if_splits prod.splits)

text \<open>A slot without a DMA map stays without thread and queue, but counts as attached.\<close>

lemma slot_without_map:
  assumes "run_state (sdmmc_attach P start 0 fl caps ms mx) s = (u, s')" and "isset caps SMC_CAPS_DMA"
    and "fst (km_alloc P (hw s) (dmamap_bytes (SDMMC_MAXNSEGS P))) = 0"
  shows "sc_task_thread s' = sc_task_thread s \<and> sc_dmap s' = 0"
  using assms by (auto simp: sdmmc_attach_def bus_dmamap_create_def run_call_hw split: if_splits prod.splits)

end
