(* ===== verification/Dormant.thy ===== *)
theory Dormant
  imports SlotFrame
begin

text \<open>
  Functions of the OpenBSD files that this build leaves out by conditional compilation:
  \<open>rtsx_read_phy\<close> and \<open>rtsx_write_cfg\<close> (\<open>notyet\<close>), \<open>sdmmc_io_function_enable\<close> (\<open>!__APPLE__\<close>),
  \<open>sdmmc_ioctl\<close> (\<open>SDMMC_IOCTL\<close>) and \<open>sdmmc_mem_hibernate_write\<close> (\<open>HIBERNATE\<close>).
\<close>

section \<open>Registers\<close>

definition rtsx_read_phy :: "'h platform \<Rightarrow> u8 \<Rightarrow> (('h, 'z) rtsx_scheme, u16 res) state" where
  "rtsx_read_phy P addr =
     chk (steps [RTSX_WRITE P RTSX_PHY_ADDR addr,
                 RTSX_WRITE P RTSX_PHY_RWCTL (RTSX_PHY_BUSY OR RTSX_PHY_READ)]) (\<lambda>_.
     chk (busy_poll 100000 P RTSX_PHY_RWCTL RTSX_PHY_BUSY) (\<lambda>timeout.
       if timeout = 0 then ret (Inl ETIMEDOUT) else
       RTSX_READ P RTSX_PHY_DATA0 (\<lambda>data0.
       RTSX_READ P RTSX_PHY_DATA1 (\<lambda>data1.
         ret (Inr (ucast data0 OR push_bit 8 (ucast data1)))))))"

text \<open>The loop over the bytes of the value; the result is \<open>writemask\<close>, kept at the width of its register.\<close>

fun write_cfg_loop ::
    "nat \<Rightarrow> 'h platform \<Rightarrow> nat \<Rightarrow> u32 \<Rightarrow> u32 \<Rightarrow> u8 \<Rightarrow> (('h, 'z) rtsx_scheme, u8 res) state" where
  "write_cfg_loop 0 P i m val writemask = ret (Inr writemask)"
| "write_cfg_loop (Suc n) P i m val writemask =
     (if m AND 0xff \<noteq> 0
      then chk (RTSX_WRITE P (RTSX_CFGDATA0 + of_nat i) (ucast (val AND m AND 0xff))) (\<lambda>_.
             write_cfg_loop n P (Suc i) (drop_bit 8 m) (drop_bit 8 val) (writemask OR push_bit i 1))
      else write_cfg_loop n P (Suc i) (drop_bit 8 m) (drop_bit 8 val) writemask)"

definition rtsx_write_cfg :: "'h platform \<Rightarrow> u8 \<Rightarrow> u16 \<Rightarrow> u32 \<Rightarrow> u32 \<Rightarrow> (('h, 'z) rtsx_scheme, unit res) state" where
  "rtsx_write_cfg P func addr m val =
     chk (write_cfg_loop 4 P 0 m val 0) (\<lambda>writemask.
     chk (if writemask \<noteq> 0
          then steps [RTSX_WRITE P RTSX_CFGADDR0 (ucast addr),
                      RTSX_WRITE P RTSX_CFGADDR1 (ucast (drop_bit 8 addr)),
                      RTSX_WRITE P RTSX_CFGRWCTL (RTSX_CFG_BUSY OR writemask OR (func AND push_bit 4 0x03))]
          else ret OK) (\<lambda>_.
     chk (busy_poll 1024 P RTSX_CFGRWCTL RTSX_CFG_BUSY) (\<lambda>tries.
       ret (if tries = 0 then Inl EIO else OK))))"

section \<open>I/O functions\<close>

text \<open>
  The wait for the function: \<open>retry--\<close> after a failed test, so that \<open>retry\<close> is -1 when five
  sleeps were not enough. \<open>isr\<close> is the work of interrupts during a sleep.
\<close>

fun enable_wait ::
    "nat \<Rightarrow> 'h platform \<Rightarrow> ('h, 'z) slot_chip \<Rightarrow> (('h, 'z) sdmmc_scheme, unit) state \<Rightarrow> nat
       \<Rightarrow> (('h, 'z) sdmmc_scheme, int) state" where
  "enable_wait retry P T isr p = do {
     ready \<leftarrow> sdmmc_io_function_ready T p;
     if ready then ret (int retry)
     else if retry = 0 then ret (- 1)
     else do {
       _ \<leftarrow> tsleep_nsec P isr (- 1);
       enable_wait (retry - 1) P T isr p } }"

declare enable_wait.simps [simp del]


definition sdmmc_io_function_enable ::
    "'h platform \<Rightarrow> ('h, 'z) slot_chip \<Rightarrow> (('h, 'z) sdmmc_scheme, unit) state \<Rightarrow> nat
       \<Rightarrow> (('h, 'z) sdmmc_scheme, unit res) state" where
  "sdmmc_io_function_enable P T isr p = do {
     f0 \<leftarrow> fetch sc_fn0;
     num \<leftarrow> fetch (\<lambda>s. sf_number (fn_at s p));
     if num = 0 then ret OK else do {
       rv \<leftarrow> sdmmc_io_read_1 T f0 SD_IO_CCCR_FN_ENABLE;
       sdmmc_io_write_1 T f0 SD_IO_CCCR_FN_ENABLE (rv OR push_bit (nat num) 1);
       retry \<leftarrow> enable_wait 5 P T isr p;
       ret (if retry \<ge> 0 then OK else Inl ETIMEDOUT) } }"

section \<open>The control device\<close>

text \<open>The memory of the calling process, a parameter: \<open>copyin\<close> and \<open>copyout\<close> with their status.\<close>

record 'h user_space =
  copyin :: "'h \<Rightarrow> u64 \<Rightarrow> u64 \<Rightarrow> nat \<Rightarrow> int \<times> 'h"
  copyout :: "'h \<Rightarrow> u64 \<Rightarrow> u64 \<Rightarrow> nat \<Rightarrow> int \<times> 'h"

datatype ioctl_request = SDIOCSETDEBUG | SDIOCEXECMMC | SDIOCEXECAPP | OtherRequest

text \<open>The body of the two requests that send a command; \<open>data\<close> is the kernel copy of its data, or 0.\<close>

definition ioctl_exec ::
    "'h platform \<Rightarrow> ('h, 'z) slot_chip \<Rightarrow> 'h user_space \<Rightarrow> bool \<Rightarrow> sdmmc_command \<Rightarrow> u64
       \<Rightarrow> (('h, 'z) sdmmc_scheme, unit res \<times> sdmmc_command) state" where
  "ioctl_exec P T U app ucmd data = do {
     let cmd = zero_command\<lparr>c_opcode := c_opcode ucmd, c_arg := c_arg ucmd, c_flags := c_flags ucmd,
       c_blklen := c_blklen ucmd, c_data := data, c_datalen := (if data \<noteq> 0 then c_datalen ucmd else 0)\<rparr> in do {
     rw_enter_write;
     r \<leftarrow> (if app then sdmmc_app_command T cmd
           else do { c \<leftarrow> sdmmc_mmc_command T cmd; ret (c_error c, c) });
     rw_exit;
     (case r of (error, c) \<Rightarrow>
       let ucmd' = ucmd\<lparr>c_resp := c_resp c, c_flags := c_flags c,
             c_error := (if error \<noteq> OK \<and> c_error c = OK then error else c_error c)\<rparr> in
       if c_data ucmd \<noteq> 0 then do {
         e \<leftarrow> call_hw (\<lambda>h. copyout U h data (c_data ucmd) (nat (c_datalen ucmd)));
         ret (if e \<noteq> 0 then Inl (EKern e) else OK, ucmd') }
       else ret (OK, ucmd')) } }"

definition sdmmc_ioctl ::
    "'h platform \<Rightarrow> ('h, 'z) slot_chip \<Rightarrow> 'h user_space \<Rightarrow> ioctl_request \<Rightarrow> sdmmc_command
       \<Rightarrow> (('h, 'z) sdmmc_scheme, unit res \<times> sdmmc_command) state" where
  "sdmmc_ioctl P T U req ucmd =
     (case req of
        SDIOCSETDEBUG \<Rightarrow> ret (OK, ucmd)
      | OtherRequest \<Rightarrow> ret (Inl ENOTTY, ucmd)
      | _ \<Rightarrow>
          if c_datalen ucmd > 524288 then ret (Inl ENOMEM, ucmd)
          else if c_datalen ucmd > 0 \<and> c_data ucmd = 0 \<or> c_datalen ucmd < 1 \<and> c_data ucmd \<noteq> 0 \<or> c_datalen ucmd < 0
          then ret (Inl EINVAL, ucmd)
          else if c_data ucmd = 0 then ioctl_exec P T U (req = SDIOCEXECAPP) ucmd 0
          else do {
            data \<leftarrow> call_hw (\<lambda>h. km_alloc P h (nat (c_datalen ucmd)));
            if data = 0 then ret (Inl ENOMEM, ucmd) else do {
              e \<leftarrow> call_hw (\<lambda>h. copyin U h (c_data ucmd) data (nat (c_datalen ucmd)));
              r \<leftarrow> (if e \<noteq> 0 then ret (Inl (EKern e), ucmd)
                    else ioctl_exec P T U (req = SDIOCEXECAPP) ucmd data);
              exec_hw (\<lambda>h. km_free P h data (nat (c_datalen ucmd)));
              ret r } })"

section \<open>Hibernation\<close>

text \<open>
  \<open>extract\<close> is \<open>pmap_extract\<close> of the kernel and \<open>dm\<close> the address of the local map. A controller for
  single blocks does not return after its loop but writes everything a second time.
\<close>

definition sdmmc_mem_hibernate_write ::
    "nat \<Rightarrow> ('h, 'z) slot_chip \<Rightarrow> ('h \<Rightarrow> u64 \<Rightarrow> u64) \<Rightarrow> u64 \<Rightarrow> nat \<Rightarrow> int \<Rightarrow> u64 \<Rightarrow> int
       \<Rightarrow> (('h, 'z) sdmmc_scheme, unit res option) state" where
  "sdmmc_mem_hibernate_write n T extract dm p blkno data datalen = do {
     caps \<leftarrow> fetch sc_caps;
     let whole = do {
       phys_addr \<leftarrow> fetch (\<lambda>s. extract (hw s) data);
       modify (\<lambda>s. s\<lparr>dmamaps := (dmamaps s)(dm \<mapsto>
         \<lparr>dmm_size = 0, dmm_flags = 0, dmm_segcnt = 0, dmm_maxsegsz = 0, dmm_boundary = 0, dmm_command = 0,
          dm_mapsize = word_of_int datalen, dm_nsegs = 1,
          dm_segs = [zero_segment\<lparr>ds_addr := phys_addr, ds_len := word_of_int datalen\<rparr>]\<rparr>)\<rparr>);
       r \<leftarrow> sdmmc_mem_write_block_subr n T p dm blkno data datalen;
       modify (\<lambda>s. s\<lparr>dmamaps := (dmamaps s)(dm := None)\<rparr>);
       ret r } in
     if isset caps SMC_CAPS_SINGLE_ONLY then do {
       ss \<leftarrow> fetch (\<lambda>s. sector_size (sf_csd (fn_at s p)));
       k \<leftarrow> c_div datalen ss;
       obind (single_blocks (nat k) (sdmmc_mem_write_block_subr n T p 0) p 0 blkno data) (\<lambda>e.
         if e \<noteq> OK then ret (Some e) else whole) }
     else if \<not> isset caps SMC_CAPS_DMA then sdmmc_mem_write_block_subr n T p 0 blkno data datalen
     else whole }"

section \<open>Properties\<close>

lemma function_zero_enabled:
  "sf_number (fn_at s p) = 0 \<Longrightarrow> run_state (sdmmc_io_function_enable P T isr p) s = (OK, s)"
  by (simp add: sdmmc_io_function_enable_def)

text \<open>What the control device refuses before it touches the slot.\<close>

lemma ioctl_refuses:
  assumes "req = SDIOCEXECMMC \<or> req = SDIOCEXECAPP"
  shows "524288 < c_datalen ucmd \<Longrightarrow> run_state (sdmmc_ioctl P T U req ucmd) s = ((Inl ENOMEM, ucmd), s)"
    and "c_datalen ucmd \<le> 524288 \<Longrightarrow> (0 < c_datalen ucmd) \<noteq> (c_data ucmd \<noteq> 0) \<Longrightarrow>
      run_state (sdmmc_ioctl P T U req ucmd) s = ((Inl EINVAL, ucmd), s)"
  using assms by (auto simp: sdmmc_ioctl_def)

lemma ioctl_lock:
  assumes "sdmmc_chip T mb"
  shows "keeps sc_lock (sdmmc_ioctl P T U req ucmd)"
proof -
  note app = sdmmc_chip.keeps_app_command [OF assms] and mmc = sdmmc_chip.keeps_mmc_command [OF assms]
  have exec: "keeps sc_lock (ioctl_exec P T U app ucmd data)" for app ucmd data
  proof (rule keepsI)
    fix s :: "('a, 'b) sdmmc_scheme"
    define cmd where "cmd = zero_command\<lparr>c_opcode := c_opcode ucmd, c_arg := c_arg ucmd, c_flags := c_flags ucmd,
       c_blklen := c_blklen ucmd, c_data := data, c_datalen := (if data \<noteq> 0 then c_datalen ucmd else 0)\<rparr>"
    let ?m = "if app then sdmmc_app_command T cmd else do { c \<leftarrow> sdmmc_mmc_command T cmd; ret (c_error c, c) }"
      and ?s = "s\<lparr>sc_lock := sc_lock s + 1\<rparr>"
    have m: "keeps sc_lock ?m" by (intro keeps app mmc) simp_all
    obtain r s1 where "run_state ?m ?s = (r, s1)" by (cases "run_state ?m ?s")
    then obtain e c where r: "run_state ?m ?s = ((e, c), s1)" by (cases r) simp
    have lock: "sc_lock s1 = sc_lock s + 1" using keeps_run [OF m r] by simp
    show "sc_lock (snd (run_state (ioctl_exec P T U app ucmd data) s)) = sc_lock s"
      unfolding ioctl_exec_def Let_def cmd_def [symmetric] rw_enter_write_def rw_exit_def
      by (simp add: r lock call_hw_def split: prod.split)
  qed
  show ?thesis unfolding sdmmc_ioctl_def
    by (cases req) (auto intro!: keeps exec)
qed

end
