(* ===== verification/Spec2Isabelle.thy ===== *)
theory Spec2Isabelle
  imports Geometry RequestData Service MemFacts Wire Deviations Dormant
begin

text \<open>
  A model of Sinetek-rtsx, a macOS driver for Realtek card readers built from the OpenBSD
  drivers rtsx(4) and sdmmc(4) (Sinetek-rtsx/3rdParty/openbsd), a compatibility layer that
  provides their kernel interface over IOKit (Sinetek-rtsx/compat/openbsd), and the IOKit
  classes around them: Sinetek\_rtsx, the driver of the PCI device, and SDDisk, the block device
  of a card.

  \<^bold>\<open>How the parts interact.\<close> The interrupt handler (\<open>rtsx_intr\<close>) notices a card and queues the
  discovery task on the queue of the slot; the storage stack queues one task per request
  (\<open>doAsyncReadWrite\<close>). The thread of the slot (\<open>sdmmc_task_thread\<close>) takes them one by one. A
  discovery attaches or detaches the card (Slot); an attachment publishes the block device through
  the emulated autoconfiguration (Config, Driver). A request (\<open>read_task_impl\<close>, Disk) splits into
  chunks of at most 256 blocks, each a call of the memory layer (SdmmcMem), which sends commands to
  the controller (RtsxCmd) with a DMA map of the buffer (Dma) and sleeps until its interrupt.

  \<^bold>\<open>Conventions.\<close> An operation is a state transformer of \<open>HOL-Library.State_Monad\<close> over a
  record of the driver's state. The records extend each other in the order of the layers
  (\<open>kernel\<close>, \<open>dma\<close>, \<open>tasks\<close>, \<open>rtsx\<close>, \<open>sdmmc\<close>, \<open>devtree\<close>, \<open>disk\<close>, \<open>driver\<close>), so that an operation
  of a lower layer runs unchanged in a higher one. A function that returns 0 or an errno returns
  \<open>unit res = errno + unit\<close>; one that also produces a value returns \<open>'a res\<close>. Machine integers
  are words of their width; C \<open>int\<close> values that the code only compares and adds are \<open>int\<close>, with
  \<open>c_int\<close> where a conversion can truncate. Undefined behaviour that the code can reach (division by
  zero) sets \<open>sc_panic\<close>. What is not in the repository (PCI registers, kernel memory, IOKit
  objects, the contents of an uninitialised variable) is a record of functions (\<open>platform\<close>,
  \<open>storage\<close>, \<open>pci\<close>, \<open>user_space\<close>) over an arbitrary state of the outside world; theorems about a
  particular device name its behaviour as a hypothesis (\<open>haimr_device\<close>, \<open>haimr_stuck\<close>, \<open>engine_laws\<close>,
  \<open>data_contract\<close>, \<open>busy_at_most\<close>), which the witnesses discharge for a concrete one.

  \<^bold>\<open>Theories\<close>, from the bottom up:

  \<^item> \<open>Prelude\<close>: flags of words, errors, sequencing of operations that return errors (\<open>chk\<close>,
    \<open>steps\<close>) and the calculus of frames: \<open>keeps f m\<close> says that \<open>m\<close> leaves the component \<open>f\<close> of the
    state alone, \<open>preserves I m\<close> that it keeps the invariant \<open>I\<close>.
  \<^item> \<open>StaticDict\<close>: the fixed size dictionary of util\_dict.h, a finite map (locale \<open>bounded_map\<close>).
  \<^item> \<open>Kernel\<close>: bus\_space.cpp, spl.cpp, tsleep.cpp, \<open>UTL_RUN_WITH_RETRY\<close> of util.h.
  \<^item> \<open>Dma\<close>: dma.cpp; what a loaded map describes, what the table of mapped buffers holds.
  \<^item> \<open>TaskQueue\<close>: the work queue of sdmmc.c (locale \<open>work_queue\<close>) and a step relation of its
    thread interleaved with other threads.
  \<^item> \<open>RtsxReg\<close>: the constants of rtsxreg.h.
  \<^item> \<open>RtsxHw\<close>, \<open>RtsxPower\<close>, \<open>RtsxCmd\<close>: rtsx.c. Register access; initialisation, power and clock;
    commands, DMA transfers and interrupts. \<open>RtsxFrame\<close> collects what they leave alone.
  \<^item> \<open>Rts5249\<close>: the part of the Linux driver that initialises the RTS525A.
  \<^item> \<open>SdmmcReg\<close>: the response fields of sdmmcreg.h. \<open>Responses\<close>: the way of a response from the
    command buffer to its words and fields. \<open>Engine\<close>: which queues of host commands the controller
    is started on while a command is executed, and what the memory it fetches them from holds.
    \<open>Wire\<close>: which command and which size of transfer the queues of a block transfer stand for when
    their words are decoded.
  \<^item> \<open>Sdmmc\<close>: the state of a card slot and the commands of sdmmc.c. A slot reaches its host
    controller through a record of functions whose contract is the locale \<open>sdmmc_chip\<close>,
    interpreted on the functions of rtsx.c.
  \<^item> \<open>SdmmcMem\<close>: sdmmc\_mem.c. \<open>SdmmcIo\<close>: sdmmc\_io.c and sdmmc\_cis.c.
  \<^item> \<open>Slot\<close>: attaching and detaching of cards, the discovery task, the task thread and its creation
    (kthread.cpp). \<open>SlotFrame\<close>: what these leave alone, for every chip that keeps the contract.
  \<^item> \<open>SlotInv\<close>: the invariant of a slot, and that discovery and the thread keep it.
  \<^item> \<open>Config\<close>: the autoconfiguration of config.cpp.
  \<^item> \<open>Disk\<close>: SDDisk.cpp. \<open>Driver\<close>: Sinetek\_rtsx.cpp and openbsd.cpp.
  \<^item> \<open>Dormant\<close>: functions that the build leaves out by conditional compilation.
  \<^item> \<open>BlockIo\<close>: block reads and writes, what they report and what they leave alone.
  \<^item> \<open>System\<close>: the parts put together, discovery and the tasks of this driver keep the invariant of
    the slot. \<open>UpperFrame\<close>: what the layers below the block device leave alone in it.
  \<^item> \<open>Chunks\<close>: the arithmetic of splitting a request. \<open>Requests\<close>: the life of a request, the
    transition system of the whole driver (\<open>driver_step\<close>, \<open>driver_reach\<close>: start, interrupts, requests,
    power changes and the next task of the thread) and the invariants of every reachable state. A task
    runs as one step; the interrupts that arrive while it sleeps are its schedule. \<open>MemFacts\<close>, \<open>Shell\<close>:
    single operations of the memory layer and of the driver shell.
  \<^item> \<open>Geometry\<close>: the types of the function structures in reachable states, and the divisions of a
    request.
  \<^item> \<open>CardData\<close>, \<open>RequestData\<close>: where the bytes go. From a contract on single data commands
    (\<open>moves_data\<close>) the effect of a block transfer, of a chunk and of a whole request on the card and
    on the buffer of the client, as one update of an array of bytes (\<open>deliver\<close>).
  \<^item> \<open>Returns\<close>: termination of the loops that wait for the card, from a bound on how often in a row
    it reports that it is busy. \<open>Service\<close>: the thread serves the requests that wait in front of a
    discovery, all of them and in order.
  \<^item> \<open>Deviations\<close>: facts about places where the code does not do what its comments or callers expect.

  \<^bold>\<open>Bounds and fuel.\<close> Loops with a constant bound in the code recurse on that bound (1024 polls
  of HAIMR, 100 attempts of an operating condition). Waiting for an interrupt recurses on the
  schedule of events, one round per sleep. Loops whose end depends on a device or on other
  threads (\<open>poll_ready\<close>, \<open>scan_loop\<close>, \<open>cis_loop\<close>, \<open>thread_loop\<close>) take fuel and return None when it
  runs out. For \<open>poll_ready\<close>, \<open>Returns\<close> shows that one more poll than the card stays busy is enough.
  \<open>send_loop\<close> has a termination proof: a chunk takes at least one block off the request.

  \<^bold>\<open>Not modelled\<close>: logging and the functions that only print (\<open>sdmmc_print_cis\<close>,
  \<open>sdmmc_dump_command\<close>), the vendor strings, the icon and the retain counts of IOKit objects, Linux constants
  that no modelled function uses, the Xcode project and the user space test; memory ordering below
  the granularity of a lock.
\<close>

end
